(* ===== verification/Prelude.thy ===== *)
theory Prelude
  imports Main "HOL-Library.List_Lexorder" "HOL-Library.Char_ord" "HOL-Library.Multiset"
begin

text \<open>
  Shared vocabulary of the development: Go's fallible results as sums, Go maps as
  association lists in the order one range loop delivers them, 64-bit integer
  wrap-around, and the lemma collections the component theories add to.
\<close>

named_theorems go_simps \<open>equations that unfold the vocabulary of this theory\<close>
named_theorems text_simps \<open>facts about byte strings\<close>
named_theorems check_simps \<open>characterisations of checks that report no error\<close>

section \<open>Fallible results\<close>

text \<open>A Go function returning \<open>(T, error)\<close> is a value of \<open>'e + 'a\<close>: \<open>Inl\<close> the error.\<close>

type_synonym ('e, 'a) result = "'e + 'a"

definition bindR :: "('e, 'a) result \<Rightarrow> ('a \<Rightarrow> ('e, 'b) result) \<Rightarrow> ('e, 'b) result" where
  "bindR r f = (case r of Inl e \<Rightarrow> Inl e | Inr x \<Rightarrow> f x)"

lemma bindR_simps [simp]: "bindR (Inl e) f = Inl e" "bindR (Inr x) f = f x"
  by (simp_all add: bindR_def)

lemma bindR_Inr_iff: "bindR r f = Inr y \<longleftrightarrow> (\<exists>x. r = Inr x \<and> f x = Inr y)"
  by (cases r) auto

lemma bindR_Inl_iff: "bindR r f = Inl e \<longleftrightarrow> r = Inl e \<or> (\<exists>x. r = Inr x \<and> f x = Inl e)"
  by (cases r) auto

text \<open>A loop whose body can fail: the first error ends it.\<close>

fun mapR :: "('a \<Rightarrow> ('e, 'b) result) \<Rightarrow> 'a list \<Rightarrow> ('e, 'b list) result" where
  "mapR f [] = Inr []"
| "mapR f (x # xs) = bindR (f x) (\<lambda>y. bindR (mapR f xs) (\<lambda>ys. Inr (y # ys)))"

lemma mapR_Inr_iff: "mapR f xs = Inr ys \<longleftrightarrow> list_all2 (\<lambda>x y. f x = Inr y) xs ys"
proof (induction xs arbitrary: ys)
  case Nil
  then show ?case by auto
next
  case (Cons x xs)
  then show ?case by (cases ys) (auto simp: bindR_Inr_iff)
qed

lemma mapR_Inr_set: "mapR f xs = Inr ys \<Longrightarrow> y \<in> set ys \<Longrightarrow> \<exists>x\<in>set xs. f x = Inr y"
  by (induction xs arbitrary: ys) (auto simp: bindR_Inr_iff)

lemma mapR_Inl_set: "mapR f xs = Inl e \<Longrightarrow> \<exists>x\<in>set xs. f x = Inl e"
  by (induction xs) (auto simp: bindR_Inl_iff)

lemma mapR_isl: "isl (mapR f xs) \<longleftrightarrow> (\<exists>x\<in>set xs. isl (f x))"
proof (induction xs)
  case (Cons a xs)
  then show ?case by (cases "f a"; cases "mapR f xs") auto
qed simp

lemma mapR_length: "mapR f xs = Inr ys \<Longrightarrow> length ys = length xs"
  by (simp add: mapR_Inr_iff list_all2_lengthD)

lemma mapR_map: "mapR f xs = Inr ys \<Longrightarrow> (\<And>x y. x \<in> set xs \<Longrightarrow> f x = Inr y \<Longrightarrow> h y = g x) \<Longrightarrow>
  map h ys = map g xs"
  by (induction xs arbitrary: ys) (auto simp: bindR_Inr_iff)

section \<open>Go maps\<close>

text \<open>
  A Go map is modelled by its bindings in the order in which one \<open>range\<close> loop visits
  them; Go leaves that order open, so two lists with the same bindings are two runs over
  the same map. Keys are distinct. A read is \<open>map_of\<close>, and sorted iteration (the code's
  \<open>sort.Strings\<close> over collected keys) is \<open>sortedKeys\<close>.
\<close>

type_synonym ('k, 'v) gomap = "('k \<times> 'v) list"

definition gomap_ok :: "('k, 'v) gomap \<Rightarrow> bool" where
  "gomap_ok m \<longleftrightarrow> distinct (map fst m)"

definition same_map :: "('k, 'v) gomap \<Rightarrow> ('k, 'v) gomap \<Rightarrow> bool" where
  "same_map m m' \<longleftrightarrow> gomap_ok m \<and> gomap_ok m' \<and> set m = set m'"

definition sortedKeys :: "(string, 'v) gomap \<Rightarrow> string list" where
  "sortedKeys m = sort (map fst m)"

lemma same_map_map_of: "same_map m m' \<Longrightarrow> map_of m = map_of m'"
  by (auto simp: same_map_def gomap_ok_def intro: map_of_eqI)
     (metis map_of_eq_Some_iff map_of_eqI list.set_map not_None_eq option.exhaust)

lemma same_map_sortedKeys: "same_map m m' \<Longrightarrow> sortedKeys m = sortedKeys m'"
proof -
  assume a: "same_map m m'"
  then have "mset (map fst m) = mset (map fst m')"
    by (metis gomap_ok_def list.set_map same_map_def set_eq_iff_mset_eq_distinct)
  then show ?thesis
    by (simp add: sortedKeys_def properties_for_sort)
qed

lemma set_sortedKeys [simp]: "set (sortedKeys m) = fst ` set m"
  by (simp add: sortedKeys_def)

lemma distinct_sortedKeys: "gomap_ok m \<Longrightarrow> distinct (sortedKeys m)"
  by (simp add: sortedKeys_def gomap_ok_def)

lemma sorted_sortedKeys: "sorted (sortedKeys m)"
  by (simp add: sortedKeys_def)

lemma gomap_lookup: "gomap_ok m \<Longrightarrow> map_of m k = Some v \<longleftrightarrow> (k, v) \<in> set m"
  by (simp add: gomap_ok_def)

text \<open>A \<open>range\<close> loop that fills a new map under the same keys and stops at the first error.\<close>

definition rangeMap :: "('k \<Rightarrow> 'v \<Rightarrow> ('e, 'w) result) \<Rightarrow> ('k, 'v) gomap \<Rightarrow> ('e, ('k, 'w) gomap) result" where
  "rangeMap f m = mapR (\<lambda>(k, v). bindR (f k v) (\<lambda>w. Inr (k, w))) m"

lemma rangeMap_keys: "rangeMap f m = Inr m' \<Longrightarrow> map fst m' = map fst m"
  unfolding rangeMap_def by (erule mapR_map) (auto simp: bindR_Inr_iff)

lemma rangeMap_ok: "rangeMap f m = Inr m' \<Longrightarrow> gomap_ok m' = gomap_ok m"
  by (simp add: gomap_ok_def rangeMap_keys)

lemma rangeMap_isl: "isl (rangeMap f m) \<longleftrightarrow> (\<exists>(k, v)\<in>set m. isl (f k v))"
proof -
  have "isl (case x of (k, v) \<Rightarrow> bindR (f k v) (\<lambda>w. Inr (k, w))) = isl (f (fst x) (snd x))" for x
    by (cases x; cases "f (fst x) (snd x)") auto
  then show ?thesis by (simp add: rangeMap_def mapR_isl case_prod_beta)
qed

lemma rangeMap_set:
  "rangeMap f m = Inr m' \<Longrightarrow> (k, w) \<in> set m' \<longleftrightarrow> (\<exists>v. (k, v) \<in> set m \<and> f k v = Inr w)"
  unfolding rangeMap_def
proof (induction m arbitrary: m')
  case (Cons x m)
  then show ?case by (cases x) (auto simp: bindR_Inr_iff)
qed simp

lemma rangeMap_same:
  assumes "same_map m1 m2"
  shows "isl (rangeMap f m1) = isl (rangeMap f m2)"
    and "rangeMap f m1 = Inr r1 \<Longrightarrow> rangeMap f m2 = Inr r2 \<Longrightarrow> same_map r1 r2"
proof -
  from assms have s: "set m1 = set m2" by (simp add: same_map_def)
  then show "isl (rangeMap f m1) = isl (rangeMap f m2)" by (simp add: rangeMap_isl)
  assume r: "rangeMap f m1 = Inr r1" "rangeMap f m2 = Inr r2"
  have "set r1 = set r2"
    using rangeMap_set [OF r(1)] rangeMap_set [OF r(2)] s by auto
  with assms r show "same_map r1 r2" by (simp add: same_map_def rangeMap_ok)
qed

section \<open>64-bit integers\<close>

text \<open>Go's \<open>int\<close> and \<open>int64\<close> are 64-bit two's complement: every result wraps.\<close>

definition wrap64 :: "int \<Rightarrow> int" where
  "wrap64 x = (x + 2 ^ 63) mod 2 ^ 64 - 2 ^ 63"

definition int64_ok :: "int \<Rightarrow> bool" where
  "int64_ok x \<longleftrightarrow> - (2 ^ 63) \<le> x \<and> x < 2 ^ 63"

lemma wrap64_id [simp]: "int64_ok x \<Longrightarrow> wrap64 x = x"
  by (simp add: wrap64_def int64_ok_def)

lemma int64_ok_wrap64 [simp]: "int64_ok (wrap64 x)"
proof -
  have "0 \<le> (x + 2 ^ 63) mod 2 ^ 64" "(x + 2 ^ 63) mod 2 ^ 64 < (2 ^ 64 :: int)"
    by simp_all
  then show ?thesis by (simp add: wrap64_def int64_ok_def)
qed

section \<open>Lists\<close>

lemma concat_map_Nil_iff: "concat (map f xs) = [] \<longleftrightarrow> (\<forall>x\<in>set xs. f x = [])"
  by auto

lemma pairwise_insert_iff:
  assumes a: "a \<notin> A" and s: "\<And>x y. D x y \<longleftrightarrow> D y x"
  shows "(\<forall>x\<in>insert a A. \<forall>y\<in>insert a A. x \<noteq> y \<longrightarrow> D x y) \<longleftrightarrow>
    (\<forall>x\<in>A. D a x) \<and> (\<forall>x\<in>A. \<forall>y\<in>A. x \<noteq> y \<longrightarrow> D x y)"
proof (intro iffI conjI ballI impI)
  fix x assume "\<forall>x\<in>insert a A. \<forall>y\<in>insert a A. x \<noteq> y \<longrightarrow> D x y" "x \<in> A"
  with a show "D a x" by auto
next
  fix x y assume "\<forall>x\<in>insert a A. \<forall>y\<in>insert a A. x \<noteq> y \<longrightarrow> D x y" "x \<in> A" "y \<in> A" "x \<noteq> y"
  then show "D x y" by auto
next
  fix x y assume "(\<forall>x\<in>A. D a x) \<and> (\<forall>x\<in>A. \<forall>y\<in>A. x \<noteq> y \<longrightarrow> D x y)" "x \<in> insert a A" "y \<in> insert a A" "x \<noteq> y"
  then show "D x y" using s [of a x] by auto
qed

lemma distinct_concat_map_iff:
  "distinct ks \<Longrightarrow> distinct (concat (map f ks)) \<longleftrightarrow>
     (\<forall>k\<in>set ks. distinct (f k)) \<and> (\<forall>k\<in>set ks. \<forall>k'\<in>set ks. k \<noteq> k' \<longrightarrow> set (f k) \<inter> set (f k') = {})"
proof (induction ks)
  case (Cons a ks)
  then have a: "a \<notin> set ks" and IH: "distinct (concat (map f ks)) \<longleftrightarrow>
     (\<forall>k\<in>set ks. distinct (f k)) \<and> (\<forall>k\<in>set ks. \<forall>k'\<in>set ks. k \<noteq> k' \<longrightarrow> set (f k) \<inter> set (f k') = {})"
    by simp_all
  have eq: "distinct (concat (map f (a # ks))) \<longleftrightarrow>
      distinct (f a) \<and> distinct (concat (map f ks)) \<and> (\<forall>k\<in>set ks. set (f a) \<inter> set (f k) = {})"
    by auto
  have p: "(\<forall>x\<in>insert a (set ks). \<forall>y\<in>insert a (set ks). x \<noteq> y \<longrightarrow> set (f x) \<inter> set (f y) = {}) \<longleftrightarrow>
      (\<forall>x\<in>set ks. set (f a) \<inter> set (f x) = {}) \<and>
      (\<forall>x\<in>set ks. \<forall>y\<in>set ks. x \<noteq> y \<longrightarrow> set (f x) \<inter> set (f y) = {})"
    using pairwise_insert_iff [OF a, where D = "\<lambda>x y. set (f x) \<inter> set (f y) = {}", OF arg_cong [OF Int_commute]] .
  have d: "(\<forall>k\<in>insert a (set ks). distinct (f k)) \<longleftrightarrow> distinct (f a) \<and> (\<forall>k\<in>set ks. distinct (f k))"
    by simp
  show ?case unfolding eq IH list.set p d by (rule iffI; elim conjE; intro conjI; assumption)
qed simp

lemma distinct_map_by_key:
  assumes "distinct (map fst C)"
  shows "distinct (map h C) \<longleftrightarrow> (\<forall>x\<in>set C. \<forall>y\<in>set C. fst x \<noteq> fst y \<longrightarrow> h x \<noteq> h y)"
proof -
  from assms have "distinct C" and "inj_on fst (set C)" by (simp_all add: distinct_map)
  then show ?thesis by (auto simp: distinct_map inj_on_def)
qed

lemma if_single_Nil [check_simps]: "(if b then [x] else []) = [] \<longleftrightarrow> \<not> b"
  by simp

lemma find_SomeD: "find P xs = Some x \<Longrightarrow> x \<in> set xs \<and> P x"
  by (induction xs) (auto split: if_splits)

lemma find_None_all: "find P xs = None \<longleftrightarrow> (\<forall>x\<in>set xs. \<not> P x)"
  by (auto simp: find_None_iff)

end
