(* ===== verification/Go_Text.thy ===== *)
theory Go_Text
  imports Prelude
begin

text \<open>
  What the code uses of Go's text packages. A Go string is a byte string: \<open>string\<close>, one
  \<open>char\<close> per byte. Here are UTF-8 decoding (\<open>utf8.DecodeRuneInString\<close>, a \<open>range\<close> loop
  over a string, \<open>utf8.ValidString\<close>, \<open>WriteRune\<close>), \<open>strings.TrimSpace\<close>,
  \<open>strings.Split\<close>, \<open>strings.HasSuffix\<close>, decimal printing and \<open>strconv.Atoi\<close>, and the
  patterns of the code's regular expressions. The Unicode letter, digit and lower-case
  tables of package \<open>unicode\<close> beyond ASCII are parameters (record \<open>unicode_tables\<close>).
\<close>

section \<open>UTF-8\<close>

definition byte :: "char \<Rightarrow> nat" where
  "byte c = of_char c"

definition RuneError :: nat where
  "RuneError = 0xFFFD"

text \<open>The accepted range of the second byte depends on the first one.\<close>

definition second_ok :: "nat \<Rightarrow> nat \<Rightarrow> bool" where
  "second_ok s0 s1 \<longleftrightarrow>
     (if s0 = 0xE0 then 0xA0 \<le> s1 \<and> s1 \<le> 0xBF
      else if s0 = 0xED then 0x80 \<le> s1 \<and> s1 \<le> 0x9F
      else if s0 = 0xF0 then 0x90 \<le> s1 \<and> s1 \<le> 0xBF
      else if s0 = 0xF4 then 0x80 \<le> s1 \<and> s1 \<le> 0x8F
      else 0x80 \<le> s1 \<and> s1 \<le> 0xBF)"

definition cont_ok :: "nat \<Rightarrow> bool" where
  "cont_ok b \<longleftrightarrow> 0x80 \<le> b \<and> b \<le> 0xBF"

fun decode_rune :: "string \<Rightarrow> nat \<times> nat" where
  "decode_rune [] = (RuneError, 0)"
| "decode_rune (a # s) =
     (let s0 = byte a in
      if s0 < 0x80 then (s0, 1)
      else if s0 < 0xC2 \<or> 0xF4 < s0 then (RuneError, 1)
      else if s0 < 0xE0 then
        (case s of
           b # _ \<Rightarrow> if second_ok s0 (byte b)
                  then ((s0 mod 0x20) * 0x40 + byte b mod 0x40, 2) else (RuneError, 1)
         | _ \<Rightarrow> (RuneError, 1))
      else if s0 < 0xF0 then
        (case s of
           b # c # _ \<Rightarrow> if second_ok s0 (byte b) \<and> cont_ok (byte c)
                  then ((s0 mod 0x10) * 0x1000 + (byte b mod 0x40) * 0x40 + byte c mod 0x40, 3)
                  else (RuneError, 1)
         | _ \<Rightarrow> (RuneError, 1))
      else
        (case s of
           b # c # d # _ \<Rightarrow> if second_ok s0 (byte b) \<and> cont_ok (byte c) \<and> cont_ok (byte d)
                  then ((s0 mod 0x08) * 0x40000 + (byte b mod 0x40) * 0x1000
                        + (byte c mod 0x40) * 0x40 + byte d mod 0x40, 4)
                  else (RuneError, 1)
         | _ \<Rightarrow> (RuneError, 1)))"

lemma decode_rune_size: "s \<noteq> [] \<Longrightarrow> 1 \<le> snd (decode_rune s) \<and> snd (decode_rune s) \<le> 4"
  by (cases s) (auto simp: Let_def split: list.split)

lemma decode_rune_ascii: "byte a < 0x80 \<Longrightarrow> decode_rune (a # s) = (byte a, 1)"
  by simp

declare decode_rune.simps(2) [simp del]

text \<open>A \<open>range\<close> loop over a string.\<close>

function runes :: "string \<Rightarrow> nat list" where
  "runes s = (if s = [] then [] else fst (decode_rune s) # runes (drop (snd (decode_rune s)) s))"
  by pat_completeness auto
termination
  by (relation "measure length") (use decode_rune_size in \<open>force simp: Suc_le_eq\<close>)+

declare runes.simps [simp del]

text \<open>Invalid input shows as \<open>(RuneError, 1)\<close>; a genuine U+FFFD has width 3.\<close>

function validString :: "string \<Rightarrow> bool" where
  "validString s =
     (if s = [] then True
      else if decode_rune s = (RuneError, 1) then False
      else validString (drop (snd (decode_rune s)) s))"
  by pat_completeness auto
termination
  by (relation "measure length") (use decode_rune_size in \<open>force simp: Suc_le_eq\<close>)+

declare validString.simps [simp del]

definition encode_rune :: "nat \<Rightarrow> string" where
  "encode_rune r =
     (let q = (if r > 0x10FFFF \<or> 0xD800 \<le> r \<and> r \<le> 0xDFFF then RuneError else r) in
      map (char_of :: nat \<Rightarrow> char)
       (if q < 0x80 then [q]
        else if q < 0x800 then [0xC0 + q div 0x40, 0x80 + q mod 0x40]
        else if q < 0x10000
        then [0xE0 + q div 0x1000, 0x80 + q div 0x40 mod 0x40, 0x80 + q mod 0x40]
        else [0xF0 + q div 0x40000, 0x80 + q div 0x1000 mod 0x40, 0x80 + q div 0x40 mod 0x40,
              0x80 + q mod 0x40]))"

lemma runes_ascii: "list_all (\<lambda>c. byte c < 0x80) s \<Longrightarrow> runes s = map byte s"
  by (induction s) (simp_all add: runes.simps decode_rune_ascii)

lemma validString_ascii: "list_all (\<lambda>c. byte c < 0x80) s \<Longrightarrow> validString s"
  by (induction s) (simp_all add: validString.simps decode_rune_ascii RuneError_def)

section \<open>Trimming\<close>

text \<open>
  \<open>strings.TrimSpace\<close> removes leading and trailing runes with the Unicode property
  White_Space. \<open>space_encodings\<close> lists their UTF-8 encodings: tab to carriage return,
  space, U+0085, U+00A0, U+1680, U+2000 to U+200A, U+2028, U+2029, U+202F, U+205F, U+3000.
  A byte that is not part of such an encoding decodes to some other rune and stops the loop.
\<close>

definition space_encodings :: "string list" where
  "space_encodings =
    [[CHR 0x09], [CHR 0x0A], [CHR 0x0B], [CHR 0x0C], [CHR 0x0D], [CHR 0x20],
     [CHR 0xC2, CHR 0x85], [CHR 0xC2, CHR 0xA0], [CHR 0xE1, CHR 0x9A, CHR 0x80],
     [CHR 0xE2, CHR 0x80, CHR 0x80], [CHR 0xE2, CHR 0x80, CHR 0x81],
     [CHR 0xE2, CHR 0x80, CHR 0x82], [CHR 0xE2, CHR 0x80, CHR 0x83],
     [CHR 0xE2, CHR 0x80, CHR 0x84], [CHR 0xE2, CHR 0x80, CHR 0x85],
     [CHR 0xE2, CHR 0x80, CHR 0x86], [CHR 0xE2, CHR 0x80, CHR 0x87],
     [CHR 0xE2, CHR 0x80, CHR 0x88], [CHR 0xE2, CHR 0x80, CHR 0x89],
     [CHR 0xE2, CHR 0x80, CHR 0x8A], [CHR 0xE2, CHR 0x80, CHR 0xA8],
     [CHR 0xE2, CHR 0x80, CHR 0xA9], [CHR 0xE2, CHR 0x80, CHR 0xAF],
     [CHR 0xE2, CHR 0x81, CHR 0x9F], [CHR 0xE3, CHR 0x80, CHR 0x80]]"

definition hasPrefix :: "string \<Rightarrow> string \<Rightarrow> bool" where
  "hasPrefix s p \<longleftrightarrow> take (length p) s = p"

definition hasSuffix :: "string \<Rightarrow> string \<Rightarrow> bool" where
  "hasSuffix s p \<longleftrightarrow> length p \<le> length s \<and> drop (length s - length p) s = p"

definition trimSuffix :: "string \<Rightarrow> string \<Rightarrow> string" where
  "trimSuffix s p = (if hasSuffix s p then take (length s - length p) s else s)"

function trimWith :: "string list \<Rightarrow> string \<Rightarrow> string" where
  "trimWith ps s =
     (case find (\<lambda>p. p \<noteq> [] \<and> hasPrefix s p) ps of
        None \<Rightarrow> s
      | Some p \<Rightarrow> trimWith ps (drop (length p) s))"
  by pat_completeness auto
termination
proof (relation "measure (\<lambda>(ps, s). length s)", simp, clarsimp)
  fix ps s p
  assume "find (\<lambda>p. p \<noteq> [] \<and> hasPrefix s p) ps = Some p"
  then have "p \<noteq> [] \<and> hasPrefix s p" by (blast dest: find_SomeD)
  then have "0 < length p \<and> length p \<le> length s"
    by (auto simp: hasPrefix_def) (metis length_take min.cobounded1)
  then show "length s - length p < length s" by linarith
qed

declare trimWith.simps [simp del]

definition TrimSpace :: "string \<Rightarrow> string" where
  "TrimSpace s = rev (trimWith (map rev space_encodings) (rev (trimWith space_encodings s)))"

lemma trimWith_stop: "find (\<lambda>p. p \<noteq> [] \<and> hasPrefix s p) ps = None \<Longrightarrow> trimWith ps s = s"
  by (simp add: trimWith.simps)

lemma trimWith_result: "find (\<lambda>p. p \<noteq> [] \<and> hasPrefix (trimWith ps s) p) ps = None"
proof (induction ps s rule: trimWith.induct)
  case (1 ps s)
  show ?case
    by (cases "find (\<lambda>p. p \<noteq> [] \<and> hasPrefix s p) ps") (auto simp: trimWith.simps [of ps s] "1.IH")
qed

lemma trimWith_suffix: "\<exists>us. s = us @ trimWith ps s"
proof (induction ps s rule: trimWith.induct)
  case (1 ps s)
  show ?case
  proof (cases "find (\<lambda>p. p \<noteq> [] \<and> hasPrefix s p) ps")
    case None
    then show ?thesis by (simp add: trimWith.simps)
  next
    case (Some p)
    with "1.IH" obtain us where us: "drop (length p) s = us @ trimWith ps (drop (length p) s)" by blast
    from Some have "hasPrefix s p" by (blast dest: find_SomeD)
    then have "s = p @ drop (length p) s" by (metis append_take_drop_id hasPrefix_def)
    with us Some have "s = (p @ us) @ trimWith ps s" by (simp add: trimWith.simps [of ps s])
    then show ?thesis by blast
  qed
qed

lemma trimWith_Nil [simp]: "trimWith ps [] = []"
  using trimWith_suffix [of "[]" ps] by simp

lemma TrimSpace_Nil [simp]: "TrimSpace [] = []"
  by (simp add: TrimSpace_def)

text \<open>Text without a space byte at its ends is left alone.\<close>

definition plain_char :: "char \<Rightarrow> bool" where
  "plain_char c \<longleftrightarrow> 0x20 < byte c \<and> byte c < 0x80"

lemma space_encodings_not_plain:
  "list_all (\<lambda>p. p \<noteq> [] \<and> \<not> plain_char (hd p) \<and> \<not> plain_char (last p)) space_encodings"
  by code_simp

lemma hasPrefix_Cons_hd: "hasPrefix (c # s) p \<Longrightarrow> p \<noteq> [] \<Longrightarrow> hd p = c"
  by (cases p) (auto simp: hasPrefix_def)

lemma find_space_plain:
  "plain_char c \<Longrightarrow> find (\<lambda>p. p \<noteq> [] \<and> hasPrefix (c # s) p) space_encodings = None"
  using space_encodings_not_plain
  by (auto simp: find_None_all list_all_iff dest: hasPrefix_Cons_hd)

lemma find_space_plain_rev:
  "plain_char c \<Longrightarrow> find (\<lambda>p. p \<noteq> [] \<and> hasPrefix (c # s) p) (map rev space_encodings) = None"
  using space_encodings_not_plain
  by (auto simp: find_None_all list_all_iff hd_rev dest: hasPrefix_Cons_hd)

lemma TrimSpace_plain [text_simps]:
  "s \<noteq> [] \<Longrightarrow> plain_char (hd s) \<Longrightarrow> plain_char (last s) \<Longrightarrow> TrimSpace s = s"
proof -
  assume ne: "s \<noteq> []" and h: "plain_char (hd s)" and l: "plain_char (last s)"
  from ne h have 1: "trimWith space_encodings s = s"
    by (cases s) (auto intro: trimWith_stop find_space_plain)
  from ne obtain t where "rev s = last s # t" by (metis hd_rev list.collapse rev_is_Nil_conv)
  with l have "trimWith (map rev space_encodings) (rev s) = rev s"
    by (metis trimWith_stop find_space_plain_rev)
  with 1 show ?thesis by (simp add: TrimSpace_def)
qed

section \<open>Characters and patterns\<close>

definition isDigit :: "char \<Rightarrow> bool" where
  "isDigit c \<longleftrightarrow> 48 \<le> byte c \<and> byte c \<le> 57"

definition isAlpha :: "char \<Rightarrow> bool" where
  "isAlpha c \<longleftrightarrow> 65 \<le> byte c \<and> byte c \<le> 90 \<or> 97 \<le> byte c \<and> byte c \<le> 122"

definition isHexDigit :: "char \<Rightarrow> bool" where
  "isHexDigit c \<longleftrightarrow> isDigit c \<or> 65 \<le> byte c \<and> byte c \<le> 70 \<or> 97 \<le> byte c \<and> byte c \<le> 102"

definition isWord :: "char \<Rightarrow> bool" where
  "isWord c \<longleftrightarrow> isAlpha c \<or> isDigit c \<or> c = CHR ''_''"

lemma isDigit_plain: "isDigit c \<Longrightarrow> plain_char c"
  by (simp add: isDigit_def plain_char_def)

lemma isHexDigit_plain: "isHexDigit c \<Longrightarrow> plain_char c"
  by (auto simp: isHexDigit_def plain_char_def dest: isDigit_plain)

lemma isAlpha_plain: "isAlpha c \<Longrightarrow> plain_char c"
  by (auto simp: isAlpha_def plain_char_def)

lemma isWord_plain: "isWord c \<Longrightarrow> plain_char c"
  by (auto simp: isWord_def dest: isAlpha_plain isDigit_plain) (simp add: plain_char_def byte_def)

text \<open>\<open>strings.Split\<close> at a one-byte separator.\<close>

fun splitOn :: "char \<Rightarrow> string \<Rightarrow> string list" where
  "splitOn sep [] = [[]]"
| "splitOn sep (c # s) =
     (if c = sep then [] # splitOn sep s
      else case splitOn sep s of [] \<Rightarrow> [[c]] | p # ps \<Rightarrow> (c # p) # ps)"

fun joinWith :: "char \<Rightarrow> string list \<Rightarrow> string" where
  "joinWith sep [] = []"
| "joinWith sep [p] = p"
| "joinWith sep (p # q # ps) = p @ sep # joinWith sep (q # ps)"

text \<open>\<open>strings.Join\<close>.\<close>

fun joinStr :: "string \<Rightarrow> string list \<Rightarrow> string" where
  "joinStr sep [] = []"
| "joinStr sep [p] = p"
| "joinStr sep (p # q # ps) = p @ sep @ joinStr sep (q # ps)"

lemma splitOn_not_Nil [simp]: "splitOn sep s \<noteq> []"
  by (induction s) (auto split: list.split)

lemma joinWith_Cons_Cons: "joinWith sep ((c # p) # ps) = c # joinWith sep (p # ps)"
  by (cases ps) auto

lemma joinWith_Nil_Cons: "ps \<noteq> [] \<Longrightarrow> joinWith sep ([] # ps) = sep # joinWith sep ps"
  by (cases ps) auto

lemma join_split: "joinWith sep (splitOn sep s) = s"
proof (induction s)
  case (Cons c s)
  then show ?case
    by (cases "splitOn sep s") (auto simp: joinWith_Cons_Cons joinWith_Nil_Cons)
qed simp

lemma splitOn_no_sep: "p \<in> set (splitOn sep s) \<Longrightarrow> sep \<notin> set p"
proof (induction s arbitrary: p)
  case (Cons c s)
  then show ?case by (cases "splitOn sep s") (auto split: if_splits)
qed simp

lemma splitOn_plain: "sep \<notin> set p \<Longrightarrow> splitOn sep p = [p]"
  by (induction p) auto

lemma splitOn_append: "sep \<notin> set p \<Longrightarrow> splitOn sep (p @ sep # s) = p # splitOn sep s"
  by (induction p) auto

lemma split_join: "ps \<noteq> [] \<Longrightarrow> (\<forall>p\<in>set ps. sep \<notin> set p) \<Longrightarrow> splitOn sep (joinWith sep ps) = ps"
  by (induction sep ps rule: joinWith.induct) (auto simp: splitOn_plain splitOn_append)

section \<open>Decimal numbers\<close>

definition digitChar :: "nat \<Rightarrow> char" where
  "digitChar d = char_of (48 + d)"

fun showNat :: "nat \<Rightarrow> string" where
  "showNat n = (if n < 10 then [digitChar n] else showNat (n div 10) @ [digitChar (n mod 10)])"

declare showNat.simps [simp del]

definition showInt :: "int \<Rightarrow> string" where
  "showInt i = (if i < 0 then CHR ''-'' # showNat (nat (- i)) else showNat (nat i))"

definition digitsValue :: "string \<Rightarrow> nat" where
  "digitsValue s = foldl (\<lambda>v c. 10 * v + (byte c - 48)) 0 s"

text \<open>\<open>strconv.Atoi\<close> on a non-empty string of digits: \<open>None\<close> is its range error.\<close>

definition Atoi :: "string \<Rightarrow> int option" where
  "Atoi s = (if int (digitsValue s) < 2 ^ 63 then Some (int (digitsValue s)) else None)"

lemma byte_digitChar: "d < 10 \<Longrightarrow> byte (digitChar d) = 48 + d"
  by (simp add: byte_def digitChar_def)

lemma isDigit_digitChar: "d < 10 \<Longrightarrow> isDigit (digitChar d)"
  by (simp add: isDigit_def byte_digitChar)

lemma showNat_not_Nil [simp]: "showNat n \<noteq> []"
  by (simp add: showNat.simps)

lemma showNat_digits: "list_all isDigit (showNat n)"
proof (induction n rule: showNat.induct)
  case (1 n)
  then show ?case by (subst showNat.simps) (simp add: isDigit_digitChar)
qed

lemma digitsValue_showNat [text_simps]: "digitsValue (showNat n) = n"
proof (induction n rule: showNat.induct)
  case (1 n)
  then show ?case
    by (subst showNat.simps) (auto simp: digitsValue_def byte_digitChar)
qed

lemma Atoi_showNat [text_simps]: "int n < 2 ^ 63 \<Longrightarrow> Atoi (showNat n) = Some (int n)"
  by (simp add: Atoi_def text_simps)

lemma Atoi_bounds: "Atoi s = Some n \<Longrightarrow> 0 \<le> n \<and> n < 2 ^ 63"
  by (auto simp: Atoi_def split: if_splits)

lemma showNat_inj: "showNat m = showNat n \<longleftrightarrow> m = n"
  by (metis digitsValue_showNat)

text \<open>A number without a leading zero is the canonical print of its value.\<close>

lemma digitChar_byte: "isDigit c \<Longrightarrow> digitChar (byte c - 48) = c"
  by (simp add: digitChar_def isDigit_def byte_def)

lemma digitsValue_snoc: "digitsValue (s @ [c]) = 10 * digitsValue s + (byte c - 48)"
  by (simp add: digitsValue_def)

lemma digitChar_0: "digitChar 0 = CHR ''0''"
  by code_simp

lemma byte_zero_iff: "byte c = 48 \<longleftrightarrow> c = CHR ''0''"
proof
  assume "byte c = 48"
  then show "c = CHR ''0''" using digitChar_byte [of c] by (simp add: isDigit_def digitChar_0)
qed (simp add: byte_def)

lemma digitsValue_pos:
  "isDigit c \<Longrightarrow> c \<noteq> CHR ''0'' \<Longrightarrow> 0 < digitsValue (c # s)"
proof (induction s rule: rev_induct)
  case Nil
  then show ?case by (auto simp: digitsValue_def isDigit_def byte_zero_iff le_less)
next
  case (snoc d s)
  then show ?case using digitsValue_snoc [of "c # s" d] by simp
qed

lemma showNat_digitsValue:
  "isDigit c \<Longrightarrow> c \<noteq> CHR ''0'' \<Longrightarrow> list_all isDigit s \<Longrightarrow> showNat (digitsValue (c # s)) = c # s"
proof (induction s rule: rev_induct)
  case Nil
  moreover have "byte c - 48 < 10" using Nil by (auto simp: isDigit_def)
  ultimately show ?case
    by (subst showNat.simps) (simp add: digitsValue_def digitChar_byte)
next
  case (snoc d s)
  have d: "byte d - 48 < 10" using snoc.prems by (auto simp: isDigit_def)
  have pos: "0 < digitsValue (c # s)" using snoc.prems by (intro digitsValue_pos) auto
  have e: "digitsValue (c # s @ [d]) = 10 * digitsValue (c # s) + (byte d - 48)"
    using digitsValue_snoc [of "c # s" d] by simp
  have "showNat (digitsValue (c # s)) = c # s" using snoc by simp
  then show ?case
    unfolding e using d pos snoc.prems by (subst showNat.simps) (simp add: digitChar_byte)
qed

lemma showNat_head: "n \<noteq> 0 \<Longrightarrow> hd (showNat n) \<noteq> CHR ''0''"
proof (induction n rule: showNat.induct)
  case (1 n)
  show ?case
  proof (cases "n < 10")
    case True
    have "byte (digitChar n) = 48 + n" using True by (rule byte_digitChar)
    then have "digitChar n \<noteq> CHR ''0''" using 1(2) by (metis byte_zero_iff add_cancel_left_right)
    then show ?thesis using True by (simp add: showNat.simps)
  next
    case False
    then have "hd (showNat (n div 10)) \<noteq> CHR ''0''" using 1 by simp
    with False show ?thesis by (simp add: showNat.simps [of n])
  qed
qed

section \<open>Case\<close>

text \<open>
  ASCII lower case. \<open>strings.ToLower\<close> also changes other runes; of those beyond ASCII
  only U+0130 and U+212A have an ASCII image (i and k), so comparing a lowered string with
  a literal that has neither letter is the same with \<open>asciiLower\<close>.
\<close>

definition asciiLower :: "string \<Rightarrow> string" where
  "asciiLower s = map (\<lambda>c. if 65 \<le> byte c \<and> byte c \<le> 90 then char_of (byte c + 32) else c) s"

text \<open>The tables of package \<open>unicode\<close> for the code points from U+0080 on.\<close>

record unicode_tables =
  uni_letter :: "nat \<Rightarrow> bool"
  uni_digit :: "nat \<Rightarrow> bool"
  uni_lower :: "nat \<Rightarrow> nat"

definition IsLetter :: "unicode_tables \<Rightarrow> nat \<Rightarrow> bool" where
  "IsLetter u r = (if r < 0x80 then 65 \<le> r \<and> r \<le> 90 \<or> 97 \<le> r \<and> r \<le> 122 else uni_letter u r)"

definition IsDigit :: "unicode_tables \<Rightarrow> nat \<Rightarrow> bool" where
  "IsDigit u r = (if r < 0x80 then 48 \<le> r \<and> r \<le> 57 else uni_digit u r)"

definition lowerRune :: "unicode_tables \<Rightarrow> nat \<Rightarrow> nat" where
  "lowerRune u r = (if r < 0x80 then (if 65 \<le> r \<and> r \<le> 90 then r + 32 else r) else uni_lower u r)"

definition ToLower :: "unicode_tables \<Rightarrow> string \<Rightarrow> string" where
  "ToLower u s = concat (map (\<lambda>r. encode_rune (lowerRune u r)) (runes s))"

section \<open>ASCII bytes in encoded text\<close>

text \<open>UTF-8 is self-synchronising: an ASCII byte of a string is an ASCII rune, and back.\<close>

lemma mod_range: "m * k \<le> n \<Longrightarrow> n < m * Suc k \<Longrightarrow> n mod m = n - m * k" for m n k :: nat
  by (metis add_diff_inverse_nat div_nat_eqI mult.commute minus_mult_div_eq_mod)

lemma decode_rune_low:
  assumes "fst (decode_rune (a # s)) < 0x80"
  shows "fst (decode_rune (a # s)) = byte a" and "byte a < 0x80"
proof -
  consider (1) "byte a < 0x80" | (e) "0x80 \<le> byte a" "byte a < 0xC2 \<or> 0xF4 < byte a"
    | (2) "0xC2 \<le> byte a" "byte a < 0xE0" | (3) "0xE0 \<le> byte a" "byte a < 0xF0"
    | (4) "0xF0 \<le> byte a" "byte a \<le> 0xF4"
    by linarith
  then have "fst (decode_rune (a # s)) = byte a \<and> byte a < 0x80"
  proof cases
    case 1
    then show ?thesis by (simp add: decode_rune_ascii)
  next
    case e
    then show ?thesis using assms by (simp add: decode_rune.simps RuneError_def)
  next
    case 2
    then have "byte a mod 0x20 = byte a - 0xC0" using mod_range [where m = 32 and k = 6 and n = "byte a"] by simp
    with 2 show ?thesis using assms
      by (cases s) (auto simp: decode_rune.simps Let_def RuneError_def split: if_splits)
  next
    case 3
    have m: "byte a mod 0x10 = byte a - 0xE0" using 3 mod_range [where m = 16 and k = 14 and n = "byte a"] by simp
    have "0x20 \<le> byte b mod 0x40" if "byte a = 0xE0" "second_ok (byte a) (byte b)" for b
      using that mod_range [where m = 64 and k = 2 and n = "byte b"] by (auto simp: second_ok_def)
    with 3 m assms show ?thesis
      by (cases s; cases "tl s") (fastforce simp: decode_rune.simps Let_def RuneError_def split: if_splits)+
  next
    case 4
    have m: "byte a mod 0x08 = byte a - 0xF0" using 4 mod_range [where m = 8 and k = 30 and n = "byte a"] by simp
    have "0x10 \<le> byte b mod 0x40" if "byte a = 0xF0" "second_ok (byte a) (byte b)" for b
      using that mod_range [where m = 64 and k = 2 and n = "byte b"] by (auto simp: second_ok_def)
    with 4 m assms show ?thesis
      by (cases s; cases "tl s"; cases "tl (tl s)")
         (fastforce simp: decode_rune.simps Let_def RuneError_def split: if_splits)+
  qed
  then show "fst (decode_rune (a # s)) = byte a" "byte a < 0x80" by auto
qed

lemma runes_low: "r \<in> set (runes s) \<Longrightarrow> r < 0x80 \<Longrightarrow> \<exists>c\<in>set s. byte c = r"
proof (induction s rule: runes.induct)
  case (1 s)
  show ?case
  proof (cases s)
    case Nil
    with 1 show ?thesis by (simp add: runes.simps [of "[]"])
  next
    case (Cons a t)
    from 1(2) have "r = fst (decode_rune s) \<or> r \<in> set (runes (drop (snd (decode_rune s)) s))"
      by (subst (asm) runes.simps) (use Cons in simp)
    then show ?thesis
    proof
      assume "r = fst (decode_rune s)"
      with Cons decode_rune_low [of a t] 1(3) show ?thesis by auto
    next
      assume "r \<in> set (runes (drop (snd (decode_rune s)) s))"
      with 1(1,3) Cons obtain c where "c \<in> set (drop (snd (decode_rune s)) s)" "byte c = r" by blast
      then show ?thesis by (auto dest: in_set_dropD)
    qed
  qed
qed

lemma encode_rune_low:
  assumes "c \<in> set (encode_rune r)" "byte c < 0x80"
  shows "byte c = r"
proof -
  define q where "q = (if r > 0x10FFFF \<or> 0xD800 \<le> r \<and> r \<le> 0xDFFF then RuneError else r)"
  have q: "q \<le> 0x10FFFF" "q < 0x80 \<Longrightarrow> q = r" by (auto simp: q_def RuneError_def)
  have b: "byte (char_of n) = n" if "n < 256" for n :: nat using that by (simp add: byte_def)
  have e: "encode_rune r = map (char_of :: nat \<Rightarrow> char)
       (if q < 0x80 then [q]
        else if q < 0x800 then [0xC0 + q div 0x40, 0x80 + q mod 0x40]
        else if q < 0x10000
        then [0xE0 + q div 0x1000, 0x80 + q div 0x40 mod 0x40, 0x80 + q mod 0x40]
        else [0xF0 + q div 0x40000, 0x80 + q div 0x1000 mod 0x40, 0x80 + q div 0x40 mod 0x40,
              0x80 + q mod 0x40])"
    by (simp only: encode_rune_def Let_def q_def)
  show ?thesis
  proof (cases "q < 0x80")
    case True
    then show ?thesis using assms q b [of q] by (simp add: e)
  next
    case False
    have d: "q div 0x40 < 0x20" if "q < 0x800" using that by (simp add: div_less_iff_less_mult)
    have d': "q div 0x1000 < 0x10" if "q < 0x10000" using that by (simp add: div_less_iff_less_mult)
    have d'': "q div 0x40000 < 8" using q(1) by (simp add: div_less_iff_less_mult)
    have m: "x mod 0x40 < 0x40" for x :: nat by simp
    have big: "\<exists>n::nat. c = char_of n \<and> 0x80 \<le> n \<and> n < 256"
    proof -
      obtain n where n: "c = char_of n" "n \<in> set (if q < 0x800 then [0xC0 + q div 0x40, 0x80 + q mod 0x40]
        else if q < 0x10000
        then [0xE0 + q div 0x1000, 0x80 + q div 0x40 mod 0x40, 0x80 + q mod 0x40]
        else [0xF0 + q div 0x40000, 0x80 + q div 0x1000 mod 0x40, 0x80 + q div 0x40 mod 0x40,
              0x80 + q mod 0x40])"
        using assms(1) False by (auto simp: e split: if_splits)
      have "0x80 \<le> n \<and> n < 256"
        using n(2) d d' d'' m [of q] m [of "q div 0x40"] m [of "q div 0x1000"]
        by (auto split: if_splits)
      with n(1) show ?thesis by blast
    qed
    then show ?thesis using b assms(2) by auto
  qed
qed

end
