(* ===== verification/Gen_Flags.thy ===== *)
theory Gen_Flags
  imports Go_Text
begin

text \<open>
  The command line of codegen/cmd/jcrpc-gen/main.go: the options, the flags registered on the
  flag set, and the parser of package \<open>flag\<close> that the tool runs over its arguments.
\<close>

section \<open>Options\<close>

record cliOptions =
  cli_outDir :: string
  cli_javaPackage :: string
  cli_swiftModule :: string
  cli_kotlinPackage :: string
  cli_allTargets :: bool
  cli_validateOnly :: bool
  cli_verbose :: bool
  cli_help :: bool
  cli_simulatorDependency :: string
  cli_streamMemory :: string

definition defaultSimulatorDependency :: string where
  "defaultSimulatorDependency = ''com.klinec:jcardsim:3.0.5.9''"

definition StreamMemoryClearOnDeselect :: string where
  "StreamMemoryClearOnDeselect = ''clear_on_deselect''"

definition StreamMemoryClearOnReset :: string where
  "StreamMemoryClearOnReset = ''clear_on_reset''"

text \<open>The values the flag variables have after registration.\<close>

definition defaultOptions :: cliOptions where
  "defaultOptions = \<lparr>cli_outDir = ''.'', cli_javaPackage = '''', cli_swiftModule = '''', cli_kotlinPackage = '''',
     cli_allTargets = False, cli_validateOnly = False, cli_verbose = False, cli_help = False,
     cli_simulatorDependency = defaultSimulatorDependency, cli_streamMemory = StreamMemoryClearOnDeselect\<rparr>"

section \<open>Flags\<close>

datatype FlagKind = StringFlag | BoolFlag

datatype FlagError =
    ErrHelp
  | BadFlagSyntax string
  | FlagNotDefined string
  | InvalidBoolean string string
  | FlagNeedsArgument string

text \<open>The names registered with \<open>StringVar\<close> and \<open>BoolVar\<close>.\<close>

definition stringFlags :: "string list" where
  "stringFlags = [''out-dir'', ''java'', ''swift'', ''kotlin'', ''simulator-dependency'', ''stream-memory'']"

definition boolFlags :: "string list" where
  "boolFlags = [''all'', ''validate-only'', ''verbose'', ''help'', ''h'']"

definition flagKind :: "string \<Rightarrow> FlagKind option" where
  "flagKind name =
     (if name \<in> set stringFlags then Some StringFlag
      else if name \<in> set boolFlags then Some BoolFlag
      else None)"

definition setString :: "string \<Rightarrow> string \<Rightarrow> cliOptions \<Rightarrow> cliOptions" where
  "setString name v opts =
     (if name = ''out-dir'' then opts\<lparr>cli_outDir := v\<rparr>
      else if name = ''java'' then opts\<lparr>cli_javaPackage := v\<rparr>
      else if name = ''swift'' then opts\<lparr>cli_swiftModule := v\<rparr>
      else if name = ''kotlin'' then opts\<lparr>cli_kotlinPackage := v\<rparr>
      else if name = ''simulator-dependency'' then opts\<lparr>cli_simulatorDependency := v\<rparr>
      else if name = ''stream-memory'' then opts\<lparr>cli_streamMemory := v\<rparr>
      else opts)"

definition setBool :: "string \<Rightarrow> bool \<Rightarrow> cliOptions \<Rightarrow> cliOptions" where
  "setBool name b opts =
     (if name = ''all'' then opts\<lparr>cli_allTargets := b\<rparr>
      else if name = ''validate-only'' then opts\<lparr>cli_validateOnly := b\<rparr>
      else if name = ''verbose'' then opts\<lparr>cli_verbose := b\<rparr>
      else if name = ''help'' \<or> name = ''h'' then opts\<lparr>cli_help := b\<rparr>
      else opts)"

definition ParseBool :: "string \<Rightarrow> bool option" where
  "ParseBool s =
     (if s \<in> set [''1'', ''t'', ''T'', ''true'', ''TRUE'', ''True''] then Some True
      else if s \<in> set [''0'', ''f'', ''F'', ''false'', ''FALSE'', ''False''] then Some False
      else None)"

text \<open>A flag argument without its dashes: name, and value after the first equals sign.\<close>

definition cutValue :: "string \<Rightarrow> string \<times> string option" where
  "cutValue s = (takeWhile (\<lambda>c. c \<noteq> CHR ''='') s,
     if CHR ''='' \<in> set s then Some (tl (dropWhile (\<lambda>c. c \<noteq> CHR ''='') s)) else None)"

definition stripDashes :: "string \<Rightarrow> string" where
  "stripDashes s = (if s ! 1 = CHR ''-'' then drop 2 s else drop 1 s)"

text \<open>\<open>FlagSet.Parse\<close>: the options and the remaining arguments, or the first error.\<close>

fun parseFlags :: "cliOptions \<Rightarrow> string list \<Rightarrow> (FlagError, cliOptions \<times> string list) result" where
  "parseFlags opts [] = Inr (opts, [])"
| "parseFlags opts (s # args) =
     (if length s < 2 \<or> hd s \<noteq> CHR ''-'' then Inr (opts, s # args)
      else if s = ''--'' then Inr (opts, args)
      else if stripDashes s = '''' \<or> hd (stripDashes s) = CHR ''-'' \<or> hd (stripDashes s) = CHR ''=''
      then Inl (BadFlagSyntax s)
      else case cutValue (stripDashes s) of (name, value) \<Rightarrow>
        (case flagKind name of
           None \<Rightarrow> Inl (if name = ''help'' \<or> name = ''h'' then ErrHelp else FlagNotDefined name)
         | Some BoolFlag \<Rightarrow>
             (case value of
                None \<Rightarrow> parseFlags (setBool name True opts) args
              | Some v \<Rightarrow> (case ParseBool v of
                    None \<Rightarrow> Inl (InvalidBoolean v name)
                  | Some b \<Rightarrow> parseFlags (setBool name b opts) args))
         | Some StringFlag \<Rightarrow>
             (case value of
                Some v \<Rightarrow> parseFlags (setString name v opts) args
              | None \<Rightarrow> (case args of
                    [] \<Rightarrow> Inl (FlagNeedsArgument name)
                  | v # args' \<Rightarrow> parseFlags (setString name v opts) args'))))"

section \<open>Facts\<close>

text \<open>The tool defines \<open>help\<close> and \<open>h\<close> itself, so \<open>ErrHelp\<close> never comes out.\<close>

lemma flagKind_None_help: "flagKind name = None \<Longrightarrow> name \<noteq> ''help'' \<and> name \<noteq> ''h''"
proof -
  have "flagKind ''help'' = Some BoolFlag" "flagKind ''h'' = Some BoolFlag" by code_simp+
  then show "flagKind name = None \<Longrightarrow> name \<noteq> ''help'' \<and> name \<noteq> ''h''" by auto
qed

lemma parseFlags_no_ErrHelp: "parseFlags opts args \<noteq> Inl ErrHelp"
proof (induction args arbitrary: opts rule: length_induct)
  case (1 args)
  show ?case
  proof (cases args)
    case (Cons s rest)
    have A: "parseFlags o' rest \<noteq> Inl ErrHelp" for o' using 1 Cons by simp
    have B: "parseFlags o' r \<noteq> Inl ErrHelp" if "rest = a # r" for o' a r using 1 Cons that by simp
    obtain name v where c: "cutValue (stripDashes s) = (name, v)" by (cases "cutValue (stripDashes s)")
    have N: "flagKind name = None \<Longrightarrow> (if name = ''help'' \<or> name = ''h'' then ErrHelp else FlagNotDefined name) \<noteq> ErrHelp"
      using flagKind_None_help [of name] by simp
    show ?thesis
      unfolding Cons parseFlags.simps c prod.case
      using A B N by (auto simp del: parseFlags.simps split del: if_split split: if_split_asm option.split FlagKind.split list.split)
  qed simp
qed

text \<open>The two forms of a flag argument used below, and how the parser reads each form.\<close>

definition stringArg :: "string \<Rightarrow> string \<Rightarrow> string" where
  "stringArg n v = ''--'' @ n @ CHR ''='' # v"

definition boolArg :: "string \<Rightarrow> bool \<Rightarrow> string" where
  "boolArg n b = ''--'' @ n @ CHR ''='' # (if b then ''true'' else ''false'')"

lemma cutValue_eq: "CHR ''='' \<notin> set n \<Longrightarrow> cutValue (n @ CHR ''='' # v) = (n, Some v)"
  by (induction n) (auto simp: cutValue_def)

lemma cutValue_plain: "CHR ''='' \<notin> set n \<Longrightarrow> cutValue n = (n, None)"
  by (auto simp: cutValue_def takeWhile_eq_all_conv)

lemma flagKind_name:
  assumes "flagKind n = Some k"
  shows "n \<noteq> '''' \<and> hd n \<noteq> CHR ''-'' \<and> hd n \<noteq> CHR ''='' \<and> CHR ''='' \<notin> set n"
proof -
  have "list_all (\<lambda>n. n \<noteq> '''' \<and> hd n \<noteq> CHR ''-'' \<and> hd n \<noteq> CHR ''='' \<and> CHR ''='' \<notin> set n)
    (stringFlags @ boolFlags)"
    by code_simp
  moreover have "n \<in> set (stringFlags @ boolFlags)"
    using assms by (auto simp: flagKind_def split: if_splits)
  ultimately show ?thesis unfolding list_all_iff by blast
qed

lemma parseFlags_string:
  assumes "flagKind n = Some StringFlag"
  shows "parseFlags opts (stringArg n v # args) = parseFlags (setString n v opts) args"
  using flagKind_name [OF assms] assms by (simp add: stringArg_def stripDashes_def cutValue_eq)

lemma parseFlags_string_next:
  assumes "flagKind n = Some StringFlag"
  shows "parseFlags opts ((''--'' @ n) # v # args) = parseFlags (setString n v opts) args"
  using flagKind_name [OF assms] assms by (simp add: stripDashes_def cutValue_plain)

lemma parseFlags_bool:
  assumes "flagKind n = Some BoolFlag"
  shows "parseFlags opts ((''--'' @ n) # args) = parseFlags (setBool n True opts) args"
  using flagKind_name [OF assms] assms by (simp add: stripDashes_def cutValue_plain)

lemma parseFlags_bool_value:
  assumes "flagKind n = Some BoolFlag"
  shows "parseFlags opts (boolArg n b # args) =
    parseFlags (setBool n b opts) args"
proof -
  have "ParseBool (if b then ''true'' else ''false'') = Some b" by (simp add: ParseBool_def)
  then show ?thesis
    using flagKind_name [OF assms] assms by (simp add: boolArg_def stripDashes_def cutValue_eq del: if_split)
qed

text \<open>Every option printed as a flag.\<close>

definition renderFlags :: "cliOptions \<Rightarrow> string list" where
  "renderFlags opts =
     [stringArg ''out-dir'' (cli_outDir opts),
      stringArg ''java'' (cli_javaPackage opts),
      stringArg ''swift'' (cli_swiftModule opts),
      stringArg ''kotlin'' (cli_kotlinPackage opts),
      stringArg ''simulator-dependency'' (cli_simulatorDependency opts),
      stringArg ''stream-memory'' (cli_streamMemory opts),
      boolArg ''all'' (cli_allTargets opts),
      boolArg ''validate-only'' (cli_validateOnly opts),
      boolArg ''verbose'' (cli_verbose opts),
      boolArg ''help'' (cli_help opts)]"

lemma kind_facts:
  "flagKind ''out-dir'' = Some StringFlag" "flagKind ''java'' = Some StringFlag"
  "flagKind ''swift'' = Some StringFlag" "flagKind ''kotlin'' = Some StringFlag"
  "flagKind ''simulator-dependency'' = Some StringFlag" "flagKind ''stream-memory'' = Some StringFlag"
  "flagKind ''all'' = Some BoolFlag" "flagKind ''validate-only'' = Some BoolFlag"
  "flagKind ''verbose'' = Some BoolFlag" "flagKind ''help'' = Some BoolFlag"
  by code_simp+

lemma parseFlags_stop: "a = [] \<or> hd a \<noteq> CHR ''-'' \<Longrightarrow> parseFlags opts [a] = Inr (opts, [a])"
  by auto

lemma parse_renderFlags:
  assumes "input = [] \<or> hd input \<noteq> CHR ''-''"
  shows "parseFlags opts0 (renderFlags opts @ [input]) = Inr (opts, [input])"
proof -
  have "parseFlags opts0 (renderFlags opts @ [input]) =
    parseFlags (setBool ''help'' (cli_help opts) (setBool ''verbose'' (cli_verbose opts)
      (setBool ''validate-only'' (cli_validateOnly opts) (setBool ''all'' (cli_allTargets opts)
      (setString ''stream-memory'' (cli_streamMemory opts) (setString ''simulator-dependency'' (cli_simulatorDependency opts)
      (setString ''kotlin'' (cli_kotlinPackage opts) (setString ''swift'' (cli_swiftModule opts)
      (setString ''java'' (cli_javaPackage opts) (setString ''out-dir'' (cli_outDir opts) opts0)))))))))) [input]"
    by (simp only: renderFlags_def append_Cons append_Nil
      parseFlags_string [OF kind_facts(1)] parseFlags_string [OF kind_facts(2)]
      parseFlags_string [OF kind_facts(3)] parseFlags_string [OF kind_facts(4)]
      parseFlags_string [OF kind_facts(5)] parseFlags_string [OF kind_facts(6)]
      parseFlags_bool_value [OF kind_facts(7)] parseFlags_bool_value [OF kind_facts(8)]
      parseFlags_bool_value [OF kind_facts(9)] parseFlags_bool_value [OF kind_facts(10)])
  also have "\<dots> = Inr (opts, [input])"
    by (subst parseFlags_stop [OF assms]) (simp add: setBool_def setString_def)
  finally show ?thesis .
qed

end
