(* ===== verification/Go_Errors.thy ===== *)
theory Go_Errors
  imports Prelude
begin

text \<open>
  Error values as the commands inspect them: the class that \<open>errors.As\<close> and \<open>errors.Is\<close> find
  below any number of wrappers.
\<close>

datatype GoErr =
    PathError string
  | LinkError string
  | ErrNotExist
  | ErrPermission
  | ErrExist
  | OtherError string
  | Wrapped string GoErr

fun isIOError :: "GoErr \<Rightarrow> bool" where
  "isIOError (PathError _) = True"
| "isIOError (LinkError _) = True"
| "isIOError ErrNotExist = True"
| "isIOError ErrPermission = True"
| "isIOError ErrExist = True"
| "isIOError (OtherError _) = False"
| "isIOError (Wrapped _ e) = isIOError e"

end
