(* ===== verification/Go_Path.thy ===== *)
theory Go_Path
  imports Go_Text
begin

text \<open>
  The parts of packages \<open>path/filepath\<close> and \<open>io/fs\<close> that the generator uses, on a POSIX
  host: the separator is the slash, there are no volume names, and \<open>FromSlash\<close> and
  \<open>ToSlash\<close> change nothing. The facts reduce them to lists of path components for the names
  that pass \<open>ValidPath\<close>.
\<close>

section \<open>Definitions\<close>

abbreviation slash :: char where "slash \<equiv> CHR ''/''"

definition FromSlash :: "string \<Rightarrow> string" where "FromSlash p = p"

definition ToSlash :: "string \<Rightarrow> string" where "ToSlash p = p"

text \<open>\<open>Clean\<close>: drop empty and dot components, cancel a component with the \<open>..\<close> after it.
  The stack holds the components kept so far, the last one first.\<close>

fun cleanParts :: "bool \<Rightarrow> string list \<Rightarrow> string list \<Rightarrow> string list" where
  "cleanParts rooted out [] = rev out"
| "cleanParts rooted out (p # ps) =
     (if p = '''' \<or> p = ''.'' then cleanParts rooted out ps
      else if p = ''..'' then
        (case out of
           [] \<Rightarrow> cleanParts rooted (if rooted then [] else [''..'']) ps
         | q # qs \<Rightarrow> cleanParts rooted (if q = ''..'' then ''..'' # out else qs) ps)
      else cleanParts rooted (p # out) ps)"

definition rooted :: "string \<Rightarrow> bool" where
  "rooted p \<longleftrightarrow> hasPrefix p ''/''"

definition renderPath :: "bool \<Rightarrow> string list \<Rightarrow> string" where
  "renderPath r ps = (let s = (if r then ''/'' else '''') @ joinWith slash ps in if s = '''' then ''.'' else s)"

definition Clean :: "string \<Rightarrow> string" where
  "Clean p = renderPath (rooted p) (cleanParts (rooted p) [] (splitOn slash p))"

definition PathJoin :: "string \<Rightarrow> string \<Rightarrow> string" where
  "PathJoin a b = (if a \<noteq> '''' then Clean (a @ ''/'' @ b) else if b \<noteq> '''' then Clean b else '''')"

text \<open>\<open>Dir\<close> cleans everything up to the last slash, \<open>Base\<close> is the component after it.\<close>

definition PathDir :: "string \<Rightarrow> string" where
  "PathDir p = Clean (rev (dropWhile (\<lambda>c. c \<noteq> slash) (rev p)))"

definition PathBase :: "string \<Rightarrow> string" where
  "PathBase p =
     (if p = '''' then ''.''
      else let q = rev (dropWhile (\<lambda>c. c = slash) (rev p)) in
        if q = '''' then ''/'' else rev (takeWhile (\<lambda>c. c \<noteq> slash) (rev q)))"

definition ValidPath :: "string \<Rightarrow> bool" where
  "ValidPath p \<longleftrightarrow> validString p \<and>
     (p = ''.'' \<or> list_all (\<lambda>c. c \<noteq> '''' \<and> c \<noteq> ''.'' \<and> c \<noteq> ''..'') (splitOn slash p))"

definition IsLocal :: "string \<Rightarrow> bool" where
  "IsLocal p =
     (if rooted p \<or> p = '''' then False
      else let q = (if list_ex (\<lambda>c. c = ''.'' \<or> c = ''..'') (splitOn slash p) then Clean p else p) in
        q \<noteq> ''..'' \<and> \<not> hasPrefix q ''../'')"

section \<open>Component lists\<close>

text \<open>A component that cleaning keeps.\<close>

definition okPart :: "string \<Rightarrow> bool" where
  "okPart c \<longleftrightarrow> c \<noteq> '''' \<and> c \<noteq> ''.'' \<and> c \<noteq> ''..'' \<and> slash \<notin> set c"

lemma cleanParts_ok: "list_all okPart ps \<Longrightarrow> cleanParts r out ps = rev out @ ps"
  by (induction ps arbitrary: out) (auto simp: okPart_def)

lemma cleanParts_append_ok:
  "list_all okPart qs \<Longrightarrow> cleanParts r out (ps @ qs) = cleanParts r out ps @ qs"
proof (induction r out ps rule: cleanParts.induct)
  case (2 r out p ps)
  then show ?case by (cases out) auto
qed (simp add: cleanParts_ok)

lemma splitOn_append_sep: "splitOn sep (a @ sep # b) = splitOn sep a @ splitOn sep b"
  by (induction a) (auto split: list.split simp: neq_Nil_conv)

lemma joinWith_append:
  "ps \<noteq> [] \<Longrightarrow> qs \<noteq> [] \<Longrightarrow> joinWith sep (ps @ qs) = joinWith sep ps @ sep # joinWith sep qs"
proof (induction sep ps rule: joinWith.induct)
  case (2 sep p)
  then show ?case by (cases qs) auto
qed auto

lemma split_join_ok: "ps \<noteq> [] \<Longrightarrow> list_all okPart ps \<Longrightarrow> splitOn slash (joinWith slash ps) = ps"
  by (rule split_join) (auto simp: list_all_iff okPart_def)

lemma joinWith_ok_not_empty: "ps \<noteq> [] \<Longrightarrow> list_all okPart ps \<Longrightarrow> joinWith slash ps \<noteq> ''''"
  by (cases ps; cases "tl ps") (auto simp: okPart_def)

lemma joinWith_ok_not_rooted: "ps \<noteq> [] \<Longrightarrow> list_all okPart ps \<Longrightarrow> \<not> rooted (joinWith slash ps)"
proof -
  assume a: "ps \<noteq> []" "list_all okPart ps"
  then obtain p qs where p: "ps = p # qs" "okPart p" by (cases ps) auto
  then obtain c cs where "p = c # cs" "c \<noteq> slash" by (cases p) (auto simp: okPart_def)
  with p show ?thesis by (cases qs) (auto simp: rooted_def hasPrefix_def)
qed

text \<open>\<open>relPath ps\<close>: the slash-separated relative path of kept components.\<close>

definition relPath :: "string list \<Rightarrow> string" where
  "relPath ps = (if ps = [] then ''.'' else joinWith slash ps)"

lemma renderPath_rel: "list_all okPart ps \<Longrightarrow> renderPath False ps = relPath ps"
  by (simp add: renderPath_def relPath_def joinWith_ok_not_empty)

lemma Clean_ok: "ps \<noteq> [] \<Longrightarrow> list_all okPart ps \<Longrightarrow> Clean (joinWith slash ps) = joinWith slash ps"
  by (simp add: Clean_def joinWith_ok_not_rooted split_join_ok cleanParts_ok renderPath_rel relPath_def)

section \<open>Names that pass \<open>ValidPath\<close>\<close>

lemma ValidPath_parts:
  "ValidPath p \<Longrightarrow> p \<noteq> ''.'' \<Longrightarrow> list_all okPart (splitOn slash p) \<and> joinWith slash (splitOn slash p) = p"
  by (auto simp: ValidPath_def okPart_def list_all_iff join_split dest: splitOn_no_sep)

text \<open>The other conditions on a name follow from \<open>ValidPath\<close> on this host, NUL apart.\<close>

lemma ValidPath_local:
  assumes "ValidPath p" "p \<noteq> ''.''"
  shows "IsLocal p"
proof -
  have k: "list_all okPart (splitOn slash p)" "joinWith slash (splitOn slash p) = p"
    using ValidPath_parts [OF assms] by auto
  have r: "\<not> rooted p" "p \<noteq> ''''"
    using joinWith_ok_not_rooted [of "splitOn slash p"] joinWith_ok_not_empty [of "splitOn slash p"] k by auto
  have d: "\<not> list_ex (\<lambda>c. c = ''.'' \<or> c = ''..'') (splitOn slash p)"
    using k(1) by (auto simp: list_ex_iff list_all_iff okPart_def)
  have "p \<noteq> ''..''"
  proof
    assume "p = ''..''"
    then have "splitOn slash p = [''..'']" by simp
    with d show False by simp
  qed
  moreover have "\<not> hasPrefix p ''../''"
  proof
    assume "hasPrefix p ''../''"
    then obtain t where "p = ''..'' @ slash # t"
      by (auto simp: hasPrefix_def) (metis append_Cons append_Nil append_take_drop_id)
    then have "splitOn slash p = ''..'' # splitOn slash t" by (simp add: splitOn_append)
    with d show False by simp
  qed
  ultimately show ?thesis using r d by (simp add: IsLocal_def)
qed

text \<open>The parent of a name loses its last component.\<close>

lemma dropWhile_to_slash: "slash \<notin> set q \<Longrightarrow>
  rev (dropWhile (\<lambda>c. c \<noteq> slash) (rev (p @ slash # q))) = p @ [slash]"
proof -
  assume q: "slash \<notin> set q"
  have "dropWhile (\<lambda>c. c \<noteq> slash) (rev q @ slash # rev p) = dropWhile (\<lambda>c. c \<noteq> slash) (slash # rev p)"
    by (rule dropWhile_append2) (use q in auto)
  then show ?thesis by simp
qed

lemma PathDir_ok:
  assumes "ps \<noteq> []" "list_all okPart ps"
  shows "PathDir (joinWith slash ps) = relPath (butlast ps)"
proof -
  obtain qs q where ps: "ps = qs @ [q]" using assms(1) by (metis rev_exhaust)
  with assms have q: "okPart q" "list_all okPart qs" by auto
  then have s: "slash \<notin> set q" by (simp add: okPart_def)
  show ?thesis
  proof (cases "qs = []")
    case True
    have d: "dropWhile (\<lambda>c. c \<noteq> slash) (rev q) = []" using s by (auto simp: dropWhile_eq_Nil_conv)
    have "PathDir q = Clean ''''" by (simp only: PathDir_def d rev.simps)
    also have "\<dots> = ''.''" by code_simp
    finally show ?thesis by (simp add: ps True relPath_def)
  next
    case False
    then have j: "joinWith slash ps = joinWith slash qs @ slash # q" by (simp add: ps joinWith_append)
    have "rooted (joinWith slash qs @ ''/'') = rooted (joinWith slash qs)"
      using joinWith_ok_not_empty [OF False q(2)]
      by (cases "joinWith slash qs") (simp_all add: rooted_def hasPrefix_def)
    then have r: "\<not> rooted (joinWith slash qs @ ''/'')"
      using joinWith_ok_not_rooted [OF False q(2)] by simp
    have "splitOn slash (joinWith slash qs @ [slash]) = qs @ [[]]"
      using splitOn_append_sep [of slash "joinWith slash qs" "[]"] by (simp add: split_join_ok False q(2))
    moreover have "cleanParts False [] (qs @ [[]]) = qs"
    proof -
      have "cleanParts r out (xs @ [[]]) = cleanParts r out xs" for r out xs
        by (induction r out xs rule: cleanParts.induct) (auto split: list.split)
      then show ?thesis using q(2) by (simp add: cleanParts_ok)
    qed
    ultimately show ?thesis
      using r False q(2)
      by (simp add: j PathDir_def dropWhile_to_slash [OF s] del: rev_append)
         (simp add: Clean_def renderPath_rel relPath_def ps)
  qed
qed

section \<open>Joining a root and a name\<close>

definition rootParts :: "string \<Rightarrow> string list" where
  "rootParts a = cleanParts (rooted a) [] (splitOn slash a)"

lemma Clean_rootParts: "Clean a = renderPath (rooted a) (rootParts a)"
  by (simp add: Clean_def rootParts_def)

lemma rooted_append: "a \<noteq> '''' \<Longrightarrow> rooted (a @ b) = rooted a"
  by (cases a) (simp_all add: rooted_def hasPrefix_def)

lemma PathJoin_ok:
  assumes "ps \<noteq> []" "list_all okPart ps"
  shows "PathJoin a (joinWith slash ps) = renderPath (rooted a) (rootParts a @ ps)"
proof (cases "a = ''''")
  case True
  then show ?thesis
    using assms by (simp add: PathJoin_def joinWith_ok_not_empty Clean_ok rootParts_def rooted_def
        hasPrefix_def renderPath_rel relPath_def)
next
  case False
  have "splitOn slash (a @ slash # joinWith slash ps) = splitOn slash a @ ps"
    by (simp add: splitOn_append_sep split_join_ok assms)
  then show ?thesis
    using False assms
    by (simp add: PathJoin_def Clean_def rooted_append rootParts_def cleanParts_append_ok)
qed

section \<open>Canonical paths\<close>

text \<open>What \<open>Clean\<close> leaves: kept components, after leading \<open>..\<close> when the path is relative.\<close>

definition canon :: "bool \<Rightarrow> string list \<Rightarrow> bool" where
  "canon r qs \<longleftrightarrow> (\<exists>n ps. qs = replicate n ''..'' @ ps \<and> list_all okPart ps \<and> (r \<longrightarrow> n = 0))"

lemma canon_snoc_ok: "canon r qs \<Longrightarrow> okPart p \<Longrightarrow> canon r (qs @ [p])"
proof -
  assume "canon r qs" and p: "okPart p"
  then obtain n ps where "qs = replicate n ''..'' @ ps" "list_all okPart ps" "r \<longrightarrow> n = 0"
    by (auto simp: canon_def)
  with p have "qs @ [p] = replicate n ''..'' @ (ps @ [p]) \<and> list_all okPart (ps @ [p]) \<and> (r \<longrightarrow> n = 0)"
    by simp
  then show ?thesis unfolding canon_def by blast
qed

lemma canon_append_ok: "canon r qs \<Longrightarrow> list_all okPart ps \<Longrightarrow> canon r (qs @ ps)"
  by (induction ps arbitrary: qs) (simp, metis append_Cons append_Nil append_assoc canon_snoc_ok list.pred_inject(2))

lemma canon_stack:
  assumes "canon r (rev (q # qs))" and "\<not> r \<or> q \<noteq> ''..''"
  shows "canon r (rev (if q = ''..'' then ''..'' # q # qs else qs))"
proof -
  obtain n ps where c: "rev qs @ [q] = replicate n ''..'' @ ps" "list_all okPart ps" "r \<longrightarrow> n = 0"
    using assms(1) by (auto simp: canon_def)
  show ?thesis
  proof (cases ps rule: rev_cases)
    case Nil
    then obtain m where m: "n = Suc m" using c(1) by (cases n) auto
    then have "rev qs @ [q] = replicate m ''..'' @ [''..'']"
      using c(1) Nil by (simp add: replicate_append_same [symmetric])
    then have "q = ''..''" "rev (''..'' # q # qs) = replicate (Suc (Suc m)) ''..'' @ []"
      by (simp_all add: replicate_append_same [symmetric])
    moreover have "r \<longrightarrow> Suc (Suc m) = 0" using c(3) m by simp
    ultimately show ?thesis
      unfolding canon_def by (intro exI [of _ "Suc (Suc m)"] exI [of _ "[]"]) simp
  next
    case (snoc ys y)
    then have "rev qs = replicate n ''..'' @ ys" "q = y" "okPart y" "list_all okPart ys" using c by auto
    then show ?thesis using c(3) by (auto simp: canon_def okPart_def)
  qed
qed

lemma canon_rooted: "canon True qs \<Longrightarrow> list_all okPart qs"
  by (auto simp: canon_def)

lemma canon_cleanParts:
  "canon r (rev out) \<Longrightarrow> \<forall>p\<in>set ps. slash \<notin> set p \<Longrightarrow> canon r (cleanParts r out ps)"
proof (induction r out ps rule: cleanParts.induct)
  case (2 r out p ps)
  show ?case
  proof (cases "p = '''' \<or> p = ''.'' \<or> p = ''..''")
    case False
    then have "okPart p" using "2.prems" by (simp add: okPart_def)
    then have "canon r (rev (p # out))" using "2.prems" by (simp add: canon_snoc_ok)
    then show ?thesis using False "2.IH"(4) "2.prems" by simp
  next
    case True
    show ?thesis
    proof (cases out)
      case Nil
      have "canon r (if r then [] else [''..''])"
        by (auto simp: canon_def intro: exI [of _ 0] exI [of _ 1])
      then have "canon r (cleanParts r (if r then [] else [''..'']) ps)" if "p = ''..''"
        using "2.IH"(2) [OF _ that Nil] that "2.prems"(2) by (cases r) simp_all
      then show ?thesis using True "2.IH"(1) "2.prems" Nil by (cases "p = ''..''") simp_all
    next
      case (Cons q qs)
      have "\<not> r \<or> q \<noteq> ''..''"
        using canon_rooted [of "rev out"] "2.prems"(1) by (cases r) (simp_all add: Cons okPart_def)
      then have "canon r (rev (if q = ''..'' then ''..'' # out else qs))"
        using canon_stack [of r q qs] "2.prems"(1) by (simp only: Cons)
      then have "canon r (cleanParts r (if q = ''..'' then ''..'' # out else qs) ps)" if "p = ''..''"
        using "2.IH"(3) [OF _ that Cons] that "2.prems"(2) by simp
      then show ?thesis
        using True "2.IH"(1) "2.prems" Cons by (cases "p = ''..''"; cases "q = ''..''") simp_all
    qed
  qed
qed simp

lemma canon_rootParts: "canon (rooted a) (rootParts a)"
  unfolding rootParts_def by (rule canon_cleanParts) (auto simp: canon_def dest: splitOn_no_sep)

lemma cleanParts_dots:
  "list_all okPart ps \<Longrightarrow>
   cleanParts False (replicate k ''..'') (replicate n ''..'' @ ps) = replicate (k + n) ''..'' @ ps"
proof (induction n arbitrary: k)
  case 0
  then show ?case by (simp add: cleanParts_ok)
next
  case (Suc n)
  then show ?case using Suc.IH [of "Suc k"] by (cases k) simp_all
qed

lemma cleanParts_canon: "canon r qs \<Longrightarrow> cleanParts r [] qs = qs"
  using cleanParts_dots [of _ 0] by (cases r) (auto simp: canon_def cleanParts_ok)

lemma canon_part:
  assumes "canon r qs" "p \<in> set qs"
  shows "p \<noteq> '''' \<and> slash \<notin> set p"
proof -
  obtain n ps where "qs = replicate n ''..'' @ ps" "list_all okPart ps" using assms(1) by (auto simp: canon_def)
  with assms(2) have "p = ''..'' \<or> okPart p" by (auto simp: list_all_iff split: if_splits)
  then show ?thesis by (auto simp: okPart_def)
qed

lemma renderPath_facts:
  assumes "canon r qs"
  shows "rooted (renderPath r qs) = r" and "rootParts (renderPath r qs) = qs" and "renderPath r qs \<noteq> ''''"
proof -
  have s: "splitOn slash (joinWith slash qs) = qs" if "qs \<noteq> []"
    by (rule split_join) (use that canon_part [OF assms] in auto)
  have n: "joinWith slash qs \<noteq> ''''" "\<not> rooted (joinWith slash qs)" if "qs \<noteq> []"
  proof -
    from that obtain p ps where p: "qs = p # ps" by (cases qs) auto
    with canon_part [OF assms, of p] obtain c cs where "p = c # cs" "c \<noteq> slash" by (cases p) auto
    with p show "joinWith slash qs \<noteq> ''''" "\<not> rooted (joinWith slash qs)"
      by (cases ps; simp add: rooted_def hasPrefix_def)+
  qed
  show "renderPath r qs \<noteq> ''''" by (simp add: renderPath_def Let_def)
  show r: "rooted (renderPath r qs) = r"
    using n by (cases "qs = []"; cases r) (simp_all add: renderPath_def rooted_def hasPrefix_def)
  show "rootParts (renderPath r qs) = qs"
    unfolding rootParts_def r using s n cleanParts_canon [OF assms]
    by (cases "qs = []"; cases r) (simp_all add: renderPath_def)
qed

lemma PathJoin_step:
  "canon r qs \<Longrightarrow> okPart c \<Longrightarrow> PathJoin (renderPath r qs) c = renderPath r (qs @ [c])"
  using PathJoin_ok [of "[c]"] by (simp add: renderPath_facts)

end
