(* ===== verification/Schema_Model.thy ===== *)
theory Schema_Model
  imports Go_Text "HOL-Library.Word"
begin

text \<open>
  The schema model of pluginapi/model.go and the plugin interface of pluginapi/plugin.go,
  with the field-width arithmetic of codegen/message_size.go. Structs are records whose
  selectors carry the struct's name; a pointer that may be nil is an \<open>option\<close>; the named
  string types \<open>FieldType\<close> and \<open>ParameterLocation\<close> are strings with named constants, as
  in the code; \<open>byte\<close> and \<open>uint16\<close> fields are words; \<open>int\<close> is \<^typ>\<open>int\<close> with 64-bit
  wrap-around (\<open>wrap64\<close>) where the code computes with it.
\<close>

section \<open>Field types and locations\<close>

type_synonym FieldType = string

definition FieldTypeU8 :: FieldType where [simp]: "FieldTypeU8 = ''u8''"
definition FieldTypeU16 :: FieldType where [simp]: "FieldTypeU16 = ''u16''"
definition FieldTypeU32 :: FieldType where [simp]: "FieldTypeU32 = ''u32''"
definition FieldTypeBool :: FieldType where [simp]: "FieldTypeBool = ''bool''"
definition FieldTypeASCII :: FieldType where [simp]: "FieldTypeASCII = ''ascii''"
definition FieldTypeString :: FieldType where [simp]: "FieldTypeString = ''string''"
definition FieldTypeBytes :: FieldType where [simp]: "FieldTypeBytes = ''bytes''"
definition FieldTypeBytesFixed :: FieldType where [simp]: "FieldTypeBytesFixed = ''bytes_fixed''"
definition FieldTypeStream :: FieldType where [simp]: "FieldTypeStream = ''stream''"

type_synonym ParameterLocation = string

definition ParameterLocationNone :: ParameterLocation where [simp]: "ParameterLocationNone = ''''"
definition ParameterLocationP1 :: ParameterLocation where [simp]: "ParameterLocationP1 = ''p1''"
definition ParameterLocationP2 :: ParameterLocation where [simp]: "ParameterLocationP2 = ''p2''"
definition ParameterLocationData :: ParameterLocation where [simp]: "ParameterLocationData = ''data''"

section \<open>Structs\<close>

record Applet =
  Applet_Name :: string
  Applet_Description :: string
  Applet_Version :: string
  Applet_AID :: string
  Applet_CLA :: "8 word"
  Applet_StreamWorkspace :: string
  Applet_StreamWorkspaceCleanup :: string

record Field =
  Field_Name :: string
  Field_Type :: FieldType
  Field_Length :: "int option"
  Field_FixedLength :: int
  Field_MaxLength :: int
  Field_ChunkSize :: int
  Field_Location :: ParameterLocation

record Message =
  Message_Fields :: "Field list"

record Method =
  Method_Name :: string
  Method_INS :: "8 word"
  Method_Description :: string
  Method_Request :: "Message option"
  Method_Response :: "Message option"
  Method_StreamMode :: string

record StatusWord =
  StatusWord_Name :: string
  StatusWord_Code :: "16 word"
  StatusWord_Description :: string

record Schema =
  Schema_Applet :: Applet
  Schema_Methods :: "(string, Method option) gomap"
  Schema_StatusWords :: "(string, StatusWord) gomap"

text \<open>The cleanup selectors and the per-method stream modes.\<close>

definition StreamWorkspaceCleanupWholeReplyArea :: string where
  [simp]: "StreamWorkspaceCleanupWholeReplyArea = ''whole-reply-area''"
definition StreamWorkspaceCleanupWrittenBytesOnly :: string where
  [simp]: "StreamWorkspaceCleanupWrittenBytesOnly = ''written-bytes-only''"
definition StreamWorkspaceCleanupAuthenticatedInvalidate :: string where
  [simp]: "StreamWorkspaceCleanupAuthenticatedInvalidate = ''authenticated-invalidate''"
definition StreamModePublicInvalidate :: string where
  [simp]: "StreamModePublicInvalidate = ''public-invalidate''"
definition StreamModeChunked :: string where
  [simp]: "StreamModeChunked = ''chunked''"

section \<open>Operations of the model\<close>

definition StreamField :: "Message option \<Rightarrow> Field option" where
  "StreamField m = (case m of None \<Rightarrow> None
     | Some msg \<Rightarrow> find (\<lambda>f. Field_Type f = FieldTypeStream) (Message_Fields msg))"

definition HasStream :: "Method option \<Rightarrow> bool" where
  "HasStream m = (case m of None \<Rightarrow> False
     | Some me \<Rightarrow> StreamField (Method_Request me) \<noteq> None \<or> StreamField (Method_Response me) \<noteq> None)"

definition WireSize :: "Field \<Rightarrow> int \<times> bool" where
  "WireSize f =
     (if Field_Type f = FieldTypeU8 \<or> Field_Type f = FieldTypeBool then (1, True)
      else if Field_Type f = FieldTypeU16 then (2, True)
      else if Field_Type f = FieldTypeU32 then (4, True)
      else if Field_Type f = FieldTypeBytesFixed then
        (if Field_FixedLength f > 0 then (Field_FixedLength f, True) else (0, False))
      else if Field_Type f = FieldTypeASCII then
        (case Field_Length f of Some l \<Rightarrow> if l > 0 then (l, True) else (0, False) | None \<Rightarrow> (0, False))
      else if Field_Type f = FieldTypeString \<or> Field_Type f = FieldTypeStream then (0, False)
      else if Field_Type f = FieldTypeBytes then
        (case Field_Length f of Some l \<Rightarrow> if l > 0 then (l, True) else (0, False) | None \<Rightarrow> (0, False))
      else (0, False))"

definition IsSingleByte :: "Field \<Rightarrow> bool" where
  "IsSingleByte f = (case WireSize f of (sz, ok) \<Rightarrow> ok \<and> sz = 1)"

text \<open>message_size.go: the running total is a Go \<open>int\<close> and wraps.\<close>

fun fixedMessageLengthFrom :: "int \<Rightarrow> Field list \<Rightarrow> int \<times> bool" where
  "fixedMessageLengthFrom tot [] = (tot, True)"
| "fixedMessageLengthFrom tot (fld # flds) =
     (case WireSize fld of (sz, fixed) \<Rightarrow>
        if \<not> fixed then (0, False) else fixedMessageLengthFrom (wrap64 (tot + sz)) flds)"

definition fixedMessageLength :: "Field list \<Rightarrow> int \<times> bool" where
  "fixedMessageLength flds = fixedMessageLengthFrom 0 flds"

definition responseFields :: "Message option \<Rightarrow> Field list" where
  "responseFields msg = (case msg of None \<Rightarrow> [] | Some m \<Rightarrow> Message_Fields m)"

text \<open>How many fields sit at a location.\<close>

definition countLoc :: "ParameterLocation \<Rightarrow> Field list \<Rightarrow> nat" where
  "countLoc l fs = length (filter (\<lambda>f. Field_Location f = l) fs)"

lemma countLoc_simps [simp]:
  "countLoc l [] = 0"
  "countLoc l (f # fs) = (if Field_Location f = l then Suc (countLoc l fs) else countLoc l fs)"
  by (simp_all add: countLoc_def)

section \<open>Plugins\<close>

text \<open>
  Options, generated files (a nil \<open>Data\<close> slice is \<open>None\<close>) and the plugin interface. The
  released target backends are other modules; a backend is a function of this type.
\<close>

record Options =
  Options_Namespace :: string
  Options_StreamMemory :: string
  Options_SimulatorDependency :: string

record File =
  File_Name :: string
  File_Data :: "string option"

type_synonym 'e Plugin = "Schema \<Rightarrow> Options \<Rightarrow> ('e, File list) result"

section \<open>Facts\<close>

lemma StreamField_Some_iff:
  "(StreamField m \<noteq> None) = (\<exists>msg. m = Some msg \<and> (\<exists>f\<in>set (Message_Fields msg). Field_Type f = FieldTypeStream))"
proof (cases m)
  case (Some msg)
  then show ?thesis
    using find_None_all [of "\<lambda>f. Field_Type f = FieldTypeStream" "Message_Fields msg"]
    by (simp add: StreamField_def del: not_None_eq)
qed (simp add: StreamField_def)

lemma StreamField_is_stream: "StreamField m = Some f \<Longrightarrow> Field_Type f = FieldTypeStream"
  by (auto simp: StreamField_def split: option.splits dest: find_SomeD)

lemma HasStream_simps [simp]:
  "HasStream None = False"
  "HasStream (Some me) = (StreamField (Method_Request me) \<noteq> None \<or> StreamField (Method_Response me) \<noteq> None)"
  by (simp_all add: HasStream_def)

text \<open>A width is reported as fixed only with a positive size, and \<open>0\<close> otherwise.\<close>

lemma WireSize_fixed_pos: "WireSize f = (n, True) \<Longrightarrow> 0 < n"
  by (auto simp: WireSize_def split: if_splits option.splits)

lemma WireSize_variable: "WireSize f = (n, False) \<Longrightarrow> n = 0"
  by (auto simp: WireSize_def split: if_splits option.splits)

text \<open>The exact total, without the wrap-around, as the IDL document means it.\<close>

definition declaredWidth :: "Field list \<Rightarrow> int" where
  "declaredWidth fs = sum_list (map (fst \<circ> WireSize) fs)"

definition allFixed :: "Field list \<Rightarrow> bool" where
  "allFixed fs \<longleftrightarrow> (\<forall>f\<in>set fs. snd (WireSize f))"

lemma fixedMessageLengthFrom_snd: "snd (fixedMessageLengthFrom t fs) = allFixed fs"
  by (induction t fs rule: fixedMessageLengthFrom.induct) (auto simp: allFixed_def split: prod.splits)

lemma wrap64_add_left: "wrap64 (wrap64 a + b) = wrap64 (a + b)"
proof -
  have "(wrap64 a + b + 2 ^ 63) mod 2 ^ 64 = (a + b + 2 ^ 63) mod (2 ^ 64 :: int)"
    unfolding wrap64_def by (simp add: mod_simps algebra_simps)
  then show ?thesis by (simp add: wrap64_def)
qed

lemma fixedMessageLengthFrom_wrap:
  "allFixed fs \<Longrightarrow> fixedMessageLengthFrom (wrap64 t) fs = (wrap64 (t + declaredWidth fs), True)"
proof (induction fs arbitrary: t)
  case Nil
  then show ?case by (simp add: declaredWidth_def)
next
  case (Cons f fs)
  from Cons.prems have "snd (WireSize f)" and fs: "allFixed fs" by (auto simp: allFixed_def)
  then obtain n where w: "WireSize f = (n, True)" by (metis prod.collapse)
  have "fixedMessageLengthFrom (wrap64 t) (f # fs) = fixedMessageLengthFrom (wrap64 (t + n)) fs"
    by (simp add: w wrap64_add_left)
  also have "\<dots> = (wrap64 (t + n + declaredWidth fs), True)" by (rule Cons.IH [OF fs])
  finally show ?case by (simp add: w declaredWidth_def add.assoc)
qed

end
