(* ===== verification/Seen_Table.thy ===== *)
theory Seen_Table
  imports Prelude
begin

text \<open>
  The "first use wins" tables of the code: \<open>methodNameSeen\<close>, \<open>insSeen\<close>,
  \<open>statusNameSeen\<close> and \<open>codeSeen\<close> of validator.go, \<open>seen\<close> of package_files.go and of
  manifest.go. All of them look a key up, report a conflict that cites the stored value,
  and store a value only for a key that is not there yet. The interface is the locale
  \<open>seen_table\<close>; its client lemmas are proved once there and used through the
  interpretation \<open>go_table\<close> on the model's tables.
\<close>

section \<open>Tables as Go maps\<close>

type_synonym ('k, 'v) table = "('k \<times> 'v) list"

definition tbl_empty :: "('k, 'v) table" where
  "tbl_empty = []"

definition tbl_get :: "('k, 'v) table \<Rightarrow> 'k \<Rightarrow> 'v option" where
  "tbl_get t k = map_of t k"

fun tbl_put :: "('k, 'v) table \<Rightarrow> 'k \<Rightarrow> 'v \<Rightarrow> ('k, 'v) table" where
  "tbl_put [] k v = [(k, v)]"
| "tbl_put ((a, b) # t) k v = (if a = k then (k, v) # t else (a, b) # tbl_put t k v)"

lemma tbl_get_empty [simp]: "tbl_get tbl_empty k = None"
  by (simp add: tbl_get_def tbl_empty_def)

lemma tbl_get_put: "tbl_get (tbl_put t k v) x = (if x = k then Some v else tbl_get t x)"
  by (induction t k v rule: tbl_put.induct) (auto simp: tbl_get_def)

section \<open>Claiming keys in order\<close>

text \<open>
  One pass over a list of claims \<open>(key, value)\<close>: a key that is taken is a conflict with
  the value stored for it, a free key is stored.
\<close>

fun claimAll :: "('t \<Rightarrow> 'k \<Rightarrow> 'v option) \<Rightarrow> ('t \<Rightarrow> 'k \<Rightarrow> 'v \<Rightarrow> 't) \<Rightarrow> 't \<Rightarrow> ('k \<times> 'v) list \<Rightarrow> 't" where
  "claimAll get put t [] = t"
| "claimAll get put t ((k, v) # cs) =
     claimAll get put (case get t k of None \<Rightarrow> put t k v | Some w \<Rightarrow> t) cs"

fun conflicts :: "('t \<Rightarrow> 'k \<Rightarrow> 'v option) \<Rightarrow> ('t \<Rightarrow> 'k \<Rightarrow> 'v \<Rightarrow> 't) \<Rightarrow> 't \<Rightarrow> ('k \<times> 'v) list \<Rightarrow>
    ('k \<times> 'v \<times> 'v) list" where
  "conflicts get put t [] = []"
| "conflicts get put t ((k, v) # cs) =
     (case get t k of None \<Rightarrow> conflicts get put (put t k v) cs
      | Some w \<Rightarrow> (k, v, w) # conflicts get put t cs)"

locale seen_table =
  fixes get :: "'t \<Rightarrow> 'k \<Rightarrow> 'v option"
    and put :: "'t \<Rightarrow> 'k \<Rightarrow> 'v \<Rightarrow> 't"
    and emp :: "'t"
  assumes get_emp: "get emp k = None"
    and get_put: "get (put t k v) x = (if x = k then Some v else get t x)"
begin

lemma get_claimAll:
  "get (claimAll get put t cs) x = (case get t x of Some w \<Rightarrow> Some w | None \<Rightarrow> map_of cs x)"
proof (induction cs arbitrary: t)
  case Nil
  then show ?case by (simp split: option.split)
next
  case (Cons c cs)
  obtain k v where c: "c = (k, v)" by (cases c)
  show ?case
    by (cases "get t k") (auto simp: c Cons.IH get_put split: option.split)
qed

lemma claimAll_first: "get (claimAll get put emp cs) x = map_of cs x"
  by (simp add: get_claimAll get_emp)

lemma claimAll_append: "claimAll get put t (cs @ ds) = claimAll get put (claimAll get put t cs) ds"
  by (induction cs arbitrary: t) auto

lemma conflicts_append:
  "conflicts get put t (cs @ ds) = conflicts get put t cs @ conflicts get put (claimAll get put t cs) ds"
proof (induction cs arbitrary: t)
  case (Cons c cs)
  obtain k v where "c = (k, v)" by (cases c)
  then show ?case by (cases "get t k") (auto simp: Cons.IH)
qed simp

lemma no_conflicts_iff:
  "conflicts get put t cs = [] \<longleftrightarrow> distinct (map fst cs) \<and> (\<forall>k\<in>set (map fst cs). get t k = None)"
proof (induction cs arbitrary: t)
  case (Cons c cs)
  obtain k v where c: "c = (k, v)" by (cases c)
  show ?case
    by (cases "get t k") (auto simp: c Cons.IH get_put split: if_splits)
qed simp

lemma no_conflicts_emp: "conflicts get put emp cs = [] \<longleftrightarrow> distinct (map fst cs)"
  by (simp add: no_conflicts_iff get_emp)

lemma conflict_cites_first:
  "map_of cs k = Some w \<Longrightarrow> (k, v, w) \<in> set (conflicts get put emp (cs @ (k, v) # ds))"
  by (simp add: conflicts_append claimAll_first)

end

interpretation go_table: seen_table tbl_get tbl_put tbl_empty
  by unfold_locales (simp_all add: tbl_get_put)

end
