(* ===== verification/Package_Files.thy ===== *)
theory Package_Files
  imports Go_Path Schema_Model Seen_Table "HOL-Library.Sublist"
begin

text \<open>
  codegen/cmd/jcrpc-gen/package_files.go: the check of a returned package before any
  directory or file is created. \<open>lstat\<close> is the file system of the host. The loop over the
  parents of a name is a \<open>partial_function\<close>: it would not end on a rooted path, and it ends on
  the names that passed the first loop.
\<close>

section \<open>Definitions\<close>

text \<open>\<open>os.Lstat\<close>: the entry exists (a symlink or not), is absent, has a parent that is not a
  directory, or cannot be inspected (a \<open>PathError\<close> with its text).\<close>

datatype LstatResult = Exists bool | NotExist | NotDirectory | StatFailed string

datatype PackageError =
    EmptyPackage
  | InvalidPath string
  | DuplicatePath string
  | NilData string
  | FileDirectoryConflict string
  | InspectFailed string
  | SymlinkOutputPath string

definition nameAccepted :: "string \<Rightarrow> bool" where
  "nameAccepted name \<longleftrightarrow>
     \<not> (\<not> ValidPath name \<or> name = ''.'' \<or> CHR 0x00 \<in> set name
        \<or> \<not> IsLocal (FromSlash name) \<or> ToSlash name \<noteq> name)"

text \<open>The first loop: names and data, with the table \<open>seen\<close>.\<close>

fun packageNames :: "(string, bool) table \<Rightarrow> File list \<Rightarrow> (PackageError, (string, bool) table) result" where
  "packageNames seen [] = Inr seen"
| "packageNames seen (f # fs) =
     (if \<not> nameAccepted (File_Name f) then Inl (InvalidPath (File_Name f))
      else if tbl_get seen (File_Name f) = Some True then Inl (DuplicatePath (File_Name f))
      else if File_Data f = None then Inl (NilData (File_Name f))
      else packageNames (tbl_put seen (File_Name f) True) fs)"

partial_function (option) parentConflict :: "(string, bool) table \<Rightarrow> string \<Rightarrow> string option option" where
  "parentConflict seen parent =
     (if parent = ''.'' then Some None
      else if tbl_get seen parent = Some True then Some (Some parent)
      else parentConflict seen (PathDir parent))"

declare parentConflict.simps [code]

text \<open>The walk from the root along the components of a name.\<close>

fun symlinkWalk :: "(string \<Rightarrow> LstatResult) \<Rightarrow> string \<Rightarrow> string list \<Rightarrow> (PackageError, unit) result" where
  "symlinkWalk lstat path [] = Inr ()"
| "symlinkWalk lstat path (component # components) =
     (let path' = (if component \<noteq> '''' then PathJoin path component else path) in
      case lstat path' of
        NotExist \<Rightarrow> Inr ()
      | NotDirectory \<Rightarrow> Inr ()
      | StatFailed e \<Rightarrow> Inl (InspectFailed e)
      | Exists symlink \<Rightarrow>
          if symlink then Inl (SymlinkOutputPath path') else symlinkWalk lstat path' components)"

text \<open>The second loop; the outer option is \<open>None\<close> when a parent loop does not end.\<close>

fun packagePlaces :: "(string \<Rightarrow> LstatResult) \<Rightarrow> string \<Rightarrow> (string, bool) table \<Rightarrow> File list \<Rightarrow>
    (PackageError, unit) result option" where
  "packagePlaces lstat root seen [] = Some (Inr ())"
| "packagePlaces lstat root seen (f # fs) =
     Option.bind (parentConflict seen (PathDir (File_Name f)))
       (\<lambda>conflict. case conflict of
          Some parent \<Rightarrow> Some (Inl (FileDirectoryConflict parent))
        | None \<Rightarrow>
            (case symlinkWalk lstat root ('''' # splitOn slash (File_Name f)) of
               Inl e \<Rightarrow> Some (Inl e)
             | Inr _ \<Rightarrow> packagePlaces lstat root seen fs))"

definition validatePackageFiles :: "(string \<Rightarrow> LstatResult) \<Rightarrow> string \<Rightarrow> File list \<Rightarrow>
    (PackageError, unit) result option" where
  "validatePackageFiles lstat root fs =
     (if length fs = 0 then Some (Inl EmptyPackage)
      else case packageNames tbl_empty fs of
        Inl e \<Rightarrow> Some (Inl e)
      | Inr seen \<Rightarrow> packagePlaces lstat root seen fs)"

section \<open>The contract of a package\<close>

text \<open>What the comment on \<open>File\<close> in pluginapi/plugin.go asks of a package: canonical relative
  names, data, no duplicates, no name that is a directory of another.\<close>

definition fileParts :: "File \<Rightarrow> string list" where
  "fileParts f = splitOn slash (File_Name f)"

definition canonicalName :: "string \<Rightarrow> bool" where
  "canonicalName name \<longleftrightarrow> validString name \<and> CHR 0x00 \<notin> set name \<and> list_all okPart (splitOn slash name)"

definition packageWF :: "File list \<Rightarrow> bool" where
  "packageWF fs \<longleftrightarrow> fs \<noteq> []
     \<and> (\<forall>f\<in>set fs. canonicalName (File_Name f) \<and> File_Data f \<noteq> None)
     \<and> distinct (map File_Name fs)
     \<and> (\<forall>f\<in>set fs. \<forall>g\<in>set fs. \<not> strict_prefix (fileParts f) (fileParts g))"

section \<open>The first loop\<close>

lemma nameAccepted_iff: "nameAccepted name \<longleftrightarrow> canonicalName name"
proof
  assume "nameAccepted name"
  then have "ValidPath name" "name \<noteq> ''.''" "CHR 0x00 \<notin> set name" by (auto simp: nameAccepted_def)
  then show "canonicalName name"
    using ValidPath_parts [of name] by (simp add: canonicalName_def ValidPath_def)
next
  assume c: "canonicalName name"
  then have ok: "list_all okPart (splitOn slash name)" by (simp add: canonicalName_def)
  have v: "ValidPath name" using c by (auto simp: ValidPath_def canonicalName_def list_all_iff okPart_def)
  have "name \<noteq> ''.''"
  proof
    assume "name = ''.''"
    with ok show False by (simp add: okPart_def)
  qed
  with v show "nameAccepted name"
    using ValidPath_local [OF v] c by (simp add: nameAccepted_def canonicalName_def FromSlash_def ToSlash_def)
qed

lemma packageNames_Inr_iff:
  "packageNames seen fs = Inr seen' \<longleftrightarrow>
     (\<forall>f\<in>set fs. canonicalName (File_Name f) \<and> File_Data f \<noteq> None \<and> tbl_get seen (File_Name f) \<noteq> Some True)
     \<and> distinct (map File_Name fs)
     \<and> seen' = foldl (\<lambda>t f. tbl_put t (File_Name f) True) seen fs"
proof (induction fs arbitrary: seen)
  case (Cons f fs)
  show ?case
    by (auto simp: Cons.IH nameAccepted_iff tbl_get_put) (metis image_eqI)
qed auto

lemma seen_after:
  "tbl_get (foldl (\<lambda>t f. tbl_put t (File_Name f) True) seen fs) x =
     (if x \<in> File_Name ` set fs then Some True else tbl_get seen x)"
  by (induction fs arbitrary: seen) (auto simp: tbl_get_put)

section \<open>The parent loop\<close>

lemma parentConflict_parts:
  assumes "list_all okPart ps"
  shows "parentConflict seen (relPath ps) =
    Some (map_option relPath (find (\<lambda>qs. tbl_get seen (relPath qs) = Some True) (rev (map (\<lambda>n. take (Suc n) ps) [0..<length ps]))))"
  using assms
proof (induction ps rule: rev_induct)
  case Nil
  then show ?case by (simp add: parentConflict.simps relPath_def)
next
  case (snoc p ps)
  then have ok: "list_all okPart (ps @ [p])" "okPart p" "list_all okPart ps" by auto
  have "relPath (ps @ [p]) \<noteq> ''.''"
  proof
    assume a: "relPath (ps @ [p]) = ''.''"
    have "ps @ [p] = splitOn slash (relPath (ps @ [p]))"
      using ok by (simp add: relPath_def split_join_ok del: append_is_Nil_conv)
    also have "\<dots> = [''.'']" by (simp add: a)
    finally show False using ok by (simp add: okPart_def)
  qed
  moreover have "PathDir (relPath (ps @ [p])) = relPath ps"
    using PathDir_ok [of "ps @ [p]"] ok by (simp add: relPath_def)
  moreover have m: "map (\<lambda>n. take (Suc n) (ps @ [p])) [0..<length ps] = map (\<lambda>n. take (Suc n) ps) [0..<length ps]"
    by (rule map_cong) auto
  ultimately show ?case
    using snoc.IH ok by (subst parentConflict.simps) (simp add: m del: take_append map_eq_conv)
qed

lemma canonicalName_relPath: "canonicalName name \<Longrightarrow> relPath (splitOn slash name) = name"
  by (simp add: relPath_def join_split)

lemma relPath_split: "ps \<noteq> [] \<Longrightarrow> list_all okPart ps \<Longrightarrow> splitOn slash (relPath ps) = ps"
  by (simp add: relPath_def split_join_ok)

text \<open>The parents of a name are the proper non-empty prefixes of its components.\<close>

lemma strict_prefix_take:
  "qs \<noteq> [] \<and> strict_prefix qs ps \<longleftrightarrow> (\<exists>n<length ps - 1. qs = take (Suc n) ps)"
proof
  assume "qs \<noteq> [] \<and> strict_prefix qs ps"
  then obtain zs where "qs \<noteq> []" "ps = qs @ zs" "zs \<noteq> []" by (auto simp: strict_prefix_def prefix_def)
  then have "length qs - 1 < length ps - 1 \<and> qs = take (Suc (length qs - 1)) ps"
    by (cases qs; cases zs) auto
  then show "\<exists>n<length ps - 1. qs = take (Suc n) ps" by blast
next
  assume "\<exists>n<length ps - 1. qs = take (Suc n) ps"
  then obtain n where n: "n < length ps - 1" "qs = take (Suc n) ps" by blast
  then have "length qs < length ps" "prefix qs ps" "qs \<noteq> []" by (auto simp: take_is_prefix)
  then show "qs \<noteq> [] \<and> strict_prefix qs ps" by (auto simp: strict_prefix_def)
qed

lemma parentConflict_name:
  assumes "canonicalName name"
  obtains c where "parentConflict seen (PathDir name) = Some c"
    and "c = None \<longleftrightarrow> (\<forall>qs. qs \<noteq> [] \<and> strict_prefix qs (splitOn slash name) \<longrightarrow> tbl_get seen (relPath qs) \<noteq> Some True)"
    and "\<And>parent. c = Some parent \<Longrightarrow> tbl_get seen parent = Some True"
proof -
  let ?ps = "splitOn slash name"
  let ?P = "\<lambda>qs. tbl_get seen (relPath qs) = Some True"
  have ok: "list_all okPart ?ps" using assms by (simp add: canonicalName_def)
  then have bl: "list_all okPart (butlast ?ps)" by (auto simp: list_all_iff dest: in_set_butlastD)
  define L where "L = rev (map (\<lambda>n. take (Suc n) (butlast ?ps)) [0..<length (butlast ?ps)])"
  have "take (Suc n) (butlast ?ps) = take (Suc n) ?ps" if "n < length ?ps - 1" for n
    using that by (simp add: butlast_conv_take min_def)
  then have L: "set L = {qs. qs \<noteq> [] \<and> strict_prefix qs ?ps}"
    unfolding strict_prefix_take L_def by (auto simp: image_iff)
  have "PathDir name = relPath (butlast ?ps)"
    using PathDir_ok [OF splitOn_not_Nil ok] by (simp add: join_split)
  then have e: "parentConflict seen (PathDir name) = Some (map_option relPath (find ?P L))"
    using parentConflict_parts [OF bl] by (simp add: L_def)
  show thesis
  proof (rule that [OF e])
    show "map_option relPath (find ?P L) = None \<longleftrightarrow>
      (\<forall>qs. qs \<noteq> [] \<and> strict_prefix qs ?ps \<longrightarrow> tbl_get seen (relPath qs) \<noteq> Some True)"
      using L by (simp add: find_None_all)
    show "tbl_get seen parent = Some True" if "map_option relPath (find ?P L) = Some parent" for parent
      using that by (auto dest: find_SomeD)
  qed
qed

section \<open>The symlink walk\<close>

text \<open>The \<open>k\<close>-th path of the walk, and what the walk requires of the file system.\<close>

definition walkPath :: "string \<Rightarrow> string list \<Rightarrow> nat \<Rightarrow> string" where
  "walkPath root ps k = (if k = 0 then root else renderPath (rooted root) (rootParts root @ take k ps))"

text \<open>From the \<open>k\<close>-th path on, every path whose predecessors exist is absent or no symlink.\<close>

definition clearFrom :: "(nat \<Rightarrow> LstatResult) \<Rightarrow> nat \<Rightarrow> nat \<Rightarrow> bool" where
  "clearFrom look n k \<longleftrightarrow>
     (\<forall>i. k \<le> i \<and> i \<le> n \<and> (\<forall>j. k \<le> j \<and> j < i \<longrightarrow> (\<exists>b. look j = Exists b)) \<longrightarrow>
        look i \<in> {Exists False, NotExist, NotDirectory})"

definition walkClear :: "(string \<Rightarrow> LstatResult) \<Rightarrow> string \<Rightarrow> string list \<Rightarrow> bool" where
  "walkClear lstat root ps \<longleftrightarrow> clearFrom (\<lambda>k. lstat (walkPath root ps k)) (length ps) 0"

lemma clearFromI:
  "(\<And>i. k \<le> i \<Longrightarrow> i \<le> n \<Longrightarrow> \<forall>j. k \<le> j \<and> j < i \<longrightarrow> (\<exists>b. look j = Exists b) \<Longrightarrow>
      look i \<in> {Exists False, NotExist, NotDirectory}) \<Longrightarrow> clearFrom look n k"
  unfolding clearFrom_def by blast

lemma clearFromD:
  "clearFrom look n k \<Longrightarrow> k \<le> i \<Longrightarrow> i \<le> n \<Longrightarrow> \<forall>j. k \<le> j \<and> j < i \<longrightarrow> (\<exists>b. look j = Exists b) \<Longrightarrow>
   look i \<in> {Exists False, NotExist, NotDirectory}"
  unfolding clearFrom_def by blast

lemma clearFrom_step:
  assumes "k \<le> n"
  shows "clearFrom look n k \<longleftrightarrow>
    (case look k of Exists b \<Rightarrow> \<not> b \<and> clearFrom look n (Suc k) | NotExist \<Rightarrow> True | NotDirectory \<Rightarrow> True
     | StatFailed _ \<Rightarrow> False)" (is "?L \<longleftrightarrow> ?R")
proof
  assume c: ?L
  have G: "look k \<in> {Exists False, NotExist, NotDirectory}"
    by (rule clearFromD [OF c]) (use assms in auto)
  have "clearFrom look n (Suc k)" if b: "look k = Exists b" for b
  proof (rule clearFromI)
    fix i assume i: "Suc k \<le> i" "i \<le> n" "\<forall>j. Suc k \<le> j \<and> j < i \<longrightarrow> (\<exists>b. look j = Exists b)"
    have "\<forall>j. k \<le> j \<and> j < i \<longrightarrow> (\<exists>b. look j = Exists b)"
    proof (intro allI impI)
      fix j assume "k \<le> j \<and> j < i"
      then show "\<exists>b. look j = Exists b" using b i(3) by (cases "j = k") auto
    qed
    then show "look i \<in> {Exists False, NotExist, NotDirectory}"
      using c i(1,2) by (intro clearFromD [of look n k]) auto
  qed
  with G show ?R by (auto split: LstatResult.split)
next
  assume r: ?R
  show ?L
  proof (rule clearFromI)
    fix i assume i: "k \<le> i" "i \<le> n" "\<forall>j. k \<le> j \<and> j < i \<longrightarrow> (\<exists>b. look j = Exists b)"
    show "look i \<in> {Exists False, NotExist, NotDirectory}"
    proof (cases "i = k")
      case True
      with r show ?thesis by (auto split: LstatResult.splits)
    next
      case False
      with i obtain b where "look k = Exists b" by (metis le_eq_less_or_eq order_refl)
      with r have "clearFrom look n (Suc k)" by simp
      then show ?thesis by (rule clearFromD) (use i False in auto)
    qed
  qed
qed

lemma clearFrom_end: "n < k \<Longrightarrow> clearFrom look n k"
  by (auto simp: clearFrom_def)

lemma walkPath_Suc:
  assumes "list_all okPart ps" "k < length ps"
  shows "PathJoin (walkPath root ps k) (ps ! k) = walkPath root ps (Suc k)"
proof -
  have o: "okPart (ps ! k)" "list_all okPart (take k ps)"
    using assms by (auto simp: list_all_length list_all_iff dest: in_set_takeD)
  show ?thesis
  proof (cases "k = 0")
    case True
    then show ?thesis
      using PathJoin_ok [of "[ps ! 0]" root] o assms(2) by (simp add: walkPath_def take_Suc_conv_app_nth)
  next
    case False
    have "canon (rooted root) (rootParts root @ take k ps)" by (rule canon_append_ok [OF canon_rootParts o(2)])
    from PathJoin_step [OF this o(1)] show ?thesis
      using False assms(2) by (simp add: walkPath_def take_Suc_conv_app_nth)
  qed
qed

lemma symlinkWalk_drop:
  assumes "list_all okPart ps" "k \<le> length ps"
  shows "\<not> isl (symlinkWalk lstat (walkPath root ps k) (drop k ps)) \<longleftrightarrow>
    clearFrom (\<lambda>k. lstat (walkPath root ps k)) (length ps) (Suc k)"
  using assms(2)
proof (induction "length ps - k" arbitrary: k)
  case 0
  then show ?case by (simp add: clearFrom_end)
next
  case (Suc n)
  from Suc.hyps(2) have k: "k < length ps" by simp
  then have d: "drop k ps = ps ! k # drop (Suc k) ps" by (simp add: Cons_nth_drop_Suc)
  have ne: "ps ! k \<noteq> ''''" using assms(1) k by (auto simp: list_all_length okPart_def)
  have "\<not> isl (symlinkWalk lstat (walkPath root ps (Suc k)) (drop (Suc k) ps)) \<longleftrightarrow>
    clearFrom (\<lambda>k. lstat (walkPath root ps k)) (length ps) (Suc (Suc k))"
    using Suc.hyps k by (intro Suc.hyps(1)) simp_all
  then show ?case
    using k by (simp add: d ne walkPath_Suc [OF assms(1) k, of root] clearFrom_step Let_def split: LstatResult.split)
qed

lemma symlinkWalk_clear:
  assumes "list_all okPart ps"
  shows "\<not> isl (symlinkWalk lstat root ('''' # ps)) \<longleftrightarrow> walkClear lstat root ps"
  using symlinkWalk_drop [OF assms, of 0 lstat root]
  by (simp add: walkClear_def clearFrom_step walkPath_def Let_def split: LstatResult.split)

section \<open>The whole check\<close>

lemma packagePlaces_total: 
  assumes "\<forall>f\<in>set fs. canonicalName (File_Name f)"
  obtains r where "packagePlaces lstat root seen fs = Some r"
    and "\<not> isl r \<longleftrightarrow> (\<forall>f\<in>set fs. walkClear lstat root (fileParts f) \<and>
      (\<forall>qs. qs \<noteq> [] \<and> strict_prefix qs (fileParts f) \<longrightarrow> tbl_get seen (relPath qs) \<noteq> Some True))"
  using assms
proof (induction fs arbitrary: thesis)
  case Nil
  then show ?case by simp
next
  case (Cons f fs)
  then have f: "canonicalName (File_Name f)" by simp
  from Cons obtain r where r: "packagePlaces lstat root seen fs = Some r"
    "\<not> isl r \<longleftrightarrow> (\<forall>f\<in>set fs. walkClear lstat root (fileParts f) \<and>
      (\<forall>qs. qs \<noteq> [] \<and> strict_prefix qs (fileParts f) \<longrightarrow> tbl_get seen (relPath qs) \<noteq> Some True))"
    by (metis list.set_intros(2))
  obtain c where c: "parentConflict seen (PathDir (File_Name f)) = Some c"
    "c = None \<longleftrightarrow> (\<forall>qs. qs \<noteq> [] \<and> strict_prefix qs (fileParts f) \<longrightarrow> tbl_get seen (relPath qs) \<noteq> Some True)"
    unfolding fileParts_def by (rule parentConflict_name [OF f])
  have w: "\<not> isl (symlinkWalk lstat root ('''' # fileParts f)) \<longleftrightarrow> walkClear lstat root (fileParts f)"
    by (rule symlinkWalk_clear) (use f in \<open>simp add: canonicalName_def fileParts_def\<close>)
  show ?case
  proof (cases c)
    case (Some parent)
    with c show ?thesis by (intro Cons.prems(1) [of "Inl (FileDirectoryConflict parent)"]) auto
  next
    case None
    show ?thesis
    proof (cases "symlinkWalk lstat root ('''' # fileParts f)")
      case (Inl e)
      then show ?thesis
        using c(1) w None by (intro Cons.prems(1) [of "Inl e"]) (auto simp: fileParts_def simp del: symlinkWalk.simps)
    next
      case (Inr u)
      then show ?thesis
        using c r w None by (intro Cons.prems(1) [of r]) (auto simp: fileParts_def simp del: symlinkWalk.simps)
    qed
  qed
qed

lemma validatePackageFiles_decides:
  obtains r where "validatePackageFiles lstat root fs = Some r"
    and "\<not> isl r \<longleftrightarrow> packageWF fs \<and> (\<forall>f\<in>set fs. walkClear lstat root (fileParts f))"
proof (cases "fs = [] \<or> isl (packageNames tbl_empty fs)")
  case True
  have "\<not> packageWF fs"
  proof
    assume "packageWF fs"
    then have "fs \<noteq> []" "packageNames tbl_empty fs = Inr (foldl (\<lambda>t f. tbl_put t (File_Name f) True) tbl_empty fs)"
      unfolding packageNames_Inr_iff by (auto simp: packageWF_def)
    with True show False by simp
  qed
  with True show thesis
    by (cases "packageNames tbl_empty fs"; cases "fs = []")
       (auto simp: validatePackageFiles_def intro: that [of "Inl EmptyPackage"] that [of "Inl e" for e])
next
  case False
  then obtain seen where seen: "packageNames tbl_empty fs = Inr seen" by (cases "packageNames tbl_empty fs") auto
  note n = seen [unfolded packageNames_Inr_iff]
  then have look: "tbl_get seen x = Some True \<longleftrightarrow> x \<in> File_Name ` set fs" for x by (simp add: seen_after)
  have ok: "canonicalName (File_Name f)" "list_all okPart (fileParts f)" if "f \<in> set fs" for f
    using n that by (auto simp: canonicalName_def fileParts_def)
  obtain r where r: "packagePlaces lstat root seen fs = Some r"
    "\<not> isl r \<longleftrightarrow> (\<forall>f\<in>set fs. walkClear lstat root (fileParts f) \<and>
      (\<forall>qs. qs \<noteq> [] \<and> strict_prefix qs (fileParts f) \<longrightarrow> tbl_get seen (relPath qs) \<noteq> Some True))"
    by (rule packagePlaces_total) (use ok in auto)
  have "(\<forall>qs. qs \<noteq> [] \<and> strict_prefix qs (fileParts f) \<longrightarrow> tbl_get seen (relPath qs) \<noteq> Some True) \<longleftrightarrow>
      (\<forall>g\<in>set fs. \<not> strict_prefix (fileParts g) (fileParts f))" if f: "f \<in> set fs" for f
  proof (intro iffI allI ballI impI notI)
    fix g assume a: "\<forall>qs. qs \<noteq> [] \<and> strict_prefix qs (fileParts f) \<longrightarrow> tbl_get seen (relPath qs) \<noteq> Some True"
      and g: "g \<in> set fs" "strict_prefix (fileParts g) (fileParts f)"
    have "relPath (fileParts g) = File_Name g"
      using ok(1) [OF g(1)] by (simp add: fileParts_def canonicalName_relPath)
    moreover have "fileParts g \<noteq> []" by (simp add: fileParts_def)
    ultimately show False using a g look by (metis image_eqI)
  next
    fix qs assume a: "\<forall>g\<in>set fs. \<not> strict_prefix (fileParts g) (fileParts f)"
      and q: "qs \<noteq> [] \<and> strict_prefix qs (fileParts f)" and s: "tbl_get seen (relPath qs) = Some True"
    from s obtain g where g: "g \<in> set fs" "File_Name g = relPath qs" by (auto simp: look)
    have "list_all okPart qs" using q ok(2) [OF f] by (auto simp: strict_prefix_def prefix_def)
    then have "fileParts g = qs" using q g(2) by (simp add: fileParts_def relPath_split)
    with a g q show False by blast
  qed
  then have "\<not> isl r \<longleftrightarrow> packageWF fs \<and> (\<forall>f\<in>set fs. walkClear lstat root (fileParts f))"
    using r(2) n False by (auto simp: packageWF_def)
  with False seen r(1) show thesis
    by (intro that [of r]) (auto simp: validatePackageFiles_def)
qed

end
