(* ===== verification/Idl_Parser.thy ===== *)
theory Idl_Parser
  imports Schema_Model
begin

text \<open>
  codegen/parser.go: from the decoded TOML document (the raw structs) to the normalised
  \<open>Schema\<close>. The TOML decoder is a third-party module and a parameter of \<open>Parse\<close>; so is
  opening a file. Error values carry what the code formats into the message: the path, the
  offending value, the wrapped error. A \<open>range\<close> over a Go map follows the order of the
  list that models the map.
\<close>

section \<open>Raw structs and errors\<close>

record rawApplet =
  rawApplet_Name :: string
  rawApplet_Description :: string
  rawApplet_Version :: string
  rawApplet_AID :: string
  rawApplet_CLA :: int
  rawApplet_StreamWorkspace :: string
  rawApplet_StreamWorkspaceCleanup :: string

record rawField =
  rawField_Name :: string
  rawField_Type :: string
  rawField_Length :: "int option"
  rawField_MaxLength :: "int option"
  rawField_ChunkSize :: "int option"
  rawField_Location :: string

record rawMessage =
  rawMessage_Fields :: "rawField list"

record rawMethod =
  rawMethod_INS :: int
  rawMethod_Description :: string
  rawMethod_StreamMode :: string
  rawMethod_Request :: "rawMessage option"
  rawMethod_Response :: "rawMessage option"

record rawStatusWord =
  rawStatusWord_Code :: int
  rawStatusWord_Description :: string

record rawSchema =
  rawSchema_Applet :: rawApplet
  rawSchema_Methods :: "(string, rawMethod) gomap"
  rawSchema_StatusWords :: "(string, rawStatusWord) gomap"

datatype TypeError = InvalidFixedBytesLength string | UnsupportedFieldType string

datatype LocationError = DuplicateP1 | DuplicateP2 | UnsupportedRequestLocation string

datatype NormalizeError =
    OutOfByteRange string int
  | OutOfUint16Range string int
  | BadFieldType string TypeError
  | LengthUnsupported string
  | LengthNotPositive string
  | StreamBoundsUnsupported string
  | BadLocation string
  | BadRequestLocations string LocationError

section \<open>Scalar checks\<close>

definition mustByte :: "int \<Rightarrow> string \<Rightarrow> (NormalizeError, 8 word) result" where
  "mustByte v path = (if v < 0 \<or> v > 0xFF then Inl (OutOfByteRange path v) else Inr (word_of_int v))"

definition mustUint16 :: "int \<Rightarrow> string \<Rightarrow> (NormalizeError, 16 word) result" where
  "mustUint16 v path = (if v < 0 \<or> v > 0xFFFF then Inl (OutOfUint16Range path v) else Inr (word_of_int v))"

text \<open>\<open>cloneIntPtr\<close> copies the pointee; the model's option is already a value.\<close>

definition cloneIntPtr :: "int option \<Rightarrow> int option" where
  "cloneIntPtr v = (case v of None \<Rightarrow> None | Some vv \<Rightarrow> Some vv)"

section \<open>Field types and locations\<close>

text \<open>The submatch of \<open>^bytes\[(\d+)\]$\<close>.\<close>

definition bytesFixedTypeMatch :: "string \<Rightarrow> string option" where
  "bytesFixedTypeMatch t =
     (if take 6 t = ''bytes['' \<and> last t = CHR '']'' then
        (let d = butlast (drop 6 t) in if d \<noteq> [] \<and> list_all isDigit d then Some d else None)
      else None)"

definition parseFieldType :: "string \<Rightarrow> (TypeError, FieldType \<times> int) result" where
  "parseFieldType t =
     (let trimmed = TrimSpace t in
      if trimmed \<in> set [FieldTypeU8, FieldTypeU16, FieldTypeU32, FieldTypeBool, FieldTypeASCII,
                        FieldTypeString, FieldTypeBytes, FieldTypeStream]
      then Inr (trimmed, 0)
      else case bytesFixedTypeMatch trimmed of
             Some m1 \<Rightarrow> (case Atoi m1 of
                           None \<Rightarrow> Inl (InvalidFixedBytesLength m1)
                         | Some n \<Rightarrow> Inr (FieldTypeBytesFixed, n))
           | None \<Rightarrow> Inl (UnsupportedFieldType t))"

definition isP1P2CompatibleFieldType :: "FieldType \<Rightarrow> bool" where
  "isP1P2CompatibleFieldType t \<longleftrightarrow> t = FieldTypeU8 \<or> t = FieldTypeBool"

text \<open>The error of \<open>parseLocation\<close> is a constant text.\<close>

definition parseLocation :: "string \<Rightarrow> (unit, ParameterLocation) result" where
  "parseLocation loc =
     (let l = asciiLower (TrimSpace loc) in
      if l = ''p1'' then Inr ParameterLocationP1
      else if l = ''p2'' then Inr ParameterLocationP2
      else if l = ''data'' then Inr ParameterLocationData
      else Inl ())"

text \<open>The loop over the fields when some field names its location.\<close>

fun assignExplicit :: "bool \<Rightarrow> bool \<Rightarrow> Field list \<Rightarrow> (LocationError, Field list) result" where
  "assignExplicit seenP1 seenP2 [] = Inr []"
| "assignExplicit seenP1 seenP2 (f # fs) =
     (if Field_Location f = ParameterLocationNone then
        bindR (assignExplicit seenP1 seenP2 fs)
          (\<lambda>gs. Inr (f\<lparr>Field_Location := ParameterLocationData\<rparr> # gs))
      else if Field_Location f = ParameterLocationP1 then
        (if seenP1 then Inl DuplicateP1
         else bindR (assignExplicit True seenP2 fs) (\<lambda>gs. Inr (f # gs)))
      else if Field_Location f = ParameterLocationP2 then
        (if seenP2 then Inl DuplicateP2
         else bindR (assignExplicit seenP1 True fs) (\<lambda>gs. Inr (f # gs)))
      else if Field_Location f = ParameterLocationData then
        bindR (assignExplicit seenP1 seenP2 fs) (\<lambda>gs. Inr (f # gs))
      else Inl (UnsupportedRequestLocation (Field_Location f)))"

definition assignRequestLocations :: "Field list \<Rightarrow> (LocationError, Field list) result" where
  "assignRequestLocations fs =
     (if length fs = 0 then Inr fs
      else if \<exists>f\<in>set fs. Field_Location f \<noteq> ParameterLocationNone then assignExplicit False False fs
      else case fs of
          [a] \<Rightarrow> if isP1P2CompatibleFieldType (Field_Type a)
                 then Inr [a\<lparr>Field_Location := ParameterLocationP1\<rparr>]
                 else Inr [a\<lparr>Field_Location := ParameterLocationData\<rparr>]
        | [a, b] \<Rightarrow> if isP1P2CompatibleFieldType (Field_Type a) \<and> isP1P2CompatibleFieldType (Field_Type b)
                 then Inr [a\<lparr>Field_Location := ParameterLocationP1\<rparr>, b\<lparr>Field_Location := ParameterLocationP2\<rparr>]
                 else Inr [a\<lparr>Field_Location := ParameterLocationData\<rparr>, b\<lparr>Field_Location := ParameterLocationData\<rparr>]
        | _ \<Rightarrow> Inr (map (\<lambda>f. f\<lparr>Field_Location := ParameterLocationData\<rparr>) fs))"

section \<open>Messages and schemas\<close>

definition fieldPath :: "string \<Rightarrow> string \<Rightarrow> nat \<Rightarrow> string" where
  "fieldPath methodName sectionName i =
     ''methods.'' @ methodName @ ''.'' @ sectionName @ ''.fields['' @ showNat i @ '']''"

definition normalizeField :: "string \<Rightarrow> rawField \<Rightarrow> (NormalizeError, Field) result" where
  "normalizeField path rf =
     (case parseFieldType (rawField_Type rf) of
        Inl e \<Rightarrow> Inl (BadFieldType path e)
      | Inr (ft, fixedLen) \<Rightarrow>
          if ft \<noteq> FieldTypeBytes \<and> ft \<noteq> FieldTypeASCII \<and> rawField_Length rf \<noteq> None
          then Inl (LengthUnsupported path)
          else if (case rawField_Length rf of None \<Rightarrow> False | Some l \<Rightarrow> l \<le> 0)
          then Inl (LengthNotPositive path)
          else if ft \<noteq> FieldTypeStream \<and> (rawField_MaxLength rf \<noteq> None \<or> rawField_ChunkSize rf \<noteq> None)
          then Inl (StreamBoundsUnsupported path)
          else let f = \<lparr>Field_Name = rawField_Name rf, Field_Type = ft,
                        Field_Length = cloneIntPtr (rawField_Length rf), Field_FixedLength = fixedLen,
                        Field_MaxLength = (case rawField_MaxLength rf of None \<Rightarrow> 0 | Some v \<Rightarrow> v),
                        Field_ChunkSize = (case rawField_ChunkSize rf of None \<Rightarrow> 0 | Some v \<Rightarrow> v),
                        Field_Location = ParameterLocationNone\<rparr>
               in if rawField_Location rf \<noteq> [] then
                    (case parseLocation (rawField_Location rf) of
                       Inl _ \<Rightarrow> Inl (BadLocation path)
                     | Inr loc \<Rightarrow> Inr (f\<lparr>Field_Location := loc\<rparr>))
                  else Inr f)"

definition normalizeMessage :: "string \<Rightarrow> string \<Rightarrow> rawMessage \<Rightarrow> bool \<Rightarrow> (NormalizeError, Message) result" where
  "normalizeMessage methodName sectionName raw isRequest =
     bindR (mapR (\<lambda>(i, rf). normalizeField (fieldPath methodName sectionName i) rf)
              (enumerate 0 (rawMessage_Fields raw)))
       (\<lambda>fs. if isRequest then
               (case assignRequestLocations fs of
                  Inl e \<Rightarrow> Inl (BadRequestLocations methodName e)
                | Inr gs \<Rightarrow> Inr \<lparr>Message_Fields = gs\<rparr>)
             else Inr \<lparr>Message_Fields = fs\<rparr>)"

definition normalizeOptMessage ::
  "string \<Rightarrow> string \<Rightarrow> rawMessage option \<Rightarrow> bool \<Rightarrow> (NormalizeError, Message option) result" where
  "normalizeOptMessage methodName sectionName raw isRequest =
     (case raw of None \<Rightarrow> Inr None
      | Some m \<Rightarrow> bindR (normalizeMessage methodName sectionName m isRequest) (\<lambda>msg. Inr (Some msg)))"

text \<open>The body of the loop over \<open>raw.Methods\<close>.\<close>

definition normalizeMethod :: "string \<Rightarrow> rawMethod \<Rightarrow> (NormalizeError, Method) result" where
  "normalizeMethod name rm =
     bindR (mustByte (rawMethod_INS rm) (''methods.'' @ name @ ''.ins'')) (\<lambda>ins.
     bindR (normalizeOptMessage name ''request'' (rawMethod_Request rm) True) (\<lambda>req.
     bindR (normalizeOptMessage name ''response'' (rawMethod_Response rm) False) (\<lambda>resp.
       Inr \<lparr>Method_Name = name, Method_INS = ins, Method_Description = rawMethod_Description rm,
            Method_Request = req, Method_Response = resp,
            Method_StreamMode = rawMethod_StreamMode rm\<rparr>)))"

definition normalizeStatusWord :: "string \<Rightarrow> rawStatusWord \<Rightarrow> (NormalizeError, StatusWord) result" where
  "normalizeStatusWord name rsw =
     bindR (mustUint16 (rawStatusWord_Code rsw) (''status_words.'' @ name @ ''.code'')) (\<lambda>code.
       Inr \<lparr>StatusWord_Name = name, StatusWord_Code = code,
            StatusWord_Description = rawStatusWord_Description rsw\<rparr>)"

definition normalizeSchema :: "rawSchema \<Rightarrow> (NormalizeError, Schema) result" where
  "normalizeSchema raw =
     (let ra = rawSchema_Applet raw in
      bindR (mustByte (rawApplet_CLA ra) ''applet.cla'') (\<lambda>cla.
      bindR (rangeMap (\<lambda>name rm. bindR (normalizeMethod name rm) (\<lambda>m. Inr (Some m)))
               (rawSchema_Methods raw)) (\<lambda>methods.
      bindR (rangeMap normalizeStatusWord (rawSchema_StatusWords raw)) (\<lambda>statusWords.
        Inr \<lparr>Schema_Applet =
               \<lparr>Applet_Name = rawApplet_Name ra, Applet_Description = rawApplet_Description ra,
                Applet_Version = rawApplet_Version ra, Applet_AID = rawApplet_AID ra,
                Applet_CLA = cla, Applet_StreamWorkspace = rawApplet_StreamWorkspace ra,
                Applet_StreamWorkspaceCleanup = rawApplet_StreamWorkspaceCleanup ra\<rparr>,
             Schema_Methods = methods, Schema_StatusWords = statusWords\<rparr>))))"

section \<open>Entry points\<close>

datatype 'e ParseError = ParseTOML 'e | NormalizeFailed NormalizeError | UnknownTOMLKeys string

text \<open>
  \<open>decode\<close> is the TOML decoder: an error, or the raw struct with the keys no struct field
  took. Normalisation errors come before unknown keys.
\<close>

definition Parse :: "('i \<Rightarrow> ('e, rawSchema \<times> string list) result) \<Rightarrow> 'i \<Rightarrow> ('e ParseError, Schema) result" where
  "Parse decode r =
     (case decode r of
        Inl e \<Rightarrow> Inl (ParseTOML e)
      | Inr (raw, undecoded) \<Rightarrow>
          (case normalizeSchema raw of
             Inl e \<Rightarrow> Inl (NormalizeFailed e)
           | Inr schema \<Rightarrow>
               if length undecoded > 0
               then Inl (UnknownTOMLKeys (joinStr '', '' (sort undecoded)))
               else Inr schema))"

datatype ('o, 'e) ParseFileError = OpenSchemaFile string 'o | ParseSchemaFile string "'e ParseError"

definition ParseFile ::
  "(string \<Rightarrow> ('o, 'i) result) \<Rightarrow> ('i \<Rightarrow> ('e, rawSchema \<times> string list) result) \<Rightarrow> string \<Rightarrow>
     (('o, 'e) ParseFileError, Schema) result" where
  "ParseFile open_file decode path =
     (case open_file path of
        Inl e \<Rightarrow> Inl (OpenSchemaFile path e)
      | Inr f \<Rightarrow> (case Parse decode f of
                   Inl e \<Rightarrow> Inl (ParseSchemaFile path e)
                 | Inr s \<Rightarrow> Inr s))"

section \<open>Facts: field types\<close>

lemma bytesFixedTypeMatch_iff:
  "bytesFixedTypeMatch t = Some d \<longleftrightarrow> t = ''bytes['' @ d @ '']'' \<and> d \<noteq> [] \<and> list_all isDigit d"
proof
  assume "bytesFixedTypeMatch t = Some d"
  then have p: "take 6 t = ''bytes[''" and l: "last t = CHR '']''" and d: "d = butlast (drop 6 t)"
      "d \<noteq> []" "list_all isDigit d"
    by (auto simp: bytesFixedTypeMatch_def Let_def split: if_splits)
  then have ne: "drop 6 t \<noteq> []" by auto
  have "drop 6 t = butlast (drop 6 t) @ [last (drop 6 t)]"
    by (rule append_butlast_last_id [OF ne, symmetric])
  moreover have "last (drop 6 t) = last t" using ne by (simp add: last_drop)
  ultimately have "drop 6 t = d @ '']''" using l d(1) by simp
  then show "t = ''bytes['' @ d @ '']'' \<and> d \<noteq> [] \<and> list_all isDigit d"
    using p d by (metis append_take_drop_id)
next
  assume "t = ''bytes['' @ d @ '']'' \<and> d \<noteq> [] \<and> list_all isDigit d"
  then show "bytesFixedTypeMatch t = Some d" by (simp add: bytesFixedTypeMatch_def butlast_append)
qed

definition plainTypes :: "FieldType list" where
  "plainTypes = [FieldTypeU8, FieldTypeU16, FieldTypeU32, FieldTypeBool, FieldTypeASCII,
                 FieldTypeString, FieldTypeBytes, FieldTypeStream]"

lemma bytesFixedTypeMatch_plain: "t \<in> set plainTypes \<Longrightarrow> bytesFixedTypeMatch t = None"
  by (auto simp: plainTypes_def bytesFixedTypeMatch_def)

lemma parseFieldType_eq:
  "parseFieldType t =
     (if TrimSpace t \<in> set plainTypes then Inr (TrimSpace t, 0)
      else case bytesFixedTypeMatch (TrimSpace t) of
             Some m1 \<Rightarrow> (case Atoi m1 of None \<Rightarrow> Inl (InvalidFixedBytesLength m1)
                          | Some k \<Rightarrow> Inr (FieldTypeBytesFixed, k))
           | None \<Rightarrow> Inl (UnsupportedFieldType t))"
  by (simp only: parseFieldType_def plainTypes_def Let_def)

lemma parseFieldType_match:
  "parseFieldType t = Inr (ft, n) \<longleftrightarrow>
     TrimSpace t \<in> set plainTypes \<and> ft = TrimSpace t \<and> n = 0 \<or>
     (\<exists>d. bytesFixedTypeMatch (TrimSpace t) = Some d \<and> Atoi d = Some n \<and> ft = FieldTypeBytesFixed)"
proof (cases "TrimSpace t \<in> set plainTypes")
  case True
  then show ?thesis by (auto simp: parseFieldType_eq dest: bytesFixedTypeMatch_plain)
next
  case False
  then show ?thesis
    by (simp add: parseFieldType_eq del: FieldTypeBytesFixed_def split: option.split) blast
qed

lemmas parseFieldType_Inr_iff = parseFieldType_match [unfolded bytesFixedTypeMatch_iff conj_assoc]

lemma parseFieldType_known:
  assumes "parseFieldType t = Inr (ft, n)"
  shows "ft \<in> set (FieldTypeBytesFixed # plainTypes)" "0 \<le> n" "n < 2 ^ 63"
    "ft \<noteq> FieldTypeBytesFixed \<Longrightarrow> n = 0"
  using assms by (auto simp: parseFieldType_match dest: Atoi_bounds)

end
