(* ===== verification/Idl_Validator.thy ===== *)
theory Idl_Validator
  imports Schema_Model Seen_Table
begin

text \<open>
  codegen/validator.go and codegen/workspace_authenticated.go: the semantic checks of a
  parsed schema. The \<open>add\<close> callback appends to one error list; here every function
  returns the errors it adds, in the order it adds them, and the tables the code keeps
  across methods (\<open>methodNameSeen\<close>, \<open>insSeen\<close>) and across status words are passed
  explicitly. A message is its constant text or, for a formatted one, a constructor with
  the formatted values.
\<close>

section \<open>Errors\<close>

datatype ValidationMessage =
    Text string
  | UnsupportedType string
  | UnsupportedLocation string
  | DuplicateMethodName string string
  | StreamRangeExceeds int int
  | DuplicateINS int string
  | CollidingINS int string
  | ReservedINS int
  | DuplicateStatusName string string
  | BadStatusCode "16 word"
  | DuplicateStatusCode "16 word" string

datatype ValidationError = VError (VE_Path: string) (VE_Message: ValidationMessage)

definition addIf :: "bool \<Rightarrow> string \<Rightarrow> ValidationMessage \<Rightarrow> ValidationError list" where
  "addIf c path msg = (if c then [VError path msg] else [])"

lemma addIf_Nil [simp]: "addIf c path msg = [] \<longleftrightarrow> \<not> c"
  by (simp add: addIf_def)

section \<open>Lexical checks\<close>

text \<open>The patterns \<open>identifierPattern\<close>, \<open>aidHexPattern\<close> and \<open>semverPattern\<close>.\<close>

definition isIdentifier :: "string \<Rightarrow> bool" where
  "isIdentifier name = (case name of [] \<Rightarrow> False | c # cs \<Rightarrow> isAlpha c \<and> list_all isWord cs)"

definition isSemverNumber :: "string \<Rightarrow> bool" where
  "isSemverNumber n \<longleftrightarrow>
     n = ''0'' \<or> (case n of [] \<Rightarrow> False | c # cs \<Rightarrow> isDigit c \<and> c \<noteq> CHR ''0'' \<and> list_all isDigit cs)"

definition isSemver :: "string \<Rightarrow> bool" where
  "isSemver v \<longleftrightarrow> length (splitOn CHR ''.'' v) = 3 \<and> list_all isSemverNumber (splitOn CHR ''.'' v)"

definition isValidAID :: "string \<Rightarrow> bool" where
  "isValidAID aid =
     (if aid \<noteq> TrimSpace aid then False
      else if length aid < 10 \<or> length aid > 32 \<or> length aid mod 2 \<noteq> 0 then False
      else aid \<noteq> [] \<and> list_all isHexDigit aid)"

definition isKnownFieldType :: "FieldType \<Rightarrow> bool" where
  "isKnownFieldType t \<longleftrightarrow> t \<in> set [FieldTypeU8, FieldTypeU16, FieldTypeU32, FieldTypeBool,
     FieldTypeASCII, FieldTypeString, FieldTypeBytes, FieldTypeBytesFixed, FieldTypeStream]"

definition isP1P2FieldType :: "FieldType \<Rightarrow> bool" where
  "isP1P2FieldType t \<longleftrightarrow> t = FieldTypeU8 \<or> t = FieldTypeBool"

definition isReservedINS :: "8 word \<Rightarrow> bool" where
  "isReservedINS ins \<longleftrightarrow> ins \<ge> 0x60 \<and> ins \<le> 0x6F \<or> ins \<ge> 0x90 \<and> ins \<le> 0x9F"

definition isValidStatusWordCode :: "16 word \<Rightarrow> bool" where
  "isValidStatusWordCode code \<longleftrightarrow> code \<ge> 0x6000 \<and> code \<le> 0x6FFF \<or> code \<ge> 0x9000 \<and> code \<le> 0x9FFF"

section \<open>The applet\<close>

definition validateApplet :: "Schema \<Rightarrow> ValidationError list" where
  "validateApplet s =
     (let a = Schema_Applet s; ws = Applet_StreamWorkspace a; cl = Applet_StreamWorkspaceCleanup a in
      addIf (ws \<noteq> '''' \<and> ws \<noteq> ''transient'' \<and> ws \<noteq> ''persistent'')
        ''applet.stream_workspace'' (Text ''must be transient or persistent'')
      @ (if cl = '''' then []
         else if cl = StreamWorkspaceCleanupWholeReplyArea \<or> cl = StreamWorkspaceCleanupAuthenticatedInvalidate
         then addIf (ws \<noteq> ''persistent'')
                ''applet.stream_workspace_cleanup'' (Text ''requires stream_workspace = persistent'')
         else [VError ''applet.stream_workspace_cleanup''
                 (Text ''must be whole-reply-area or authenticated-invalidate'')])
      @ addIf (TrimSpace (Applet_Name a) = '''') ''applet.name'' (Text ''must be non-empty'')
      @ addIf (\<not> isValidAID (Applet_AID a)) ''applet.aid''
          (Text ''must be a hex string of 5-16 bytes (10-32 hex chars)'')
      @ addIf (Applet_CLA a = 0) ''applet.cla'' (Text ''0x00 is reserved and not allowed'')
      @ addIf (\<not> isSemver (Applet_Version a)) ''applet.version''
          (Text ''must be a valid semver version (X.Y.Z)''))"

section \<open>Messages\<close>

text \<open>The checks of one field that do not depend on the fields before it.\<close>

definition fieldErrors :: "string \<Rightarrow> Field \<Rightarrow> ValidationError list" where
  "fieldErrors fieldPath f =
     addIf (\<not> isIdentifier (Field_Name f)) (fieldPath @ ''.name'')
       (Text ''field name must start with a letter and contain only letters, digits, and underscore'')
     @ addIf (\<not> isKnownFieldType (Field_Type f)) (fieldPath @ ''.type'') (UnsupportedType (Field_Type f))
     @ (if Field_Type f = FieldTypeStream then
          addIf (Field_MaxLength f \<le> 0 \<or> Field_MaxLength f > 0x7FFF) (fieldPath @ ''.max_length'')
            (Text ''must be in range 1..32767 for Java Card array addressing'')
          @ addIf (Field_ChunkSize f \<le> 0 \<or> Field_ChunkSize f > 0xFF) (fieldPath @ ''.chunk_size'')
            (Text ''must be in range 1..255'')
          @ addIf (Field_MaxLength f > 0 \<and> Field_ChunkSize f > 0
                   \<and> Field_MaxLength f > wrap64 (Field_ChunkSize f * 0xFF)) (fieldPath @ ''.max_length'')
            (Text ''must fit in at most 255 declared chunks'')
          @ addIf (Field_Location f \<noteq> ParameterLocationNone \<and> Field_Location f \<noteq> ParameterLocationData)
            (fieldPath @ ''.location'')
            (Text ''stream payload must use APDU data; p1 and p2 are reserved for packet index and count'')
        else [])
     @ (case Field_Length f of None \<Rightarrow> []
        | Some l \<Rightarrow>
            addIf (Field_Type f \<noteq> FieldTypeBytes \<and> Field_Type f \<noteq> FieldTypeASCII) (fieldPath @ ''.length'')
              (Text ''only supported for bytes and ascii fields'')
            @ addIf (l \<le> 0) (fieldPath @ ''.length'') (Text ''must be > 0''))
     @ addIf (Field_Type f = FieldTypeBytesFixed \<and> Field_FixedLength f \<le> 0) (fieldPath @ ''.type'')
         (Text ''bytes[N] length must be > 0'')"

text \<open>The loop over the fields with \<open>seenP1\<close>, \<open>seenP2\<close> and \<open>streamCount\<close>.\<close>

fun validateFields :: "string \<Rightarrow> bool \<Rightarrow> nat \<Rightarrow> bool \<Rightarrow> bool \<Rightarrow> nat \<Rightarrow> Field list \<Rightarrow>
    ValidationError list \<times> nat" where
  "validateFields path isRequest i seenP1 seenP2 streamCount [] = ([], streamCount)"
| "validateFields path isRequest i seenP1 seenP2 streamCount (f # fs) =
     (let fieldPath = path @ ''.fields['' @ showNat i @ '']'';
          count' = (if Field_Type f = FieldTypeStream then Suc streamCount else streamCount);
          (locErrs, p1', p2') =
            (if \<not> isRequest \<and> Field_Location f = ParameterLocationNone then ([], seenP1, seenP2)
             else if Field_Location f = ParameterLocationNone \<or> Field_Location f = ParameterLocationData
             then ([], seenP1, seenP2)
             else if Field_Location f = ParameterLocationP1 then
               (addIf (\<not> isP1P2FieldType (Field_Type f)) (fieldPath @ ''.type'')
                  (Text ''p1 field must be of type u8 or bool'')
                @ addIf seenP1 (fieldPath @ ''.location'') (Text ''duplicate p1 field''), True, seenP2)
             else if Field_Location f = ParameterLocationP2 then
               (addIf (\<not> isP1P2FieldType (Field_Type f)) (fieldPath @ ''.type'')
                  (Text ''p2 field must be of type u8 or bool'')
                @ addIf seenP2 (fieldPath @ ''.location'') (Text ''duplicate p2 field''), seenP1, True)
             else ([VError (fieldPath @ ''.location'') (UnsupportedLocation (Field_Location f))],
                   seenP1, seenP2));
          (rest, final) = validateFields path isRequest (Suc i) p1' p2' count' fs
      in (fieldErrors fieldPath f @ locErrs @ rest, final))"

definition validateMessage :: "string \<Rightarrow> Message option \<Rightarrow> bool \<Rightarrow> ValidationError list" where
  "validateMessage path msg isRequest =
     (case msg of None \<Rightarrow> []
      | Some m \<Rightarrow>
          (case validateFields path isRequest 0 False False 0 (Message_Fields m) of
             (errs, streamCount) \<Rightarrow>
               errs @ addIf (streamCount > 0 \<and> length (Message_Fields m) \<noteq> 1) (path @ ''.fields'')
                 (Text ''a streamed request or response must contain exactly one stream field'')))"

section \<open>Instruction ranges\<close>

text \<open>
  The loop \<open>for offset := 0; offset < count && base+offset <= 0xFF; offset++\<close> visits the
  offsets below \<open>count\<close> as long as the second condition holds.
\<close>

fun claimINS :: "string \<Rightarrow> int \<Rightarrow> nat list \<Rightarrow> (int, string) table \<Rightarrow>
    ValidationError list \<times> (int, string) table" where
  "claimINS insPath base [] seen = ([], seen)"
| "claimINS insPath base (off # offs) seen =
     (let ins = base + int off;
          (dup, seen') = (case tbl_get seen ins of
              Some firstPath \<Rightarrow>
                ([VError insPath (if off = 0 then DuplicateINS ins firstPath else CollidingINS ins firstPath)],
                 seen)
            | None \<Rightarrow> ([], tbl_put seen ins insPath));
          (rest, final) = claimINS insPath base offs seen'
      in (dup @ addIf (isReservedINS (word_of_int ins)) insPath (ReservedINS ins) @ rest, final))"

definition insCount :: "Method \<Rightarrow> nat" where
  "insCount m = (if HasStream (Some m) then 6 else 1)"

definition validateMethodINSRange :: "string \<Rightarrow> Method \<Rightarrow> (int, string) table \<Rightarrow>
    ValidationError list \<times> (int, string) table" where
  "validateMethodINSRange path m seen =
     (let insPath = path @ ''.ins''; count = insCount m; base = uint (Method_INS m);
          over = addIf (base + int count - 1 > 0xFF) insPath (StreamRangeExceeds base (base + int count - 1));
          (errs, seen') = claimINS insPath base
             (takeWhile (\<lambda>offset. base + int offset \<le> 0xFF) [0..<count]) seen
      in (over @ errs, seen'))"

section \<open>Stream modes\<close>

definition validateStreamMode :: "string \<Rightarrow> Applet \<Rightarrow> Method \<Rightarrow> ValidationError list" where
  "validateStreamMode path applet m =
     (if Method_StreamMode m = '''' then []
      else let p = path @ ''.stream_mode'' in
        if \<not> (Method_StreamMode m = StreamModePublicInvalidate \<or> Method_StreamMode m = StreamModeChunked)
        then [VError p (Text ''must be public-invalidate or chunked'')]
        else if \<not> HasStream (Some m)
        then [VError p (Text ''applies only to a streamed method'')]
        else if Applet_StreamWorkspace applet \<noteq> ''persistent''
             \<or> Applet_StreamWorkspaceCleanup applet \<noteq> StreamWorkspaceCleanupAuthenticatedInvalidate
        then [VError p (Text ''requires stream_workspace = persistent and stream_workspace_cleanup = authenticated-invalidate'')]
        else if StreamField (Method_Request m) = None
        then [VError p (Text ''requires a request stream'')]
        else [])"

section \<open>Methods\<close>

text \<open>The checks of one method after its instruction range, in the code's order.\<close>

definition methodStreamErrors :: "string \<Rightarrow> Applet \<Rightarrow> Method \<Rightarrow> ValidationError list" where
  "methodStreamErrors path applet m =
     validateStreamMode path applet m
     @ addIf (Applet_StreamWorkspaceCleanup applet = StreamWorkspaceCleanupAuthenticatedInvalidate
              \<and> Method_Response m \<noteq> None \<and> StreamField (Method_Response m) \<noteq> None
              \<and> Method_StreamMode m = '''') (path @ ''.response'')
         (Text ''stream response is not allowed with stream_workspace_cleanup = authenticated-invalidate unless the method declares a stream_mode'')
     @ (if HasStream (Some m) \<and> (Method_Response m = None \<or> StreamField (Method_Response m) = None) then
          (case fixedMessageLength (responseFields (Method_Response m)) of
             (len, fixed) \<Rightarrow> addIf (fixed \<and> len > 0xFF) (path @ ''.response.fields'')
               (Text ''fixed short response must fit in 255 bytes''))
        else [])
     @ (if HasStream (Some m) \<and> Method_Request m \<noteq> None then
          concat (map (\<lambda>(i, f). addIf (Field_Location f = ParameterLocationP1 \<or> Field_Location f = ParameterLocationP2)
                       (path @ ''.request.fields['' @ showNat i @ ''].location'')
                       (Text ''p1 and p2 are reserved for stream packet index and count''))
                   (enumerate 0 (responseFields (Method_Request m))))
        else [])"

definition effectiveMethodName :: "string \<Rightarrow> Method \<Rightarrow> string" where
  "effectiveMethodName key m = (if TrimSpace (Method_Name m) \<noteq> '''' then Method_Name m else key)"

text \<open>One iteration of the loop over the sorted method keys.\<close>

definition validateMethod :: "Schema \<Rightarrow> string \<Rightarrow> (string, string) table \<Rightarrow> (int, string) table \<Rightarrow>
    ValidationError list \<times> (string, string) table \<times> (int, string) table" where
  "validateMethod s key methodNameSeen insSeen =
     (let path = ''methods.'' @ key;
          e1 = addIf (\<not> isIdentifier key) path
                 (Text ''method name must start with a letter and contain only letters, digits, and underscore'')
      in case map_of (Schema_Methods s) key of
           Some (Some m) \<Rightarrow>
             (let e2 = addIf (TrimSpace (Method_Name m) \<noteq> '''' \<and> \<not> isIdentifier (Method_Name m)) (path @ ''.name'')
                         (Text ''method name must start with a letter and contain only letters, digits, and underscore'');
                  methodName = effectiveMethodName key m;
                  (e3, names') = (case tbl_get methodNameSeen methodName of
                      Some firstPath \<Rightarrow> ([VError path (DuplicateMethodName methodName firstPath)], methodNameSeen)
                    | None \<Rightarrow> ([], tbl_put methodNameSeen methodName path));
                  (e4, ins') = validateMethodINSRange path m insSeen
              in (e1 @ e2 @ e3 @ e4
                  @ validateMessage (path @ ''.request'') (Method_Request m) True
                  @ validateMessage (path @ ''.response'') (Method_Response m) False
                  @ methodStreamErrors path (Schema_Applet s) m, names', ins'))
         | _ \<Rightarrow> (e1 @ [VError path (Text ''method definition is nil'')], methodNameSeen, insSeen))"

fun validateMethodKeys :: "Schema \<Rightarrow> string list \<Rightarrow> (string, string) table \<Rightarrow> (int, string) table \<Rightarrow>
    ValidationError list" where
  "validateMethodKeys s [] names ins = []"
| "validateMethodKeys s (key # keys) names ins =
     (case validateMethod s key names ins of
        (errs, names', ins') \<Rightarrow> errs @ validateMethodKeys s keys names' ins')"

definition sortedMethodKeys :: "(string, Method option) gomap \<Rightarrow> string list" where
  "sortedMethodKeys methods = sortedKeys methods"

definition validateMethods :: "Schema \<Rightarrow> ValidationError list" where
  "validateMethods s =
     (if length (Schema_Methods s) = 0
      then [VError ''methods'' (Text ''at least one method is required'')]
      else validateMethodKeys s (sortedMethodKeys (Schema_Methods s)) tbl_empty tbl_empty)"

section \<open>Status words\<close>

definition effectiveStatusName :: "string \<Rightarrow> StatusWord \<Rightarrow> string" where
  "effectiveStatusName key sw = (if TrimSpace (StatusWord_Name sw) \<noteq> '''' then StatusWord_Name sw else key)"

definition validateStatusWord :: "string \<Rightarrow> StatusWord \<Rightarrow> (string, string) table \<Rightarrow> (16 word, string) table \<Rightarrow>
    ValidationError list \<times> (string, string) table \<times> (16 word, string) table" where
  "validateStatusWord key sw statusNameSeen codeSeen =
     (let path = ''status_words.'' @ key;
          e1 = addIf (\<not> isIdentifier key) path
                 (Text ''status word name must start with a letter and contain only letters, digits, and underscore'');
          e2 = addIf (TrimSpace (StatusWord_Name sw) \<noteq> '''' \<and> \<not> isIdentifier (StatusWord_Name sw)) (path @ ''.name'')
                 (Text ''status word name must start with a letter and contain only letters, digits, and underscore'');
          statusName = effectiveStatusName key sw;
          (e3, names') = (case tbl_get statusNameSeen statusName of
              Some firstPath \<Rightarrow> ([VError path (DuplicateStatusName statusName firstPath)], statusNameSeen)
            | None \<Rightarrow> ([], tbl_put statusNameSeen statusName path));
          codePath = path @ ''.code'';
          e4 = addIf (\<not> isValidStatusWordCode (StatusWord_Code sw)) codePath (BadStatusCode (StatusWord_Code sw));
          (e5, codes') = (case tbl_get codeSeen (StatusWord_Code sw) of
              Some firstPath \<Rightarrow> ([VError codePath (DuplicateStatusCode (StatusWord_Code sw) firstPath)], codeSeen)
            | None \<Rightarrow> ([], tbl_put codeSeen (StatusWord_Code sw) codePath))
      in (e1 @ e2 @ e3 @ e4 @ e5, names', codes'))"

fun validateStatusWordKeys :: "Schema \<Rightarrow> string list \<Rightarrow> (string, string) table \<Rightarrow> (16 word, string) table \<Rightarrow>
    ValidationError list" where
  "validateStatusWordKeys s [] names codes = []"
| "validateStatusWordKeys s (key # keys) names codes =
     (case map_of (Schema_StatusWords s) key of
        None \<Rightarrow> validateStatusWordKeys s keys names codes
      | Some sw \<Rightarrow>
          (case validateStatusWord key sw names codes of
             (errs, names', codes') \<Rightarrow> errs @ validateStatusWordKeys s keys names' codes'))"

definition sortedStatusWordKeys :: "(string, StatusWord) gomap \<Rightarrow> string list" where
  "sortedStatusWordKeys statusWords = sortedKeys statusWords"

definition validateStatusWords :: "Schema \<Rightarrow> ValidationError list" where
  "validateStatusWords s =
     validateStatusWordKeys s (sortedStatusWordKeys (Schema_StatusWords s)) tbl_empty tbl_empty"

section \<open>The whole schema\<close>

definition Validate :: "Schema option \<Rightarrow> ValidationError list" where
  "Validate s =
     (case s of None \<Rightarrow> [VError ''schema'' (Text ''schema is nil'')]
      | Some sc \<Rightarrow> validateApplet sc @ validateMethods sc @ validateStatusWords sc)"

end
