(* ===== verification/Gen_Cli.thy ===== *)
theory Gen_Cli
  imports Gen_Flags Go_Errors Package_Files Idl_Parser Idl_Validator
begin

text \<open>
  codegen/cmd/jcrpc-gen/main.go: the generator command. The host (opening the input, the TOML
  decoder, the file system, the Unicode tables, the Kotlin module's default package) and the
  three target backends are parameters. A run returns its exit code and what it did: the
  structured lines on stderr, the directory and file operations in order, and the final state
  of the host.
\<close>

section \<open>Errors\<close>

text \<open>The chain under an error of \<open>ParseFile\<close> and of the package check.\<close>

definition parseError :: "GoErr ParseError \<Rightarrow> GoErr" where
  "parseError pe = (case pe of
     ParseTOML e \<Rightarrow> Wrapped ''parse TOML'' e
   | NormalizeFailed _ \<Rightarrow> OtherError ''normalize''
   | UnknownTOMLKeys ks \<Rightarrow> OtherError (''unknown TOML keys: '' @ ks))"

definition parseFileError :: "(GoErr, GoErr) ParseFileError \<Rightarrow> GoErr" where
  "parseFileError pe = (case pe of
     OpenSchemaFile path e \<Rightarrow> Wrapped ''open schema file'' e
   | ParseSchemaFile path e \<Rightarrow> Wrapped ''parse schema file'' (parseError e))"

definition packageError :: "PackageError \<Rightarrow> GoErr" where
  "packageError pe = (case pe of InspectFailed e \<Rightarrow> PathError e | _ \<Rightarrow> OtherError ''invalid package'')"

section \<open>Host and run\<close>

record ('i, 'w) Host =
  host_open :: "'w \<Rightarrow> string \<Rightarrow> (GoErr, 'i) result"
  host_decode :: "'i \<Rightarrow> (GoErr, rawSchema \<times> string list) result"
  host_lstat :: "'w \<Rightarrow> string \<Rightarrow> LstatResult"
  host_mkdirAll :: "string \<Rightarrow> 'w \<Rightarrow> GoErr option \<times> 'w"
  host_writeFile :: "string \<Rightarrow> string \<Rightarrow> 'w \<Rightarrow> GoErr option \<times> 'w"
  host_unicode :: unicode_tables
  host_kotlinPackage :: "string \<Rightarrow> string"

datatype Diag =
    FlagFailure FlagError
  | Usage
  | WrongArgumentCount
  | ParseFailure string "(GoErr, GoErr) ParseFileError"
  | ValidationErrors string "ValidationError list"
  | BadSimulatorDependency string
  | NoOutputsSelected
  | SwiftStreamsUnsupported
  | GenerateFailed string GoErr
  | InspectFailedDir string string PackageError
  | InvalidPluginOutput string PackageError
  | CreateDirFailed string string GoErr
  | WriteFailed string GoErr
  | VerboseParsing string
  | VerboseValidating
  | VerboseValid
  | VerboseGenerating string string string
  | VerboseGenerated "string list"

datatype OsEvent = MkdirAll string | WriteFile string string

record 'w Run =
  run_diags :: "Diag list"
  run_events :: "OsEvent list"
  run_world :: 'w

definition emit :: "Diag list \<Rightarrow> 'w Run \<Rightarrow> 'w Run" where
  "emit ds st = st\<lparr>run_diags := run_diags st @ ds\<rparr>"

definition verbosef :: "cliOptions \<Rightarrow> Diag \<Rightarrow> 'w Run \<Rightarrow> 'w Run" where
  "verbosef opts d st = (if cli_verbose opts then emit [d] st else st)"

definition exitCodeSuccess :: int where "exitCodeSuccess = 0"
definition exitCodeValidation :: int where "exitCodeValidation = 1"
definition exitCodeGeneration :: int where "exitCodeGeneration = 2"
definition exitCodeIO :: int where "exitCodeIO = 3"

section \<open>Names derived from the applet\<close>

definition appletFileStem :: "unicode_tables \<Rightarrow> string \<Rightarrow> string" where
  "appletFileStem u name =
     (if TrimSpace name = '''' then ''Applet''
      else let kept = filter (\<lambda>r. IsLetter u r \<or> IsDigit u r \<or> r = byte (CHR ''_'')) (runes (TrimSpace name));
               b = concat (map encode_rune kept)
           in if length b = 0 then ''Applet'' else b)"

definition defaultJavaPackage :: "unicode_tables \<Rightarrow> string \<Rightarrow> string" where
  "defaultJavaPackage u appletName = ToLower u (appletFileStem u appletName)"

definition defaultSwiftModule :: "unicode_tables \<Rightarrow> string \<Rightarrow> string" where
  "defaultSwiftModule u appletName = appletFileStem u appletName @ ''Client''"

definition schemaHasStreams :: "Schema option \<Rightarrow> bool" where
  "schemaHasStreams schema = (case schema of None \<Rightarrow> False
     | Some s \<Rightarrow> list_ex (\<lambda>(_, m). HasStream m) (Schema_Methods s))"

text \<open>The pattern \<open>simulatorCoordinatePattern\<close>: three segments between colons; the last one
  may also contain a plus sign.\<close>

definition coordinateChar :: "char \<Rightarrow> bool" where
  "coordinateChar c \<longleftrightarrow> isAlpha c \<or> isDigit c \<or> c = CHR ''_'' \<or> c = CHR ''.'' \<or> c = CHR ''-''"

definition validateSimulatorDependency :: "string \<Rightarrow> bool" where
  "validateSimulatorDependency coordinate =
     (case splitOn CHR '':'' coordinate of
        [g, a, v] \<Rightarrow> g \<noteq> '''' \<and> list_all coordinateChar g
                   \<and> a \<noteq> '''' \<and> list_all coordinateChar a
                   \<and> v \<noteq> '''' \<and> list_all (\<lambda>c. coordinateChar c \<or> c = CHR ''+'') v
      | _ \<Rightarrow> False)"

section \<open>One target\<close>

record Target =
  target_selected :: bool
  target_label :: string
  target_namespace :: string
  target_root :: string
  target_errorPrefix :: string
  target_plugin :: "GoErr Plugin"
  target_options :: Options

definition outPath :: "string \<Rightarrow> File \<Rightarrow> string" where
  "outPath pkgDir f = PathJoin pkgDir (FromSlash (File_Name f))"

definition fileData :: "File \<Rightarrow> string" where
  "fileData f = (case File_Data f of None \<Rightarrow> '''' | Some d \<Rightarrow> d)"

text \<open>The directory loop runs over the files from the last to the first.\<close>

fun makeDirs :: "('i, 'w) Host \<Rightarrow> string \<Rightarrow> string \<Rightarrow> File list \<Rightarrow> 'w Run \<Rightarrow> int option \<times> 'w Run" where
  "makeDirs h label pkgDir [] st = (None, st)"
| "makeDirs h label pkgDir (f # fs) st =
     (let dir = PathDir (outPath pkgDir f) in
      case host_mkdirAll h dir (run_world st) of (err, w) \<Rightarrow>
        let st' = st\<lparr>run_events := run_events st @ [MkdirAll dir], run_world := w\<rparr> in
        case err of
          Some e \<Rightarrow> (Some exitCodeIO, emit [CreateDirFailed label dir e] st')
        | None \<Rightarrow> makeDirs h label pkgDir fs st')"

fun writeFiles :: "('i, 'w) Host \<Rightarrow> string \<Rightarrow> File list \<Rightarrow> 'w Run \<Rightarrow> string list \<Rightarrow>
    int option \<times> 'w Run \<times> string list" where
  "writeFiles h pkgDir [] st generated = (None, st, generated)"
| "writeFiles h pkgDir (f # fs) st generated =
     (let path = outPath pkgDir f in
      case host_writeFile h path (fileData f) (run_world st) of (err, w) \<Rightarrow>
        let st' = st\<lparr>run_events := run_events st @ [WriteFile path (fileData f)], run_world := w\<rparr> in
        case err of
          Some e \<Rightarrow> (Some exitCodeIO, emit [WriteFailed path e] st', generated)
        | None \<Rightarrow> writeFiles h pkgDir fs st' (generated @ [path]))"

text \<open>One iteration of the loop over the targets. The outer option is that of
  \<open>validatePackageFiles\<close>; the exit code is \<open>None\<close> when the loop goes on.\<close>

definition runTarget :: "('i, 'w) Host \<Rightarrow> cliOptions \<Rightarrow> Schema \<Rightarrow> Target \<Rightarrow> 'w Run \<Rightarrow> string list \<Rightarrow>
    (int option \<times> 'w Run \<times> string list) option" where
  "runTarget h opts s t st generated =
     (if \<not> target_selected t then Some (None, st, generated)
      else
        let naming = (if target_label t = ''swift'' then ''module'' else ''package'');
            st1 = verbosef opts (VerboseGenerating (target_label t) naming (target_namespace t)) st in
        case target_plugin t s (target_options t) of
          Inl e \<Rightarrow> Some (Some exitCodeGeneration, emit [GenerateFailed (target_errorPrefix t) e] st1, generated)
        | Inr files \<Rightarrow>
            let pkgDir = PathJoin (cli_outDir opts) (target_root t) in
            Option.bind (validatePackageFiles (host_lstat h (run_world st1)) pkgDir files) (\<lambda>verdict.
              case verdict of
                Inl e \<Rightarrow>
                  if isIOError (packageError e)
                  then Some (Some exitCodeIO, emit [InspectFailedDir (target_label t) pkgDir e] st1, generated)
                  else Some (Some exitCodeGeneration, emit [InvalidPluginOutput (target_errorPrefix t) e] st1, generated)
              | Inr _ \<Rightarrow>
                  (case makeDirs h (target_label t) pkgDir (rev files) st1 of
                     (Some code, st2) \<Rightarrow> Some (Some code, st2, generated)
                   | (None, st2) \<Rightarrow> Some (writeFiles h pkgDir files st2 generated))))"

fun runTargets :: "('i, 'w) Host \<Rightarrow> cliOptions \<Rightarrow> Schema \<Rightarrow> Target list \<Rightarrow> 'w Run \<Rightarrow> string list \<Rightarrow>
    (int option \<times> 'w Run \<times> string list) option" where
  "runTargets h opts s [] st generated = Some (None, st, generated)"
| "runTargets h opts s (t # ts) st generated =
     Option.bind (runTarget h opts s t st generated) (\<lambda>(code, st', generated').
       case code of
         Some c \<Rightarrow> Some (Some c, st', generated')
       | None \<Rightarrow> runTargets h opts s ts st' generated')"

section \<open>The command\<close>

text \<open>The three targets, after the defaults of \<open>--all\<close>.\<close>

definition orDefault :: "bool \<Rightarrow> string \<Rightarrow> string \<Rightarrow> string" where
  "orDefault all v d = (if all \<and> v = '''' then d else v)"

definition targetList :: "('i, 'w) Host \<Rightarrow> cliOptions \<Rightarrow> Schema \<Rightarrow>
    GoErr Plugin \<Rightarrow> GoErr Plugin \<Rightarrow> GoErr Plugin \<Rightarrow> Target list" where
  "targetList h opts s javaPlugin swiftPlugin kotlinPlugin =
     (let u = host_unicode h; name = Applet_Name (Schema_Applet s);
          simulator = TrimSpace (cli_simulatorDependency opts);
          java = orDefault (cli_allTargets opts) (TrimSpace (cli_javaPackage opts)) (defaultJavaPackage u name);
          swift = orDefault (cli_allTargets opts) (TrimSpace (cli_swiftModule opts)) (defaultSwiftModule u name);
          kotlin = orDefault (cli_allTargets opts) (TrimSpace (cli_kotlinPackage opts)) (host_kotlinPackage h name);
          appletLower = ToLower u (appletFileStem u name)
      in [\<lparr>target_selected = java \<noteq> '''', target_label = ''java'', target_namespace = java,
           target_root = appletLower @ ''-server-javacard'', target_errorPrefix = ''generate java skeleton'',
           target_plugin = javaPlugin,
           target_options = \<lparr>Options_Namespace = java, Options_StreamMemory = TrimSpace (cli_streamMemory opts),
                             Options_SimulatorDependency = simulator\<rparr>\<rparr>,
          \<lparr>target_selected = swift \<noteq> '''', target_label = ''swift'', target_namespace = swift,
           target_root = appletLower @ ''-client-swift'', target_errorPrefix = ''generate swift client'',
           target_plugin = swiftPlugin,
           target_options = \<lparr>Options_Namespace = swift, Options_StreamMemory = '''',
                             Options_SimulatorDependency = ''''\<rparr>\<rparr>,
          \<lparr>target_selected = kotlin \<noteq> '''', target_label = ''kotlin'', target_namespace = kotlin,
           target_root = appletLower @ ''-client-kotlin'', target_errorPrefix = ''generate kotlin client'',
           target_plugin = kotlinPlugin,
           target_options = \<lparr>Options_Namespace = kotlin, Options_StreamMemory = '''',
                             Options_SimulatorDependency = ''''\<rparr>\<rparr>])"

text \<open>After a schema has been accepted for generation.\<close>

definition runGeneration :: "('i, 'w) Host \<Rightarrow> cliOptions \<Rightarrow> Schema \<Rightarrow>
    GoErr Plugin \<Rightarrow> GoErr Plugin \<Rightarrow> GoErr Plugin \<Rightarrow> 'w Run \<Rightarrow> (int \<times> 'w Run) option" where
  "runGeneration h opts s javaPlugin swiftPlugin kotlinPlugin st =
     (let simulator = TrimSpace (cli_simulatorDependency opts) in
      if \<not> validateSimulatorDependency simulator
      then Some (exitCodeGeneration, emit [BadSimulatorDependency simulator] st)
      else
        let targets = targetList h opts s javaPlugin swiftPlugin kotlinPlugin in
        if \<not> target_selected (targets ! 0) \<and> \<not> target_selected (targets ! 1) \<and> \<not> target_selected (targets ! 2)
        then Some (exitCodeGeneration, emit [NoOutputsSelected] st)
        else if target_selected (targets ! 1) \<and> schemaHasStreams (Some s)
        then Some (exitCodeGeneration, emit [SwiftStreamsUnsupported] st)
        else Option.bind (runTargets h opts s targets st []) (\<lambda>(code, st', generated).
          case code of
            Some c \<Rightarrow> Some (c, st')
          | None \<Rightarrow> Some (exitCodeSuccess, verbosef opts (VerboseGenerated generated) st')))"

definition runWithPlugins :: "('i, 'w) Host \<Rightarrow> string list \<Rightarrow>
    GoErr Plugin \<Rightarrow> GoErr Plugin \<Rightarrow> GoErr Plugin \<Rightarrow> 'w \<Rightarrow> (int \<times> 'w Run) option" where
  "runWithPlugins h args javaPlugin swiftPlugin kotlinPlugin w =
     (let st = \<lparr>run_diags = [], run_events = [], run_world = w\<rparr> in
      case parseFlags defaultOptions args of
        Inl err \<Rightarrow>
          if err = ErrHelp then Some (exitCodeSuccess, emit [Usage] st)
          else Some (exitCodeGeneration, emit [FlagFailure err, Usage] st)
      | Inr (opts, rest) \<Rightarrow>
          if cli_help opts then Some (exitCodeSuccess, emit [Usage] st)
          else if length rest \<noteq> 1 then Some (exitCodeGeneration, emit [WrongArgumentCount, Usage] st)
          else
            let inputPath = rest ! 0;
                st1 = verbosef opts (VerboseParsing inputPath) st in
            case ParseFile (host_open h w) (host_decode h) inputPath of
              Inl e \<Rightarrow> Some (if isIOError (parseFileError e) then exitCodeIO else exitCodeValidation,
                            emit [ParseFailure inputPath e] st1)
            | Inr schema \<Rightarrow>
                let st2 = verbosef opts VerboseValidating st1;
                    errs = Validate (Some schema) in
                if length errs > 0
                then Some (exitCodeValidation, emit [ValidationErrors (PathBase inputPath) errs] st2)
                else if cli_validateOnly opts
                then Some (exitCodeSuccess, verbosef opts VerboseValid st2)
                else runGeneration h opts schema javaPlugin swiftPlugin kotlinPlugin st2)"

end
