(* ===== verification/Gen_Facade.thy ===== *)
theory Gen_Facade
  imports Gen_Cli
begin

text \<open>
  The contract between the tools and a target backend, as a locale; the backend of the two
  example modules (pluginapi/testdata/external-consumer and codegen/testdata/external-plugin)
  as its interpretation; and the compatibility facade codegen/generators.go over the Java and
  Swift backends, which are parameters.
\<close>

section \<open>The facade\<close>

record JavaOptions =
  JavaOptions_StreamMemory :: string

record JavaGenerationResult =
  TransportSource :: "string option"
  SkeletonSource :: "string option"
  StreamEndpointSource :: "string option"
  StreamRuntimeSource :: "string option"
  StreamAPDUAdapterSource :: "string option"
  TransportName :: string
  SkeletonName :: string
  StreamEndpointName :: string
  StreamRuntimeName :: string
  StreamAPDUAdapterName :: string

definition emptyResult :: JavaGenerationResult where
  "emptyResult = \<lparr>TransportSource = None, SkeletonSource = None, StreamEndpointSource = None,
     StreamRuntimeSource = None, StreamAPDUAdapterSource = None, TransportName = '''', SkeletonName = '''',
     StreamEndpointName = '''', StreamRuntimeName = '''', StreamAPDUAdapterName = ''''\<rparr>"

definition javaName :: "File \<Rightarrow> string" where
  "javaName f = trimSuffix (PathBase (File_Name f)) ''.java''"

definition classifyFile :: "File \<Rightarrow> JavaGenerationResult \<Rightarrow> JavaGenerationResult" where
  "classifyFile f result =
     (let name = javaName f in
      if hasSuffix name ''Transport''
      then result\<lparr>TransportName := name, TransportSource := File_Data f\<rparr>
      else if hasSuffix name ''Skeleton''
      then result\<lparr>SkeletonName := name, SkeletonSource := File_Data f\<rparr>
      else if hasSuffix name ''StreamEndpoint''
      then result\<lparr>StreamEndpointName := name, StreamEndpointSource := File_Data f\<rparr>
      else if hasSuffix name ''BoundedStreamRuntime''
      then result\<lparr>StreamRuntimeName := name, StreamRuntimeSource := File_Data f\<rparr>
      else if hasSuffix name ''StreamAPDUAdapter''
      then result\<lparr>StreamAPDUAdapterName := name, StreamAPDUAdapterSource := File_Data f\<rparr>
      else result)"

text \<open>The names a schema without streams still gets.\<close>

definition fillNames :: "JavaGenerationResult \<Rightarrow> JavaGenerationResult" where
  "fillNames result =
     (let stem = trimSuffix (SkeletonName result) ''Skeleton'';
          r1 = (if StreamEndpointName result = ''''
                then result\<lparr>StreamEndpointName := stem @ ''StreamEndpoint''\<rparr> else result);
          r2 = (if StreamRuntimeName r1 = ''''
                then r1\<lparr>StreamRuntimeName := stem @ ''BoundedStreamRuntime''\<rparr> else r1)
      in if StreamAPDUAdapterName r2 = ''''
         then r2\<lparr>StreamAPDUAdapterName := stem @ ''StreamAPDUAdapter''\<rparr> else r2)"

definition GenerateJavaSkeletonWithOptions ::
  "'e Plugin \<Rightarrow> Schema \<Rightarrow> string \<Rightarrow> JavaOptions \<Rightarrow> ('e, JavaGenerationResult) result" where
  "GenerateJavaSkeletonWithOptions javacard s packageName options =
     bindR (javacard s \<lparr>Options_Namespace = packageName, Options_StreamMemory = JavaOptions_StreamMemory options,
                        Options_SimulatorDependency = ''com.klinec:jcardsim:3.0.5.9''\<rparr>)
       (\<lambda>files. Inr (fillNames (foldl (\<lambda>result f. classifyFile f result) emptyResult files)))"

definition GenerateJavaSkeleton :: "'e Plugin \<Rightarrow> Schema \<Rightarrow> string \<Rightarrow> ('e, JavaGenerationResult) result" where
  "GenerateJavaSkeleton javacard s packageName =
     GenerateJavaSkeletonWithOptions javacard s packageName \<lparr>JavaOptions_StreamMemory = ''''\<rparr>"

text \<open>\<open>GenerateSwiftClient\<close> indexes the last file: an empty package makes it panic.\<close>

datatype 'e SwiftError = SwiftFailed 'e | SwiftIndexPanic

definition GenerateSwiftClient :: "'e Plugin \<Rightarrow> Schema \<Rightarrow> string \<Rightarrow> ('e SwiftError, string option) result" where
  "GenerateSwiftClient swift s moduleName =
     (case swift s \<lparr>Options_Namespace = moduleName, Options_StreamMemory = '''', Options_SimulatorDependency = ''''\<rparr> of
        Inl e \<Rightarrow> Inl (SwiftFailed e)
      | Inr files \<Rightarrow> if length files = 0 then Inl SwiftIndexPanic
                     else Inr (File_Data (files ! (length files - 1))))"

section \<open>The example backend\<close>

definition Backend_Generate :: "Schema option \<Rightarrow> Options \<Rightarrow> (string, File list) result" where
  "Backend_Generate schema options =
     (case schema of
        None \<Rightarrow> Inl ''validated schema required''
      | Some s \<Rightarrow>
          Inr [\<lparr>File_Name = ''build.manifest'', File_Data = Some (Applet_Version (Schema_Applet s))\<rparr>,
               \<lparr>File_Name = ''src/backend.txt'',
                File_Data = Some (Options_Namespace options @ [CHR 0x0A] @ Options_StreamMemory options
                  @ [CHR 0x0A] @ Options_SimulatorDependency options @ [CHR 0x0A]
                  @ Applet_StreamWorkspace (Schema_Applet s))\<rparr>])"

text \<open>As a plugin of the command: the schema is never nil there.\<close>

definition backendPlugin :: "GoErr Plugin" where
  "backendPlugin s options =
     (case Backend_Generate (Some s) options of Inl e \<Rightarrow> Inl (OtherError e) | Inr fs \<Rightarrow> Inr fs)"

section \<open>The contract of a backend\<close>

text \<open>A backend returns an error or a package as the comment on \<open>File\<close> describes it.\<close>

locale target_backend =
  fixes generate :: "'e Plugin"
  assumes package: "generate s options = Inr fs \<Longrightarrow> packageWF fs"
begin

lemma check_is_about_the_host:
  assumes "generate s options = Inr fs"
  shows "\<exists>r. validatePackageFiles lstat root fs = Some r
    \<and> (isl r \<longleftrightarrow> (\<exists>f\<in>set fs. \<not> walkClear lstat root (fileParts f)))"
  using validatePackageFiles_decides [of lstat root fs] package [OF assms] by metis

lemma swift_no_panic: "GenerateSwiftClient generate s moduleName \<noteq> Inl SwiftIndexPanic"
  using package by (auto simp: GenerateSwiftClient_def packageWF_def split: sum.split)

end

lemma example_package:
  "packageWF [\<lparr>File_Name = ''build.manifest'', File_Data = Some a\<rparr>, \<lparr>File_Name = ''src/backend.txt'', File_Data = Some b\<rparr>]"
proof -
  let ?m = "\<lparr>File_Name = ''build.manifest'', File_Data = Some a\<rparr>"
  let ?s = "\<lparr>File_Name = ''src/backend.txt'', File_Data = Some b\<rparr>"
  have v: "validString ''build.manifest''" "validString ''src/backend.txt''"
    by (rule validString_ascii; simp add: byte_def)+
  have "list_all okPart (splitOn slash ''build.manifest'')" "list_all okPart (splitOn slash ''src/backend.txt'')"
    by code_simp+
  with v have c: "canonicalName ''build.manifest''" "canonicalName ''src/backend.txt''"
    by (simp_all add: canonicalName_def)
  have d: "''build.manifest'' \<noteq> ''src/backend.txt''" by simp
  have p: "fileParts ?m = [''build.manifest'']" "fileParts ?s = [''src'', ''backend.txt'']"
    by (simp_all add: fileParts_def)
  have "\<not> strict_prefix (fileParts f) (fileParts g)" if "f \<in> {?m, ?s}" "g \<in> {?m, ?s}" for f g
  proof -
    have "\<not> strict_prefix xs ys"
      if "xs \<in> {[''build.manifest''], [''src'', ''backend.txt'']}" "ys \<in> {[''build.manifest''], [''src'', ''backend.txt'']}" for xs ys
      using that by (elim insertE emptyE) (simp_all only:, code_simp+)
    then show ?thesis using that p by blast
  qed
  with c d show ?thesis by (simp only: packageWF_def) simp
qed

interpretation example: target_backend backendPlugin
  by unfold_locales (auto simp: backendPlugin_def Backend_Generate_def example_package)

section \<open>Facts on the facade\<close>

text \<open>Which slot a file name goes to, and the last file of a slot.\<close>

definition slotOf :: "File \<Rightarrow> string" where
  "slotOf f = (case find (hasSuffix (javaName f))
       [''Transport'', ''Skeleton'', ''StreamEndpoint'', ''BoundedStreamRuntime'', ''StreamAPDUAdapter''] of
     None \<Rightarrow> '''' | Some slot \<Rightarrow> slot)"

definition lastIn :: "string \<Rightarrow> File list \<Rightarrow> File option" where
  "lastIn slot fs = find (\<lambda>f. slotOf f = slot) (rev fs)"

lemma lastIn_snoc: "lastIn slot (fs @ [f]) = (if slotOf f = slot then Some f else lastIn slot fs)"
  by (simp add: lastIn_def)

definition slotName :: "string \<Rightarrow> File list \<Rightarrow> string" where
  "slotName slot fs = (case lastIn slot fs of None \<Rightarrow> '''' | Some f \<Rightarrow> javaName f)"

definition slotSource :: "string \<Rightarrow> File list \<Rightarrow> string option" where
  "slotSource slot fs = (case lastIn slot fs of None \<Rightarrow> None | Some f \<Rightarrow> File_Data f)"

definition slotResult :: "File list \<Rightarrow> JavaGenerationResult" where
  "slotResult fs = \<lparr>TransportSource = slotSource ''Transport'' fs, SkeletonSource = slotSource ''Skeleton'' fs,
     StreamEndpointSource = slotSource ''StreamEndpoint'' fs,
     StreamRuntimeSource = slotSource ''BoundedStreamRuntime'' fs,
     StreamAPDUAdapterSource = slotSource ''StreamAPDUAdapter'' fs,
     TransportName = slotName ''Transport'' fs, SkeletonName = slotName ''Skeleton'' fs,
     StreamEndpointName = slotName ''StreamEndpoint'' fs,
     StreamRuntimeName = slotName ''BoundedStreamRuntime'' fs,
     StreamAPDUAdapterName = slotName ''StreamAPDUAdapter'' fs\<rparr>"

lemma classify_fold: "foldl (\<lambda>result f. classifyFile f result) emptyResult fs = slotResult fs"
proof (induction fs rule: rev_induct)
  case Nil
  then show ?case by (simp add: emptyResult_def slotResult_def slotName_def slotSource_def lastIn_def)
next
  case (snoc f fs)
  let ?n = "javaName f"
  have slot: "slotOf f = (if hasSuffix ?n ''Transport'' then ''Transport''
      else if hasSuffix ?n ''Skeleton'' then ''Skeleton''
      else if hasSuffix ?n ''StreamEndpoint'' then ''StreamEndpoint''
      else if hasSuffix ?n ''BoundedStreamRuntime'' then ''BoundedStreamRuntime''
      else if hasSuffix ?n ''StreamAPDUAdapter'' then ''StreamAPDUAdapter'' else '''')"
    by (simp add: slotOf_def)
  have fold: "foldl (\<lambda>result f. classifyFile f result) emptyResult (fs @ [f]) = classifyFile f (slotResult fs)"
    by (simp add: snoc.IH)
  consider "hasSuffix ?n ''Transport''"
    | "\<not> hasSuffix ?n ''Transport''" "hasSuffix ?n ''Skeleton''"
    | "\<not> hasSuffix ?n ''Transport''" "\<not> hasSuffix ?n ''Skeleton''" "hasSuffix ?n ''StreamEndpoint''"
    | "\<not> hasSuffix ?n ''Transport''" "\<not> hasSuffix ?n ''Skeleton''" "\<not> hasSuffix ?n ''StreamEndpoint''"
      "hasSuffix ?n ''BoundedStreamRuntime''"
    | "\<not> hasSuffix ?n ''Transport''" "\<not> hasSuffix ?n ''Skeleton''" "\<not> hasSuffix ?n ''StreamEndpoint''"
      "\<not> hasSuffix ?n ''BoundedStreamRuntime''"
    by blast
  then show ?case
    unfolding fold
    by cases (simp_all add: slot classifyFile_def Let_def slotResult_def slotName_def slotSource_def lastIn_snoc)
qed

end
