(* ===== verification/Go_Quote.thy ===== *)
theory Go_Quote
  imports Go_Text
begin

text \<open>
  The two verbs of package \<open>fmt\<close> that the diagnostics of the generator use beside \<open>%s\<close> and
  \<open>%d\<close>: \<open>%q\<close> on a string, which is \<open>strconv.Quote\<close>, and \<open>%02X\<close> and \<open>%04X\<close> on a number that is
  not negative. The table of package \<open>unicode\<close> that says which code points from U+0080 on are
  printable is a parameter.
\<close>

section \<open>Hexadecimal numbers\<close>

definition hexDigit :: "bool \<Rightarrow> nat \<Rightarrow> char" where
  "hexDigit upper d =
     (if d < 10 then char_of (48 + d) else if upper then char_of (55 + d) else char_of (87 + d))"

fun hexFixed :: "bool \<Rightarrow> nat \<Rightarrow> nat \<Rightarrow> string" where
  "hexFixed upper 0 n = []"
| "hexFixed upper (Suc k) n = hexFixed upper k (n div 16) @ [hexDigit upper (n mod 16)]"

text \<open>The number of digits a value needs beyond a minimum.\<close>

fun hexWidth :: "nat \<Rightarrow> nat" where
  "hexWidth n = (if n < 16 then 1 else Suc (hexWidth (n div 16)))"

declare hexWidth.simps [simp del]

definition padHex :: "nat \<Rightarrow> nat \<Rightarrow> string" where
  "padHex width n = hexFixed True (max width (hexWidth n)) n"

lemma hexFixed_length [simp]: "length (hexFixed upper k n) = k"
  by (induction k arbitrary: n) simp_all

lemma hexDigit_byte: "d < 16 \<Longrightarrow> byte (hexDigit upper d) =
    (if d < 10 then 48 + d else if upper then 55 + d else 87 + d)"
  unfolding hexDigit_def byte_def by (simp only: of_char_of if_distrib [of of_char]) simp

lemma hexDigit_word: "d < 16 \<Longrightarrow> isWord (hexDigit upper d)"
  using hexDigit_byte [of d upper] by (auto simp: isWord_def isAlpha_def isDigit_def split: if_splits)

lemma hexDigit_inj:
  assumes "c < 16" "d < 16"
  shows "hexDigit upper c = hexDigit upper d \<longleftrightarrow> c = d"
proof
  assume "hexDigit upper c = hexDigit upper d"
  then have "byte (hexDigit upper c) = byte (hexDigit upper d)" by simp
  then show "c = d" unfolding hexDigit_byte [OF assms(1)] hexDigit_byte [OF assms(2)]
    using assms by (simp split: if_splits)
qed simp

lemma hexFixed_word: "c \<in> set (hexFixed upper k n) \<Longrightarrow> isWord c"
  by (induction k arbitrary: n) (auto intro: hexDigit_word)

lemma hexFixed_inj: "m < 16 ^ k \<Longrightarrow> n < 16 ^ k \<Longrightarrow> hexFixed upper k m = hexFixed upper k n \<longleftrightarrow> m = n"
proof (induction k arbitrary: m n)
  case (Suc k)
  have "m div 16 < 16 ^ k" "n div 16 < 16 ^ k" using Suc.prems by (simp_all add: less_mult_imp_div_less mult.commute)
  with Suc.IH have "hexFixed upper (Suc k) m = hexFixed upper (Suc k) n \<longleftrightarrow> m div 16 = n div 16 \<and> m mod 16 = n mod 16"
    by (auto simp: hexDigit_inj)
  then show ?case by (metis mod_mult_div_eq)
qed simp

section \<open>Quoting\<close>

definition IsPrint :: "(nat \<Rightarrow> bool) \<Rightarrow> nat \<Rightarrow> bool" where
  "IsPrint printable r = (if r < 0x80 then 0x20 \<le> r \<and> r < 0x7F else printable r)"

definition ValidRune :: "nat \<Rightarrow> bool" where
  "ValidRune r \<longleftrightarrow> r < 0xD800 \<or> 0xDFFF < r \<and> r \<le> 0x10FFFF"

definition backslash :: char where "backslash = CHR 0x5C"

definition quoteMark :: char where "quoteMark = CHR 0x22"

text \<open>\<open>appendEscapedRune\<close>: the rune as it is when it is printable, else an escape.\<close>

definition escapedRune :: "(nat \<Rightarrow> bool) \<Rightarrow> nat \<Rightarrow> string" where
  "escapedRune printable r =
     (if r = byte quoteMark \<or> r = byte backslash then [backslash, char_of r]
      else if IsPrint printable r then encode_rune r
      else if r = 7 then [backslash, CHR ''a'']
      else if r = 8 then [backslash, CHR ''b'']
      else if r = 12 then [backslash, CHR ''f'']
      else if r = 10 then [backslash, CHR ''n'']
      else if r = 13 then [backslash, CHR ''r'']
      else if r = 9 then [backslash, CHR ''t'']
      else if r = 11 then [backslash, CHR ''v'']
      else if r < 0x20 \<or> r = 0x7F then backslash # CHR ''x'' # hexFixed False 2 r
      else let q = (if ValidRune r then r else RuneError) in
        if q < 0x10000 then backslash # CHR ''u'' # hexFixed False 4 q
        else backslash # CHR ''U'' # hexFixed False 8 q)"

text \<open>\<open>appendQuotedWith\<close>: a byte that is not part of an encoded rune is escaped on its own.\<close>

function quoteBody :: "(nat \<Rightarrow> bool) \<Rightarrow> string \<Rightarrow> string" where
  "quoteBody printable s =
     (if s = [] then []
      else (if decode_rune s = (RuneError, 1) then backslash # CHR ''x'' # hexFixed False 2 (byte (hd s))
            else escapedRune printable (fst (decode_rune s)))
           @ quoteBody printable (drop (snd (decode_rune s)) s))"
  by pat_completeness auto
termination
  by (relation "measure (\<lambda>(p, s). length s)") (use decode_rune_size in \<open>force simp: Suc_le_eq\<close>)+

declare quoteBody.simps [simp del]

definition Quote :: "(nat \<Rightarrow> bool) \<Rightarrow> string \<Rightarrow> string" where
  "Quote printable s = quoteMark # quoteBody printable s @ [quoteMark]"

section \<open>Quoted text stays on its line\<close>

abbreviation newline :: char where "newline \<equiv> CHR 0x0A"

lemma isWord_not_newline: "isWord c \<Longrightarrow> c \<noteq> newline"
  by (auto simp: isWord_def isAlpha_def isDigit_def byte_def)

lemma hexFixed_line [simp]: "newline \<notin> set (hexFixed upper k n)"
  using hexFixed_word isWord_not_newline by blast

lemma encode_rune_line: "newline \<in> set (encode_rune r) \<Longrightarrow> r = 10"
  using encode_rune_low [of newline r] by (simp add: byte_def)

lemma escapedRune_line: "newline \<notin> set (escapedRune printable r)"
  by (auto simp: escapedRune_def Let_def IsPrint_def backslash_def quoteMark_def byte_def char_of_def
      dest: encode_rune_line split: if_splits)

lemma quoteBody_line: "newline \<notin> set (quoteBody printable s)"
proof (induction printable s rule: quoteBody.induct)
  case (1 printable s)
  show ?case
    by (subst quoteBody.simps) (use 1 escapedRune_line in \<open>auto simp: backslash_def\<close>)
qed

lemma Quote_line [simp]: "newline \<notin> set (Quote printable s)"
  using quoteBody_line by (simp add: Quote_def quoteMark_def)

text \<open>Printable ASCII without the two special characters is quoted as it is.\<close>

lemma Quote_plain:
  assumes "list_all (\<lambda>c. 0x20 \<le> byte c \<and> byte c < 0x7F \<and> c \<noteq> quoteMark \<and> c \<noteq> backslash) s"
  shows "Quote printable s = quoteMark # s @ [quoteMark]"
proof -
  have "quoteBody printable s = s"
    using assms
  proof (induction s)
    case (Cons c s)
    then have c: "0x20 \<le> byte c" "byte c < 0x7F" "c \<noteq> quoteMark" "c \<noteq> backslash" by auto
    then have d: "decode_rune (c # s) = (byte c, 1)" by (simp add: decode_rune_ascii)
    have "escapedRune printable (byte c) = [c]"
      using c by (auto simp: escapedRune_def IsPrint_def encode_rune_def byte_def)
    with c(2) d Cons show ?case
      by (subst quoteBody.simps) (simp add: RuneError_def)
  qed (simp add: quoteBody.simps)
  then show ?thesis by (simp add: Quote_def)
qed

end
