(* ===== verification/Go_Strings.thy ===== *)
theory Go_Strings
  imports Go_Text
begin

text \<open>
  The searching and replacing operations of packages strings and bytes that the release tools
  use, on byte strings, and the vocabulary of transcribed texts.
\<close>

text \<open>Characters that a literal of a transcribed text cannot hold, and a text of whole lines.\<close>

definition chDq :: string where "chDq = [CHR 0x22]"
definition chSq :: string where "chSq = [CHR 0x27]"
definition chBs :: string where "chBs = [CHR 0x5C]"
definition chLf :: string where "chLf = [CHR 0x0A]"
definition chTb :: string where "chTb = [CHR 0x09]"

definition unlines :: "string list \<Rightarrow> string" where
  "unlines ls = concat (map (\<lambda>l. l @ [CHR 0x0A]) ls)"

fun strContains :: "string \<Rightarrow> string \<Rightarrow> bool" where
  "strContains [] sub = (sub = [])"
| "strContains (c # cs) sub = (hasPrefix (c # cs) sub \<or> strContains cs sub)"

function runeChunks :: "string \<Rightarrow> string list" where
  "runeChunks s =
     (if s = [] then []
      else take (snd (decode_rune s)) s # runeChunks (drop (snd (decode_rune s)) s))"
  by pat_completeness auto
termination
  by (relation "measure length") (use decode_rune_size in \<open>force simp: Suc_le_eq\<close>)+

declare runeChunks.simps [simp del]

text \<open>Occurrences that do not overlap; the empty string occurs around every rune.\<close>

function countFrom :: "string \<Rightarrow> string \<Rightarrow> nat" where
  "countFrom sub s =
     (if s = [] \<or> sub = [] then 0
      else if hasPrefix s sub then Suc (countFrom sub (drop (length sub) s))
      else countFrom sub (tl s))"
  by pat_completeness auto
termination
  by (relation "measure (\<lambda>(sub, s). length s)") auto

declare countFrom.simps [simp del]

definition strCount :: "string \<Rightarrow> string \<Rightarrow> nat" where
  "strCount s sub = (if sub = [] then Suc (length (runes s)) else countFrom sub s)"

fun replaceFirst :: "string \<Rightarrow> string \<Rightarrow> string \<Rightarrow> string" where
  "replaceFirst old new [] = (if old = [] then new else [])"
| "replaceFirst old new (c # cs) =
     (if hasPrefix (c # cs) old then new @ drop (length old) (c # cs) else c # replaceFirst old new cs)"

function replaceFrom :: "string \<Rightarrow> string \<Rightarrow> string \<Rightarrow> string" where
  "replaceFrom old new s =
     (if s = [] \<or> old = [] then s
      else if hasPrefix s old then new @ replaceFrom old new (drop (length old) s)
      else hd s # replaceFrom old new (tl s))"
  by pat_completeness auto
termination
  by (relation "measure (\<lambda>(old, new, s). length s)") auto

declare replaceFrom.simps [simp del]

definition replaceAll :: "string \<Rightarrow> string \<Rightarrow> string \<Rightarrow> string" where
  "replaceAll s old new =
     (if old = [] then new @ concat (map (\<lambda>p. p @ new) (runeChunks s)) else replaceFrom old new s)"

section \<open>One occurrence\<close>

lemma hasPrefix_split: "hasPrefix s p \<Longrightarrow> s = p @ drop (length p) s"
  by (auto simp: hasPrefix_def) (metis append_eq_conv_conj)

lemma strContains_iff: "strContains s sub \<longleftrightarrow> (\<exists>as bs. s = as @ sub @ bs)"
proof (induction s)
  case Nil
  then show ?case by auto
next
  case (Cons c cs)
  show ?case
  proof
    assume "strContains (c # cs) sub"
    then consider "hasPrefix (c # cs) sub" | "strContains cs sub" by auto
    then show "\<exists>as bs. c # cs = as @ sub @ bs"
    proof cases
      case 1
      then show ?thesis using hasPrefix_split [OF 1] by (metis append_Nil)
    next
      case 2
      then show ?thesis using Cons.IH by (metis append_Cons)
    qed
  next
    assume "\<exists>as bs. c # cs = as @ sub @ bs"
    then obtain as bs where s: "c # cs = as @ sub @ bs" by blast
    show "strContains (c # cs) sub"
    proof (cases as)
      case Nil
      then have "hasPrefix (c # cs) sub" using s by (simp add: hasPrefix_def)
      then show ?thesis by simp
    next
      case (Cons a as')
      then show ?thesis using s Cons.IH by auto
    qed
  qed
qed

lemma countFrom_zero: "sub \<noteq> [] \<Longrightarrow> countFrom sub s = 0 \<longleftrightarrow> \<not> strContains s sub"
proof (induction s)
  case Nil
  then show ?case by (simp add: countFrom.simps)
next
  case (Cons c cs)
  then show ?case by (subst countFrom.simps) auto
qed

lemma replaceFirst_splits:
  "strContains s old \<Longrightarrow> \<exists>as bs. s = as @ old @ bs \<and> replaceFirst old new s = as @ new @ bs"
proof (induction s)
  case Nil
  then show ?case by auto
next
  case (Cons c cs)
  show ?case
  proof (cases "hasPrefix (c # cs) old")
    case True
    show ?thesis
      by (intro exI [of _ "[]"] exI [of _ "drop (length old) (c # cs)"] conjI)
         (use True hasPrefix_split [OF True] in simp_all)
  next
    case False
    then obtain as bs where "cs = as @ old @ bs" "replaceFirst old new cs = as @ new @ bs"
      using Cons by auto
    then show ?thesis using False by (intro exI [of _ "c # as"] exI [of _ bs]) simp
  qed
qed

end
