(* ===== verification/Gen_Text.thy ===== *)
theory Gen_Text
  imports Gen_Facade Go_Quote Go_Strings
begin

text \<open>
  The text that codegen/cmd/jcrpc-gen/main.go writes to stderr: the messages of
  codegen/validator.go, codegen/parser.go and package_files.go with their formats, the lines of
  the command, the usage; and the entry points that compose the command with the target modules,
  \<open>run\<close>, \<open>main\<close>, the Kotlin functions of codegen/generators.go and the two shims. The text of an
  error of the host or of a backend (its \<open>Error\<close> method) is a parameter, and so is the table
  of printable code points.
\<close>

record Texts =
  text_error :: "GoErr \<Rightarrow> string"
  text_printable :: "nat \<Rightarrow> bool"

definition quoteText :: "Texts \<Rightarrow> string \<Rightarrow> string" where
  "quoteText t s = Quote (text_printable t) s"

definition hexByte :: "int \<Rightarrow> string" where
  "hexByte n = ''0x'' @ padHex 2 (nat n)"

definition hexWord :: "16 word \<Rightarrow> string" where
  "hexWord w = ''0x'' @ padHex 4 (unat w)"

section \<open>Messages of the validator\<close>

fun messageText :: "Texts \<Rightarrow> ValidationMessage \<Rightarrow> string" where
  "messageText t (Text s) = s"
| "messageText t (UnsupportedType ty) =
     ''unsupported field type '' @ quoteText t ty @ '' (expected u8, u16, u32, bool, ascii, string, bytes, bytes[N], or stream)''"
| "messageText t (UnsupportedLocation loc) = ''unsupported field location '' @ quoteText t loc"
| "messageText t (DuplicateMethodName name firstPath) =
     ''duplicate method name '' @ quoteText t name @ '' (already used at '' @ firstPath @ '')''"
| "messageText t (StreamRangeExceeds lo hi) =
     ''stream instruction range '' @ hexByte lo @ ''..'' @ hexByte hi @ '' exceeds byte range''"
| "messageText t (DuplicateINS ins firstPath) =
     ''duplicate INS '' @ hexByte ins @ '' (already used at '' @ firstPath @ '')''"
| "messageText t (CollidingINS ins firstPath) =
     ''INS '' @ hexByte ins @ '' collides with instruction reserved at '' @ firstPath"
| "messageText t (ReservedINS ins) = ''INS '' @ hexByte ins @ '' is in reserved ISO 7816 range''"
| "messageText t (DuplicateStatusName name firstPath) =
     ''duplicate status word name '' @ quoteText t name @ '' (already used at '' @ firstPath @ '')''"
| "messageText t (BadStatusCode code) =
     ''status word code '' @ hexWord code @ '' must be in ISO 7816 ranges 0x6000-0x6FFF or 0x9000-0x9FFF''"
| "messageText t (DuplicateStatusCode code firstPath) =
     ''duplicate status word code '' @ hexWord code @ '' (already used at '' @ firstPath @ '')''"

section \<open>Errors of the parser\<close>

fun typeErrorText :: "Texts \<Rightarrow> TypeError \<Rightarrow> string" where
  "typeErrorText t (InvalidFixedBytesLength d) = ''invalid fixed bytes length '' @ quoteText t d"
| "typeErrorText t (UnsupportedFieldType ty) = ''unsupported field type '' @ quoteText t ty"

fun locationErrorText :: "Texts \<Rightarrow> LocationError \<Rightarrow> string" where
  "locationErrorText t DuplicateP1 = ''duplicate p1 field''"
| "locationErrorText t DuplicateP2 = ''duplicate p2 field''"
| "locationErrorText t (UnsupportedRequestLocation loc) = ''unsupported request field location '' @ quoteText t loc"

fun normalizeErrorText :: "Texts \<Rightarrow> NormalizeError \<Rightarrow> string" where
  "normalizeErrorText t (OutOfByteRange path v) = path @ '': '' @ showInt v @ '' out of byte range''"
| "normalizeErrorText t (OutOfUint16Range path v) = path @ '': '' @ showInt v @ '' out of uint16 range''"
| "normalizeErrorText t (BadFieldType path e) = path @ ''.type: '' @ typeErrorText t e"
| "normalizeErrorText t (LengthUnsupported path) = path @ ''.length: only supported for bytes and ascii fields''"
| "normalizeErrorText t (LengthNotPositive path) = path @ ''.length: must be > 0''"
| "normalizeErrorText t (StreamBoundsUnsupported path) =
     path @ '': max_length and chunk_size are only supported for stream fields''"
| "normalizeErrorText t (BadLocation path) = path @ ''.location: expected one of p1, p2, data''"
| "normalizeErrorText t (BadRequestLocations methodName e) =
     ''methods.'' @ methodName @ ''.request: '' @ locationErrorText t e"

fun parseErrorText :: "Texts \<Rightarrow> GoErr ParseError \<Rightarrow> string" where
  "parseErrorText t (ParseTOML e) = ''parse TOML: '' @ text_error t e"
| "parseErrorText t (NormalizeFailed e) = normalizeErrorText t e"
| "parseErrorText t (UnknownTOMLKeys ks) = ''unknown TOML keys: '' @ ks"

fun parseFileErrorText :: "Texts \<Rightarrow> (GoErr, GoErr) ParseFileError \<Rightarrow> string" where
  "parseFileErrorText t (OpenSchemaFile path e) = ''open schema file '' @ quoteText t path @ '': '' @ text_error t e"
| "parseFileErrorText t (ParseSchemaFile path e) = ''parse schema file '' @ quoteText t path @ '': '' @ parseErrorText t e"

section \<open>Errors of the package check and of the flag set\<close>

fun packageErrorText :: "Texts \<Rightarrow> PackageError \<Rightarrow> string" where
  "packageErrorText t EmptyPackage = ''empty package''"
| "packageErrorText t (InvalidPath name) = ''invalid path '' @ quoteText t name"
| "packageErrorText t (DuplicatePath name) = ''duplicate path '' @ quoteText t name"
| "packageErrorText t (NilData name) = ''nil data for '' @ quoteText t name"
| "packageErrorText t (FileDirectoryConflict parent) = ''file/directory conflict '' @ quoteText t parent"
| "packageErrorText t (InspectFailed e) = e"
| "packageErrorText t (SymlinkOutputPath path) = ''symlink output path '' @ quoteText t path"

text \<open>The texts of package \<open>flag\<close>.\<close>

fun flagErrorText :: "Texts \<Rightarrow> FlagError \<Rightarrow> string" where
  "flagErrorText t ErrHelp = ''flag: help requested''"
| "flagErrorText t (BadFlagSyntax s) = ''bad flag syntax: '' @ s"
| "flagErrorText t (FlagNotDefined name) = ''flag provided but not defined: -'' @ name"
| "flagErrorText t (InvalidBoolean v name) =
     ''invalid boolean value '' @ quoteText t v @ '' for -'' @ name @ '': parse error''"
| "flagErrorText t (FlagNeedsArgument name) = ''flag needs an argument: -'' @ name"

section \<open>Lines on stderr\<close>

definition printUsage :: string where
  "printUsage = unlines
     [''jcrpc-gen [flags] <input.toml>'',
      '''',
      ''Flags:'',
      ''  --out-dir string      Output directory (default '' @ [quoteMark] @ ''.'' @ [quoteMark] @ '')'',
      ''  --java string         Generate Java skeleton with given package name'',
      ''  --swift string        Generate Swift client with given module name'',
      ''  --kotlin string       Generate Kotlin client with given package name'',
      ''  --all                 Generate Java, Swift, and Kotlin outputs (uses applet name for defaults)'',
      ''  --simulator-dependency string'',
      ''                        Maven coordinate of the Java Card simulator the generated'',
      ''                        stream server compiles against (default '' @ [quoteMark] @ defaultSimulatorDependency @ [quoteMark] @ '')'',
      ''  --stream-memory string'',
      ''                        Transient memory of the generated Java stream state:'',
      ''                        clear_on_deselect (default) or clear_on_reset. Use'',
      ''                        clear_on_reset when a Security Domain forwards STORE DATA'',
      ''                        to the applet while another application is selected'',
      ''  --validate-only       Parse + validate only, no generation'',
      ''  --verbose             Print progress to stderr'',
      ''  -h, --help            Show help'']"

definition printValidationErrors :: "Texts \<Rightarrow> string \<Rightarrow> ValidationError list \<Rightarrow> string" where
  "printValidationErrors t inputBase errs = unlines
     ((inputBase @ '': validation errors:'')
      # map (\<lambda>err. ''  '' @ VE_Path err @ '': '' @ messageText t (VE_Message err)) errs)"

fun diagText :: "Texts \<Rightarrow> Diag \<Rightarrow> string" where
  "diagText t (FlagFailure err) = unlines [''error: '' @ flagErrorText t err, '''']"
| "diagText t Usage = printUsage"
| "diagText t WrongArgumentCount = unlines [''error: expected exactly one input TOML file'', '''']"
| "diagText t (ParseFailure inputPath e) = unlines [inputPath @ '': '' @ parseFileErrorText t e]"
| "diagText t (ValidationErrors inputBase errs) = printValidationErrors t inputBase errs"
| "diagText t (BadSimulatorDependency coordinate) = unlines
     [''error: invalid --simulator-dependency '' @ quoteText t coordinate
      @ '': expected group:artifact:version (for example '' @ defaultSimulatorDependency @ '')'']"
| "diagText t NoOutputsSelected = unlines
     [''error: no outputs selected (use --java, --swift, --kotlin, or --all)'']"
| "diagText t SwiftStreamsUnsupported = unlines
     [''error: stream schemas currently support Java and Kotlin generation; Swift stream generation is not implemented'']"
| "diagText t (GenerateFailed errorPrefix e) = unlines [errorPrefix @ '': '' @ text_error t e]"
| "diagText t (InspectFailedDir label pkgDir e) = unlines
     [''inspect '' @ label @ '' package dir '' @ quoteText t pkgDir @ '': '' @ packageErrorText t e]"
| "diagText t (InvalidPluginOutput errorPrefix e) = unlines
     [errorPrefix @ '': invalid plugin output: '' @ packageErrorText t e]"
| "diagText t (CreateDirFailed label dir e) = unlines
     [''create '' @ label @ '' package dir '' @ quoteText t dir @ '': '' @ text_error t e]"
| "diagText t (WriteFailed path e) = unlines [''write '' @ path @ '': '' @ text_error t e]"
| "diagText t (VerboseParsing inputPath) = unlines [''parsing '' @ inputPath]"
| "diagText t VerboseValidating = unlines [''validating schema'']"
| "diagText t VerboseValid = unlines [''validation successful'']"
| "diagText t (VerboseGenerating label naming namespace) = unlines
     [''generating '' @ label @ '' package ('' @ naming @ ''='' @ namespace @ '')'']"
| "diagText t (VerboseGenerated generated) = unlines
     ((''generated '' @ showNat (length generated) @ '' file(s):'') # map (\<lambda>path. ''  '' @ path) generated)"

definition stderrText :: "Texts \<Rightarrow> 'w Run \<Rightarrow> string" where
  "stderrText t st = concat (map (diagText t) (run_diags st))"

section \<open>Entry points over the target modules\<close>

record TargetModules =
  javacard_Plugin :: "GoErr Plugin"
  swift_Plugin :: "GoErr Plugin"
  kotlin_Plugin :: "GoErr Plugin"
  javacard_GenerateBuildGradle :: "string \<Rightarrow> string \<Rightarrow> bool \<Rightarrow> string \<Rightarrow> string"
  swift_GeneratePackageSwift :: "string \<Rightarrow> string \<Rightarrow> string"
  kotlin_GenerateKotlinClient :: "Schema \<Rightarrow> string \<Rightarrow> (GoErr, string) result"
  kotlin_GenerateKotlinBuildGradle :: "string \<Rightarrow> string \<Rightarrow> string \<Rightarrow> string"
  kotlin_GenerateKotlinSettingsGradle :: "string \<Rightarrow> string"
  kotlin_DefaultKotlinPackage :: "string \<Rightarrow> string"
  kotlin_KotlinSourceFileName :: "string \<Rightarrow> string"

definition GenerateKotlinClient :: "TargetModules \<Rightarrow> Schema \<Rightarrow> string \<Rightarrow> (GoErr, string) result" where
  "GenerateKotlinClient mods s packageName = kotlin_GenerateKotlinClient mods s packageName"

definition GenerateKotlinBuildGradle :: "TargetModules \<Rightarrow> string \<Rightarrow> string \<Rightarrow> string \<Rightarrow> string" where
  "GenerateKotlinBuildGradle mods appletLower packageName version =
     kotlin_GenerateKotlinBuildGradle mods appletLower packageName version"

definition GenerateKotlinSettingsGradle :: "TargetModules \<Rightarrow> string \<Rightarrow> string" where
  "GenerateKotlinSettingsGradle mods appletLower = kotlin_GenerateKotlinSettingsGradle mods appletLower"

definition DefaultKotlinPackage :: "TargetModules \<Rightarrow> string \<Rightarrow> string" where
  "DefaultKotlinPackage mods appletName = kotlin_DefaultKotlinPackage mods appletName"

definition KotlinSourceFileName :: "TargetModules \<Rightarrow> string \<Rightarrow> string" where
  "KotlinSourceFileName mods appletName = kotlin_KotlinSourceFileName mods appletName"

definition generatePackageSwift :: "TargetModules \<Rightarrow> string \<Rightarrow> string \<Rightarrow> string" where
  "generatePackageSwift mods appletLower clientName = swift_GeneratePackageSwift mods appletLower clientName"

definition generateBuildGradle :: "TargetModules \<Rightarrow> string \<Rightarrow> string \<Rightarrow> bool \<Rightarrow> string \<Rightarrow> string" where
  "generateBuildGradle mods namespace version streams simulator =
     javacard_GenerateBuildGradle mods namespace version streams simulator"

text \<open>The command with its released targets: the exit code and the bytes on stderr. The Kotlin
  default package is the module's.\<close>

definition Gen_run :: "Texts \<Rightarrow> TargetModules \<Rightarrow> ('i, 'w) Host \<Rightarrow> string list \<Rightarrow> 'w \<Rightarrow>
    (int \<times> string \<times> 'w) option" where
  "Gen_run t mods h args w =
     map_option (\<lambda>(code, st). (code, stderrText t st, run_world st))
       (runWithPlugins (h\<lparr>host_kotlinPackage := DefaultKotlinPackage mods\<rparr>) args
          (javacard_Plugin mods) (swift_Plugin mods) (kotlin_Plugin mods) w)"

text \<open>\<open>os.Args[1:]\<close>: the first argument is the program.\<close>

fun Gen_main :: "Texts \<Rightarrow> TargetModules \<Rightarrow> ('i, 'w) Host \<Rightarrow> string list \<Rightarrow> 'w \<Rightarrow> (int \<times> string \<times> 'w) option" where
  "Gen_main t mods h [] w = None"
| "Gen_main t mods h (program # args) w = Gen_run t mods h args w"

end
