(* ===== verification/Gen_Facts.thy ===== *)
theory Gen_Facts
  imports Gen_Cli
begin

text \<open>
  What a run of the generator does to the file system: the operations of a complete package,
  how far a run that stops early got, and where the paths lie.
\<close>

section \<open>The operations of a package\<close>

definition packageEvents :: "string \<Rightarrow> File list \<Rightarrow> OsEvent list" where
  "packageEvents pkgDir fs =
     map (\<lambda>f. MkdirAll (PathDir (outPath pkgDir f))) (rev fs)
     @ map (\<lambda>f. WriteFile (outPath pkgDir f) (fileData f)) fs"

definition packageDir :: "cliOptions \<Rightarrow> Target \<Rightarrow> string" where
  "packageDir opts t = PathJoin (cli_outDir opts) (target_root t)"

definition targetFiles :: "Schema \<Rightarrow> Target \<Rightarrow> File list" where
  "targetFiles s t = (case target_plugin t s (target_options t) of Inl _ \<Rightarrow> [] | Inr fs \<Rightarrow> fs)"

definition targetEvents :: "cliOptions \<Rightarrow> Schema \<Rightarrow> Target \<Rightarrow> OsEvent list" where
  "targetEvents opts s t =
     (if target_selected t then packageEvents (packageDir opts t) (targetFiles s t) else [])"

lemma emit_simps [simp]:
  "run_events (emit ds st) = run_events st" "run_world (emit ds st) = run_world st"
  "run_events (verbosef opts d st) = run_events st" "run_world (verbosef opts d st) = run_world st"
  by (simp_all add: emit_def verbosef_def)

lemma makeDirs_spec:
  "makeDirs h label pkgDir fs st = (code, st') \<Longrightarrow>
   \<exists>k. run_events st' = run_events st @ take k (map (\<lambda>f. MkdirAll (PathDir (outPath pkgDir f))) fs)
     \<and> (code = None \<and> length fs \<le> k \<or> code = Some exitCodeIO)"
proof (induction fs arbitrary: st)
  case (Cons f fs)
  obtain err w where m: "host_mkdirAll h (PathDir (outPath pkgDir f)) (run_world st) = (err, w)"
    by (cases "host_mkdirAll h (PathDir (outPath pkgDir f)) (run_world st)")
  show ?case
  proof (cases err)
    case None
    define st1 where "st1 = st\<lparr>run_events := run_events st @ [MkdirAll (PathDir (outPath pkgDir f))], run_world := w\<rparr>"
    have "makeDirs h label pkgDir fs st1 = (code, st')"
      using Cons.prems m None by (simp add: Let_def st1_def)
    from Cons.IH [OF this] obtain k where "run_events st' = run_events st @ [MkdirAll (PathDir (outPath pkgDir f))] @
        take k (map (\<lambda>f. MkdirAll (PathDir (outPath pkgDir f))) fs)"
      "code = None \<and> length fs \<le> k \<or> code = Some exitCodeIO"
      by (auto simp: st1_def)
    then show ?thesis by (intro exI [of _ "Suc k"]) auto
  next
    case (Some e)
    with Cons.prems m show ?thesis by (intro exI [of _ 1]) (auto simp: Let_def)
  qed
qed auto

lemma writeFiles_spec:
  "writeFiles h pkgDir fs st g = (code, st', g') \<Longrightarrow>
   \<exists>k. run_events st' = run_events st @ take k (map (\<lambda>f. WriteFile (outPath pkgDir f) (fileData f)) fs)
     \<and> (code = None \<and> length fs \<le> k \<or> code = Some exitCodeIO)"
proof (induction fs arbitrary: st g)
  case (Cons f fs)
  obtain err w where m: "host_writeFile h (outPath pkgDir f) (fileData f) (run_world st) = (err, w)"
    by (cases "host_writeFile h (outPath pkgDir f) (fileData f) (run_world st)")
  show ?case
  proof (cases err)
    case None
    define st1 where "st1 = st\<lparr>run_events := run_events st @ [WriteFile (outPath pkgDir f) (fileData f)], run_world := w\<rparr>"
    have "writeFiles h pkgDir fs st1 (g @ [outPath pkgDir f]) = (code, st', g')"
      using Cons.prems m None by (simp add: Let_def st1_def)
    from Cons.IH [OF this] obtain k where "run_events st' = run_events st @ [WriteFile (outPath pkgDir f) (fileData f)] @
        take k (map (\<lambda>f. WriteFile (outPath pkgDir f) (fileData f)) fs)"
      "code = None \<and> length fs \<le> k \<or> code = Some exitCodeIO"
      by (auto simp: st1_def)
    then show ?thesis by (intro exI [of _ "Suc k"]) auto
  next
    case (Some e)
    with Cons.prems m show ?thesis by (intro exI [of _ 1]) (auto simp: Let_def)
  qed
qed auto

text \<open>One package: a prefix of its operations, all of them when the loop goes on, and none
  unless the whole package passed the check.\<close>

definition packageStep :: "string \<Rightarrow> File list \<Rightarrow> int option \<Rightarrow> OsEvent list \<Rightarrow> bool" where
  "packageStep pkgDir fs code evs \<longleftrightarrow>
     prefix evs (packageEvents pkgDir fs)
     \<and> (code = None \<longrightarrow> evs = packageEvents pkgDir fs)
     \<and> (code = Some exitCodeGeneration \<longrightarrow> evs = [])
     \<and> (code \<noteq> None \<longrightarrow> code = Some exitCodeGeneration \<or> code = Some exitCodeIO)
     \<and> (evs \<noteq> [] \<longrightarrow> packageWF fs)"

lemma packageStep_refused:
  "code = Some exitCodeGeneration \<or> code = Some exitCodeIO \<Longrightarrow> packageStep pkgDir fs code []"
  by (auto simp: packageStep_def)

lemma writePackage_step:
  assumes d: "makeDirs h label pkgDir (rev fs) st = (c1, st1)"
    and w: "(if c1 = None then writeFiles h pkgDir fs st1 g else (c1, st1, g)) = (code, st', g')"
    and wf: "packageWF fs"
  shows "\<exists>evs. run_events st' = run_events st @ evs \<and> packageStep pkgDir fs code evs"
proof -
  let ?D = "map (\<lambda>f. MkdirAll (PathDir (outPath pkgDir f))) (rev fs)"
  let ?W = "map (\<lambda>f. WriteFile (outPath pkgDir f) (fileData f)) fs"
  from makeDirs_spec [OF d] obtain k where k: "run_events st1 = run_events st @ take k ?D"
    "c1 = None \<and> length fs \<le> k \<or> c1 = Some exitCodeIO" by auto
  have io: "exitCodeIO \<noteq> exitCodeGeneration" by (simp add: exitCodeIO_def exitCodeGeneration_def)
  show ?thesis
  proof (cases "c1 = None")
    case True
    with w have "writeFiles h pkgDir fs st1 g = (code, st', g')" by simp
    from writeFiles_spec [OF this] obtain n where n: "run_events st' = run_events st1 @ take n ?W"
      "code = None \<and> length fs \<le> n \<or> code = Some exitCodeIO" by auto
    have "take k ?D = ?D" using True k(2) by simp
    then have e: "run_events st' = run_events st @ ?D @ take n ?W" using n(1) k(1) by simp
    have p: "prefix (?D @ take n ?W) (packageEvents pkgDir fs)"
      unfolding packageEvents_def by (simp add: take_is_prefix)
    have c: "code = None \<Longrightarrow> take n ?W = ?W" using n(2) by auto
    have "packageStep pkgDir fs code (?D @ take n ?W)"
      unfolding packageStep_def using p c n(2) io wf by (auto simp: packageEvents_def)
    with e show ?thesis by blast
  next
    case False
    with w k have s: "code = Some exitCodeIO" "run_events st' = run_events st @ take k ?D" by auto
    have "prefix (take k ?D) (packageEvents pkgDir fs)"
      unfolding packageEvents_def by (rule prefix_prefix [OF take_is_prefix])
    with s io wf show ?thesis by (auto simp: packageStep_def)
  qed
qed

lemma runTarget_step:
  obtains code st' g' evs where "runTarget h opts s t st g = Some (code, st', g')"
    and "run_events st' = run_events st @ evs"
    and "target_selected t \<Longrightarrow> packageStep (packageDir opts t) (targetFiles s t) code evs"
    and "\<not> target_selected t \<Longrightarrow> code = None \<and> evs = []"
proof (cases "target_selected t")
  case False
  then show thesis by (intro that [of None st g "[]"]) (auto simp: runTarget_def)
next
  case True
  define naming where "naming = (if target_label t = ''swift'' then ''module'' else ''package'')"
  define st1 where "st1 = verbosef opts (VerboseGenerating (target_label t) naming (target_namespace t)) st"
  have e1: "run_events st1 = run_events st" "run_world st1 = run_world st" by (simp_all add: st1_def)
  note unf = runTarget_def Let_def naming_def [symmetric] st1_def [symmetric] packageDir_def [symmetric]
  show thesis
  proof (cases "target_plugin t s (target_options t)")
    case (Inl e)
    show thesis
      by (rule that [of "Some exitCodeGeneration" "emit [GenerateFailed (target_errorPrefix t) e] st1" g "[]"])
         (use True in \<open>simp_all add: unf Inl e1 packageStep_refused\<close>)
  next
    case (Inr fs)
    then have fs: "targetFiles s t = fs" by (simp add: targetFiles_def)
    obtain r where r: "validatePackageFiles (host_lstat h (run_world st1)) (packageDir opts t) fs = Some r"
      "\<not> isl r \<longleftrightarrow> packageWF fs \<and> (\<forall>f\<in>set fs. walkClear (host_lstat h (run_world st1)) (packageDir opts t) (fileParts f))"
      by (rule validatePackageFiles_decides)
    show thesis
    proof (cases r)
      case (Inl e)
      define cs where "cs = (if isIOError (packageError e)
         then (exitCodeIO, emit [InspectFailedDir (target_label t) (packageDir opts t) e] st1)
         else (exitCodeGeneration, emit [InvalidPluginOutput (target_errorPrefix t) e] st1))"
      show thesis
        by (rule that [of "Some (fst cs)" "snd cs" g "[]"])
           (use True in \<open>simp_all add: unf \<open>target_plugin t s (target_options t) = Inr fs\<close> r(1) [unfolded e1] Inl cs_def e1 packageStep_refused\<close>)
    next
      case (Inr u)
      with r(2) have wf: "packageWF fs" by simp
      obtain c1 st2 where m: "makeDirs h (target_label t) (packageDir opts t) (rev fs) st1 = (c1, st2)"
        by (cases "makeDirs h (target_label t) (packageDir opts t) (rev fs) st1")
      obtain code st' g' where w: "(if c1 = None then writeFiles h (packageDir opts t) fs st2 g else (c1, st2, g)) = (code, st', g')"
        by (metis prod_cases3)
      obtain evs where evs: "run_events st' = run_events st1 @ evs" "packageStep (packageDir opts t) fs code evs"
        using writePackage_step [OF m w wf] by blast
      have "runTarget h opts s t st g = Some (code, st', g')"
        using True w by (cases c1) (auto simp: unf \<open>target_plugin t s (target_options t) = Inr fs\<close> r(1) [unfolded e1] Inr m)
      then show thesis by (rule that [of code st' g' evs]) (use evs e1 True fs in simp_all)
    qed
  qed
qed

text \<open>The loop over the targets.\<close>

definition targetsStep :: "cliOptions \<Rightarrow> Schema \<Rightarrow> Target list \<Rightarrow> int option \<Rightarrow> OsEvent list \<Rightarrow> bool" where
  "targetsStep opts s ts code evs \<longleftrightarrow>
     prefix evs (concat (map (targetEvents opts s) ts))
     \<and> (code = None \<longrightarrow> evs = concat (map (targetEvents opts s) ts))
     \<and> (code = Some exitCodeGeneration \<longrightarrow> (\<exists>k. evs = concat (map (targetEvents opts s) (take k ts))))
     \<and> (code \<noteq> None \<longrightarrow> code = Some exitCodeGeneration \<or> code = Some exitCodeIO)
     \<and> (\<forall>ev\<in>set evs. \<exists>t\<in>set ts. target_selected t \<and> packageWF (targetFiles s t)
          \<and> ev \<in> set (packageEvents (packageDir opts t) (targetFiles s t)))"

lemma runTargets_step:
  obtains code st' g' evs where "runTargets h opts s ts st g = Some (code, st', g')"
    and "run_events st' = run_events st @ evs" and "targetsStep opts s ts code evs"
proof (induction ts arbitrary: st g thesis)
  case Nil
  show ?case by (rule Nil [of None st g "[]"]) (simp_all add: targetsStep_def)
next
  case (Cons t ts)
  obtain c1 st1 g1 e1 where t: "runTarget h opts s t st g = Some (c1, st1, g1)"
    "run_events st1 = run_events st @ e1"
    "target_selected t \<Longrightarrow> packageStep (packageDir opts t) (targetFiles s t) c1 e1"
    "\<not> target_selected t \<Longrightarrow> c1 = None \<and> e1 = []"
    using runTarget_step [of h opts s t st g] by blast
  have p: "prefix e1 (targetEvents opts s t)" "c1 = None \<Longrightarrow> e1 = targetEvents opts s t"
    "c1 = Some exitCodeGeneration \<Longrightarrow> e1 = []"
    "c1 \<noteq> None \<Longrightarrow> c1 = Some exitCodeGeneration \<or> c1 = Some exitCodeIO"
    using t(3,4) by (auto simp: targetEvents_def packageStep_def split: if_splits)
  have q: "\<exists>t'\<in>set (t # ts). target_selected t' \<and> packageWF (targetFiles s t')
          \<and> ev \<in> set (packageEvents (packageDir opts t') (targetFiles s t'))" if ev: "ev \<in> set e1" for ev
  proof -
    have "target_selected t" using ev t(4) by fastforce
    moreover from this have "packageStep (packageDir opts t) (targetFiles s t) c1 e1" by (rule t(3))
    ultimately show ?thesis using ev by (auto simp: packageStep_def dest: set_mono_prefix)
  qed
  show ?case
  proof (cases c1)
    case (Some c)
    have "exitCodeIO \<noteq> exitCodeGeneration" by (simp add: exitCodeIO_def exitCodeGeneration_def)
    then have "targetsStep opts s (t # ts) c1 e1"
      using p q Some by (auto simp: targetsStep_def prefix_append intro: exI [of _ 0])
    with Some t(1,2) show ?thesis by (intro Cons.prems [of c1 st1 g1 e1]) simp_all
  next
    case None
    obtain c2 st2 g2 e2 where r: "runTargets h opts s ts st1 g1 = Some (c2, st2, g2)"
      "run_events st2 = run_events st1 @ e2" "targetsStep opts s ts c2 e2"
      by (rule Cons.IH [of st1 g1])
    have "\<exists>k. e1 @ e2 = concat (map (targetEvents opts s) (take k (t # ts)))" if c: "c2 = Some exitCodeGeneration"
    proof -
      from r(3) c obtain k where "e2 = concat (map (targetEvents opts s) (take k ts))"
        unfolding targetsStep_def by blast
      then show ?thesis using p(2) [OF None] by (intro exI [of _ "Suc k"]) simp
    qed
    moreover have "prefix (e1 @ e2) (concat (map (targetEvents opts s) (t # ts)))"
      using r(3) p(2) [OF None] by (simp add: targetsStep_def)
    ultimately have "targetsStep opts s (t # ts) c2 (e1 @ e2)"
      using r(3) p(2) [OF None] q unfolding targetsStep_def by (auto simp: Un_iff)
    with None t(1,2) r show ?thesis by (intro Cons.prems [of c2 st2 g2 "e1 @ e2"]) simp_all
  qed
qed

end
