(* ===== verification/Gen_Paths.thy ===== *)
theory Gen_Paths
  imports Gen_Facts
begin

text \<open>
  Where the generator writes: every path is the output directory, the target root (one
  component derived from the applet name) and the components of the file name.
\<close>

section \<open>The target root is one component\<close>

text \<open>No lower-case mapping beyond ASCII yields a slash.\<close>

definition lowerKeepsSlash :: "unicode_tables \<Rightarrow> bool" where
  "lowerKeepsSlash u \<longleftrightarrow> (\<forall>r\<ge>0x80. uni_lower u r \<noteq> byte slash)"

lemma byte_slash: "byte slash = 47"
  by (simp add: byte_def)

lemma byte_inj: "byte c = byte d \<Longrightarrow> c = d"
  by (simp add: byte_def)

lemma encoded_slash: "slash \<in> set (concat (map encode_rune rs)) \<Longrightarrow> 47 \<in> set rs"
  using encode_rune_low [of slash] by (auto simp: byte_slash)

lemma appletFileStem_no_slash: "slash \<notin> set (appletFileStem u name)"
proof
  assume a: "slash \<in> set (appletFileStem u name)"
  let ?P = "\<lambda>r. IsLetter u r \<or> IsDigit u r \<or> r = byte (CHR ''_'')"
  from a have "slash \<in> set (concat (map encode_rune (filter ?P (runes (TrimSpace name)))))"
    by (auto simp: appletFileStem_def Let_def split: if_splits)
  then have "47 \<in> set (filter ?P (runes (TrimSpace name)))" by (rule encoded_slash)
  then show False by (simp add: IsLetter_def IsDigit_def byte_def)
qed

lemma appletFileStem_not_Nil: "appletFileStem u name \<noteq> ''''"
  by (simp add: appletFileStem_def Let_def)

lemma ToLower_no_slash:
  assumes u: "lowerKeepsSlash u" and s: "slash \<notin> set s"
  shows "slash \<notin> set (ToLower u s)"
proof
  assume "slash \<in> set (ToLower u s)"
  then have "47 \<in> set (map (lowerRune u) (runes s))"
    using encoded_slash [of "map (lowerRune u) (runes s)"] by (simp add: ToLower_def o_def)
  then obtain r where r: "r \<in> set (runes s)" "lowerRune u r = 47" by auto
  have "r < 0x80 \<and> r = 47"
  proof (cases "r < 0x80")
    case True
    with r(2) show ?thesis by (auto simp: lowerRune_def split: if_splits)
  next
    case False
    with r(2) u show ?thesis by (simp add: lowerRune_def lowerKeepsSlash_def byte_slash)
  qed
  with r(1) runes_low [of r s] obtain c where "c \<in> set s" "byte c = byte slash" by (auto simp: byte_slash)
  with s byte_inj show False by blast
qed

lemma okPart_suffix: "slash \<notin> set p \<Longrightarrow> slash \<notin> set q \<Longrightarrow> 3 \<le> length q \<Longrightarrow> okPart (p @ q)"
proof -
  assume a: "slash \<notin> set p" "slash \<notin> set q" "3 \<le> length q"
  then have "3 \<le> length (p @ q)" by simp
  then have "p @ q \<noteq> ''''" "p @ q \<noteq> ''.''" "p @ q \<noteq> ''..''" by (auto dest: arg_cong [where f = length])
  with a show ?thesis by (simp add: okPart_def)
qed

lemma targetList_roots:
  assumes "lowerKeepsSlash (host_unicode h)" "t \<in> set (targetList h opts s j sw k)"
  shows "okPart (target_root t)"
proof -
  have l: "slash \<notin> set (ToLower (host_unicode h) (appletFileStem (host_unicode h) name))" for name
    by (rule ToLower_no_slash [OF assms(1) appletFileStem_no_slash])
  from assms(2) show ?thesis
    by (auto simp: targetList_def Let_def intro!: okPart_suffix l)
qed

section \<open>Paths of the operations\<close>

lemma renderPath_snoc:
  "qs \<noteq> [] \<Longrightarrow> canon r qs \<Longrightarrow> renderPath r (qs @ [q]) = renderPath r qs @ slash # q"
proof -
  assume "qs \<noteq> []" "canon r qs"
  then have "joinWith slash qs \<noteq> ''''"
    by (cases qs; cases "tl qs") (use canon_part [of r qs "hd qs"] in auto)
  with \<open>qs \<noteq> []\<close> show ?thesis by (simp add: renderPath_def Let_def joinWith_append)
qed

lemma Clean_trailing: "p \<noteq> '''' \<Longrightarrow> Clean (p @ [slash]) = Clean p"
proof -
  assume p: "p \<noteq> ''''"
  have c: "cleanParts r out (xs @ [[]]) = cleanParts r out xs" for r out xs
    by (induction r out xs rule: cleanParts.induct) (auto split: list.split)
  have "splitOn slash (p @ [slash]) = splitOn slash p @ [[]]"
    using splitOn_append_sep [of slash p "[]"] by simp
  then show ?thesis by (simp add: Clean_def rooted_append [OF p] c)
qed

lemma PathDir_render:
  assumes "canon r qs" "okPart q"
  shows "PathDir (renderPath r (qs @ [q])) = renderPath r qs"
proof (cases "qs = []")
  case False
  have s: "slash \<notin> set q" using assms(2) by (simp add: okPart_def)
  have "PathDir (renderPath r (qs @ [q])) = Clean (renderPath r qs @ [slash])"
    unfolding PathDir_def renderPath_snoc [OF False assms(1)] dropWhile_to_slash [OF s] ..
  also have "\<dots> = Clean (renderPath r qs)" by (rule Clean_trailing [OF renderPath_facts(3) [OF assms(1)]])
  also have "\<dots> = renderPath r qs"
    by (simp add: Clean_rootParts renderPath_facts [OF assms(1)])
  finally show ?thesis .
next
  case True
  show ?thesis
  proof (cases r)
    case False
    then show ?thesis
      using PathDir_ok [of "[q]"] assms(2) True by (simp add: relPath_def renderPath_def okPart_def)
  next
    case r: True
    have "slash \<notin> set q" "q \<noteq> ''''" using assms(2) by (simp_all add: okPart_def)
    then have "PathDir (''/'' @ q) = Clean ''/''"
      using dropWhile_to_slash [of q "''''"] by (simp add: PathDir_def)
    also have "\<dots> = ''/''" by code_simp
    finally show ?thesis using True r by (simp add: renderPath_def)
  qed
qed

definition packagePath :: "cliOptions \<Rightarrow> Target \<Rightarrow> string list \<Rightarrow> string" where
  "packagePath opts t ps =
     renderPath (rooted (cli_outDir opts)) (rootParts (cli_outDir opts) @ target_root t # ps)"

lemma outPath_parts:
  assumes t: "okPart (target_root t)" and f: "canonicalName (File_Name f)"
  shows "outPath (packageDir opts t) f = packagePath opts t (fileParts f)"
    and "PathDir (outPath (packageDir opts t) f) = packagePath opts t (butlast (fileParts f))"
proof -
  let ?o = "cli_outDir opts"
  have ok: "list_all okPart (fileParts f)" "fileParts f \<noteq> []"
    using f by (simp_all add: canonicalName_def fileParts_def)
  have c: "canon (rooted ?o) (rootParts ?o @ [target_root t])"
    by (rule canon_snoc_ok [OF canon_rootParts t])
  have d: "packageDir opts t = renderPath (rooted ?o) (rootParts ?o @ [target_root t])"
    using PathJoin_ok [of "[target_root t]" ?o] t by (simp add: packageDir_def)
  have n: "File_Name f = joinWith slash (fileParts f)" by (simp add: fileParts_def join_split)
  show o: "outPath (packageDir opts t) f = packagePath opts t (fileParts f)"
    unfolding outPath_def FromSlash_def n using PathJoin_ok [OF ok(2,1), of "packageDir opts t"]
    by (simp add: d renderPath_facts [OF c] packagePath_def)
  obtain qs q where fp: "fileParts f = qs @ [q]" using ok(2) by (metis rev_exhaust)
  with ok have q: "okPart q" "list_all okPart qs" by auto
  have "canon (rooted ?o) ((rootParts ?o @ [target_root t]) @ qs)" by (rule canon_append_ok [OF c q(2)])
  from PathDir_render [OF this q(1)]
  show "PathDir (outPath (packageDir opts t) f) = packagePath opts t (butlast (fileParts f))"
    unfolding o by (simp add: packagePath_def fp)
qed

end
