(* ===== verification/Idl_Spec.thy ===== *)
theory Idl_Spec
  imports Idl_Validator
begin

text \<open>
  The rules of the IDL document (.spec/idl.md, sections 2 to 8) as predicates over the
  schema model, independent of the order and the tables of the checks: what a conforming
  field, message, method, status word, applet and schema is. The validator is compared with
  \<open>idlConforms\<close>.
\<close>

section \<open>Fields and messages\<close>

definition locationOK :: "Field \<Rightarrow> bool" where
  "locationOK f \<longleftrightarrow>
     Field_Location f \<in> {ParameterLocationNone, ParameterLocationP1, ParameterLocationP2, ParameterLocationData}
     \<and> (Field_Location f \<in> {ParameterLocationP1, ParameterLocationP2} \<longrightarrow> isP1P2FieldType (Field_Type f))"

text \<open>The rules of the IDL document for one field, whatever its location.\<close>

definition fieldWF :: "Field \<Rightarrow> bool" where
  "fieldWF f \<longleftrightarrow>
     isIdentifier (Field_Name f) \<and> isKnownFieldType (Field_Type f)
     \<and> (Field_Type f = FieldTypeStream \<longrightarrow>
          1 \<le> Field_MaxLength f \<and> Field_MaxLength f \<le> 32767
          \<and> 1 \<le> Field_ChunkSize f \<and> Field_ChunkSize f \<le> 255
          \<and> Field_MaxLength f \<le> Field_ChunkSize f * 255
          \<and> Field_Location f \<in> {ParameterLocationNone, ParameterLocationData})
     \<and> (\<forall>l. Field_Length f = Some l \<longrightarrow> 0 < l \<and> Field_Type f \<in> {FieldTypeBytes, FieldTypeASCII})
     \<and> (Field_Type f = FieldTypeBytesFixed \<longrightarrow> 0 < Field_FixedLength f)"

definition messageWF :: "Message option \<Rightarrow> bool" where
  "messageWF msg = (case msg of None \<Rightarrow> True
     | Some m \<Rightarrow>
         (\<forall>f\<in>set (Message_Fields m). fieldWF f \<and> locationOK f)
         \<and> countLoc ParameterLocationP1 (Message_Fields m) \<le> 1
         \<and> countLoc ParameterLocationP2 (Message_Fields m) \<le> 1
         \<and> ((\<exists>f\<in>set (Message_Fields m). Field_Type f = FieldTypeStream) \<longrightarrow> length (Message_Fields m) = 1))"

section \<open>Streamed methods\<close>

definition streamModeWF :: "Applet \<Rightarrow> Method \<Rightarrow> bool" where
  "streamModeWF a m \<longleftrightarrow>
     Method_StreamMode m = '''' \<or>
     Method_StreamMode m \<in> {StreamModePublicInvalidate, StreamModeChunked}
     \<and> StreamField (Method_Request m) \<noteq> None
     \<and> Applet_StreamWorkspace a = ''persistent''
     \<and> Applet_StreamWorkspaceCleanup a = StreamWorkspaceCleanupAuthenticatedInvalidate"

definition methodStreamWF :: "(Method \<Rightarrow> bool) \<Rightarrow> Applet \<Rightarrow> Method \<Rightarrow> bool" where
  "methodStreamWF short a m \<longleftrightarrow>
     streamModeWF a m
     \<and> (StreamField (Method_Response m) \<noteq> None \<and>
        Applet_StreamWorkspaceCleanup a = StreamWorkspaceCleanupAuthenticatedInvalidate \<longrightarrow>
          Method_StreamMode m \<noteq> '''')
     \<and> (HasStream (Some m) \<and> StreamField (Method_Response m) = None \<longrightarrow> short m)
     \<and> (HasStream (Some m) \<longrightarrow>
          (\<forall>f\<in>set (responseFields (Method_Request m)).
             Field_Location f \<notin> {ParameterLocationP1, ParameterLocationP2}))"

section \<open>Methods\<close>

text \<open>The instruction numbers a method owns.\<close>

definition insRange :: "Method \<Rightarrow> int set" where
  "insRange m = {uint (Method_INS m) ..< uint (Method_INS m) + int (insCount m)}"

definition reservedINS :: "int set" where
  "reservedINS = {0x60..0x6F} \<union> {0x90..0x9F}"

definition methodWF :: "(Method \<Rightarrow> bool) \<Rightarrow> Applet \<Rightarrow> string \<Rightarrow> Method \<Rightarrow> bool" where
  "methodWF short a key m \<longleftrightarrow>
     isIdentifier key
     \<and> (TrimSpace (Method_Name m) = '''' \<or> isIdentifier (Method_Name m))
     \<and> insRange m \<subseteq> {0..255} - reservedINS
     \<and> messageWF (Method_Request m) \<and> messageWF (Method_Response m)
     \<and> methodStreamWF short a m"

text \<open>No conflict in the two tables, as pairwise conditions on the methods.\<close>

definition methodsDisjoint :: "Schema \<Rightarrow> bool" where
  "methodsDisjoint s \<longleftrightarrow>
     (\<forall>k k' m m'. (k, Some m) \<in> set (Schema_Methods s) \<and> (k', Some m') \<in> set (Schema_Methods s) \<and> k \<noteq> k' \<longrightarrow>
        effectiveMethodName k m \<noteq> effectiveMethodName k' m' \<and> insRange m \<inter> insRange m' = {})"

definition methodsWF :: "(Method \<Rightarrow> bool) \<Rightarrow> Schema \<Rightarrow> bool" where
  "methodsWF short s \<longleftrightarrow> Schema_Methods s \<noteq> []
     \<and> (\<forall>(k, mo)\<in>set (Schema_Methods s). \<exists>m. mo = Some m \<and> methodWF short (Schema_Applet s) k m)
     \<and> methodsDisjoint s"

section \<open>Status words and applet\<close>

definition statusWF :: "string \<Rightarrow> StatusWord \<Rightarrow> bool" where
  "statusWF key sw \<longleftrightarrow> isIdentifier key
     \<and> (TrimSpace (StatusWord_Name sw) = '''' \<or> isIdentifier (StatusWord_Name sw))
     \<and> unat (StatusWord_Code sw) \<in> {0x6000..0x6FFF} \<union> {0x9000..0x9FFF}"

definition statusWordsWF :: "Schema \<Rightarrow> bool" where
  "statusWordsWF s \<longleftrightarrow>
     (\<forall>(k, sw)\<in>set (Schema_StatusWords s). statusWF k sw)
     \<and> (\<forall>(k, sw)\<in>set (Schema_StatusWords s). \<forall>(k', sw')\<in>set (Schema_StatusWords s). k \<noteq> k' \<longrightarrow>
          effectiveStatusName k sw \<noteq> effectiveStatusName k' sw' \<and> StatusWord_Code sw \<noteq> StatusWord_Code sw')"

text \<open>Five to sixteen bytes of hex; three decimal numbers without leading zeros.\<close>

definition validAID :: "string \<Rightarrow> bool" where
  "validAID aid \<longleftrightarrow> (\<exists>n\<in>{5..16}. length aid = 2 * n) \<and> (\<forall>c\<in>set aid. isHexDigit c)"

definition semanticVersion :: "string \<Rightarrow> bool" where
  "semanticVersion v \<longleftrightarrow>
     (\<exists>major minor patch. v = showNat major @ ''.'' @ showNat minor @ ''.'' @ showNat patch)"

definition appletWF :: "Applet \<Rightarrow> bool" where
  "appletWF a \<longleftrightarrow>
     Applet_StreamWorkspace a \<in> {'''', ''transient'', ''persistent''}
     \<and> Applet_StreamWorkspaceCleanup a \<in> {'''', ''whole-reply-area'', ''authenticated-invalidate''}
     \<and> (Applet_StreamWorkspaceCleanup a \<noteq> '''' \<longrightarrow> Applet_StreamWorkspace a = ''persistent'')
     \<and> TrimSpace (Applet_Name a) \<noteq> '''' \<and> validAID (Applet_AID a)
     \<and> Applet_CLA a \<noteq> 0 \<and> semanticVersion (Applet_Version a)"

section \<open>The whole schema\<close>

text \<open>
  \<open>short\<close> is the rule for the ordinary response of a streamed method. The document asks
  for a declared width of at most 255 bytes (\<open>shortResponseFits\<close>).
\<close>

definition shortResponseFits :: "Method \<Rightarrow> bool" where
  "shortResponseFits m \<longleftrightarrow>
     allFixed (responseFields (Method_Response m)) \<longrightarrow> declaredWidth (responseFields (Method_Response m)) \<le> 255"

definition schemaWF :: "(Method \<Rightarrow> bool) \<Rightarrow> Schema \<Rightarrow> bool" where
  "schemaWF short s \<longleftrightarrow> appletWF (Schema_Applet s) \<and> methodsWF short s \<and> statusWordsWF s"

definition idlConforms :: "Schema \<Rightarrow> bool" where
  "idlConforms s \<longleftrightarrow> schemaWF shortResponseFits s"

definition goodMaps :: "Schema \<Rightarrow> bool" where
  "goodMaps s \<longleftrightarrow> gomap_ok (Schema_Methods s) \<and> gomap_ok (Schema_StatusWords s)"

end
