(* ===== verification/Validator_Facts.thy ===== *)
theory Validator_Facts
  imports Idl_Spec
begin

text \<open>
  Each check of the validator is characterised by the condition under which it adds no
  error. The loops with tables reduce, through the interpretation \<open>go_table\<close>, to
  statements about the list of claims they make.
\<close>

section \<open>Lexical checks\<close>

lemma even_range_iff: "(\<exists>n\<in>{5..16}. len = 2 * n) \<longleftrightarrow> \<not> (len < 10 \<or> len > 32 \<or> len mod 2 \<noteq> (0::nat))"
proof
  assume "\<not> (len < 10 \<or> len > 32 \<or> len mod 2 \<noteq> 0)"
  then have "len = 2 * (len div 2)" "len div 2 \<in> {5..16}" by auto
  then show "\<exists>n\<in>{5..16}. len = 2 * n" by blast
qed auto

lemma isValidAID_iff: "isValidAID aid \<longleftrightarrow> validAID aid"
proof -
  have t: "aid \<noteq> [] \<longrightarrow> (\<forall>c\<in>set aid. isHexDigit c) \<longrightarrow> TrimSpace aid = aid"
    by (intro impI TrimSpace_plain) (auto intro: isHexDigit_plain)
  show ?thesis
    unfolding isValidAID_def validAID_def even_range_iff using t by (cases "aid = []") (auto simp: list_all_iff)
qed

lemma isSemverNumber_iff: "isSemverNumber n \<longleftrightarrow> (\<exists>k. n = showNat k)"
proof
  assume "isSemverNumber n"
  then consider "n = ''0''" | c s where "n = c # s" "isDigit c" "c \<noteq> CHR ''0''" "list_all isDigit s"
    by (auto simp: isSemverNumber_def split: list.splits)
  then show "\<exists>k. n = showNat k"
  proof cases
    case 1
    then have "n = showNat 0" by (simp add: showNat.simps digitChar_0)
    then show ?thesis ..
  next
    case 2
    then show ?thesis using showNat_digitsValue by metis
  qed
next
  assume "\<exists>k. n = showNat k"
  then obtain k where k: "n = showNat k" ..
  show "isSemverNumber n"
  proof (cases "k = 0")
    case True
    then show ?thesis by (simp add: k isSemverNumber_def showNat.simps digitChar_0)
  next
    case False
    then show ?thesis
      using showNat_head [OF False] showNat_digits [of k] showNat_not_Nil [of k]
      by (cases "showNat k") (auto simp: k isSemverNumber_def)
  qed
qed

lemma isSemver_iff: "isSemver v \<longleftrightarrow> semanticVersion v"
proof
  assume v: "isSemver v"
  then obtain a b c where s: "splitOn CHR ''.'' v = [a, b, c]"
    by (auto simp: isSemver_def numeral_3_eq_3 length_Suc_conv)
  with v obtain i j k where "a = showNat i" "b = showNat j" "c = showNat k"
    by (auto simp: isSemver_def isSemverNumber_iff)
  moreover have "v = a @ ''.'' @ b @ ''.'' @ c" using join_split [of "CHR ''.''" v] s by simp
  ultimately show "semanticVersion v" by (auto simp: semanticVersion_def)
next
  assume "semanticVersion v"
  then obtain i j k where v: "v = showNat i @ CHR ''.'' # showNat j @ CHR ''.'' # showNat k"
    by (auto simp: semanticVersion_def)
  have nodot: "CHR ''.'' \<notin> set (showNat n)" for n
    using showNat_digits [of n] by (auto simp: list_all_iff isDigit_def byte_def)
  have "splitOn CHR ''.'' v = [showNat i, showNat j, showNat k]"
    unfolding v by (simp add: splitOn_append splitOn_plain nodot)
  then show "isSemver v" by (auto simp: isSemver_def isSemverNumber_iff)
qed

section \<open>Messages\<close>

definition countStreams :: "Field list \<Rightarrow> nat" where
  "countStreams fs = length (filter (\<lambda>f. Field_Type f = FieldTypeStream) fs)"

lemma countStreams_simps [simp]:
  "countStreams [] = 0"
  "countStreams (f # fs) = (if Field_Type f = FieldTypeStream then Suc (countStreams fs) else countStreams fs)"
  by (simp_all add: countStreams_def)

lemma fieldErrors_Nil_iff: "fieldErrors p f = [] \<longleftrightarrow> fieldWF f"
proof -
  have w: "wrap64 (Field_ChunkSize f * 0xFF) = Field_ChunkSize f * 0xFF"
    if "0 < Field_ChunkSize f" "Field_ChunkSize f \<le> 0xFF"
    by (rule wrap64_id) (use that in \<open>simp add: int64_ok_def\<close>)
  show ?thesis
  proof (cases "Field_Type f = FieldTypeStream \<and> \<not> (0 < Field_ChunkSize f \<and> Field_ChunkSize f \<le> 0xFF)")
    case True
    then show ?thesis by (auto simp: fieldErrors_def fieldWF_def)
  next
    case False
    then show ?thesis
      by (cases "Field_Length f"; cases "Field_Type f = FieldTypeStream")
         (auto simp: fieldErrors_def fieldWF_def w not_less not_le)
  qed
qed

lemma validateFields_count: "snd (validateFields path isRequest i s1 s2 c fs) = c + countStreams fs"
  by (induction fs arbitrary: i s1 s2 c) (simp_all add: Let_def case_prod_beta)

lemma validateFields_Nil_iff:
  "fst (validateFields path isRequest i s1 s2 c fs) = [] \<longleftrightarrow>
     (\<forall>f\<in>set fs. fieldWF f \<and> locationOK f)
     \<and> countLoc ParameterLocationP1 fs + of_bool s1 \<le> 1
     \<and> countLoc ParameterLocationP2 fs + of_bool s2 \<le> 1"
proof (induction fs arbitrary: i s1 s2 c)
  case (Cons f fs)
  consider (n) "Field_Location f = ''''" | (p1) "Field_Location f = ''p1''" | (p2) "Field_Location f = ''p2''"
    | (d) "Field_Location f = ''data''"
    | (u) "Field_Location f \<notin> {'''', ''p1'', ''p2'', ''data''}"
    by auto
  then show ?case
    by cases (auto simp: Cons.IH fieldErrors_Nil_iff locationOK_def Let_def case_prod_beta)
qed simp

lemma countStreams_pos: "0 < countStreams fs \<longleftrightarrow> (\<exists>f\<in>set fs. Field_Type f = FieldTypeStream)"
  by (induction fs) auto

lemma validateMessage_Nil_iff: "validateMessage path msg isRequest = [] \<longleftrightarrow> messageWF msg"
proof (cases msg)
  case (Some m)
  show ?thesis
    using validateFields_Nil_iff [of path isRequest 0 False False 0 "Message_Fields m"]
      validateFields_count [of path isRequest 0 False False 0 "Message_Fields m"]
    by (auto simp: Some validateMessage_def messageWF_def countStreams_pos case_prod_beta
        simp del: FieldTypeStream_def)
qed (simp add: validateMessage_def messageWF_def)

section \<open>Instruction ranges\<close>

lemma claimINS_table:
  "snd (claimINS p base offs seen) = claimAll tbl_get tbl_put seen (map (\<lambda>off. (base + int off, p)) offs)"
  by (induction p base offs seen rule: claimINS.induct)
     (auto simp: Let_def split: option.split prod.split)

lemma claimINS_Nil_iff:
  "fst (claimINS p base offs seen) = [] \<longleftrightarrow>
     conflicts tbl_get tbl_put seen (map (\<lambda>off. (base + int off, p)) offs) = []
     \<and> (\<forall>off\<in>set offs. \<not> isReservedINS (word_of_int (base + int off)))"
proof (induction offs arbitrary: seen)
  case (Cons off offs)
  show ?case
    by (cases "tbl_get seen (base + int off)") (auto simp: Let_def case_prod_beta Cons.IH)
qed simp

lemma takeWhile_upto_all: "base + int n - 1 \<le> 0xFF \<Longrightarrow>
  takeWhile (\<lambda>off. base + int off \<le> 0xFF) [0..<n] = [0..<n]"
  by (auto simp: takeWhile_eq_all_conv)

lemma isReservedINS_iff:
  "0 \<le> i \<Longrightarrow> i \<le> 255 \<Longrightarrow>
   isReservedINS (word_of_int i) \<longleftrightarrow> i \<in> {0x60..0x6F} \<union> {0x90..0x9F}"
  by (auto simp: isReservedINS_def word_le_def uint_word_of_int)

definition insOffsets :: "Method \<Rightarrow> nat list" where
  "insOffsets m = takeWhile (\<lambda>off. uint (Method_INS m) + int off \<le> 0xFF) [0..<insCount m]"

definition insClaims :: "string \<Rightarrow> Method \<Rightarrow> (int \<times> string) list" where
  "insClaims path m = map (\<lambda>off. (uint (Method_INS m) + int off, path @ ''.ins'')) (insOffsets m)"

lemma uint8_bounds: "0 \<le> uint (w :: 8 word)" "uint (w :: 8 word) < 256"
  using uint_bounded [of w] by simp_all

lemma insClaims_fst:
  assumes "insRange m \<subseteq> {0..255}"
  shows "map fst (insClaims path m) = map (\<lambda>off. uint (Method_INS m) + int off) [0..<insCount m]"
    and "set (map fst (insClaims path m)) = insRange m"
proof -
  have "0 < insCount m" by (simp add: insCount_def)
  then have "uint (Method_INS m) + int (insCount m) - 1 \<in> insRange m" by (simp add: insRange_def)
  with assms have "uint (Method_INS m) + int (insCount m) - 1 \<le> 255" by auto
  then have o: "insOffsets m = [0..<insCount m]" by (simp add: insOffsets_def takeWhile_upto_all)
  then show "map fst (insClaims path m) = map (\<lambda>off. uint (Method_INS m) + int off) [0..<insCount m]"
    by (simp add: insClaims_def o_def)
  then have "set (map fst (insClaims path m)) = (\<lambda>off. uint (Method_INS m) + int off) ` {0..<insCount m}"
    by simp
  also have "\<dots> = insRange m"
    by (auto simp: insRange_def image_iff intro!: bexI [of _ "nat (_ - uint (Method_INS m))"])
  finally show "set (map fst (insClaims path m)) = insRange m" .
qed

lemma validateMethodINSRange_table:
  "snd (validateMethodINSRange path m seen) = claimAll tbl_get tbl_put seen (insClaims path m)"
  by (simp add: validateMethodINSRange_def Let_def case_prod_beta claimINS_table insClaims_def insOffsets_def)

lemma validateMethodINSRange_Nil_iff:
  "fst (validateMethodINSRange path m seen) = [] \<longleftrightarrow>
     insRange m \<subseteq> {0..255} - reservedINS \<and> conflicts tbl_get tbl_put seen (insClaims path m) = []"
proof -
  let ?b = "uint (Method_INS m)" and ?n = "int (insCount m)"
  have n: "0 < insCount m" by (simp add: insCount_def)
  show ?thesis
  proof (cases "?b + ?n - 1 \<le> 255")
    case True
    then have sub: "insRange m \<subseteq> {0..255}" by (auto simp: insRange_def intro: order_trans [OF uint8_bounds(1)])
    have o: "insOffsets m = [0..<insCount m]" using True by (simp add: insOffsets_def takeWhile_upto_all)
    have r: "insRange m = (\<lambda>off. ?b + int off) ` set (insOffsets m)"
      using insClaims_fst(2) [OF sub] by (simp add: insClaims_def image_image)
    have "(\<forall>off\<in>set (insOffsets m). \<not> isReservedINS (word_of_int (?b + int off))) \<longleftrightarrow>
        (\<forall>i\<in>insRange m. i \<notin> reservedINS)"
    proof -
      have "isReservedINS (word_of_int (?b + int off)) \<longleftrightarrow> ?b + int off \<in> reservedINS"
        if "off \<in> set (insOffsets m)" for off
      proof -
        from that have "?b + int off \<in> insRange m" by (simp add: r)
        with sub have "0 \<le> ?b + int off \<and> ?b + int off \<le> 255" by auto
        then show ?thesis unfolding reservedINS_def by (intro isReservedINS_iff) simp_all
      qed
      then show ?thesis by (simp add: r del: of_int_add)
    qed
    with True sub show ?thesis
      by (auto simp: validateMethodINSRange_def Let_def case_prod_beta claimINS_Nil_iff insClaims_def
          simp flip: insOffsets_def)
  next
    case False
    then have "?b + ?n - 1 \<in> insRange m" using n by (auto simp: insRange_def)
    with False have "\<not> insRange m \<subseteq> {0..255} - reservedINS" by auto
    with False show ?thesis by (auto simp: validateMethodINSRange_def Let_def case_prod_beta)
  qed
qed

section \<open>Stream modes and the stream checks of a method\<close>

lemma validateStreamMode_Nil_iff: "validateStreamMode path a m = [] \<longleftrightarrow> streamModeWF a m"
  by (auto simp: validateStreamMode_def streamModeWF_def Let_def)

text \<open>One refusal at most, and always at the method's own \<open>stream_mode\<close> path.\<close>

lemma validateStreamMode_shape:
  "length (validateStreamMode path a m) \<le> 1"
  "e \<in> set (validateStreamMode path a m) \<Longrightarrow> VE_Path e = path @ ''.stream_mode''"
  by (auto simp: validateStreamMode_def Let_def split: if_splits)

text \<open>The computed width of a short response, and whether it passes.\<close>

definition shortResponseOK :: "Method \<Rightarrow> bool" where
  "shortResponseOK m \<longleftrightarrow>
     allFixed (responseFields (Method_Response m)) \<longrightarrow>
       wrap64 (declaredWidth (responseFields (Method_Response m))) \<le> 255"

lemma fixedMessageLength_eq:
  "fixedMessageLength fs = (if allFixed fs then (wrap64 (declaredWidth fs), True) else (0, False))"
proof (cases "allFixed fs")
  case True
  then show ?thesis
    using fixedMessageLengthFrom_wrap [OF True, of 0]
    by (simp add: fixedMessageLength_def wrap64_def)
next
  case False
  have "fst (fixedMessageLengthFrom t fs) = 0 \<and> \<not> snd (fixedMessageLengthFrom t fs)" for t
    using False
    by (induction t fs rule: fixedMessageLengthFrom.induct) (auto simp: allFixed_def split: prod.splits)
  with False show ?thesis by (simp add: fixedMessageLength_def prod_eq_iff)
qed

lemma StreamField_None_simp [simp]: "StreamField None = None"
  by (simp add: StreamField_def)

lemma enumerate_all: "(\<forall>x\<in>set (enumerate n xs). P (snd x)) \<longleftrightarrow> (\<forall>x\<in>set xs. P x)"
  by (metis map_snd_enumerate list_all_iff list.pred_map comp_apply)

lemma responseFields_None [simp]: "responseFields None = []"
  by (simp add: responseFields_def)

lemma methodStreamErrors_Nil_iff: "methodStreamErrors path a m = [] \<longleftrightarrow> methodStreamWF shortResponseOK a m"
proof -
  have r: "Method_Response m \<noteq> None \<and> StreamField (Method_Response m) \<noteq> None \<longleftrightarrow>
      StreamField (Method_Response m) \<noteq> None"
    "Method_Response m = None \<or> StreamField (Method_Response m) = None \<longleftrightarrow>
      StreamField (Method_Response m) = None"
    by (cases "Method_Response m"; simp)+
  have e: "(\<forall>x\<in>set (enumerate 0 (responseFields (Method_Request m))).
        \<not> (Field_Location (snd x) = l1 \<or> Field_Location (snd x) = l2)) \<longleftrightarrow>
      (\<forall>f\<in>set (responseFields (Method_Request m)). \<not> (Field_Location f = l1 \<or> Field_Location f = l2))" for l1 l2
    by (rule enumerate_all)
  show ?thesis
    unfolding methodStreamErrors_def methodStreamWF_def append_is_Nil_conv addIf_Nil
      validateStreamMode_Nil_iff fixedMessageLength_eq shortResponseOK_def
    using r e
    by (cases "Method_Request m") (auto simp: case_prod_beta)
qed

section \<open>Methods\<close>

definition nameClaim :: "Schema \<Rightarrow> string \<Rightarrow> (string \<times> string) list" where
  "nameClaim s key = (case map_of (Schema_Methods s) key of
     Some (Some m) \<Rightarrow> [(effectiveMethodName key m, ''methods.'' @ key)] | _ \<Rightarrow> [])"

definition insClaim :: "Schema \<Rightarrow> string \<Rightarrow> (int \<times> string) list" where
  "insClaim s key = (case map_of (Schema_Methods s) key of
     Some (Some m) \<Rightarrow> insClaims (''methods.'' @ key) m | _ \<Rightarrow> [])"

definition keyWF :: "Schema \<Rightarrow> string \<Rightarrow> bool" where
  "keyWF s key \<longleftrightarrow> (\<exists>m. map_of (Schema_Methods s) key = Some (Some m) \<and> methodWF shortResponseOK (Schema_Applet s) key m)"

lemma validateMethod_tables:
  "snd (validateMethod s key names ins) =
     (claimAll tbl_get tbl_put names (nameClaim s key), claimAll tbl_get tbl_put ins (insClaim s key))"
proof -
  consider (a) "map_of (Schema_Methods s) key = None" | (b) "map_of (Schema_Methods s) key = Some None"
    | (c) m where "map_of (Schema_Methods s) key = Some (Some m)"
    by (metis not_None_eq)
  then show ?thesis
  proof cases
    case (c m)
    then show ?thesis
      by (cases "tbl_get names (effectiveMethodName key m)")
         (simp_all add: validateMethod_def nameClaim_def insClaim_def Let_def case_prod_beta
           validateMethodINSRange_table)
  qed (simp_all add: validateMethod_def nameClaim_def insClaim_def Let_def)
qed

lemma validateMethod_Nil_iff:
  "fst (validateMethod s key names ins) = [] \<longleftrightarrow>
     keyWF s key \<and> conflicts tbl_get tbl_put names (nameClaim s key) = []
     \<and> conflicts tbl_get tbl_put ins (insClaim s key) = []"
proof -
  consider (a) "map_of (Schema_Methods s) key = None" | (b) "map_of (Schema_Methods s) key = Some None"
    | (c) m where "map_of (Schema_Methods s) key = Some (Some m)"
    by (metis not_None_eq)
  then show ?thesis
  proof cases
    case (c m)
    show ?thesis
      unfolding keyWF_def methodWF_def nameClaim_def insClaim_def
      using c
      by (cases "tbl_get names (effectiveMethodName key m)")
         (simp_all add: validateMethod_def Let_def case_prod_beta validateMethodINSRange_Nil_iff
           validateMessage_Nil_iff methodStreamErrors_Nil_iff conj_ac disj_ac)
  qed (simp_all add: validateMethod_def keyWF_def Let_def)
qed

lemma validateMethodKeys_Nil_iff:
  "validateMethodKeys s keys names ins = [] \<longleftrightarrow>
     (\<forall>k\<in>set keys. keyWF s k)
     \<and> conflicts tbl_get tbl_put names (concat (map (nameClaim s) keys)) = []
     \<and> conflicts tbl_get tbl_put ins (concat (map (insClaim s) keys)) = []"
proof (induction keys arbitrary: names ins)
  case (Cons k keys)
  have "validateMethodKeys s (k # keys) names ins = [] \<longleftrightarrow>
      fst (validateMethod s k names ins) = [] \<and>
      validateMethodKeys s keys (fst (snd (validateMethod s k names ins)))
        (snd (snd (validateMethod s k names ins))) = []"
    by (simp add: case_prod_beta)
  then show ?case
    by (auto simp: validateMethod_Nil_iff validateMethod_tables Cons.IH go_table.conflicts_append)
qed simp

lemma insClaim_distinct:
  assumes "keyWF s k"
  shows "distinct (map fst (insClaim s k))"
proof -
  from assms obtain m where m: "map_of (Schema_Methods s) k = Some (Some m)" "insRange m \<subseteq> {0..255}"
    by (auto simp: keyWF_def methodWF_def)
  then show ?thesis
    by (auto simp: insClaim_def insClaims_fst(1) distinct_map intro!: inj_onI)
qed

lemma no_table_conflicts_iff:
  assumes ok: "gomap_ok (Schema_Methods s)" and wf: "\<forall>k\<in>fst ` set (Schema_Methods s). keyWF s k"
  shows "distinct (map fst (concat (map (nameClaim s) (sortedKeys (Schema_Methods s)))))
     \<and> distinct (map fst (concat (map (insClaim s) (sortedKeys (Schema_Methods s)))))
     \<longleftrightarrow> methodsDisjoint s"
proof -
  define K where "K = fst ` set (Schema_Methods s)"
  have d: "distinct (sortedKeys (Schema_Methods s))" by (rule distinct_sortedKeys [OF ok])
  have K: "set (sortedKeys (Schema_Methods s)) = K" by (simp add: K_def)
  define M where "M k = the (the (map_of (Schema_Methods s) k))" for k
  define N where "N k = effectiveMethodName k (M k)" for k
  have wfK: "map_of (Schema_Methods s) k = Some (Some (M k)) \<and> methodWF shortResponseOK (Schema_Applet s) k (M k)"
    if "k \<in> K" for k
    using wf that by (auto simp: keyWF_def M_def K_def)
  have n: "map fst (nameClaim s k) = [N k]" if "k \<in> K" for k
    using wfK [OF that] by (simp add: nameClaim_def N_def)
  have i: "set (map fst (insClaim s k)) = insRange (M k)" if "k \<in> K" for k
  proof -
    have "insRange (M k) \<subseteq> {0..255}" using wfK [OF that] by (auto simp: methodWF_def)
    then show ?thesis using wfK [OF that] by (simp only: insClaim_def option.case insClaims_fst(2))
  qed
  have di: "distinct (map fst (insClaim s k))" if "k \<in> K" for k
    using wf that insClaim_distinct unfolding K_def by blast
  have mem: "(k, Some m) \<in> set (Schema_Methods s) \<longleftrightarrow> k \<in> K \<and> m = M k" for k m
  proof -
    have "(k, Some m) \<in> set (Schema_Methods s) \<longleftrightarrow> map_of (Schema_Methods s) k = Some (Some m)"
      using ok by (simp add: gomap_lookup)
    moreover have "map_of (Schema_Methods s) k = None" if "k \<notin> K"
      using that by (simp add: map_of_eq_None_iff K_def)
    ultimately show ?thesis using wfK [of k] by (cases "k \<in> K") auto
  qed
  have nn: "set (map fst (nameClaim s k)) \<inter> set (map fst (nameClaim s k')) = {} \<longleftrightarrow> N k \<noteq> N k'"
    if "k \<in> K" "k' \<in> K" for k k'
    unfolding n [OF that(1)] n [OF that(2)] by auto
  have "distinct (map fst (concat (map (nameClaim s) (sortedKeys (Schema_Methods s))))) \<longleftrightarrow>
      (\<forall>k\<in>K. \<forall>k'\<in>K. k \<noteq> k' \<longrightarrow> N k \<noteq> N k')"
    unfolding map_concat map_map distinct_concat_map_iff [OF d] K comp_def
    by (simp add: n nn del: set_map cong: ball_cong) metis
  moreover have "distinct (map fst (concat (map (insClaim s) (sortedKeys (Schema_Methods s))))) \<longleftrightarrow>
      (\<forall>k\<in>K. \<forall>k'\<in>K. k \<noteq> k' \<longrightarrow> insRange (M k) \<inter> insRange (M k') = {})"
    unfolding map_concat map_map distinct_concat_map_iff [OF d] K comp_def
    by (simp add: i di del: set_map cong: ball_cong)
  moreover have "methodsDisjoint s \<longleftrightarrow>
      (\<forall>k\<in>K. \<forall>k'\<in>K. k \<noteq> k' \<longrightarrow> N k \<noteq> N k' \<and> insRange (M k) \<inter> insRange (M k') = {})"
    unfolding methodsDisjoint_def mem N_def by blast
  ultimately show ?thesis by blast
qed

lemma keyWF_all_iff:
  assumes "gomap_ok (Schema_Methods s)"
  shows "(\<forall>k\<in>fst ` set (Schema_Methods s). keyWF s k) \<longleftrightarrow>
    (\<forall>(k, mo)\<in>set (Schema_Methods s). \<exists>m. mo = Some m \<and> methodWF shortResponseOK (Schema_Applet s) k m)"
proof -
  have "keyWF s (fst x) \<longleftrightarrow> (\<exists>m. snd x = Some m \<and> methodWF shortResponseOK (Schema_Applet s) (fst x) m)"
    if "x \<in> set (Schema_Methods s)" for x
  proof -
    have "map_of (Schema_Methods s) (fst x) = Some (snd x)"
      using that assms by (simp add: gomap_ok_def)
    then show ?thesis by (simp add: keyWF_def)
  qed
  then show ?thesis by (simp add: case_prod_beta)
qed

lemma validateMethods_Nil_iff:
  assumes "gomap_ok (Schema_Methods s)"
  shows "validateMethods s = [] \<longleftrightarrow> methodsWF shortResponseOK s"
proof -
  have "validateMethods s = [] \<longleftrightarrow> Schema_Methods s \<noteq> [] \<and>
      (\<forall>k\<in>fst ` set (Schema_Methods s). keyWF s k)
      \<and> distinct (map fst (concat (map (nameClaim s) (sortedKeys (Schema_Methods s)))))
      \<and> distinct (map fst (concat (map (insClaim s) (sortedKeys (Schema_Methods s)))))"
    by (simp add: validateMethods_def sortedMethodKeys_def validateMethodKeys_Nil_iff
        go_table.no_conflicts_emp)
  also have "\<dots> \<longleftrightarrow> methodsWF shortResponseOK s"
    using no_table_conflicts_iff [OF assms] keyWF_all_iff [OF assms] by (auto simp: methodsWF_def)
  finally show ?thesis .
qed

section \<open>Status words\<close>

definition statusClaims :: "Schema \<Rightarrow> string \<Rightarrow> (string \<times> StatusWord) list" where
  "statusClaims s key = (case map_of (Schema_StatusWords s) key of None \<Rightarrow> [] | Some sw \<Rightarrow> [(key, sw)])"

definition swName :: "string \<times> StatusWord \<Rightarrow> string \<times> string" where
  "swName ksw = (effectiveStatusName (fst ksw) (snd ksw), ''status_words.'' @ fst ksw)"

definition swCode :: "string \<times> StatusWord \<Rightarrow> 16 word \<times> string" where
  "swCode ksw = (StatusWord_Code (snd ksw), (''status_words.'' @ fst ksw) @ ''.code'')"

lemma isValidStatusWordCode_iff:
  "isValidStatusWordCode c \<longleftrightarrow> unat c \<in> {0x6000..0x6FFF} \<union> {0x9000..0x9FFF}"
  by (auto simp: isValidStatusWordCode_def word_le_nat_alt)

lemma validateStatusWord_tables:
  "snd (validateStatusWord key sw names codes) =
     (claimAll tbl_get tbl_put names [swName (key, sw)], claimAll tbl_get tbl_put codes [swCode (key, sw)])"
  by (cases "tbl_get names (effectiveStatusName key sw)"; cases "tbl_get codes (StatusWord_Code sw)")
     (simp_all add: validateStatusWord_def swName_def swCode_def Let_def)

lemma validateStatusWord_Nil_iff:
  "fst (validateStatusWord key sw names codes) = [] \<longleftrightarrow>
     statusWF key sw \<and> conflicts tbl_get tbl_put names [swName (key, sw)] = []
     \<and> conflicts tbl_get tbl_put codes [swCode (key, sw)] = []"
  by (cases "tbl_get names (effectiveStatusName key sw)"; cases "tbl_get codes (StatusWord_Code sw)")
     (simp_all add: validateStatusWord_def statusWF_def swName_def swCode_def Let_def
       isValidStatusWordCode_iff [symmetric] conj_ac disj_ac del: Un_iff)

lemma validateStatusWordKeys_Nil_iff:
  "validateStatusWordKeys s keys names codes = [] \<longleftrightarrow>
     (\<forall>(k, sw)\<in>set (concat (map (statusClaims s) keys)). statusWF k sw)
     \<and> conflicts tbl_get tbl_put names (map swName (concat (map (statusClaims s) keys))) = []
     \<and> conflicts tbl_get tbl_put codes (map swCode (concat (map (statusClaims s) keys))) = []"
proof (induction keys arbitrary: names codes)
  case (Cons k keys)
  show ?case
  proof (cases "map_of (Schema_StatusWords s) k")
    case None
    then show ?thesis by (simp add: Cons.IH statusClaims_def)
  next
    case (Some sw)
    then have c: "statusClaims s k = [(k, sw)]" by (simp add: statusClaims_def)
    have "validateStatusWordKeys s (k # keys) names codes = [] \<longleftrightarrow>
        fst (validateStatusWord k sw names codes) = [] \<and>
        validateStatusWordKeys s keys (fst (snd (validateStatusWord k sw names codes)))
          (snd (snd (validateStatusWord k sw names codes))) = []"
      by (simp add: Some case_prod_beta)
    also have "\<dots> \<longleftrightarrow> statusWF k sw
        \<and> (conflicts tbl_get tbl_put names ([swName (k, sw)] @ map swName (concat (map (statusClaims s) keys))) = [])
        \<and> (conflicts tbl_get tbl_put codes ([swCode (k, sw)] @ map swCode (concat (map (statusClaims s) keys))) = [])
        \<and> (\<forall>(k, sw)\<in>set (concat (map (statusClaims s) keys)). statusWF k sw)"
      unfolding validateStatusWord_Nil_iff validateStatusWord_tables fst_conv snd_conv Cons.IH
        go_table.conflicts_append append_is_Nil_conv by argo
    finally show ?thesis by (simp only: list.map concat.simps c append_Cons append_Nil list.set) auto
  qed
qed simp

lemma validateStatusWords_Nil_iff:
  assumes ok: "gomap_ok (Schema_StatusWords s)"
  shows "validateStatusWords s = [] \<longleftrightarrow> statusWordsWF s"
proof -
  let ?ks = "sortedKeys (Schema_StatusWords s)" and ?C = "concat (map (statusClaims s) (sortedKeys (Schema_StatusWords s)))"
  have set: "set ?C = set (Schema_StatusWords s)"
  proof (intro equalityI subsetI)
    fix x assume "x \<in> set ?C"
    then obtain k where "x \<in> set (statusClaims s k)" by auto
    then show "x \<in> set (Schema_StatusWords s)"
      by (cases "map_of (Schema_StatusWords s) k") (auto simp: statusClaims_def dest: map_of_SomeD)
  next
    fix x assume x: "x \<in> set (Schema_StatusWords s)"
    with ok have "map_of (Schema_StatusWords s) (fst x) = Some (snd x)" by (simp add: gomap_ok_def)
    then have "x \<in> set (statusClaims s (fst x))" by (simp add: statusClaims_def)
    moreover have "fst x \<in> set ?ks" using x by simp
    ultimately show "x \<in> set ?C" by (simp only: set_concat set_map) blast
  qed
  have f: "map fst ?C = ?ks"
  proof -
    have "map fst (concat (map (statusClaims s) ks)) = ks" if "set ks \<subseteq> fst ` set (Schema_StatusWords s)" for ks
      using that
    proof (induction ks)
      case (Cons k ks)
      then obtain sw where "map_of (Schema_StatusWords s) k = Some sw"
        by (metis list.set_intros(1) map_of_eq_None_iff not_None_eq subsetD)
      with Cons show ?case by (simp add: statusClaims_def)
    qed simp
    then show ?thesis by simp
  qed
  have d: "distinct (map fst ?C)" unfolding f by (rule distinct_sortedKeys [OF ok])
  have n: "distinct (map fst (map swName ?C)) \<longleftrightarrow>
      (\<forall>x\<in>set ?C. \<forall>y\<in>set ?C. fst x \<noteq> fst y \<longrightarrow>
        effectiveStatusName (fst x) (snd x) \<noteq> effectiveStatusName (fst y) (snd y))"
    unfolding map_map distinct_map_by_key [OF d] comp_def swName_def fst_conv ..
  have c: "distinct (map fst (map swCode ?C)) \<longleftrightarrow>
      (\<forall>x\<in>set ?C. \<forall>y\<in>set ?C. fst x \<noteq> fst y \<longrightarrow> StatusWord_Code (snd x) \<noteq> StatusWord_Code (snd y))"
    unfolding map_map distinct_map_by_key [OF d] comp_def swCode_def fst_conv ..
  have "validateStatusWords s = [] \<longleftrightarrow>
      (\<forall>(k, sw)\<in>set ?C. statusWF k sw) \<and> distinct (map fst (map swName ?C)) \<and> distinct (map fst (map swCode ?C))"
    unfolding validateStatusWords_def sortedStatusWordKeys_def validateStatusWordKeys_Nil_iff
      go_table.no_conflicts_emp ..
  also have "\<dots> \<longleftrightarrow> statusWordsWF s"
    unfolding n c set statusWordsWF_def case_prod_beta by blast
  finally show ?thesis .
qed

section \<open>The applet\<close>

lemma validateApplet_Nil_iff: "validateApplet s = [] \<longleftrightarrow> appletWF (Schema_Applet s)"
  by (auto simp: validateApplet_def appletWF_def Let_def isValidAID_iff isSemver_iff)

section \<open>The whole schema\<close>

lemma Validate_Nil_iff: "goodMaps s \<Longrightarrow> Validate (Some s) = [] \<longleftrightarrow> schemaWF shortResponseOK s"
  by (auto simp: Validate_def schemaWF_def goodMaps_def validateApplet_Nil_iff validateMethods_Nil_iff
      validateStatusWords_Nil_iff)

section \<open>The width of a short response\<close>

lemma declaredWidth_nonneg: "0 \<le> declaredWidth fs"
proof (induction fs)
  case (Cons f fs)
  have "0 \<le> fst (WireSize f)"
    by (cases "WireSize f"; cases "snd (WireSize f)")
       (auto dest: WireSize_fixed_pos WireSize_variable)
  with Cons show ?case by (simp add: declaredWidth_def)
qed (simp add: declaredWidth_def)

definition widthsInRange :: "Schema \<Rightarrow> bool" where
  "widthsInRange s \<longleftrightarrow>
     (\<forall>(k, mo)\<in>set (Schema_Methods s). case mo of None \<Rightarrow> True
        | Some m \<Rightarrow> declaredWidth (responseFields (Method_Response m)) < 2 ^ 63)"

lemma shortResponse_eq:
  "declaredWidth (responseFields (Method_Response m)) < 2 ^ 63 \<Longrightarrow> shortResponseOK m = shortResponseFits m"
  using declaredWidth_nonneg [of "responseFields (Method_Response m)"]
  by (simp add: shortResponseOK_def shortResponseFits_def wrap64_id int64_ok_def)

lemma schemaWF_cong:
  assumes "\<And>k m. (k, Some m) \<in> set (Schema_Methods s) \<Longrightarrow> p m = q m"
  shows "schemaWF p s = schemaWF q s"
proof -
  have "methodWF p (Schema_Applet s) k m = methodWF q (Schema_Applet s) k m"
    if "(k, Some m) \<in> set (Schema_Methods s)" for k m
    using assms [OF that] by (simp add: methodWF_def methodStreamWF_def)
  then have "(\<forall>(k, mo)\<in>set (Schema_Methods s). \<exists>m. mo = Some m \<and> methodWF p (Schema_Applet s) k m) \<longleftrightarrow>
      (\<forall>(k, mo)\<in>set (Schema_Methods s). \<exists>m. mo = Some m \<and> methodWF q (Schema_Applet s) k m)"
    by (intro ball_cong) auto
  then show ?thesis by (simp add: schemaWF_def methodsWF_def)
qed

lemma Validate_conforms_iff:
  assumes "goodMaps s" "widthsInRange s"
  shows "Validate (Some s) = [] \<longleftrightarrow> idlConforms s"
proof -
  have "schemaWF shortResponseOK s = schemaWF shortResponseFits s"
  proof (rule schemaWF_cong)
    fix k m assume "(k, Some m) \<in> set (Schema_Methods s)"
    with assms(2) have "declaredWidth (responseFields (Method_Response m)) < 2 ^ 63"
      unfolding widthsInRange_def by fastforce
    then show "shortResponseOK m = shortResponseFits m" by (rule shortResponse_eq)
  qed
  then show ?thesis by (simp add: Validate_Nil_iff [OF assms(1)] idlConforms_def)
qed

text \<open>What acceptance gives for one method, whatever the widths.\<close>

lemma accepted_method:
  assumes "goodMaps s" "Validate (Some s) = []" "(k, mo) \<in> set (Schema_Methods s)"
  obtains m where "mo = Some m" "methodWF shortResponseOK (Schema_Applet s) k m"
  using assms by (auto simp: Validate_Nil_iff schemaWF_def methodsWF_def)

lemma accepted_disjoint:
  assumes "goodMaps s" "Validate (Some s) = []"
  shows "methodsDisjoint s" "appletWF (Schema_Applet s)"
  using assms by (auto simp: Validate_Nil_iff schemaWF_def methodsWF_def)

section \<open>Independence of the map order\<close>

lemma validateMethod_same:
  assumes a: "Schema_Applet s = Schema_Applet s'" and m: "map_of (Schema_Methods s) = map_of (Schema_Methods s')"
  shows "validateMethod s k t u = validateMethod s' k t u"
  unfolding validateMethod_def a m ..

lemma validateMethodKeys_same:
  assumes "Schema_Applet s = Schema_Applet s'" and "map_of (Schema_Methods s) = map_of (Schema_Methods s')"
  shows "validateMethodKeys s ks t u = validateMethodKeys s' ks t u"
proof (induction ks arbitrary: t u)
  case (Cons k ks)
  then show ?case
    unfolding validateMethodKeys.simps validateMethod_same [OF assms] case_prod_beta by (rule arg_cong)
qed simp

lemma validateStatusWordKeys_same:
  assumes m: "map_of (Schema_StatusWords s) = map_of (Schema_StatusWords s')"
  shows "validateStatusWordKeys s ks t u = validateStatusWordKeys s' ks t u"
proof (induction ks arbitrary: t u)
  case (Cons k ks)
  then show ?case
    by (cases "map_of (Schema_StatusWords s') k") (simp_all add: m case_prod_beta)
qed simp

lemma Validate_same:
  assumes "same_map (Schema_Methods s) (Schema_Methods s')"
    and "same_map (Schema_StatusWords s) (Schema_StatusWords s')"
    and "Schema_Applet s = Schema_Applet s'"
  shows "Validate (Some s) = Validate (Some s')"
proof -
  have "(Schema_Methods s = []) = (Schema_Methods s' = [])" using assms(1) by (auto simp: same_map_def)
  then have "validateMethods s = validateMethods s'"
    unfolding validateMethods_def sortedMethodKeys_def same_map_sortedKeys [OF assms(1)]
      validateMethodKeys_same [OF assms(3) same_map_map_of [OF assms(1)]] by simp
  moreover have "validateStatusWords s = validateStatusWords s'"
    unfolding validateStatusWords_def sortedStatusWordKeys_def same_map_sortedKeys [OF assms(2)]
      validateStatusWordKeys_same [OF same_map_map_of [OF assms(2)]] ..
  ultimately show ?thesis by (simp add: Validate_def validateApplet_def assms(3))
qed

end
