(* ===== verification/Gen_Runs.thy ===== *)
theory Gen_Runs
  imports Gen_Paths Validator_Facts
begin

text \<open>
  Whole runs of the generator: the stages before generation have no effect on the host, the
  generation stage performs the operations of complete packages in target order, and with
  packages that keep the contract of the plugin interface it succeeds on a plain host.
\<close>

section \<open>Stages\<close>

text \<open>The arguments select an input whose schema is accepted, for generation.\<close>

definition reachesGeneration :: "('i, 'w) Host \<Rightarrow> string list \<Rightarrow> 'w \<Rightarrow> cliOptions \<Rightarrow> Schema \<Rightarrow> bool" where
  "reachesGeneration h args w opts s \<longleftrightarrow>
     (\<exists>input. parseFlags defaultOptions args = Inr (opts, [input])
        \<and> ParseFile (host_open h w) (host_decode h) input = Inr s)
     \<and> \<not> cli_help opts \<and> \<not> cli_validateOnly opts \<and> Validate (Some s) = []"

lemma run_stages:
  obtains (early) c st where "runWithPlugins h args j sw k w = Some (c, st)" and "run_events st = []"
      and "run_world st = w" and "c \<in> {exitCodeSuccess, exitCodeValidation, exitCodeGeneration, exitCodeIO}"
      and "\<And>opts s. \<not> reachesGeneration h args w opts s"
  | (late) opts s st where "reachesGeneration h args w opts s"
      and "runWithPlugins h args j sw k w = runGeneration h opts s j sw k st"
      and "run_events st = []" and "run_world st = w"
proof -
  let ?st = "\<lparr>run_diags = [], run_events = [], run_world = w\<rparr>"
  show thesis
  proof (cases "parseFlags defaultOptions args")
    case (Inl err)
    moreover from this have "err \<noteq> ErrHelp" using parseFlags_no_ErrHelp [of defaultOptions args] by auto
    ultimately show thesis
      by (intro early [of exitCodeGeneration "emit [FlagFailure err, Usage] ?st"])
         (auto simp: runWithPlugins_def reachesGeneration_def Let_def)
  next
    case (Inr p)
    then obtain opts rest where p: "parseFlags defaultOptions args = Inr (opts, rest)" by (cases p) auto
    show thesis
    proof (cases "cli_help opts \<or> length rest \<noteq> 1")
      case True
      define c where "c = (if cli_help opts then exitCodeSuccess else exitCodeGeneration)"
      define ds where "ds = (if cli_help opts then [Usage] else [WrongArgumentCount, Usage])"
      from True p show thesis
        by (intro early [of c "emit ds ?st"]) (auto simp: runWithPlugins_def reachesGeneration_def c_def ds_def Let_def)
    next
      case False
      then obtain input where r: "rest = [input]" by (cases rest) auto
      define st1 where "st1 = verbosef opts (VerboseParsing input) ?st"
      have e1: "run_events st1 = []" "run_world st1 = w" by (simp_all add: st1_def)
      show thesis
      proof (cases "ParseFile (host_open h w) (host_decode h) input")
        case (Inl e)
        with p r False show thesis
          by (intro early [of "if isIOError (parseFileError e) then exitCodeIO else exitCodeValidation"
                "emit [ParseFailure input e] st1"])
             (auto simp: runWithPlugins_def reachesGeneration_def Let_def st1_def)
      next
        case pf: (Inr s)
        define st2 where "st2 = verbosef opts VerboseValidating st1"
        have e2: "run_events st2 = []" "run_world st2 = w" by (simp_all add: st2_def e1)
        have run: "runWithPlugins h args j sw k w =
            (if length (Validate (Some s)) > 0
             then Some (exitCodeValidation, emit [ValidationErrors (PathBase input) (Validate (Some s))] st2)
             else if cli_validateOnly opts then Some (exitCodeSuccess, verbosef opts VerboseValid st2)
             else runGeneration h opts s j sw k st2)"
          using p r False pf by (simp add: runWithPlugins_def Let_def st1_def st2_def)
        have reach: "reachesGeneration h args w opts' s' \<longleftrightarrow>
            opts' = opts \<and> s' = s \<and> Validate (Some s) = [] \<and> \<not> cli_validateOnly opts" for opts' s'
          using p r False pf by (auto simp: reachesGeneration_def)
        show thesis
        proof (cases "Validate (Some s) = [] \<and> \<not> cli_validateOnly opts")
          case True
          with reach have "reachesGeneration h args w opts s" by simp
          moreover from True run have "runWithPlugins h args j sw k w = runGeneration h opts s j sw k st2" by simp
          ultimately show thesis by (rule late [OF _ _ e2])
        next
          case no: False
          show thesis
          proof (cases "Validate (Some s) = []")
            case True
            with no run have "runWithPlugins h args j sw k w = Some (exitCodeSuccess, verbosef opts VerboseValid st2)" by simp
            then show thesis by (rule early) (use no True reach e2 in auto)
          next
            case False
            with run have "runWithPlugins h args j sw k w =
              Some (exitCodeValidation, emit [ValidationErrors (PathBase input) (Validate (Some s))] st2)" by simp
            then show thesis by (rule early) (use False reach e2 in auto)
          qed
        qed
      qed
    qed
  qed
qed

lemma reachesGeneration_unique:
  "reachesGeneration h args w opts s \<Longrightarrow> reachesGeneration h args w opts' s' \<Longrightarrow> opts = opts' \<and> s = s'"
  by (auto simp: reachesGeneration_def)

section \<open>The generation stage\<close>

lemma runGeneration_step:
  obtains c st' evs where "runGeneration h opts s j sw k st = Some (c, st')"
    and "run_events st' = run_events st @ evs"
    and "targetsStep opts s (targetList h opts s j sw k) (if c = exitCodeSuccess then None else Some c) evs"
proof -
  have z: "exitCodeSuccess \<noteq> exitCodeGeneration" "exitCodeSuccess \<noteq> exitCodeIO"
    by (simp_all add: exitCodeSuccess_def exitCodeGeneration_def exitCodeIO_def)
  let ?sim = "TrimSpace (cli_simulatorDependency opts)" and ?ts = "targetList h opts s j sw k"
  have refuse: "targetsStep opts s ?ts (Some exitCodeGeneration) []"
    by (auto simp: targetsStep_def intro: exI [of _ 0])
  note unf = runGeneration_def Let_def
  show thesis
  proof (cases "validateSimulatorDependency ?sim")
    case False
    then show thesis
      using refuse z by (intro that [of exitCodeGeneration "emit [BadSimulatorDependency ?sim] st" "[]"]) (simp_all add: unf)
  next
    case sim: True
    show thesis
    proof (cases "\<not> target_selected (?ts ! 0) \<and> \<not> target_selected (?ts ! 1) \<and> \<not> target_selected (?ts ! 2)")
      case True
      then show thesis
        using refuse z sim by (intro that [of exitCodeGeneration "emit [NoOutputsSelected] st" "[]"]) (simp_all add: unf)
    next
      case sel: False
      show thesis
      proof (cases "target_selected (?ts ! 1) \<and> schemaHasStreams (Some s)")
        case True
        with sel show thesis
          using refuse z sim
          by (intro that [of exitCodeGeneration "emit [SwiftStreamsUnsupported] st" "[]"]) (auto simp: unf)
      next
        case False
        obtain code st1 g evs where r: "runTargets h opts s ?ts st [] = Some (code, st1, g)"
          "run_events st1 = run_events st @ evs" "targetsStep opts s ?ts code evs"
          by (rule runTargets_step)
        have run: "runGeneration h opts s j sw k st = (case code of Some c \<Rightarrow> Some (c, st1)
            | None \<Rightarrow> Some (exitCodeSuccess, verbosef opts (VerboseGenerated g) st1))"
          using sim sel False unfolding unf by (auto simp: r(1))
        show thesis
        proof (cases code)
          case None
          then show thesis
            using r run by (intro that [of exitCodeSuccess "verbosef opts (VerboseGenerated g) st1" evs]) simp_all
        next
          case (Some c)
          with r(3) have "c \<noteq> exitCodeSuccess" using z by (auto simp: targetsStep_def)
          with Some r run show thesis by (intro that [of c st1 evs]) simp_all
        qed
      qed
    qed
  qed
qed

section \<open>Success on a plain host\<close>

text \<open>No symlink and no inspection failure anywhere, and every operation succeeds.\<close>

definition plainHost :: "('i, 'w) Host \<Rightarrow> bool" where
  "plainHost h \<longleftrightarrow>
     (\<forall>w p. host_lstat h w p \<in> {Exists False, NotExist, NotDirectory})
     \<and> (\<forall>d w. fst (host_mkdirAll h d w) = None) \<and> (\<forall>p d w. fst (host_writeFile h p d w) = None)"

lemma plain_makeDirs: "plainHost h \<Longrightarrow> fst (makeDirs h label pkgDir fs st) = None"
proof (induction fs arbitrary: st)
  case (Cons f fs)
  obtain e w where m: "host_mkdirAll h (PathDir (outPath pkgDir f)) (run_world st) = (e, w)" by fastforce
  with Cons.prems have "e = None" unfolding plainHost_def by (metis fst_conv)
  with m Cons show ?case by (simp add: Let_def)
qed simp

lemma plain_writeFiles: "plainHost h \<Longrightarrow> fst (writeFiles h pkgDir fs st g) = None"
proof (induction fs arbitrary: st g)
  case (Cons f fs)
  obtain e w where m: "host_writeFile h (outPath pkgDir f) (fileData f) (run_world st) = (e, w)" by fastforce
  with Cons.prems have "e = None" unfolding plainHost_def by (metis fst_conv)
  with m Cons show ?case by (simp add: Let_def)
qed simp

lemma plain_walkClear: "plainHost h \<Longrightarrow> walkClear (host_lstat h w) root ps"
  by (simp add: walkClear_def clearFrom_def plainHost_def)

lemma plain_runTarget:
  assumes h: "plainHost h"
    and t: "target_selected t \<Longrightarrow> \<exists>fs. target_plugin t s (target_options t) = Inr fs \<and> packageWF fs"
  shows "\<exists>st' g'. runTarget h opts s t st g = Some (None, st', g')"
proof (cases "target_selected t")
  case True
  then obtain fs where fs: "target_plugin t s (target_options t) = Inr fs" "packageWF fs" using t by blast
  obtain naming st1 where st1: "st1 = verbosef opts (VerboseGenerating (target_label t) naming (target_namespace t)) st"
    "naming = (if target_label t = ''swift'' then ''module'' else ''package'')" by blast
  obtain r where r: "validatePackageFiles (host_lstat h (run_world st1)) (PathJoin (cli_outDir opts) (target_root t)) fs = Some r"
    "\<not> isl r"
    using validatePackageFiles_decides [of "host_lstat h (run_world st1)" "PathJoin (cli_outDir opts) (target_root t)" fs]
      fs(2) plain_walkClear [OF h] by metis
  obtain c2 st2 where d: "makeDirs h (target_label t) (PathJoin (cli_outDir opts) (target_root t)) (rev fs) st1 = (c2, st2)"
    by fastforce
  with plain_makeDirs [OF h] have "c2 = None" by (metis fst_conv)
  moreover obtain c3 st3 g3 where w: "writeFiles h (PathJoin (cli_outDir opts) (target_root t)) fs st2 g = (c3, st3, g3)"
    by (metis prod_cases3)
  with plain_writeFiles [OF h] have "c3 = None" by (metis fst_conv)
  ultimately have "runTarget h opts s t st g = Some (None, st3, g3)"
    using True fs(1) r d w st1 by (cases r) (simp_all add: runTarget_def Let_def)
  then show ?thesis by blast
qed (simp add: runTarget_def)

lemma plain_runTargets:
  assumes "plainHost h"
    and "\<And>t. t \<in> set ts \<Longrightarrow> target_selected t \<Longrightarrow>
      \<exists>fs. target_plugin t s (target_options t) = Inr fs \<and> packageWF fs"
  shows "\<exists>st' g'. runTargets h opts s ts st g = Some (None, st', g')"
  using assms(2)
proof (induction ts arbitrary: st g)
  case (Cons t ts)
  obtain st1 g1 where "runTarget h opts s t st g = Some (None, st1, g1)"
    using plain_runTarget [OF assms(1), of t s opts st g] Cons.prems by auto
  with Cons show ?case by simp
qed simp

lemma plain_host_run:
  assumes "reachesGeneration h args w opts s" and "plainHost h"
    and "validateSimulatorDependency (TrimSpace (cli_simulatorDependency opts))"
    and "ts = targetList h opts s j sw k" and "\<exists>t\<in>set ts. target_selected t"
    and "\<not> (target_selected (ts ! 1) \<and> schemaHasStreams (Some s))"
    and "\<forall>t\<in>set ts. target_selected t \<longrightarrow>
      (\<exists>fs. target_plugin t s (target_options t) = Inr fs \<and> packageWF fs)"
  shows "\<exists>st. runWithPlugins h args j sw k w = Some (exitCodeSuccess, st)
    \<and> run_events st = concat (map (targetEvents opts s) ts)"
proof (cases rule: run_stages [of h args j sw k w])
  case (early c st)
  with assms(1) show ?thesis by blast
next
  case (late opts' s' st0)
  then have e: "opts' = opts" "s' = s" using reachesGeneration_unique [OF assms(1)] by blast+
  obtain st1 g1 where r: "runTargets h opts s ts st0 [] = Some (None, st1, g1)"
    using plain_runTargets [OF assms(2), of ts s opts st0 "[]"] assms(7) by blast
  have "target_selected (ts ! 0) \<or> target_selected (ts ! 1) \<or> target_selected (ts ! 2)"
    using assms(5) unfolding assms(4) by (auto simp: targetList_def Let_def)
  then have "runGeneration h opts s j sw k st0 = Some (exitCodeSuccess, verbosef opts (VerboseGenerated g1) st1)"
    using assms(3,6) r unfolding runGeneration_def Let_def assms(4) [symmetric] by auto
  with late(2) e have run: "runWithPlugins h args j sw k w =
      Some (exitCodeSuccess, verbosef opts (VerboseGenerated g1) st1)" by simp
  obtain code st2 g2 evs where s2: "runTargets h opts s ts st0 [] = Some (code, st2, g2)"
    "run_events st2 = run_events st0 @ evs" "targetsStep opts s ts code evs"
    by (rule runTargets_step)
  with r late(3) have "run_events st1 = concat (map (targetEvents opts s) ts)" by (simp add: targetsStep_def)
  with run show ?thesis by simp
qed

end
