(* ===== verification/Gen_Replay.thy ===== *)
theory Gen_Replay
  imports Gen_Runs
begin

text \<open>
  The file system as a machine: a step relation for the operations of the generator, in which
  only the last operation of an execution can fail, a simulation of the command by it, and what
  an execution leaves in the files by rule induction.
\<close>

section \<open>Executions\<close>

fun osEffect :: "('i, 'w) Host \<Rightarrow> OsEvent \<Rightarrow> 'w \<Rightarrow> GoErr option \<times> 'w" where
  "osEffect h (MkdirAll d) w = host_mkdirAll h d w"
| "osEffect h (WriteFile p content) w = host_writeFile h p content w"

inductive osRun :: "('i, 'w) Host \<Rightarrow> 'w \<Rightarrow> OsEvent list \<Rightarrow> GoErr option \<Rightarrow> 'w \<Rightarrow> bool" for h where
  finished: "osRun h w [] None w"
| failed: "osEffect h ev w = (Some e, w') \<Longrightarrow> osRun h w [ev] (Some e) w'"
| continued: "osEffect h ev w = (None, w1) \<Longrightarrow> osRun h w1 evs r w2 \<Longrightarrow> osRun h w (ev # evs) r w2"

inductive_cases osRun_NilE: "osRun h w [] r w'"
inductive_cases osRun_ConsE: "osRun h w (ev # evs) r w'"

inductive_simps osRun_ok_Cons: "osRun h w (ev # evs) None w'"
inductive_simps osRun_ok_Nil: "osRun h w [] None w'"

lemma osRun_append:
  "osRun h w evs r w1 \<Longrightarrow> r = None \<Longrightarrow> osRun h w1 evs' r' w2 \<Longrightarrow> osRun h w (evs @ evs') r' w2"
  by (induction rule: osRun.induct) (auto intro: osRun.continued)

lemma osRun_deterministic:
  "osRun h w evs r w' \<Longrightarrow> osRun h w evs q u \<Longrightarrow> q = r \<and> u = w'"
proof (induction arbitrary: q u rule: osRun.induct)
  case (finished w)
  then show ?case by (auto elim: osRun_NilE)
next
  case (failed ev w e w')
  from failed.prems failed.hyps show ?case by (auto elim!: osRun_ConsE)
next
  case (continued ev w w1 evs r w2)
  from continued.prems continued.hyps(1) have "osRun h w1 evs q u" by (auto elim: osRun_ConsE)
  then show ?case by (rule continued.IH)
qed

section \<open>The command is such an execution\<close>

text \<open>A stage with exit code \<open>code\<close>: it performs an execution, and when an operation of it
  failed the code is that of an I/O failure.\<close>

definition executes :: "('i, 'w) Host \<Rightarrow> int option \<Rightarrow> 'w Run \<Rightarrow> 'w Run \<Rightarrow> bool" where
  "executes h code st st' \<longleftrightarrow>
     (\<exists>evs r. run_events st' = run_events st @ evs \<and> osRun h (run_world st) evs r (run_world st')
        \<and> (r \<noteq> None \<longrightarrow> code = Some exitCodeIO))"

lemma executes_trans: "executes h None st st1 \<Longrightarrow> executes h code st1 st2 \<Longrightarrow> executes h code st st2"
proof -
  assume "executes h None st st1" and b: "executes h code st1 st2"
  then obtain evs where a: "run_events st1 = run_events st @ evs" "osRun h (run_world st) evs None (run_world st1)"
    unfolding executes_def by auto
  from b obtain evs' r where "run_events st2 = run_events st1 @ evs'" "osRun h (run_world st1) evs' r (run_world st2)"
    "r \<noteq> None \<longrightarrow> code = Some exitCodeIO" unfolding executes_def by blast
  with a osRun_append [OF a(2) refl] show ?thesis unfolding executes_def by (metis append_assoc)
qed

lemma executes_same: "run_events st' = run_events st \<Longrightarrow> run_world st' = run_world st \<Longrightarrow> executes h code st st'"
  unfolding executes_def using osRun.finished by fastforce

lemma executes_ok:
  "osEffect h ev (run_world st) = (None, w) \<Longrightarrow>
   executes h None st (st\<lparr>run_events := run_events st @ [ev], run_world := w\<rparr>)"
  unfolding executes_def using osRun.continued osRun.finished by fastforce

lemma executes_fails:
  "osEffect h ev (run_world st) = (Some e, w) \<Longrightarrow>
   executes h (Some exitCodeIO) st (emit ds (st\<lparr>run_events := run_events st @ [ev], run_world := w\<rparr>))"
  unfolding executes_def using osRun.failed by fastforce

lemma makeDirs_executes: "makeDirs h label pkgDir fs st = (code, st') \<Longrightarrow> executes h code st st'"
proof (induction fs arbitrary: st)
  case (Cons f fs)
  let ?ev = "MkdirAll (PathDir (outPath pkgDir f))"
  obtain err w where m: "host_mkdirAll h (PathDir (outPath pkgDir f)) (run_world st) = (err, w)"
    by (cases "host_mkdirAll h (PathDir (outPath pkgDir f)) (run_world st)")
  show ?case
  proof (cases err)
    case None
    with m have "executes h None st (st\<lparr>run_events := run_events st @ [?ev], run_world := w\<rparr>)"
      by (simp add: executes_ok)
    moreover from Cons.prems m None
    have "executes h code (st\<lparr>run_events := run_events st @ [?ev], run_world := w\<rparr>) st'"
      by (intro Cons.IH) (simp add: Let_def)
    ultimately show ?thesis by (rule executes_trans)
  next
    case (Some e)
    with Cons.prems m executes_fails [of h ?ev st e w] show ?thesis by (auto simp: Let_def)
  qed
qed (simp add: executes_same)

lemma writeFiles_executes: "writeFiles h pkgDir fs st g = (code, st', g') \<Longrightarrow> executes h code st st'"
proof (induction fs arbitrary: st g)
  case (Cons f fs)
  let ?ev = "WriteFile (outPath pkgDir f) (fileData f)"
  obtain err w where m: "host_writeFile h (outPath pkgDir f) (fileData f) (run_world st) = (err, w)"
    by (cases "host_writeFile h (outPath pkgDir f) (fileData f) (run_world st)")
  show ?case
  proof (cases err)
    case None
    with m have "executes h None st (st\<lparr>run_events := run_events st @ [?ev], run_world := w\<rparr>)"
      by (simp add: executes_ok)
    moreover from Cons.prems m None
    have "executes h code (st\<lparr>run_events := run_events st @ [?ev], run_world := w\<rparr>) st'"
      by (intro Cons.IH) (simp add: Let_def)
    ultimately show ?thesis by (rule executes_trans)
  next
    case (Some e)
    with Cons.prems m executes_fails [of h ?ev st e w] show ?thesis by (auto simp: Let_def)
  qed
qed (simp add: executes_same)

text \<open>One target either stops before its first operation, or performs its two loops.\<close>

lemma runTarget_cases:
  assumes "runTarget h opts s t st g = Some (code, st', g')"
  obtains (quiet) "run_events st' = run_events st" "run_world st' = run_world st"
  | (dirs) st1 fs where "run_events st1 = run_events st" "run_world st1 = run_world st"
      "makeDirs h (target_label t) (packageDir opts t) (rev fs) st1 = (code, st')" "code \<noteq> None"
  | (both) st1 st2 fs where "run_events st1 = run_events st" "run_world st1 = run_world st"
      "makeDirs h (target_label t) (packageDir opts t) (rev fs) st1 = (None, st2)"
      "writeFiles h (packageDir opts t) fs st2 g = (code, st', g')"
proof (cases "target_selected t")
  case False
  with assms show thesis by (intro quiet) (auto simp: runTarget_def)
next
  case True
  define st1 where "st1 = verbosef opts (VerboseGenerating (target_label t)
    (if target_label t = ''swift'' then ''module'' else ''package'') (target_namespace t)) st"
  have e1: "run_events st1 = run_events st" "run_world st1 = run_world st" by (simp_all add: st1_def)
  note unf = runTarget_def Let_def st1_def [symmetric] packageDir_def [symmetric]
  show thesis
  proof (cases "target_plugin t s (target_options t)")
    case (Inl e)
    with assms True e1 show thesis by (intro quiet) (auto simp: unf)
  next
    case (Inr fs)
    obtain v where v: "validatePackageFiles (host_lstat h (run_world st)) (packageDir opts t) fs = Some v"
      using validatePackageFiles_decides by metis
    show thesis
    proof (cases v)
      case (Inl e)
      with assms True Inr v e1 show thesis by (intro quiet) (auto simp: unf split: if_splits)
    next
      case ok: (Inr u)
      obtain c1 st2 where m: "makeDirs h (target_label t) (packageDir opts t) (rev fs) st1 = (c1, st2)"
        by (cases "makeDirs h (target_label t) (packageDir opts t) (rev fs) st1")
      show thesis
      proof (cases c1)
        case None
        with assms True Inr v e1 ok m have "writeFiles h (packageDir opts t) fs st2 g = (code, st', g')"
          by (simp add: unf)
        with e1 m None show thesis by (intro both) simp_all
      next
        case (Some c)
        with assms True Inr v e1 ok m have "code = c1" "st' = st2" by (simp_all add: unf)
        with e1 m Some show thesis by (intro dirs) simp_all
      qed
    qed
  qed
qed

lemma executes_from:
  "run_events st1 = run_events st \<Longrightarrow> run_world st1 = run_world st \<Longrightarrow> executes h code st1 st' \<Longrightarrow> executes h code st st'"
  by (simp add: executes_def)

lemma runTarget_executes: "runTarget h opts s t st g = Some (code, st', g') \<Longrightarrow> executes h code st st'"
proof (erule runTarget_cases)
  assume "run_events st' = run_events st" "run_world st' = run_world st"
  then show ?thesis by (rule executes_same)
next
  fix st1 fs
  assume "run_events st1 = run_events st" "run_world st1 = run_world st"
    "makeDirs h (target_label t) (packageDir opts t) (rev fs) st1 = (code, st')"
  then show ?thesis using makeDirs_executes executes_from by metis
next
  fix st1 st2 fs
  assume a: "run_events st1 = run_events st" "run_world st1 = run_world st"
    "makeDirs h (target_label t) (packageDir opts t) (rev fs) st1 = (None, st2)"
    "writeFiles h (packageDir opts t) fs st2 g = (code, st', g')"
  from executes_from [OF a(1,2) executes_trans [OF makeDirs_executes [OF a(3)] writeFiles_executes [OF a(4)]]]
  show ?thesis .
qed

lemma runTargets_executes: "runTargets h opts s ts st g = Some (code, st', g') \<Longrightarrow> executes h code st st'"
proof (induction ts arbitrary: st g)
  case (Cons t ts)
  then obtain c st1 g1 where t: "runTarget h opts s t st g = Some (c, st1, g1)"
    "(case c of Some c \<Rightarrow> Some (Some c, st1, g1) | None \<Rightarrow> runTargets h opts s ts st1 g1) = Some (code, st', g')"
    by (auto simp: bind_eq_Some_conv)
  with Cons.IH [of st1 g1] runTarget_executes [OF t(1)] show ?case
    by (cases c) (auto intro: executes_trans)
qed (simp add: executes_same)


lemma runGeneration_cases:
  assumes "runGeneration h opts s j sw k st = Some (c, st')"
  obtains (refused) d where "c = exitCodeGeneration" "st' = emit [d] st"
      "d \<in> {BadSimulatorDependency (TrimSpace (cli_simulatorDependency opts)), NoOutputsSelected, SwiftStreamsUnsupported}"
  | (stopped) g where "runTargets h opts s (targetList h opts s j sw k) st [] = Some (Some c, st', g)"
  | (completed) st1 g where "runTargets h opts s (targetList h opts s j sw k) st [] = Some (None, st1, g)"
      "c = exitCodeSuccess" "st' = verbosef opts (VerboseGenerated g) st1"
proof -
  let ?ts = "targetList h opts s j sw k"
  show thesis
  proof (cases "validateSimulatorDependency (TrimSpace (cli_simulatorDependency opts))
      \<and> \<not> (\<not> target_selected (?ts ! 0) \<and> \<not> target_selected (?ts ! 1) \<and> \<not> target_selected (?ts ! 2))
      \<and> \<not> (target_selected (?ts ! 1) \<and> schemaHasStreams (Some s))")
    case False
    then show thesis
      using assms refused [of "BadSimulatorDependency (TrimSpace (cli_simulatorDependency opts))"]
        refused [of NoOutputsSelected] refused [of SwiftStreamsUnsupported]
      by (simp add: runGeneration_def Let_def split: if_splits)
  next
    case True
    then obtain code st1 g where r: "runTargets h opts s ?ts st [] = Some (code, st1, g)"
      "(case code of Some c \<Rightarrow> Some (c, st1) | None \<Rightarrow> Some (exitCodeSuccess, verbosef opts (VerboseGenerated g) st1)) = Some (c, st')"
      using assms by (auto simp: runGeneration_def Let_def bind_eq_Some_conv)
    then show thesis using stopped completed by (cases code) auto
  qed
qed

lemma run_executes:
  assumes "runWithPlugins h args j sw k w = Some (c, st)"
  shows "\<exists>r. osRun h w (run_events st) r (run_world st) \<and> (r \<noteq> None \<longrightarrow> c = exitCodeIO)"
proof (cases rule: run_stages [of h args j sw k w])
  case (early c' st')
  with assms show ?thesis using osRun.finished [of h w] by fastforce
next
  case (late opts s st0)
  with assms have g: "runGeneration h opts s j sw k st0 = Some (c, st)" by simp
  then have "executes h (Some c) st0 st"
  proof (cases rule: runGeneration_cases)
    case stopped
    then show ?thesis by (rule runTargets_executes)
  next
    case (completed st1 g)
    from runTargets_executes [OF completed(1)] completed(3) show ?thesis by (auto simp: executes_def)
  qed (simp add: executes_same)
  with late(3,4) show ?thesis by (auto simp: executes_def)
qed

text \<open>A target that lets the loop go on returned a package of the contract.\<close>

lemma runTarget_accepted:
  assumes "runTarget h opts s t st g = Some (None, st', g')" "target_selected t"
  shows "packageWF (targetFiles s t)"
proof (cases "target_plugin t s (target_options t)")
  case (Inl e)
  with assms show ?thesis by (auto simp: runTarget_def Let_def)
next
  case (Inr fs)
  obtain v where v: "validatePackageFiles (host_lstat h (run_world st)) (packageDir opts t) fs = Some v"
    "\<not> isl v \<longleftrightarrow> packageWF fs \<and> (\<forall>f\<in>set fs. walkClear (host_lstat h (run_world st)) (packageDir opts t) (fileParts f))"
    by (rule validatePackageFiles_decides)
  with assms Inr have "\<not> isl v"
    by (cases v) (auto simp: runTarget_def Let_def packageDir_def [symmetric] split: if_splits)
  with v Inr show ?thesis by (simp add: targetFiles_def)
qed

lemma runTargets_accepted:
  "runTargets h opts s ts st g = Some (None, st', g') \<Longrightarrow> t \<in> set ts \<Longrightarrow> target_selected t \<Longrightarrow>
   packageWF (targetFiles s t)"
proof (induction ts arbitrary: st g)
  case (Cons u us)
  then obtain c st1 g1 where u: "runTarget h opts s u st g = Some (c, st1, g1)"
    "(case c of Some c \<Rightarrow> Some (Some c, st1, g1) | None \<Rightarrow> runTargets h opts s us st1 g1) = Some (None, st', g')"
    by (auto simp: bind_eq_Some_conv)
  then have "c = None" by (cases c) auto
  with u Cons runTarget_accepted [of h opts s u st g st1 g1] show ?case by auto
qed simp

section \<open>What an execution leaves in the files\<close>

text \<open>A host that keeps files: a successful write is read back, and an operation changes no
  other file of \<open>D\<close>, a set of names of which no two mean the same file.\<close>

definition keepsFiles :: "('i, 'w) Host \<Rightarrow> ('w \<Rightarrow> string \<Rightarrow> string option) \<Rightarrow> string set \<Rightarrow> bool" where
  "keepsFiles h content D \<longleftrightarrow>
     (\<forall>d w e w' q. host_mkdirAll h d w = (e, w') \<and> q \<in> D \<longrightarrow> content w' q = content w q)
     \<and> (\<forall>p x w e w'. host_writeFile h p x w = (e, w') \<longrightarrow>
          (\<forall>q\<in>D. q \<noteq> p \<longrightarrow> content w' q = content w q) \<and> (e = None \<and> p \<in> D \<longrightarrow> content w' p = Some x))"

fun written :: "OsEvent list \<Rightarrow> (string \<times> string) list" where
  "written [] = []"
| "written (MkdirAll d # evs) = written evs"
| "written (WriteFile p x # evs) = (p, x) # written evs"

lemma written_append [simp]: "written (evs @ evs') = written evs @ written evs'"
  by (induction evs rule: written.induct) simp_all

lemma osEffect_other:
  "keepsFiles h content D \<Longrightarrow> osEffect h ev w = (e, w') \<Longrightarrow> q \<in> D \<Longrightarrow> q \<notin> fst ` set (written [ev]) \<Longrightarrow>
   content w' q = content w q"
  by (cases ev) (auto simp: keepsFiles_def)

lemma osRun_others:
  "osRun h w evs r w' \<Longrightarrow> keepsFiles h content D \<Longrightarrow> q \<in> D \<Longrightarrow> q \<notin> fst ` set (written evs) \<Longrightarrow>
   content w' q = content w q"
proof (induction rule: osRun.induct)
  case (failed ev w e w')
  then show ?case using osEffect_other by metis
next
  case (continued ev w w1 evs r w2)
  have "written (ev # evs) = written [ev] @ written evs" using written_append [of "[ev]" evs] by simp
  with continued.prems have "q \<notin> fst ` set (written [ev])" "q \<notin> fst ` set (written evs)" by auto
  with continued osEffect_other [OF continued.prems(1) continued.hyps(1)] show ?case by simp
qed simp

lemma osRun_stored:
  "osRun h w evs r w' \<Longrightarrow> r = None \<Longrightarrow> keepsFiles h content D \<Longrightarrow> (p, x) \<in> set (written evs) \<Longrightarrow>
   distinct (map fst (written evs)) \<Longrightarrow> p \<in> D \<Longrightarrow> content w' p = Some x"
proof (induction rule: osRun.induct)
  case (continued ev w w1 evs r w2)
  show ?case
  proof (cases "(p, x) \<in> set (written evs)")
    case True
    have "distinct (map fst (written evs))" using continued.prems(4) by (cases ev) simp_all
    with continued True show ?thesis by blast
  next
    case False
    with continued.prems(3) have ev: "ev = WriteFile p x" by (cases ev) auto
    with continued.prems(4) have "p \<notin> fst ` set (written evs)" by simp
    with osRun_others [OF continued.hyps(2) continued.prems(2,5)] have "content w2 p = content w1 p" by simp
    moreover have "content w1 p = Some x"
      using continued.hyps(1) continued.prems(2,5) ev by (auto simp: keepsFiles_def)
    ultimately show ?thesis by simp
  qed
qed simp_all

section \<open>The files of the packages\<close>

definition packageFiles :: "cliOptions \<Rightarrow> Schema \<Rightarrow> Target \<Rightarrow> (string \<times> string) list" where
  "packageFiles opts s t =
     (if target_selected t then map (\<lambda>f. (outPath (packageDir opts t) f, fileData f)) (targetFiles s t) else [])"

lemma written_targetEvents: "written (targetEvents opts s t) = packageFiles opts s t"
proof -
  have "written (map (\<lambda>f. MkdirAll (PathDir (outPath d f))) fs) = []" for d fs by (induction fs) simp_all
  moreover have "written (map (\<lambda>f. WriteFile (outPath d f) (fileData f)) fs) = map (\<lambda>f. (outPath d f, fileData f)) fs" for d fs
    by (induction fs) simp_all
  ultimately show ?thesis by (simp add: targetEvents_def packageEvents_def packageFiles_def)
qed

lemma written_targets:
  "written (concat (map (targetEvents opts s) ts)) = concat (map (packageFiles opts s) ts)"
  by (induction ts) (simp_all add: written_targetEvents)

lemma packagePath_inj:
  assumes "okPart (target_root t)" "okPart (target_root u)" "list_all okPart ps" "list_all okPart qs"
    and "packagePath opts t ps = packagePath opts u qs"
  shows "target_root t = target_root u \<and> ps = qs"
proof -
  let ?r = "rooted (cli_outDir opts)" and ?o = "rootParts (cli_outDir opts)"
  have "canon ?r (?o @ target_root t # ps)" "canon ?r (?o @ target_root u # qs)"
    using canon_append_ok [OF canon_rootParts, of "target_root t # ps" "cli_outDir opts"]
      canon_append_ok [OF canon_rootParts, of "target_root u # qs" "cli_outDir opts"] assms(1-4) by simp_all
  then have "?o @ target_root t # ps = ?o @ target_root u # qs"
    using assms(5) renderPath_facts(2) unfolding packagePath_def by metis
  then show ?thesis by simp
qed

lemma packageFiles_distinct:
  assumes "okPart (target_root t)" "packageWF (targetFiles s t)"
  shows "distinct (map fst (packageFiles opts s t))"
proof -
  have "f = g" if fg: "f \<in> set (targetFiles s t)" "g \<in> set (targetFiles s t)"
    "outPath (packageDir opts t) f = outPath (packageDir opts t) g"
    and d: "distinct (map File_Name (targetFiles s t))" for f g
  proof -
    have c: "canonicalName (File_Name f)" "canonicalName (File_Name g)"
      using assms(2) fg(1,2) by (auto simp: packageWF_def)
    with fg(3) have "packagePath opts t (fileParts f) = packagePath opts t (fileParts g)"
      by (simp add: outPath_parts(1) [OF assms(1)])
    with c have "fileParts f = fileParts g"
      using packagePath_inj [OF assms(1) assms(1)] by (simp add: canonicalName_def fileParts_def)
    then have "File_Name f = File_Name g" unfolding fileParts_def by (metis join_split)
    with d fg(1,2) show ?thesis by (simp add: distinct_map inj_on_def)
  qed
  moreover have "distinct (map File_Name (targetFiles s t))" using assms(2) by (simp add: packageWF_def)
  ultimately show ?thesis by (auto simp: packageFiles_def distinct_map comp_def inj_on_def)
qed

lemma targetList_roots_differ:
  assumes "i < 3" "l < 3" "target_root (targetList h opts s j sw k ! i) = target_root (targetList h opts s j sw k ! l)"
  shows "i = l"
proof -
  have "i = 0 \<or> i = 1 \<or> i = 2" "l = 0 \<or> l = 1 \<or> l = 2" using assms(1,2) by auto
  with assms(3) show ?thesis by (auto simp: targetList_def Let_def)
qed

lemma packageFiles_apart:
  assumes "okPart (target_root t)" "okPart (target_root u)" "target_root t \<noteq> target_root u"
    and "packageWF (targetFiles s t)" "packageWF (targetFiles s u)"
  shows "fst ` set (packageFiles opts s t) \<inter> fst ` set (packageFiles opts s u) = {}"
proof -
  have "outPath (packageDir opts t) f \<noteq> outPath (packageDir opts u) g"
    if "f \<in> set (targetFiles s t)" "g \<in> set (targetFiles s u)" for f g
  proof
    assume e: "outPath (packageDir opts t) f = outPath (packageDir opts u) g"
    have c: "canonicalName (File_Name f)" "canonicalName (File_Name g)"
      using assms(4,5) that by (auto simp: packageWF_def)
    with e have "packagePath opts t (fileParts f) = packagePath opts u (fileParts g)"
      by (simp add: outPath_parts(1) assms(1,2))
    with c assms(3) packagePath_inj [OF assms(1,2), of "fileParts f" "fileParts g" opts]
    show False by (simp add: canonicalName_def fileParts_def)
  qed
  then show ?thesis by (auto simp: packageFiles_def split: if_splits)
qed

lemma packages_distinct:
  assumes "lowerKeepsSlash (host_unicode h)" and ts: "ts = targetList h opts s j sw k"
    and wf: "\<forall>t\<in>set ts. target_selected t \<longrightarrow> packageWF (targetFiles s t)"
  shows "distinct (map fst (concat (map (packageFiles opts s) ts)))"
proof -
  have e: "ts = [ts ! 0, ts ! 1, ts ! 2]" by (simp add: ts targetList_def Let_def)
  have n: "ts ! 0 \<in> set ts" "ts ! 1 \<in> set ts" "ts ! 2 \<in> set ts"
    using arg_cong [OF e, of length] by (auto intro!: nth_mem)
  have ok: "okPart (target_root t)" if "t \<in> set ts" for t
    using targetList_roots [OF assms(1)] that unfolding ts by blast
  have d: "distinct (map fst (packageFiles opts s t))" if "t \<in> set ts" for t
  proof (cases "target_selected t")
    case True
    with wf that show ?thesis by (intro packageFiles_distinct ok) auto
  qed (simp add: packageFiles_def)
  have a: "fst ` set (packageFiles opts s t) \<inter> fst ` set (packageFiles opts s u) = {}"
    if "t \<in> set ts" "u \<in> set ts" "target_root t \<noteq> target_root u" for t u
  proof (cases "target_selected t \<and> target_selected u")
    case True
    with wf that show ?thesis by (intro packageFiles_apart ok) auto
  qed (auto simp: packageFiles_def)
  have "target_root (ts ! 0) \<noteq> target_root (ts ! 1)" "target_root (ts ! 0) \<noteq> target_root (ts ! 2)"
    "target_root (ts ! 1) \<noteq> target_root (ts ! 2)"
    unfolding ts using targetList_roots_differ [of 0 1 h opts s j sw k] targetList_roots_differ [of 0 2 h opts s j sw k]
      targetList_roots_differ [of 1 2 h opts s j sw k] by auto
  then show ?thesis
    by (subst e) (use d [OF n(1)] d [OF n(2)] d [OF n(3)] a [OF n(1) n(2)] a [OF n(1) n(3)] a [OF n(2) n(3)] in auto)
qed

end
