(* ===== verification/Gen_Report.thy ===== *)
theory Gen_Report
  imports Gen_Text Gen_Replay
begin

text \<open>
  What the command says on stderr: the failure that a line reports, and that a run reports the
  failure of its exit code once and nothing else unless it was asked to talk.
\<close>

section \<open>The failure a line reports\<close>

fun failureCode :: "Diag \<Rightarrow> int option" where
  "failureCode (FlagFailure _) = Some exitCodeGeneration"
| "failureCode WrongArgumentCount = Some exitCodeGeneration"
| "failureCode (ParseFailure _ e) = Some (if isIOError (parseFileError e) then exitCodeIO else exitCodeValidation)"
| "failureCode (ValidationErrors _ _) = Some exitCodeValidation"
| "failureCode (BadSimulatorDependency _) = Some exitCodeGeneration"
| "failureCode NoOutputsSelected = Some exitCodeGeneration"
| "failureCode SwiftStreamsUnsupported = Some exitCodeGeneration"
| "failureCode (GenerateFailed _ _) = Some exitCodeGeneration"
| "failureCode (InspectFailedDir _ _ _) = Some exitCodeIO"
| "failureCode (InvalidPluginOutput _ _) = Some exitCodeGeneration"
| "failureCode (CreateDirFailed _ _ _) = Some exitCodeIO"
| "failureCode (WriteFailed _ _) = Some exitCodeIO"
| "failureCode _ = None"

fun isProgress :: "Diag \<Rightarrow> bool" where
  "isProgress (VerboseParsing _) = True"
| "isProgress VerboseValidating = True"
| "isProgress VerboseValid = True"
| "isProgress (VerboseGenerating _ _ _) = True"
| "isProgress (VerboseGenerated _) = True"
| "isProgress _ = False"

abbreviation failures :: "Diag list \<Rightarrow> int list" where
  "failures ds \<equiv> List.map_filter failureCode ds"

lemma failures_append [simp]: "failures (ds @ es) = failures ds @ failures es"
  by (simp add: List.map_filter_def)

lemma unlines_Nil_iff [simp]: "unlines ls = [] \<longleftrightarrow> ls = []"
  by (cases ls) (simp_all add: unlines_def)

lemma diagText_not_Nil [simp]: "diagText t d \<noteq> []"
  by (cases d) (simp_all add: printUsage_def printValidationErrors_def)

lemma stderrText_Nil_iff: "stderrText t st = [] \<longleftrightarrow> run_diags st = []"
  by (cases "run_diags st") (simp_all add: stderrText_def)

section \<open>What a stage adds\<close>

text \<open>A stage with exit code \<open>code\<close> (\<open>None\<close>: the run goes on) appends lines that report
  just that code; the others are progress, and only with \<open>--verbose\<close>.\<close>

definition reports :: "cliOptions \<Rightarrow> int option \<Rightarrow> 'w Run \<Rightarrow> 'w Run \<Rightarrow> bool" where
  "reports opts code st st' \<longleftrightarrow>
     (\<exists>ds. run_diags st' = run_diags st @ ds
        \<and> failures ds = (case code of None \<Rightarrow> [] | Some c \<Rightarrow> [c])
        \<and> (\<forall>d\<in>set ds. failureCode d = None \<longrightarrow> isProgress d \<and> cli_verbose opts))"

named_theorems reporting

lemma reports_trans [reporting]:
  "reports opts None st st1 \<Longrightarrow> reports opts code st1 st2 \<Longrightarrow> reports opts code st st2"
  unfolding reports_def by (elim exE, rename_tac ds es, rule_tac x = "ds @ es" in exI)
    (auto split: option.splits)

lemma reports_same [reporting]: "run_diags st' = run_diags st \<Longrightarrow> reports opts None st st'"
  by (simp add: reports_def map_filter_simps)

lemma reports_emit [reporting]:
  "run_diags st' = run_diags st \<Longrightarrow> failureCode d = Some c \<Longrightarrow> reports opts (Some c) st (emit [d] st')"
  by (simp add: reports_def emit_def map_filter_simps)

lemma reports_verbosef [reporting]:
  "isProgress d \<Longrightarrow> failureCode d = None \<Longrightarrow> reports opts None st (verbosef opts d st)"
  by (simp add: reports_def verbosef_def emit_def map_filter_simps)

lemma reports_start: "run_diags st' = run_diags st1 \<Longrightarrow> reports opts code st st' \<Longrightarrow> reports opts code st st1"
  by (simp add: reports_def)

lemma reports_from: "run_diags st1 = run_diags st \<Longrightarrow> reports opts code st1 st' \<Longrightarrow> reports opts code st st'"
  by (simp add: reports_def)

lemma makeDirs_reports: "makeDirs h label pkgDir fs st = (code, st') \<Longrightarrow> reports opts code st st'"
proof (induction fs arbitrary: st)
  case (Cons f fs)
  obtain err w where m: "host_mkdirAll h (PathDir (outPath pkgDir f)) (run_world st) = (err, w)"
    by (cases "host_mkdirAll h (PathDir (outPath pkgDir f)) (run_world st)")
  let ?st = "st\<lparr>run_events := run_events st @ [MkdirAll (PathDir (outPath pkgDir f))], run_world := w\<rparr>"
  from Cons.prems m show ?case
    by (cases err) (auto simp: Let_def intro: reports_from [of ?st] Cons.IH reports_emit)
qed (simp add: reports_same)

lemma writeFiles_reports: "writeFiles h pkgDir fs st g = (code, st', g') \<Longrightarrow> reports opts code st st'"
proof (induction fs arbitrary: st g)
  case (Cons f fs)
  obtain err w where m: "host_writeFile h (outPath pkgDir f) (fileData f) (run_world st) = (err, w)"
    by (cases "host_writeFile h (outPath pkgDir f) (fileData f) (run_world st)")
  let ?st = "st\<lparr>run_events := run_events st @ [WriteFile (outPath pkgDir f) (fileData f)], run_world := w\<rparr>"
  from Cons.prems m show ?case
    by (cases err) (auto simp: Let_def intro: reports_from [of ?st] Cons.IH reports_emit)
qed (simp add: reports_same)

lemma runTarget_reports: "runTarget h opts s t st g = Some (code, st', g') \<Longrightarrow> reports opts code st st'"
proof (cases "target_selected t")
  case True
  let ?naming = "if target_label t = ''swift'' then ''module'' else ''package''"
  let ?st = "verbosef opts (VerboseGenerating (target_label t) ?naming (target_namespace t)) st"
  have v: "reports opts None st ?st" by (rule reports_verbosef) simp_all
  assume r: "runTarget h opts s t st g = Some (code, st', g')"
  have "reports opts code ?st st'"
  proof (cases "target_plugin t s (target_options t)")
    case (Inl e)
    with r True show ?thesis by (auto simp: runTarget_def Let_def intro: reports_emit)
  next
    case (Inr fs)
    let ?dir = "PathJoin (cli_outDir opts) (target_root t)"
    obtain v where v: "validatePackageFiles (host_lstat h (run_world ?st)) ?dir fs = Some v"
      using r True Inr by (auto simp: runTarget_def Let_def bind_eq_Some_conv)
    show ?thesis
    proof (cases v)
      case (Inl e)
      with r True Inr v show ?thesis
        by (auto simp: runTarget_def Let_def split: if_splits intro: reports_emit)
    next
      case ok: (Inr u)
      obtain c1 st2 where m: "makeDirs h (target_label t) ?dir (rev fs) ?st = (c1, st2)"
        by (cases "makeDirs h (target_label t) ?dir (rev fs) ?st")
      note d = makeDirs_reports [OF m, of opts]
      show ?thesis
      proof (cases c1)
        case None
        with r True Inr v ok m have "writeFiles h ?dir fs st2 g = (code, st', g')"
          by (simp add: runTarget_def Let_def)
        from reports_trans [OF d [unfolded None] writeFiles_reports [OF this]] show ?thesis .
      next
        case (Some c)
        with r True Inr v ok m d show ?thesis by (auto simp: runTarget_def Let_def)
      qed
    qed
  qed
  with v show ?thesis by (rule reports_trans)
qed (auto simp: runTarget_def intro: reports_same)

lemma runTargets_reports: "runTargets h opts s ts st g = Some (code, st', g') \<Longrightarrow> reports opts code st st'"
proof (induction ts arbitrary: st g)
  case (Cons t ts)
  then obtain c st1 g1 where t: "runTarget h opts s t st g = Some (c, st1, g1)"
    "(case c of Some c \<Rightarrow> Some (Some c, st1, g1) | None \<Rightarrow> runTargets h opts s ts st1 g1) = Some (code, st', g')"
    by (auto simp: bind_eq_Some_conv)
  with Cons.IH [of st1 g1] runTarget_reports [OF t(1)] show ?case
    by (cases c) (auto intro: reports_trans)
qed (simp add: reports_same)

section \<open>A whole run\<close>

abbreviation codeOf :: "int \<Rightarrow> int option" where
  "codeOf c \<equiv> (if c = exitCodeSuccess then None else Some c)"

lemma exitCodes_differ [simp]:
  "exitCodeValidation \<noteq> exitCodeSuccess" "exitCodeGeneration \<noteq> exitCodeSuccess" "exitCodeIO \<noteq> exitCodeSuccess"
  "exitCodeSuccess \<noteq> exitCodeValidation" "exitCodeSuccess \<noteq> exitCodeGeneration" "exitCodeSuccess \<noteq> exitCodeIO"
  by (simp_all add: exitCodeSuccess_def exitCodeValidation_def exitCodeGeneration_def exitCodeIO_def)

lemma targets_fail_nonzero:
  "runTargets h opts s ts st g = Some (Some c, st', g') \<Longrightarrow> c \<noteq> exitCodeSuccess"
proof -
  assume r: "runTargets h opts s ts st g = Some (Some c, st', g')"
  obtain code st2 g2 evs where "runTargets h opts s ts st g = Some (code, st2, g2)" "targetsStep opts s ts code evs"
    by (rule runTargets_step [of h opts s ts st g])
  with r show ?thesis by (auto simp: targetsStep_def)
qed

lemma runGeneration_reports:
  assumes "runGeneration h opts s j sw k st = Some (c, st')"
  shows "reports opts (codeOf c) st st'"
  using assms
proof (cases rule: runGeneration_cases)
  case (refused d)
  then show ?thesis by (auto intro: reports_emit)
next
  case stopped
  from runTargets_reports [OF this] targets_fail_nonzero [OF this] show ?thesis by simp
next
  case (completed st1 g)
  from runTargets_reports [OF completed(1)] have "reports opts None st st1" .
  then have "reports opts None st st'" unfolding completed(3) by (rule reports_trans) (simp add: reports_verbosef)
  with completed(2) show ?thesis by simp
qed

lemma run_reports:
  assumes "runWithPlugins h args j sw k w = Some (c, st)"
    and "parseFlags defaultOptions args = Inr (opts, [input])" and "\<not> cli_help opts"
  shows "reports opts (codeOf c) (verbosef opts (VerboseParsing input) \<lparr>run_diags = [], run_events = [], run_world = w\<rparr>) st"
proof -
  let ?st = "verbosef opts (VerboseParsing input) \<lparr>run_diags = [], run_events = [], run_world = w\<rparr>"
  let ?st2 = "verbosef opts VerboseValidating ?st"
  have v: "reports opts None ?st ?st2" by (rule reports_verbosef) simp_all
  show ?thesis
  proof (cases "ParseFile (host_open h w) (host_decode h) input")
    case (Inl e)
    with assms show ?thesis
      by (cases "isIOError (parseFileError e)") (auto simp: runWithPlugins_def Let_def intro: reports_emit)
  next
    case (Inr s)
    then have r: "Some (c, st) = (if length (Validate (Some s)) > 0
             then Some (exitCodeValidation, emit [ValidationErrors (PathBase input) (Validate (Some s))] ?st2)
             else if cli_validateOnly opts then Some (exitCodeSuccess, verbosef opts VerboseValid ?st2)
             else runGeneration h opts s j sw k ?st2)"
      using assms by (simp add: runWithPlugins_def Let_def)
    have "reports opts (codeOf c) ?st2 st"
      using r runGeneration_reports [of h opts s j sw k ?st2 c st]
      by (auto split: if_splits intro: reports_emit reports_verbosef)
    with v show ?thesis by (rule reports_trans)
  qed
qed

end
