(* ===== verification/Report_Lines.thy ===== *)
theory Report_Lines
  imports Gen_Report
begin

text \<open>
  The lines of a validation report: with keys that contain no newline every path and every
  message of \<open>Validate\<close> is one line, since the values a document can choose freely (field types,
  locations, names) are quoted.
\<close>

section \<open>Errors that are one line\<close>

definition oneLine :: "string \<Rightarrow> bool" where
  "oneLine s \<longleftrightarrow> newline \<notin> set s"

fun lineError :: "ValidationError \<Rightarrow> bool" where
  "lineError (VError path msg) \<longleftrightarrow> oneLine path \<and> (\<forall>t. oneLine (messageText t msg))"

abbreviation lineErrors :: "ValidationError list \<Rightarrow> bool" where
  "lineErrors errs \<equiv> list_all lineError errs"

definition lineTable :: "('k, string) table \<Rightarrow> bool" where
  "lineTable seen \<longleftrightarrow> (\<forall>k v. tbl_get seen k = Some v \<longrightarrow> oneLine v)"

lemma oneLine_simps [simp]:
  "oneLine []" "oneLine (c # s) \<longleftrightarrow> c \<noteq> newline \<and> oneLine s" "oneLine (s @ u) \<longleftrightarrow> oneLine s \<and> oneLine u"
  by (auto simp: oneLine_def)

lemma oneLine_showNat [simp]: "oneLine (showNat n)"
  using showNat_digits [of n] by (auto simp: oneLine_def isDigit_def byte_def list_all_iff)

lemma oneLine_quoteText [simp]: "oneLine (quoteText t s)"
  by (simp add: oneLine_def quoteText_def)

lemma oneLine_hex [simp]: "oneLine (hexByte n)" "oneLine (hexWord w)"
  by (simp_all add: hexByte_def hexWord_def padHex_def) (simp_all add: oneLine_def)

lemma lineErrors_addIf [simp]: "oneLine path \<Longrightarrow> (\<And>t. oneLine (messageText t msg)) \<Longrightarrow> lineErrors (addIf c path msg)"
  by (simp add: addIf_def)

lemma lineTable_empty: "lineTable tbl_empty"
  by (simp add: lineTable_def)

lemma lineTable_put: "lineTable seen \<Longrightarrow> oneLine v \<Longrightarrow> lineTable (tbl_put seen k v)"
  by (auto simp: lineTable_def tbl_get_put split: if_splits)

lemma lineTableD: "lineTable seen \<Longrightarrow> tbl_get seen k = Some v \<Longrightarrow> oneLine v"
  by (simp add: lineTable_def)

section \<open>The checks\<close>

lemma line_validateApplet: "lineErrors (validateApplet s)"
  by (simp add: validateApplet_def Let_def)

lemma line_fieldErrors: "oneLine path \<Longrightarrow> lineErrors (fieldErrors path f)"
  by (simp add: fieldErrors_def split: option.split)

lemma line_validateFields:
  "oneLine path \<Longrightarrow> lineErrors (fst (validateFields path isRequest i p1 p2 n fs))"
  by (induction fs arbitrary: i p1 p2 n)
     (simp_all add: Let_def split_beta line_fieldErrors)

lemma line_validateMessage: "oneLine path \<Longrightarrow> lineErrors (validateMessage path msg isRequest)"
  using line_validateFields [of path isRequest 0 False False 0]
  by (simp add: validateMessage_def split_beta split: option.split)

lemma line_claimINS:
  "oneLine path \<Longrightarrow> lineTable seen \<Longrightarrow>
   lineErrors (fst (claimINS path base offs seen)) \<and> lineTable (snd (claimINS path base offs seen))"
proof (induction offs arbitrary: seen)
  case (Cons off offs)
  show ?case
  proof (cases "tbl_get seen (base + int off)")
    case None
    have "lineTable (tbl_put seen (base + int off) path)" by (rule lineTable_put) (use Cons.prems in simp_all)
    from Cons.IH [OF Cons.prems(1) this] None Cons.prems(1) show ?thesis by (simp add: Let_def split_beta)
  next
    case (Some first)
    with Cons.prems have "oneLine first" by (blast dest: lineTableD)
    with Cons.IH [OF Cons.prems] Some Cons.prems(1) show ?thesis by (simp add: Let_def split_beta)
  qed
qed simp

lemma line_validateMethodINSRange:
  assumes "oneLine path" "lineTable seen"
  shows "lineErrors (fst (validateMethodINSRange path m seen)) \<and> lineTable (snd (validateMethodINSRange path m seen))"
  using line_claimINS [of "path @ ''.ins''" seen] assms by (simp add: validateMethodINSRange_def Let_def split_beta)

lemma line_validateStreamMode: "oneLine path \<Longrightarrow> lineErrors (validateStreamMode path a m)"
  by (simp add: validateStreamMode_def Let_def)

lemma lineErrors_concat: "(\<And>x. lineErrors (f x)) \<Longrightarrow> lineErrors (concat (map f xs))"
  by (induction xs) simp_all

lemma line_methodStreamErrors: "oneLine path \<Longrightarrow> lineErrors (methodStreamErrors path a m)"
  by (simp add: methodStreamErrors_def line_validateStreamMode split_beta)
     (intro conjI impI lineErrors_concat; simp add: split_beta)

lemma line_validateMethod:
  assumes "oneLine key" "lineTable names" "lineTable ins" and "validateMethod s key names ins = (errs, names', ins')"
  shows "lineErrors errs \<and> lineTable names' \<and> lineTable ins'"
proof (cases "map_of (Schema_Methods s) key")
  case (Some mo)
  note unf = validateMethod_def Let_def split_beta
  show ?thesis
  proof (cases mo)
    case None
    with Some assms show ?thesis by (auto simp: unf)
  next
    case m: (Some m)
    define path where "path = ''methods.'' @ key"
    have p: "oneLine path" using assms(1) by (simp add: path_def)
    let ?name = "effectiveMethodName key m"
    define dup where "dup = (case tbl_get names ?name of
        Some firstPath \<Rightarrow> ([VError path (DuplicateMethodName ?name firstPath)], names)
      | None \<Rightarrow> ([], tbl_put names ?name path))"
    have d: "lineErrors (fst dup) \<and> lineTable (snd dup)"
      using assms(2) p lineTable_put [of names path ?name] by (auto simp: dup_def split: option.split dest: lineTableD)
    have i: "lineErrors (fst (validateMethodINSRange path m ins)) \<and> lineTable (snd (validateMethodINSRange path m ins))"
      by (rule line_validateMethodINSRange [OF p assms(3)])
    have "names' = snd dup" "ins' = snd (validateMethodINSRange path m ins)"
      using assms(4) by (simp_all only: unf Some m option.case prod.inject dup_def path_def)
    moreover have "errs = addIf (\<not> isIdentifier key) path
          (Text ''method name must start with a letter and contain only letters, digits, and underscore'')
        @ addIf (TrimSpace (Method_Name m) \<noteq> '''' \<and> \<not> isIdentifier (Method_Name m)) (path @ ''.name'')
          (Text ''method name must start with a letter and contain only letters, digits, and underscore'')
        @ fst dup @ fst (validateMethodINSRange path m ins)
        @ validateMessage (path @ ''.request'') (Method_Request m) True
        @ validateMessage (path @ ''.response'') (Method_Response m) False
        @ methodStreamErrors path (Schema_Applet s) m"
      using assms(4) by (simp only: unf Some m option.case prod.inject prod.sel dup_def path_def append_assoc)
    then have le: "lineErrors errs"
      using d i p by (simp add: line_validateMessage line_methodStreamErrors)
    ultimately show ?thesis using d i by simp
  qed
next
  case None
  with assms show ?thesis by (auto simp: validateMethod_def Let_def)
qed

lemma line_validateMethodKeys:
  "list_all oneLine keys \<Longrightarrow> lineTable names \<Longrightarrow> lineTable ins \<Longrightarrow> lineErrors (validateMethodKeys s keys names ins)"
proof (induction keys arbitrary: names ins)
  case (Cons key keys)
  obtain errs names' ins' where v: "validateMethod s key names ins = (errs, names', ins')"
    by (metis prod_cases3)
  from line_validateMethod [OF _ Cons.prems(2,3) v] Cons.prems(1)
  have "lineErrors errs" "lineTable names'" "lineTable ins'" by auto
  with Cons.IH [of names' ins'] Cons.prems(1) v show ?case by simp
qed simp

lemma line_validateStatusWord:
  assumes "oneLine key" "lineTable names" "lineTable codes"
    and "validateStatusWord key sw names codes = (errs, names', codes')"
  shows "lineErrors errs \<and> lineTable names' \<and> lineTable codes'"
proof -
  define path where "path = ''status_words.'' @ key"
  have p: "oneLine path" "oneLine (path @ ''.code'')" using assms(1) by (simp_all add: path_def)
  let ?name = "effectiveStatusName key sw" and ?code = "StatusWord_Code sw"
  define d where "d = (case tbl_get names ?name of
      Some firstPath \<Rightarrow> ([VError path (DuplicateStatusName ?name firstPath)], names)
    | None \<Rightarrow> ([], tbl_put names ?name path))"
  define c where "c = (case tbl_get codes ?code of
      Some firstPath \<Rightarrow> ([VError (path @ ''.code'') (DuplicateStatusCode ?code firstPath)], codes)
    | None \<Rightarrow> ([], tbl_put codes ?code (path @ ''.code'')))"
  have dl: "lineErrors (fst d) \<and> lineTable (snd d)"
    using assms(2) p(1) lineTable_put [of names path ?name] by (auto simp: d_def split: option.split dest: lineTableD)
  have cl: "lineErrors (fst c) \<and> lineTable (snd c)"
    using assms(3) p lineTable_put [of codes "path @ ''.code''" ?code] by (auto simp: c_def split: option.split dest: lineTableD)
  have "names' = snd d" "codes' = snd c"
    using assms(4) by (simp_all only: validateStatusWord_def Let_def split_beta prod.inject d_def c_def path_def append_assoc)
  moreover have "errs = addIf (\<not> isIdentifier key) path
        (Text ''status word name must start with a letter and contain only letters, digits, and underscore'')
      @ addIf (TrimSpace (StatusWord_Name sw) \<noteq> '''' \<and> \<not> isIdentifier (StatusWord_Name sw)) (path @ ''.name'')
        (Text ''status word name must start with a letter and contain only letters, digits, and underscore'')
      @ fst d @ addIf (\<not> isValidStatusWordCode ?code) (path @ ''.code'') (BadStatusCode ?code) @ fst c"
    using assms(4) by (simp only: validateStatusWord_def Let_def split_beta prod.inject d_def c_def path_def append_assoc)
  then have "lineErrors errs" using dl cl p by simp
  ultimately show ?thesis using dl cl by simp
qed

lemma line_validateStatusWordKeys:
  "list_all oneLine keys \<Longrightarrow> lineTable names \<Longrightarrow> lineTable codes \<Longrightarrow> lineErrors (validateStatusWordKeys s keys names codes)"
proof (induction keys arbitrary: names codes)
  case (Cons key keys)
  show ?case
  proof (cases "map_of (Schema_StatusWords s) key")
    case (Some sw)
    obtain errs names' codes' where v: "validateStatusWord key sw names codes = (errs, names', codes')"
      by (metis prod_cases3)
    from line_validateStatusWord [OF _ Cons.prems(2,3) v] Cons.prems(1)
    have "lineErrors errs" "lineTable names'" "lineTable codes'" by auto
    with Cons.IH [of names' codes'] Cons.prems(1) v Some show ?thesis by simp
  qed (use Cons in simp)
qed simp

lemma line_Validate:
  assumes "\<forall>k\<in>fst ` set (Schema_Methods s) \<union> fst ` set (Schema_StatusWords s). oneLine k"
  shows "lineErrors (Validate (Some s))"
proof -
  have "list_all oneLine (sortedMethodKeys (Schema_Methods s))" "list_all oneLine (sortedStatusWordKeys (Schema_StatusWords s))"
    using assms by (auto simp: sortedMethodKeys_def sortedStatusWordKeys_def list_all_iff)
  then have "lineErrors (validateMethods s)" "lineErrors (validateStatusWords s)"
    by (simp_all add: validateMethods_def validateStatusWords_def line_validateMethodKeys
        line_validateStatusWordKeys lineTable_empty)
  with line_validateApplet show ?thesis by (simp add: Validate_def)
qed

section \<open>Reading the lines back\<close>

lemma splitOn_unlines: "list_all oneLine ls \<Longrightarrow> splitOn newline (unlines ls) = ls @ [[]]"
  by (induction ls) (simp_all add: unlines_def splitOn_append oneLine_def)

lemma report_lines:
  assumes "oneLine base" "lineErrors errs"
  shows "splitOn newline (printValidationErrors t base errs) =
    (base @ '': validation errors:'')
    # map (\<lambda>err. ''  '' @ VE_Path err @ '': '' @ messageText t (VE_Message err)) errs @ [[]]"
proof -
  have "lineError e \<Longrightarrow> oneLine (VE_Path e) \<and> oneLine (messageText t (VE_Message e))" for e
    by (cases e) simp
  then have "list_all oneLine (map (\<lambda>err. ''  '' @ VE_Path err @ '': '' @ messageText t (VE_Message err)) errs)"
    using assms(2) by (auto simp: list_all_iff)
  with assms(1) show ?thesis unfolding printValidationErrors_def by (subst splitOn_unlines) simp_all
qed

end
