(* ===== verification/Ins_Reports.thy ===== *)
theory Ins_Reports
  imports Validator_Facts
begin

text \<open>
  What the instruction table reports on a collision, and how much of the instruction space
  an accepted schema can reserve.
\<close>

section \<open>Collisions cite the first owner\<close>

lemma claimINS_reports:
  "off \<in> set offs \<Longrightarrow> tbl_get seen (base + int off) = Some firstPath \<Longrightarrow>
   VError p (if off = 0 then DuplicateINS (base + int off) firstPath
             else CollidingINS (base + int off) firstPath) \<in> set (fst (claimINS p base offs seen))"
proof (induction offs arbitrary: seen)
  case (Cons x offs)
  show ?case
  proof (cases "x = off")
    case True
    with Cons.prems show ?thesis by (simp add: Let_def case_prod_beta)
  next
    case False
    with Cons.prems have x: "off \<in> set offs" by simp
    show ?thesis
    proof (cases "tbl_get seen (base + int x)")
      case None
      have "tbl_get (tbl_put seen (base + int x) p) (base + int off) = Some firstPath"
        using Cons.prems(2) False by (simp add: tbl_get_put)
      from Cons.IH [OF x this] None show ?thesis by (simp add: Let_def case_prod_beta)
    next
      case (Some w)
      from Cons.IH [OF x Cons.prems(2)] Some show ?thesis by (simp add: Let_def case_prod_beta)
    qed
  qed
qed simp

text \<open>The methods that own an instruction number.\<close>

definition ownsINS :: "Schema \<Rightarrow> string \<Rightarrow> int \<Rightarrow> bool" where
  "ownsINS s k i \<longleftrightarrow> (\<exists>m. (k, Some m) \<in> set (Schema_Methods s) \<and> i \<in> insRange m \<and> i \<le> 255)"

lemma takeWhile_upto_filter:
  "takeWhile (\<lambda>off. b + int off \<le> c) [0..<n] = filter (\<lambda>off. b + int off \<le> c) [0..<n]"
proof (induction n)
  case (Suc n)
  show ?case
  proof (cases "b + int n \<le> c")
    case True
    then have "\<forall>off\<in>set [0..<n]. b + int off \<le> c" by auto
    then show ?thesis by (simp add: Suc.IH takeWhile_append filter_id_conv)
  next
    case False
    then show ?thesis by (simp add: Suc.IH takeWhile_append takeWhile_tail)
  qed
qed simp

lemma insOffsets_iff: "i \<in> insRange m \<and> i \<le> 255 \<longleftrightarrow>
  uint (Method_INS m) \<le> i \<and> nat (i - uint (Method_INS m)) \<in> set (insOffsets m)"
  by (simp add: insRange_def insOffsets_def takeWhile_upto_filter) linarith

lemma insClaims_lookup:
  "map_of (insClaims path m) i = (if i \<in> insRange m \<and> i \<le> 255 then Some (path @ ''.ins'') else None)"
proof -
  have c: "map_of (map (\<lambda>x. (f x, c)) xs) i = (if i \<in> f ` set xs then Some c else None)" for f :: "nat \<Rightarrow> int" and c :: string and xs
    by (induction xs) auto
  have "i \<in> (\<lambda>off. uint (Method_INS m) + int off) ` set (insOffsets m) \<longleftrightarrow> i \<in> insRange m \<and> i \<le> 255"
    unfolding insOffsets_iff by (force simp: image_iff)
  then show ?thesis by (simp only: insClaims_def c)
qed

lemma insClaim_lookup:
  assumes "gomap_ok (Schema_Methods s)"
  shows "map_of (insClaim s k) i = (if ownsINS s k i then Some (''methods.'' @ k @ ''.ins'') else None)"
proof -
  have o: "ownsINS s k i \<longleftrightarrow> (\<exists>m. map_of (Schema_Methods s) k = Some (Some m) \<and> i \<in> insRange m \<and> i \<le> 255)"
    using assms by (simp add: ownsINS_def gomap_lookup)
  consider (a) "map_of (Schema_Methods s) k = None" | (b) "map_of (Schema_Methods s) k = Some None"
    | (c) m where "map_of (Schema_Methods s) k = Some (Some m)"
    by (metis not_None_eq)
  then show ?thesis
    by cases (simp_all add: insClaim_def o insClaims_lookup)
qed

lemma map_of_concat_first:
  assumes "\<forall>x\<in>set us. map_of (f x) i = None" and "map_of (f k) i = Some v"
  shows "map_of (concat (map f (us @ k # vs))) i = Some v"
  using assms by (induction us) (auto simp: map_add_def)

lemma validateMethodKeys_part:
  "set (fst (validateMethod s k (claimAll tbl_get tbl_put names (concat (map (nameClaim s) us)))
      (claimAll tbl_get tbl_put ins (concat (map (insClaim s) us)))))
   \<subseteq> set (validateMethodKeys s (us @ k # vs) names ins)"
proof (induction us arbitrary: names ins)
  case Nil
  then show ?case by (simp add: case_prod_beta)
next
  case (Cons u us)
  then show ?case
    by (simp add: case_prod_beta validateMethod_tables go_table.claimAll_append) blast
qed

lemma validateMethod_ins_errors:
  "map_of (Schema_Methods s) k = Some (Some m) \<Longrightarrow>
   set (fst (claimINS (''methods.'' @ k @ ''.ins'') (uint (Method_INS m)) (insOffsets m) ins))
   \<subseteq> set (fst (validateMethod s k names ins))"
  by (auto simp: validateMethod_def validateMethodINSRange_def Let_def case_prod_beta insOffsets_def)

lemma sorted_split_before:
  fixes k k' :: string
  assumes "sorted ks" "distinct ks" "k \<in> set ks" "k' \<in> set ks" "k < k'"
  obtains us vs ws where "ks = (us @ k # vs) @ k' # ws" and "\<forall>u\<in>set us. u < k"
proof -
  obtain as bs where ks: "ks = as @ k' # bs" using assms(4) by (auto simp: in_set_conv_decomp)
  have "k \<in> set as" using assms ks by (auto simp: sorted_append)
  then obtain us vs where as: "as = us @ k # vs" by (auto simp: in_set_conv_decomp)
  have "\<forall>u\<in>set us. u < k" using assms(1,2) by (auto simp: ks as sorted_append order.strict_iff_order)
  with ks as that show thesis by blast
qed

lemma duplicate_ins_reported:
  assumes ok: "gomap_ok (Schema_Methods s)"
    and m': "(k', Some m') \<in> set (Schema_Methods s)" and i: "i \<in> insRange m'" "i \<le> 255"
    and k: "ownsINS s k i" and first: "\<forall>j. ownsINS s j i \<longrightarrow> k \<le> j" and less: "k < k'"
  shows "VError (''methods.'' @ k' @ ''.ins'')
      (if i = uint (Method_INS m') then DuplicateINS i (''methods.'' @ k @ ''.ins'')
       else CollidingINS i (''methods.'' @ k @ ''.ins'')) \<in> set (validateMethods s)"
proof -
  let ?ks = "sortedKeys (Schema_Methods s)"
  have "k \<in> set ?ks" "k' \<in> set ?ks" using k m' by (force simp: ownsINS_def)+
  then obtain us vs ws where ks: "?ks = (us @ k # vs) @ k' # ws" and us: "\<forall>u\<in>set us. u < k"
    using sorted_split_before [OF sorted_sortedKeys distinct_sortedKeys [OF ok]] less by metis
  let ?ins = "claimAll tbl_get tbl_put tbl_empty (concat (map (insClaim s) (us @ k # vs)))"
  have "\<forall>u\<in>set us. map_of (insClaim s u) i = None"
    using us first by (auto simp: insClaim_lookup [OF ok] leD)
  then have get: "tbl_get ?ins i = Some (''methods.'' @ k @ ''.ins'')"
    unfolding go_table.claimAll_first by (rule map_of_concat_first) (simp add: insClaim_lookup [OF ok] k)
  have lk: "map_of (Schema_Methods s) k' = Some (Some m')" using ok m' by (simp add: gomap_lookup)
  let ?off = "nat (i - uint (Method_INS m'))"
  have off: "?off \<in> set (insOffsets m')" "uint (Method_INS m') + int ?off = i"
    using insOffsets_iff [of i m'] i by auto
  have "uint (Method_INS m') \<le> i" using i(1) by (simp add: insRange_def)
  then have z: "?off = 0 \<longleftrightarrow> i = uint (Method_INS m')" by auto
  have "VError (''methods.'' @ k' @ ''.ins'')
      (if ?off = 0 then DuplicateINS i (''methods.'' @ k @ ''.ins'') else CollidingINS i (''methods.'' @ k @ ''.ins''))
      \<in> set (fst (claimINS (''methods.'' @ k' @ ''.ins'') (uint (Method_INS m')) (insOffsets m') ?ins))"
    using claimINS_reports [OF off(1), of ?ins "uint (Method_INS m')"] get unfolding off(2) by simp
  then have "VError (''methods.'' @ k' @ ''.ins'')
      (if ?off = 0 then DuplicateINS i (''methods.'' @ k @ ''.ins'') else CollidingINS i (''methods.'' @ k @ ''.ins''))
      \<in> set (validateMethodKeys s ?ks tbl_empty tbl_empty)"
    unfolding ks using validateMethod_ins_errors [OF lk] validateMethodKeys_part by blast
  moreover have "length (Schema_Methods s) \<noteq> 0" using m' by auto
  ultimately show ?thesis
    unfolding validateMethods_def sortedMethodKeys_def z by simp
qed

section \<open>Capacity of the instruction space\<close>

definition reservedCount :: "Schema \<Rightarrow> nat" where
  "reservedCount s = sum_list (map (\<lambda>(k, mo). case mo of None \<Rightarrow> 0 | Some m \<Rightarrow> insCount m) (Schema_Methods s))"

lemma card_free_ins: "card ({0..255} - reservedINS) = 224"
proof -
  have "{0..255} - reservedINS = {0..0x5F} \<union> {0x70..0x8F} \<union> {0xA0..0xFF}"
    by (auto simp: reservedINS_def)
  also have "card \<dots> = card {0..0x5F::int} + card {0x70..0x8F::int} + card {0xA0..0xFF::int}"
    by (subst card_Un_disjoint, simp, simp, force)+ simp
  finally show ?thesis by simp
qed

lemma disjoint_ranges_card:
  assumes "distinct (map fst xs)"
    and "\<forall>x\<in>set xs. \<forall>y\<in>set xs. fst x \<noteq> fst y \<longrightarrow> insRange (snd x) \<inter> insRange (snd y) = {}"
  shows "card (\<Union>x\<in>set xs. insRange (snd x)) = sum_list (map (insCount \<circ> snd) xs)"
  using assms
proof (induction xs)
  case (Cons x xs)
  have f: "finite (insRange m)" and c: "card (insRange m) = insCount m" for m
    by (simp_all add: insRange_def)
  have "insRange (snd x) \<inter> (\<Union>y\<in>set xs. insRange (snd y)) = {}"
    using Cons.prems by fastforce
  then have "card (\<Union>y\<in>set (x # xs). insRange (snd y)) = insCount (snd x) + card (\<Union>y\<in>set xs. insRange (snd y))"
    by (simp add: card_Un_disjoint f c)
  with Cons show ?case by simp
qed simp

end
