(* ===== verification/Parser_Facts.thy ===== *)
theory Parser_Facts
  imports Idl_Parser
begin

text \<open>
  What the parser establishes: where request fields are placed (the declarative rules of
  the IDL document, section 6), which shape a normalised field has, and that the result
  does not depend on the order in which Go iterates over the decoded maps.
\<close>

section \<open>Request locations\<close>

definition knownLocations :: "ParameterLocation set" where
  "knownLocations = {ParameterLocationNone, ParameterLocationP1, ParameterLocationP2, ParameterLocationData}"

text \<open>A field without a location goes to the command data, any other field stays.\<close>

definition placeRest :: "Field \<Rightarrow> Field" where
  "placeRest f = (if Field_Location f = ParameterLocationNone
                  then f\<lparr>Field_Location := ParameterLocationData\<rparr> else f)"

lemma assignExplicit_Inr_iff:
  "assignExplicit s1 s2 fs = Inr gs \<longleftrightarrow>
     (\<forall>f\<in>set fs. Field_Location f \<in> knownLocations)
     \<and> countLoc ParameterLocationP1 fs + of_bool s1 \<le> 1
     \<and> countLoc ParameterLocationP2 fs + of_bool s2 \<le> 1
     \<and> gs = map placeRest fs"
proof (induction s1 s2 fs arbitrary: gs rule: assignExplicit.induct)
  case (1 s1 s2)
  then show ?case by auto
next
  case (2 s1 s2 f fs)
  consider (n) "Field_Location f = ''''" | (p1) "Field_Location f = ''p1''" | (p2) "Field_Location f = ''p2''"
    | (d) "Field_Location f = ''data''" | (u) "Field_Location f \<notin> knownLocations"
    by (auto simp: knownLocations_def)
  then show ?case
  proof cases
    case n
    with "2.IH"(1) show ?thesis
      by (auto simp: bindR_Inr_iff placeRest_def knownLocations_def)
  next
    case p1
    with "2.IH"(2) show ?thesis
      by (cases s1) (auto simp: bindR_Inr_iff placeRest_def knownLocations_def)
  next
    case p2
    with "2.IH"(3) show ?thesis
      by (cases s2) (auto simp: bindR_Inr_iff placeRest_def knownLocations_def)
  next
    case d
    with "2.IH"(4) show ?thesis
      by (auto simp: bindR_Inr_iff placeRest_def knownLocations_def)
  next
    case u
    then show ?thesis by (auto simp: knownLocations_def)
  qed
qed

text \<open>The three implicit cases of the IDL document.\<close>

definition inferLocations :: "Field list \<Rightarrow> Field list" where
  "inferLocations fs =
     (if length fs = 1 \<and> (\<forall>f\<in>set fs. isP1P2CompatibleFieldType (Field_Type f))
      then map (\<lambda>f. f\<lparr>Field_Location := ParameterLocationP1\<rparr>) fs
      else if length fs = 2 \<and> (\<forall>f\<in>set fs. isP1P2CompatibleFieldType (Field_Type f))
      then [(fs ! 0)\<lparr>Field_Location := ParameterLocationP1\<rparr>, (fs ! 1)\<lparr>Field_Location := ParameterLocationP2\<rparr>]
      else map (\<lambda>f. f\<lparr>Field_Location := ParameterLocationData\<rparr>) fs)"

lemma assignRequestLocations_implicit:
  assumes "\<forall>f\<in>set fs. Field_Location f = ParameterLocationNone"
  shows "assignRequestLocations fs = Inr (inferLocations fs)"
proof -
  from assms have n: "(\<exists>f\<in>set fs. Field_Location f \<noteq> ParameterLocationNone) = False" by blast
  consider "fs = []" | a where "fs = [a]" | a b where "fs = [a, b]"
    | a b c r where "fs = a # b # c # r"
    by (metis list.exhaust)
  then show ?thesis
    unfolding assignRequestLocations_def n
    by cases (simp_all add: inferLocations_def)
qed

lemma assignRequestLocations_explicit:
  "(\<exists>f\<in>set fs. Field_Location f \<noteq> ParameterLocationNone) \<Longrightarrow>
   assignRequestLocations fs = Inr gs \<longleftrightarrow>
     (\<forall>f\<in>set fs. Field_Location f \<in> knownLocations)
     \<and> countLoc ParameterLocationP1 fs \<le> 1 \<and> countLoc ParameterLocationP2 fs \<le> 1
     \<and> gs = map placeRest fs"
  by (subst assignRequestLocations_def) (auto simp: assignExplicit_Inr_iff)

text \<open>The shape of every accepted request: only the locations change, all are assigned, at
  most one field sits in each parameter byte.\<close>

definition unplaced :: "Field \<Rightarrow> Field" where
  "unplaced f = f\<lparr>Field_Location := ParameterLocationNone\<rparr>"

lemma countLoc_map_placeRest:
  "l \<noteq> ParameterLocationData \<Longrightarrow> l \<noteq> ParameterLocationNone \<Longrightarrow> countLoc l (map placeRest fs) = countLoc l fs"
  by (induction fs) (auto simp: placeRest_def)

lemma countLoc_const: "countLoc l (map (\<lambda>f. f\<lparr>Field_Location := k\<rparr>) fs) = (if k = l then length fs else 0)"
  by (induction fs) auto

lemma inferLocations_facts:
  "map unplaced (inferLocations fs) = map unplaced fs"
  "g \<in> set (inferLocations fs) \<Longrightarrow> Field_Location g \<in> knownLocations - {ParameterLocationNone}"
  "countLoc ParameterLocationP1 (inferLocations fs) \<le> 1"
  "countLoc ParameterLocationP2 (inferLocations fs) \<le> 1"
proof -
  consider "fs = []" | a where "fs = [a]" | a b where "fs = [a, b]" | a b c r where "fs = a # b # c # r"
    by (metis list.exhaust)
  then show "map unplaced (inferLocations fs) = map unplaced fs"
    by cases (auto simp: inferLocations_def unplaced_def)
  show "g \<in> set (inferLocations fs) \<Longrightarrow> Field_Location g \<in> knownLocations - {ParameterLocationNone}"
    by (auto simp: inferLocations_def knownLocations_def split: if_splits)
  show "countLoc ParameterLocationP1 (inferLocations fs) \<le> 1"
    by (auto simp: inferLocations_def countLoc_const)
  show "countLoc ParameterLocationP2 (inferLocations fs) \<le> 1"
    by (auto simp: inferLocations_def countLoc_const)
qed

lemma assignRequestLocations_cases:
  assumes "assignRequestLocations fs = Inr gs"
  shows "gs = inferLocations fs \<or>
    (\<forall>f\<in>set fs. Field_Location f \<in> knownLocations) \<and> gs = map placeRest fs \<and>
    countLoc ParameterLocationP1 fs \<le> 1 \<and> countLoc ParameterLocationP2 fs \<le> 1"
  using assms assignRequestLocations_explicit [of fs gs] assignRequestLocations_implicit [of fs]
  by auto

lemma assignRequestLocations_facts:
  assumes "assignRequestLocations fs = Inr gs"
  shows "map unplaced gs = map unplaced fs"
    and "g \<in> set gs \<Longrightarrow> Field_Location g \<in> knownLocations - {ParameterLocationNone}"
    and "countLoc ParameterLocationP1 gs \<le> 1"
    and "countLoc ParameterLocationP2 gs \<le> 1"
  using assignRequestLocations_cases [OF assms] inferLocations_facts [where fs = fs]
  by (auto simp: countLoc_map_placeRest placeRest_def unplaced_def knownLocations_def)

section \<open>Normalised fields, messages and methods\<close>

definition parsedField :: "Field \<Rightarrow> bool" where
  "parsedField f \<longleftrightarrow>
     Field_Type f \<in> set (FieldTypeBytesFixed # plainTypes)
     \<and> (Field_Length f \<noteq> None \<longrightarrow> Field_Type f \<in> {FieldTypeBytes, FieldTypeASCII})
     \<and> (\<forall>l. Field_Length f = Some l \<longrightarrow> 0 < l)
     \<and> 0 \<le> Field_FixedLength f \<and> Field_FixedLength f < 2 ^ 63
     \<and> (Field_Type f \<noteq> FieldTypeBytesFixed \<longrightarrow> Field_FixedLength f = 0)
     \<and> (Field_Type f \<noteq> FieldTypeStream \<longrightarrow> Field_MaxLength f = 0 \<and> Field_ChunkSize f = 0)
     \<and> Field_Location f \<in> knownLocations"

lemma parsedField_unplaced:
  "unplaced f = unplaced g \<Longrightarrow> Field_Location g \<in> knownLocations \<Longrightarrow> parsedField f \<Longrightarrow> parsedField g"
proof -
  assume u: "unplaced f = unplaced g"
  have "Field_Type f = Field_Type g" "Field_Length f = Field_Length g"
    "Field_FixedLength f = Field_FixedLength g" "Field_MaxLength f = Field_MaxLength g"
    "Field_ChunkSize f = Field_ChunkSize g"
    using u unfolding unplaced_def by (cases f; cases g; simp)+
  then show "Field_Location g \<in> knownLocations \<Longrightarrow> parsedField f \<Longrightarrow> parsedField g"
    unfolding parsedField_def by simp
qed

lemma parseLocation_known: "parseLocation l = Inr loc \<Longrightarrow> loc \<in> knownLocations - {ParameterLocationNone}"
  by (auto simp: parseLocation_def knownLocations_def Let_def split: if_splits)

lemma cloneIntPtr_id [simp]: "cloneIntPtr v = v"
  by (simp add: cloneIntPtr_def split: option.split)

definition rawFieldOf :: "rawField \<Rightarrow> FieldType \<Rightarrow> int \<Rightarrow> ParameterLocation \<Rightarrow> Field" where
  "rawFieldOf rf ft n loc =
     \<lparr>Field_Name = rawField_Name rf, Field_Type = ft, Field_Length = rawField_Length rf,
      Field_FixedLength = n,
      Field_MaxLength = (case rawField_MaxLength rf of None \<Rightarrow> 0 | Some v \<Rightarrow> v),
      Field_ChunkSize = (case rawField_ChunkSize rf of None \<Rightarrow> 0 | Some v \<Rightarrow> v),
      Field_Location = loc\<rparr>"

lemma normalizeField_InrE:
  assumes "normalizeField path rf = Inr f"
  obtains ft n loc where "parseFieldType (rawField_Type rf) = Inr (ft, n)"
    and "rawField_Length rf \<noteq> None \<longrightarrow> ft = FieldTypeBytes \<or> ft = FieldTypeASCII"
    and "\<forall>l. rawField_Length rf = Some l \<longrightarrow> 0 < l"
    and "ft \<noteq> FieldTypeStream \<longrightarrow> rawField_MaxLength rf = None \<and> rawField_ChunkSize rf = None"
    and "loc \<in> knownLocations" and "f = rawFieldOf rf ft n loc"
proof -
  from assms obtain ft n where t: "parseFieldType (rawField_Type rf) = Inr (ft, n)"
    by (cases "parseFieldType (rawField_Type rf)") (auto simp: normalizeField_def)
  let ?c1 = "ft \<noteq> FieldTypeBytes \<and> ft \<noteq> FieldTypeASCII \<and> rawField_Length rf \<noteq> None"
  let ?c2 = "case rawField_Length rf of None \<Rightarrow> False | Some l \<Rightarrow> l \<le> 0"
  let ?c3 = "ft \<noteq> FieldTypeStream \<and> (rawField_MaxLength rf \<noteq> None \<or> rawField_ChunkSize rf \<noteq> None)"
  have c: "?c1 = False" "?c2 = False" "?c3 = False"
    using assms unfolding normalizeField_def t
    by (simp_all only: sum.case prod.case Let_def split: if_splits) simp_all
  have m: "(if rawField_Location rf \<noteq> []
      then case parseLocation (rawField_Location rf) of Inl _ \<Rightarrow> Inl (BadLocation path)
           | Inr loc \<Rightarrow> Inr (rawFieldOf rf ft n loc)
      else Inr (rawFieldOf rf ft n ParameterLocationNone)) = Inr f"
    using assms
    unfolding normalizeField_def t sum.case prod.case c if_False Let_def cloneIntPtr_id rawFieldOf_def
      Field.update_convs .
  have "\<exists>loc\<in>knownLocations. f = rawFieldOf rf ft n loc"
    using m by (auto simp: knownLocations_def split: if_splits sum.splits dest: parseLocation_known)
  with t c show thesis
    using that [of ft n] by (cases "rawField_Length rf") auto
qed

lemma normalizeField_parsed:
  assumes "normalizeField path rf = Inr f"
  shows "parsedField f" and "Field_Name f = rawField_Name rf"
proof -
  from assms obtain ft n loc where t: "parseFieldType (rawField_Type rf) = Inr (ft, n)"
    and c: "rawField_Length rf \<noteq> None \<longrightarrow> ft = FieldTypeBytes \<or> ft = FieldTypeASCII"
      "\<forall>l. rawField_Length rf = Some l \<longrightarrow> 0 < l"
      "ft \<noteq> FieldTypeStream \<longrightarrow> rawField_MaxLength rf = None \<and> rawField_ChunkSize rf = None"
      "loc \<in> knownLocations" and f: "f = rawFieldOf rf ft n loc"
    by (rule normalizeField_InrE)
  note k = parseFieldType_known [OF t]
  show "parsedField f"
    unfolding parsedField_def f rawFieldOf_def Field.select_convs
    using c k by (intro conjI) (simp_all del: FieldTypeBytesFixed_def)
  show "Field_Name f = rawField_Name rf" by (simp add: f rawFieldOf_def)
qed

definition parsedMessage :: "bool \<Rightarrow> Message \<Rightarrow> bool" where
  "parsedMessage isRequest msg \<longleftrightarrow>
     (\<forall>f\<in>set (Message_Fields msg). parsedField f)
     \<and> (isRequest \<longrightarrow>
          (\<forall>f\<in>set (Message_Fields msg). Field_Location f \<noteq> ParameterLocationNone)
          \<and> countLoc ParameterLocationP1 (Message_Fields msg) \<le> 1
          \<and> countLoc ParameterLocationP2 (Message_Fields msg) \<le> 1)"

definition parsedMethod :: "Method \<Rightarrow> bool" where
  "parsedMethod m \<longleftrightarrow>
     (\<forall>msg. Method_Request m = Some msg \<longrightarrow> parsedMessage True msg)
     \<and> (\<forall>msg. Method_Response m = Some msg \<longrightarrow> parsedMessage False msg)"

lemma normalizeMessage_parsed:
  assumes "normalizeMessage mn sec raw isRequest = Inr msg"
  shows "parsedMessage isRequest msg"
proof -
  from assms obtain fs where fs: "mapR (\<lambda>(i, rf). normalizeField (fieldPath mn sec i) rf)
      (enumerate 0 (rawMessage_Fields raw)) = Inr fs"
    by (auto simp: normalizeMessage_def bindR_Inr_iff)
  then have p: "\<forall>f\<in>set fs. parsedField f"
    using mapR_Inr_set [OF fs] normalizeField_parsed(1) by fastforce
  show ?thesis
  proof (cases isRequest)
    case True
    with assms fs obtain gs where gs: "assignRequestLocations fs = Inr gs" "Message_Fields msg = gs"
      by (auto simp: normalizeMessage_def split: sum.splits)
    note facts = assignRequestLocations_facts [OF gs(1)]
    have "parsedField g" if "g \<in> set gs" for g
    proof -
      from that have "unplaced g \<in> set (map unplaced fs)" by (simp flip: facts(1))
      then obtain f where "f \<in> set fs" "unplaced f = unplaced g" by auto
      with p facts(2) [OF that] show ?thesis using parsedField_unplaced by blast
    qed
    with True gs facts show ?thesis by (auto simp: parsedMessage_def)
  next
    case False
    with assms fs p show ?thesis by (auto simp: normalizeMessage_def parsedMessage_def)
  qed
qed

lemma normalizeMethod_parsed:
  "normalizeMethod name rm = Inr m \<Longrightarrow> Method_Name m = name \<and> parsedMethod m"
  by (auto simp: normalizeMethod_def normalizeOptMessage_def parsedMethod_def bindR_Inr_iff
      split: option.splits dest: normalizeMessage_parsed)

section \<open>Schemas\<close>

lemma normalizeSchema_InrE:
  assumes "normalizeSchema raw = Inr s"
  obtains "rangeMap (\<lambda>name rm. bindR (normalizeMethod name rm) (\<lambda>m. Inr (Some m)))
             (rawSchema_Methods raw) = Inr (Schema_Methods s)"
    and "rangeMap normalizeStatusWord (rawSchema_StatusWords raw) = Inr (Schema_StatusWords s)"
    and "mustByte (rawApplet_CLA (rawSchema_Applet raw)) ''applet.cla'' = Inr (Applet_CLA (Schema_Applet s))"
  using assms that by (auto simp: normalizeSchema_def Let_def bindR_Inr_iff)

definition parsedSchema :: "Schema \<Rightarrow> bool" where
  "parsedSchema s \<longleftrightarrow>
     (\<forall>(k, mo)\<in>set (Schema_Methods s). \<exists>m. mo = Some m \<and> Method_Name m = k \<and> parsedMethod m)
     \<and> (\<forall>(k, sw)\<in>set (Schema_StatusWords s). StatusWord_Name sw = k)"

lemma normalizeSchema_parsed: "normalizeSchema raw = Inr s \<Longrightarrow> parsedSchema s"
  by (erule normalizeSchema_InrE)
     (auto simp: parsedSchema_def rangeMap_set bindR_Inr_iff normalizeStatusWord_def
       simp: normalizeMethod_parsed [THEN conjunct1] normalizeMethod_parsed [THEN conjunct2])

lemma normalizeSchema_isl:
  "isl (normalizeSchema raw) \<longleftrightarrow>
     isl (mustByte (rawApplet_CLA (rawSchema_Applet raw)) ''applet.cla'')
     \<or> isl (rangeMap (\<lambda>name rm. bindR (normalizeMethod name rm) (\<lambda>m. Inr (Some m))) (rawSchema_Methods raw))
     \<or> isl (rangeMap normalizeStatusWord (rawSchema_StatusWords raw))"
  by (auto simp: normalizeSchema_def Let_def bindR_def split: sum.split)

definition same_schema :: "Schema \<Rightarrow> Schema \<Rightarrow> bool" where
  "same_schema s s' \<longleftrightarrow> Schema_Applet s = Schema_Applet s'
     \<and> same_map (Schema_Methods s) (Schema_Methods s')
     \<and> same_map (Schema_StatusWords s) (Schema_StatusWords s')"

definition same_raw :: "rawSchema \<Rightarrow> rawSchema \<Rightarrow> bool" where
  "same_raw r r' \<longleftrightarrow> rawSchema_Applet r = rawSchema_Applet r'
     \<and> same_map (rawSchema_Methods r) (rawSchema_Methods r')
     \<and> same_map (rawSchema_StatusWords r) (rawSchema_StatusWords r')"

lemma normalizeSchema_same_isl:
  assumes "same_raw r r'"
  shows "isl (normalizeSchema r) = isl (normalizeSchema r')"
proof -
  from assms have m: "same_map (rawSchema_Methods r) (rawSchema_Methods r')"
    and w: "same_map (rawSchema_StatusWords r) (rawSchema_StatusWords r')"
    and a: "rawSchema_Applet r = rawSchema_Applet r'"
    by (simp_all add: same_raw_def)
  show ?thesis
    by (simp only: normalizeSchema_isl a rangeMap_same(1) [OF m] rangeMap_same(1) [OF w])
qed

lemma normalizeSchema_same:
  assumes "same_raw r r'" "normalizeSchema r = Inr s" "normalizeSchema r' = Inr s'"
  shows "same_schema s s'"
proof -
  note r = assms(1) [unfolded same_raw_def]
  have "same_map (Schema_Methods s) (Schema_Methods s')"
    using assms(2,3) r by (elim normalizeSchema_InrE) (rule rangeMap_same(2); blast)
  moreover have "same_map (Schema_StatusWords s) (Schema_StatusWords s')"
    using assms(2,3) r by (elim normalizeSchema_InrE) (rule rangeMap_same(2); blast)
  moreover have "Schema_Applet s = Schema_Applet s'"
    using assms(2,3) r by (auto simp: normalizeSchema_def Let_def bindR_Inr_iff)
  ultimately show ?thesis by (simp add: same_schema_def)
qed

end
