(* ===== verification/Front_End.thy ===== *)
theory Front_End
  imports Ins_Reports Parser_Facts
begin

text \<open>
  Parser and validator together: which validation errors cannot come from a schema that the
  parser built, because the parser has refused their cause before.
\<close>

definition parserExcluded :: "ValidationMessage \<Rightarrow> bool" where
  "parserExcluded msg = (case msg of
     UnsupportedType _ \<Rightarrow> True | UnsupportedLocation _ \<Rightarrow> True
   | DuplicateMethodName _ _ \<Rightarrow> True | DuplicateStatusName _ _ \<Rightarrow> True
   | Text t \<Rightarrow> t = ''method definition is nil'' | _ \<Rightarrow> False)"

definition clean :: "ValidationError list \<Rightarrow> bool" where
  "clean es \<longleftrightarrow> (\<forall>e\<in>set es. \<not> parserExcluded (VE_Message e))"

lemma clean_simps [simp]:
  "clean []" "clean (e # es) \<longleftrightarrow> \<not> parserExcluded (VE_Message e) \<and> clean es"
  "clean (es @ es') \<longleftrightarrow> clean es \<and> clean es'"
  by (auto simp: clean_def)

lemma clean_addIf [simp]: "clean (addIf c p msg) \<longleftrightarrow> (c \<longrightarrow> \<not> parserExcluded msg)"
  by (simp add: addIf_def)

lemma clean_concat: "clean (concat ess) \<longleftrightarrow> (\<forall>es\<in>set ess. clean es)"
  by (auto simp: clean_def)

lemma parserExcluded_simps [simp]:
  "parserExcluded (Text t) \<longleftrightarrow> t = ''method definition is nil''"
  "parserExcluded (UnsupportedType t)" "parserExcluded (UnsupportedLocation t)"
  "\<not> parserExcluded (StreamRangeExceeds a b)" "\<not> parserExcluded (DuplicateINS a t)"
  "\<not> parserExcluded (CollidingINS a t)" "\<not> parserExcluded (ReservedINS a)"
  "\<not> parserExcluded (BadStatusCode c)" "\<not> parserExcluded (DuplicateStatusCode c t)"
  by (simp_all add: parserExcluded_def)

lemma parsedField_known: "parsedField f \<Longrightarrow> isKnownFieldType (Field_Type f)"
  by (auto simp: parsedField_def isKnownFieldType_def plainTypes_def)

lemma clean_fieldErrors: "parsedField f \<Longrightarrow> clean (fieldErrors p f)"
  by (cases "Field_Length f") (simp_all add: fieldErrors_def parsedField_known)

lemma clean_validateFields:
  "\<forall>f\<in>set fs. parsedField f \<Longrightarrow> clean (fst (validateFields p r i s1 s2 c fs))"
proof (induction fs arbitrary: i s1 s2 c)
  case (Cons f fs)
  then have f: "parsedField f" and IH: "\<And>i s1 s2 c. clean (fst (validateFields p r i s1 s2 c fs))" by auto
  from f have "Field_Location f \<in> {'''', ''p1'', ''p2'', ''data''}"
    by (simp add: parsedField_def knownLocations_def)
  then consider (n) "Field_Location f = ''''" | (p1) "Field_Location f = ''p1''"
    | (p2) "Field_Location f = ''p2''" | (d) "Field_Location f = ''data''" by auto
  then show ?case
    by cases (simp_all add: IH clean_fieldErrors [OF f] Let_def case_prod_beta)
qed simp

lemma clean_validateMessage:
  "(\<And>m. msg = Some m \<Longrightarrow> \<forall>f\<in>set (Message_Fields m). parsedField f) \<Longrightarrow> clean (validateMessage p msg r)"
  by (cases msg) (simp_all add: validateMessage_def case_prod_beta clean_validateFields)

lemma clean_claimINS: "clean (fst (claimINS p base offs seen))"
proof (induction offs arbitrary: seen)
  case (Cons x offs)
  then show ?case by (cases "tbl_get seen (base + int x)") (simp_all add: Let_def case_prod_beta)
qed simp

lemma clean_validateMethodINSRange: "clean (fst (validateMethodINSRange p m seen))"
  by (simp add: validateMethodINSRange_def Let_def case_prod_beta clean_claimINS)

lemma clean_methodStreamErrors: "clean (methodStreamErrors p a m)"
  by (simp add: methodStreamErrors_def validateStreamMode_def Let_def case_prod_beta clean_concat)

lemma effectiveMethodName_parsed: "Method_Name m = k \<Longrightarrow> effectiveMethodName k m = k"
  by (simp add: effectiveMethodName_def)

lemma clean_validateMethod:
  assumes "map_of (Schema_Methods s) k = Some (Some m)" "Method_Name m = k" "parsedMethod m"
    and "tbl_get names k = None"
  shows "clean (fst (validateMethod s k names ins))"
proof -
  have "clean (validateMessage p (Method_Request m) True)" "clean (validateMessage p (Method_Response m) False)" for p
    using assms(3) by (auto intro!: clean_validateMessage simp: parsedMethod_def parsedMessage_def)
  with assms(1,2,4) show ?thesis
    by (simp add: validateMethod_def Let_def case_prod_beta effectiveMethodName_parsed
        clean_validateMethodINSRange clean_methodStreamErrors)
qed

lemma nameClaim_parsed:
  "map_of (Schema_Methods s) k = Some (Some m) \<Longrightarrow> Method_Name m = k \<Longrightarrow>
   nameClaim s k = [(k, ''methods.'' @ k)]"
  by (simp add: nameClaim_def effectiveMethodName_parsed)

lemma clean_validateMethodKeys:
  assumes "distinct ks" "\<forall>k\<in>set ks. tbl_get names k = None"
    and "\<forall>k\<in>set ks. \<exists>m. map_of (Schema_Methods s) k = Some (Some m) \<and> Method_Name m = k \<and> parsedMethod m"
  shows "clean (validateMethodKeys s ks names ins)"
  using assms
proof (induction ks arbitrary: names ins)
  case (Cons k ks)
  then obtain m where m: "map_of (Schema_Methods s) k = Some (Some m)" "Method_Name m = k" "parsedMethod m"
    by auto
  have "clean (fst (validateMethod s k names ins))"
    using Cons.prems by (intro clean_validateMethod [OF m]) simp
  moreover have "\<forall>x\<in>set ks. tbl_get (fst (snd (validateMethod s k names ins))) x = None"
    using Cons.prems by (auto simp: validateMethod_tables nameClaim_parsed [OF m(1,2)] tbl_get_put)
  ultimately show ?case using Cons by (simp add: case_prod_beta)
qed simp

lemma clean_validateStatusWordKeys:
  assumes "distinct ks" "\<forall>k\<in>set ks. tbl_get names k = None"
    and "\<forall>k\<in>set ks. \<forall>sw. map_of (Schema_StatusWords s) k = Some sw \<longrightarrow> StatusWord_Name sw = k"
  shows "clean (validateStatusWordKeys s ks names codes)"
  using assms
proof (induction ks arbitrary: names codes)
  case (Cons k ks)
  show ?case
  proof (cases "map_of (Schema_StatusWords s) k")
    case None
    with Cons show ?thesis by simp
  next
    case (Some sw)
    with Cons.prems have n: "StatusWord_Name sw = k" "effectiveStatusName k sw = k"
      by (auto simp: effectiveStatusName_def)
    have "clean (fst (validateStatusWord k sw names codes))"
      using Cons.prems n
      by (cases "tbl_get codes (StatusWord_Code sw)") (simp_all add: validateStatusWord_def Let_def)
    moreover have "\<forall>x\<in>set ks. tbl_get (fst (snd (validateStatusWord k sw names codes))) x = None"
      using Cons.prems n by (auto simp: validateStatusWord_tables swName_def tbl_get_put)
    ultimately show ?thesis using Cons Some by (simp add: case_prod_beta)
  qed
qed simp

lemma clean_Validate:
  assumes "goodMaps s" "parsedSchema s"
  shows "clean (Validate (Some s))"
proof -
  have "clean (validateMethodKeys s (sortedKeys (Schema_Methods s)) tbl_empty tbl_empty)"
  proof (rule clean_validateMethodKeys)
    show "distinct (sortedKeys (Schema_Methods s))"
      using assms(1) by (simp add: goodMaps_def distinct_sortedKeys)
    show "\<forall>k\<in>set (sortedKeys (Schema_Methods s)). \<exists>m. map_of (Schema_Methods s) k = Some (Some m)
        \<and> Method_Name m = k \<and> parsedMethod m"
      using assms by (auto simp: goodMaps_def gomap_lookup parsedSchema_def) fastforce
  qed simp
  moreover have "clean (validateStatusWordKeys s (sortedKeys (Schema_StatusWords s)) tbl_empty tbl_empty)"
    using assms
    by (intro clean_validateStatusWordKeys)
       (auto simp: goodMaps_def gomap_lookup parsedSchema_def distinct_sortedKeys)
  ultimately show ?thesis
    by (simp add: Validate_def validateApplet_def Let_def validateMethods_def sortedMethodKeys_def
        validateStatusWords_def sortedStatusWordKeys_def)
qed

text \<open>A parsed schema over good maps has good maps.\<close>

lemma normalizeSchema_goodMaps:
  assumes "normalizeSchema raw = Inr s" "gomap_ok (rawSchema_Methods raw)" "gomap_ok (rawSchema_StatusWords raw)"
  shows "goodMaps s"
  using assms by (elim normalizeSchema_InrE) (simp add: goodMaps_def rangeMap_ok)

lemma Parse_InrE:
  assumes "Parse decode r = Inr s"
  obtains raw where "decode r = Inr (raw, [])" and "normalizeSchema raw = Inr s"
  using assms by (auto simp: Parse_def split: sum.splits if_splits)

end
