(* ===== verification/Idl_Properties.thy ===== *)
theory Idl_Properties
  imports Front_End
begin

text \<open>
  The properties of the IDL front end: the validator against the IDL document, what an
  accepted schema guarantees, request placement, and independence of Go's map order. The
  witnesses use the schema of codegen/testdata/stream.toml, with one status word added, and
  small variants of it.
\<close>

section \<open>The fixture\<close>

definition rawScalar :: "string \<Rightarrow> string \<Rightarrow> rawField" where
  "rawScalar name ty = \<lparr>rawField_Name = name, rawField_Type = ty, rawField_Length = None,
     rawField_MaxLength = None, rawField_ChunkSize = None, rawField_Location = ''''\<rparr>"

definition rawStream :: "string \<Rightarrow> int \<Rightarrow> int \<Rightarrow> rawField" where
  "rawStream name maxLen chunk = (rawScalar name ''stream'')
     \<lparr>rawField_MaxLength := Some maxLen, rawField_ChunkSize := Some chunk\<rparr>"

definition rawCall :: "int \<Rightarrow> rawField list option \<Rightarrow> rawField list option \<Rightarrow> rawMethod" where
  "rawCall ins req resp = \<lparr>rawMethod_INS = ins, rawMethod_Description = '''', rawMethod_StreamMode = '''',
     rawMethod_Request = map_option (\<lambda>fs. \<lparr>rawMessage_Fields = fs\<rparr>) req,
     rawMethod_Response = map_option (\<lambda>fs. \<lparr>rawMessage_Fields = fs\<rparr>) resp\<rparr>"

definition streamDemoApplet :: rawApplet where
  "streamDemoApplet = \<lparr>rawApplet_Name = ''StreamDemo'',
     rawApplet_Description = ''Bounded bidirectional stream fixture'',
     rawApplet_Version = ''1.0.0'', rawApplet_AID = ''F000000102'', rawApplet_CLA = 0xB0,
     rawApplet_StreamWorkspace = '''', rawApplet_StreamWorkspaceCleanup = ''''\<rparr>"

definition streamDemo :: rawSchema where
  "streamDemo = \<lparr>rawSchema_Applet = streamDemoApplet,
     rawSchema_Methods =
       [(''getVersion'', rawCall 0x01 None (Some [rawScalar ''version'' ''u8''])),
        (''processPacket'', rawCall 0x20 (Some [rawStream ''requestPacket'' 1792 192])
                                       (Some [rawStream ''resultPacket'' 1792 192])),
        (''issueReport'', rawCall 0x30 None (Some [rawStream ''report'' 64 32]))],
     rawSchema_StatusWords = [(''SW_NO_DATA'', \<lparr>rawStatusWord_Code = 0x6A88, rawStatusWord_Description = ''''\<rparr>)]\<rparr>"

definition streamDemoSchema :: Schema where
  "streamDemoSchema = (case normalizeSchema streamDemo of Inr s \<Rightarrow> s | Inl _ \<Rightarrow> undefined)"

lemma streamDemo_parsed: "normalizeSchema streamDemo = Inr streamDemoSchema"
proof -
  have "\<not> isl (normalizeSchema streamDemo)" by code_simp
  then show ?thesis by (cases "normalizeSchema streamDemo") (simp_all add: streamDemoSchema_def)
qed

lemma streamDemo_accepted: "Validate (Some streamDemoSchema) = []"
  by code_simp

lemma streamDemo_maps: "goodMaps streamDemoSchema" "widthsInRange streamDemoSchema"
  by code_simp+

section \<open>The validator decides the IDL document\<close>

text \<open>C1: \<open>Validate\<close> reports no error exactly for the schemas that conform to the IDL
  document: applet block, method and status-word names, instruction ranges, messages, stream
  rules, tables without duplicates. The hypotheses say that a Go map has each key once and that
  the exact width of an ordinary response stays below the range of a Go \<open>int\<close>.\<close>

theorem validate_decides_conformance:
  assumes "goodMaps s" and "widthsInRange s"
  shows "Validate (Some s) = [] \<longleftrightarrow> idlConforms s"
  using assms by (rule Validate_conforms_iff)

theorem validate_decides_conformance_witness: "idlConforms streamDemoSchema"
  using validate_decides_conformance [OF streamDemo_maps] streamDemo_accepted by simp

text \<open>C2: of two methods that own the same instruction number, the one whose key sorts later
  is reported, at its own path, citing the first owner in key order; the message distinguishes
  the declared number from a number inside a stream range.\<close>

theorem duplicate_instruction_reported:
  assumes "goodMaps s" and "(k', Some m') \<in> set (Schema_Methods s)"
    and "i \<in> insRange m'" and "i \<le> 255"
    and "ownsINS s k i" and "\<forall>j. ownsINS s j i \<longrightarrow> k \<le> j" and "k < k'"
  shows "VError (''methods.'' @ k' @ ''.ins'')
      (if i = uint (Method_INS m') then DuplicateINS i (''methods.'' @ k @ ''.ins'')
       else CollidingINS i (''methods.'' @ k @ ''.ins'')) \<in> set (Validate (Some s))"
  using duplicate_ins_reported [OF _ assms(2-7)] assms(1)
  by (simp add: Validate_def goodMaps_def)

definition clashMethod :: "string \<Rightarrow> 8 word \<Rightarrow> Method" where
  "clashMethod name ins = \<lparr>Method_Name = name, Method_INS = ins, Method_Description = '''',
     Method_Request = None, Method_Response = None, Method_StreamMode = ''''\<rparr>"

definition clashSchema :: Schema where
  "clashSchema = streamDemoSchema\<lparr>Schema_Methods :=
     [(''b'', Some (clashMethod ''b'' 7)), (''a'', Some (clashMethod ''a'' 7))]\<rparr>"

lemma clash_range: "insRange (clashMethod name ins) = {uint ins}"
proof -
  have "insCount (clashMethod name ins) = 1"
    by (simp add: insCount_def clashMethod_def StreamField_def)
  then show ?thesis by (auto simp: insRange_def clashMethod_def)
qed

lemma clash_maps: "goodMaps clashSchema"
  by code_simp

lemma clash_methods: "(j, Some m) \<in> set (Schema_Methods clashSchema) \<longleftrightarrow>
    j = ''b'' \<and> m = clashMethod ''b'' 7 \<or> j = ''a'' \<and> m = clashMethod ''a'' 7"
  by (simp add: clashSchema_def)

lemma clash_owns: "ownsINS clashSchema j i \<longleftrightarrow> (j = ''a'' \<or> j = ''b'') \<and> i = 7"
  unfolding ownsINS_def clash_methods by (auto simp: clash_range)

theorem duplicate_instruction_reported_witness:
  "VError ''methods.b.ins'' (DuplicateINS 7 ''methods.a.ins'') \<in> set (Validate (Some clashSchema))"
proof -
  have "VError (''methods.'' @ ''b'' @ ''.ins'')
      (if 7 = uint (Method_INS (clashMethod ''b'' 7)) then DuplicateINS 7 (''methods.'' @ ''a'' @ ''.ins'')
       else CollidingINS 7 (''methods.'' @ ''a'' @ ''.ins'')) \<in> set (Validate (Some clashSchema))"
    by (rule duplicate_instruction_reported)
       (auto simp: clash_maps clash_methods clash_owns clash_range)
  then show ?thesis by (simp add: clashMethod_def)
qed

section \<open>What an accepted schema guarantees\<close>

lemma accepted_reservedCount:
  assumes g: "goodMaps s" and v: "Validate (Some s) = []"
  shows "reservedCount s \<le> 224"
proof -
  let ?xs = "map (\<lambda>(k, mo). (k, the mo)) (Schema_Methods s)"
  have some: "(k, mo) \<in> set (Schema_Methods s) \<Longrightarrow> mo = Some (the mo) \<and> insRange (the mo) \<subseteq> {0..255} - reservedINS" for k mo
    using accepted_method [OF g v] by (metis methodWF_def option.sel)
  have "map fst ?xs = map fst (Schema_Methods s)" by (simp add: case_prod_beta o_def)
  then have d: "distinct (map fst ?xs)" using g by (simp only: goodMaps_def gomap_ok_def)
  have p: "insRange (snd x) \<inter> insRange (snd y) = {}"
    if xy: "x \<in> set ?xs" "y \<in> set ?xs" "fst x \<noteq> fst y" for x y
  proof -
    obtain k mo k' mo' where o: "(k, mo) \<in> set (Schema_Methods s)" "x = (k, the mo)"
      "(k', mo') \<in> set (Schema_Methods s)" "y = (k', the mo')" using xy by auto
    then have "(k, Some (the mo)) \<in> set (Schema_Methods s)" "(k', Some (the mo')) \<in> set (Schema_Methods s)"
      using some by metis+
    moreover have "k \<noteq> k'" using o xy by simp
    ultimately have "insRange (the mo) \<inter> insRange (the mo') = {}"
      using accepted_disjoint(1) [OF g v] unfolding methodsDisjoint_def by blast
    with o show ?thesis by simp
  qed
  have "reservedCount s = sum_list (map (insCount \<circ> snd) ?xs)"
    unfolding reservedCount_def map_map o_def
    by (intro arg_cong [where f = sum_list] map_cong) (auto dest: some split: option.splits)
  also have "\<dots> = card (\<Union>x\<in>set ?xs. insRange (snd x))"
    using disjoint_ranges_card [OF d] p by simp
  also have "\<dots> \<le> card ({0..255} - reservedINS)"
  proof (rule card_mono)
    show "(\<Union>x\<in>set ?xs. insRange (snd x)) \<subseteq> {0..255} - reservedINS"
      using some by fastforce
  qed simp
  finally show ?thesis by (simp add: card_free_ins)
qed

text \<open>C3: in an accepted schema no two methods share an instruction number, no number lies in
  a reserved block, and all methods together fit the 224 free numbers: a streamed method
  takes six of them, any other method one.\<close>

theorem instruction_space_bound:
  assumes "goodMaps s" and "Validate (Some s) = []"
  shows "reservedCount s \<le> 224
    \<and> (\<forall>k m. (k, Some m) \<in> set (Schema_Methods s) \<longrightarrow> insRange m \<subseteq> {0..255} - reservedINS)
    \<and> (\<forall>k m k' m'. (k, Some m) \<in> set (Schema_Methods s) \<and> (k', Some m') \<in> set (Schema_Methods s) \<and> k \<noteq> k' \<longrightarrow>
         insRange m \<inter> insRange m' = {})"
proof (intro conjI allI impI)
  show "reservedCount s \<le> 224" by (rule accepted_reservedCount [OF assms])
next
  fix k m assume "(k, Some m) \<in> set (Schema_Methods s)"
  then show "insRange m \<subseteq> {0..255} - reservedINS"
    using accepted_method [OF assms] unfolding methodWF_def by fast
next
  fix k m k' m'
  assume "(k, Some m) \<in> set (Schema_Methods s) \<and> (k', Some m') \<in> set (Schema_Methods s) \<and> k \<noteq> k'"
  then show "insRange m \<inter> insRange m' = {}"
    using accepted_disjoint(1) [OF assms] unfolding methodsDisjoint_def by blast
qed

theorem instruction_space_bound_witness: "reservedCount streamDemoSchema \<le> 224"
  using instruction_space_bound [OF streamDemo_maps(1) streamDemo_accepted] by blast

lemma accepted_field:
  assumes "goodMaps s" "Validate (Some s) = []" "(k, Some m) \<in> set (Schema_Methods s)"
    and "msg = Method_Request m \<or> msg = Method_Response m" "f \<in> set (responseFields msg)"
  shows "fieldWF f" "locationOK f" "messageWF msg"
proof -
  from assms(4,5) obtain b where b: "msg = Some b" "f \<in> set (Message_Fields b)"
    by (cases msg) (auto simp: responseFields_def)
  have "messageWF msg" using accepted_method [OF assms(1-3)] assms(4) unfolding methodWF_def by auto
  with b show "fieldWF f" "locationOK f" "messageWF msg" by (simp_all add: messageWF_def)
qed

text \<open>C4: for every stream field of an accepted schema the packet numbers of the protocol
  exist. With \<open>p\<close> the number of chunks the maximum length needs, rounded up, \<open>p\<close> is between 1
  and 255, so an index and a count fit the two parameter bytes; a full packet fits one short
  APDU; the length fits a Java Card array index.\<close>

theorem stream_packet_bound:
  assumes "goodMaps s" and "Validate (Some s) = []" and "(k, Some m) \<in> set (Schema_Methods s)"
    and "StreamField (Method_Request m) = Some f \<or> StreamField (Method_Response m) = Some f"
    and "p = (Field_MaxLength f + Field_ChunkSize f - 1) div Field_ChunkSize f"
  shows "1 \<le> p \<and> p \<le> 255 \<and> Field_MaxLength f \<le> p * Field_ChunkSize f
    \<and> Field_ChunkSize f \<le> 255 \<and> Field_MaxLength f < 2 ^ 15"
proof -
  obtain msg where msg: "msg = Method_Request m \<or> msg = Method_Response m" "StreamField msg = Some f"
    using assms(4) by auto
  then have "f \<in> set (responseFields msg)" "Field_Type f = FieldTypeStream"
    by (auto simp: StreamField_def responseFields_def split: option.splits dest: find_SomeD)
  then have wf: "1 \<le> Field_MaxLength f" "Field_MaxLength f \<le> 32767" "1 \<le> Field_ChunkSize f"
    "Field_ChunkSize f \<le> 255" "Field_MaxLength f \<le> Field_ChunkSize f * 255"
    using accepted_field(1) [OF assms(1-3) msg(1)] by (auto simp: fieldWF_def)
  have "Field_MaxLength f + Field_ChunkSize f - 1 < 256 * Field_ChunkSize f" using wf by linarith
  moreover have "p * Field_ChunkSize f \<le> Field_MaxLength f + Field_ChunkSize f - 1"
    using wf div_mult_mod_eq [of "Field_MaxLength f + Field_ChunkSize f - 1" "Field_ChunkSize f"]
      pos_mod_sign [of "Field_ChunkSize f" "Field_MaxLength f + Field_ChunkSize f - 1"]
    unfolding assms(5) by linarith
  ultimately have "p * Field_ChunkSize f < 256 * Field_ChunkSize f" by linarith
  then have "p < 256" by (rule mult_right_less_imp_less) (use wf in simp)
  moreover have "1 \<le> p"
    using wf zdiv_mono1 [of "Field_ChunkSize f" "Field_MaxLength f + Field_ChunkSize f - 1" "Field_ChunkSize f"]
    by (simp add: assms(5))
  moreover have "Field_MaxLength f \<le> p * Field_ChunkSize f"
    using wf div_mult_mod_eq [of "Field_MaxLength f + Field_ChunkSize f - 1" "Field_ChunkSize f"]
      pos_mod_bound [of "Field_ChunkSize f" "Field_MaxLength f + Field_ChunkSize f - 1"]
    unfolding assms(5) by linarith
  ultimately show ?thesis using wf by simp
qed

definition streamDemoPacket :: Field where
  "streamDemoPacket = \<lparr>Field_Name = ''requestPacket'', Field_Type = ''stream'', Field_Length = None,
     Field_FixedLength = 0, Field_MaxLength = 1792, Field_ChunkSize = 192, Field_Location = ''data''\<rparr>"

definition streamDemoMethod :: Method where
  "streamDemoMethod = \<lparr>Method_Name = ''processPacket'', Method_INS = 0x20, Method_Description = '''',
     Method_Request = Some \<lparr>Message_Fields = [streamDemoPacket]\<rparr>,
     Method_Response = Some \<lparr>Message_Fields =
       [streamDemoPacket\<lparr>Field_Name := ''resultPacket'', Field_Location := ''''\<rparr>]\<rparr>,
     Method_StreamMode = ''''\<rparr>"

lemma streamDemo_method: "(''processPacket'', Some streamDemoMethod) \<in> set (Schema_Methods streamDemoSchema)"
  by code_simp

lemma streamDemo_packet: "StreamField (Method_Request streamDemoMethod) = Some streamDemoPacket"
  by (simp add: StreamField_def streamDemoMethod_def streamDemoPacket_def)

theorem stream_packet_bound_witness: "(1::int) \<le> 10 \<and> (10::int) \<le> 255 \<and> Field_MaxLength streamDemoPacket \<le> 10 * 192"
  using stream_packet_bound [OF streamDemo_maps(1) streamDemo_accepted streamDemo_method, of streamDemoPacket 10]
  by (simp add: streamDemo_packet) (simp add: streamDemoPacket_def)
text \<open>C5: what the cleanup selector and the stream modes of an accepted schema mean.
  \<open>written-bytes-only\<close> is never accepted and a cleanup needs the persistent workspace. A method
  declares a stream mode only with a request stream and the persistent,
  authenticated-invalidate workspace; under that workspace every streamed response declares
  one, so there a method that streams has a request stream.\<close>

theorem accepted_stream_policy:
  assumes "goodMaps s" and "Validate (Some s) = []" and "(k, Some m) \<in> set (Schema_Methods s)"
  shows "Applet_StreamWorkspaceCleanup (Schema_Applet s) \<noteq> StreamWorkspaceCleanupWrittenBytesOnly
    \<and> (Applet_StreamWorkspaceCleanup (Schema_Applet s) \<noteq> '''' \<longrightarrow>
         Applet_StreamWorkspace (Schema_Applet s) = ''persistent'')
    \<and> (Method_StreamMode m \<noteq> '''' \<longrightarrow>
         Method_StreamMode m \<in> {StreamModePublicInvalidate, StreamModeChunked}
         \<and> StreamField (Method_Request m) \<noteq> None
         \<and> Applet_StreamWorkspaceCleanup (Schema_Applet s) = StreamWorkspaceCleanupAuthenticatedInvalidate)
    \<and> (Applet_StreamWorkspaceCleanup (Schema_Applet s) = StreamWorkspaceCleanupAuthenticatedInvalidate
       \<and> HasStream (Some m) \<longrightarrow> StreamField (Method_Request m) \<noteq> None)"
proof -
  have "appletWF (Schema_Applet s)" by (rule accepted_disjoint(2) [OF assms(1,2)])
  moreover have "streamModeWF (Schema_Applet s) m"
    and "StreamField (Method_Response m) \<noteq> None \<and>
        Applet_StreamWorkspaceCleanup (Schema_Applet s) = StreamWorkspaceCleanupAuthenticatedInvalidate \<longrightarrow>
          Method_StreamMode m \<noteq> ''''"
    using accepted_method [OF assms] by (auto simp: methodWF_def methodStreamWF_def)
  ultimately show ?thesis by (auto simp: appletWF_def streamModeWF_def)
qed

definition modeSchema :: Schema where
  "modeSchema = streamDemoSchema
     \<lparr>Schema_Applet := (Schema_Applet streamDemoSchema)
        \<lparr>Applet_StreamWorkspace := ''persistent'',
         Applet_StreamWorkspaceCleanup := ''authenticated-invalidate''\<rparr>,
      Schema_Methods := [(''processPacket'', Some (streamDemoMethod\<lparr>Method_StreamMode := ''chunked''\<rparr>))]\<rparr>"

lemma modeSchema_accepted: "goodMaps modeSchema" "Validate (Some modeSchema) = []"
  by code_simp+

theorem accepted_stream_policy_witness:
  "StreamField (Method_Request (streamDemoMethod\<lparr>Method_StreamMode := ''chunked''\<rparr>)) \<noteq> None"
  using accepted_stream_policy [OF modeSchema_accepted, of "''processPacket''"
      "streamDemoMethod\<lparr>Method_StreamMode := ''chunked''\<rparr>"]
  by (simp add: modeSchema_def)

text \<open>The stream-mode check refuses a method exactly when its mode is malformed or not
  supported by the applet, and then reports one error, at the method's \<open>stream_mode\<close>.\<close>

lemma stream_mode_refusal:
  "((\<exists>msg. validateStreamMode path a m = [VError (path @ ''.stream_mode'') (Text msg)])
     \<longleftrightarrow> \<not> streamModeWF a m)
   \<and> (validateStreamMode path a m = [] \<longleftrightarrow> streamModeWF a m)"
  by (auto simp: validateStreamMode_def streamModeWF_def Let_def)

section \<open>Parser\<close>

text \<open>C6: the placement of request fields. Without any explicit location a single \<open>u8\<close> or
  \<open>bool\<close> goes to P1, two of them to P1 and P2, everything else to the data; with an explicit
  one the request is accepted exactly when the locations are known and neither parameter byte
  is used twice, and the rest goes to the data. In both cases only locations change and every
  field gets one.\<close>

theorem request_placement:
  "((\<forall>f\<in>set fs. Field_Location f = ParameterLocationNone) \<longrightarrow>
      assignRequestLocations fs = Inr (inferLocations fs))
   \<and> ((\<exists>f\<in>set fs. Field_Location f \<noteq> ParameterLocationNone) \<longrightarrow>
      (assignRequestLocations fs = Inr gs \<longleftrightarrow>
         (\<forall>f\<in>set fs. Field_Location f \<in> knownLocations)
         \<and> countLoc ParameterLocationP1 fs \<le> 1 \<and> countLoc ParameterLocationP2 fs \<le> 1
         \<and> gs = map placeRest fs))
   \<and> (assignRequestLocations fs = Inr gs \<longrightarrow>
        map unplaced gs = map unplaced fs
        \<and> (\<forall>g\<in>set gs. Field_Location g \<in> knownLocations - {ParameterLocationNone})
        \<and> countLoc ParameterLocationP1 gs \<le> 1 \<and> countLoc ParameterLocationP2 gs \<le> 1)"
  using assignRequestLocations_implicit [of fs] assignRequestLocations_explicit [of fs gs]
    assignRequestLocations_facts [of fs gs]
  by (intro conjI impI) blast+

definition flagField :: "string \<Rightarrow> FieldType \<Rightarrow> Field" where
  "flagField name ty = \<lparr>Field_Name = name, Field_Type = ty, Field_Length = None, Field_FixedLength = 0,
     Field_MaxLength = 0, Field_ChunkSize = 0, Field_Location = ''''\<rparr>"

theorem request_placement_witness:
  "assignRequestLocations [flagField ''x'' ''u8'', flagField ''y'' ''bool''] =
     Inr [(flagField ''x'' ''u8'')\<lparr>Field_Location := ''p1''\<rparr>, (flagField ''y'' ''bool'')\<lparr>Field_Location := ''p2''\<rparr>]"
  using request_placement [of "[flagField ''x'' ''u8'', flagField ''y'' ''bool'']"]
  by (simp add: flagField_def inferLocations_def isP1P2CompatibleFieldType_def)


definition streamDemoDecoder :: "unit \<Rightarrow> (unit, rawSchema \<times> string list) result" where
  "streamDemoDecoder _ = Inr (streamDemo, [])"

lemma streamDemo_Parse: "Parse streamDemoDecoder () = Inr streamDemoSchema"
  by (simp add: Parse_def streamDemoDecoder_def streamDemo_parsed)


text \<open>C8: the field type \<open>bytes[N]\<close>, printed and parsed. Every length below the range of a
  Go \<open>int\<close> comes back, a longer one is refused with the digits it could not convert, and the
  internal name \<open>bytes_fixed\<close> is never a type of the document.\<close>

theorem bytes_type_roundtrip:
  "parseFieldType (''bytes['' @ showNat n @ '']'') =
     (if int n < 2 ^ 63 then Inr (FieldTypeBytesFixed, int n) else Inl (InvalidFixedBytesLength (showNat n)))
   \<and> (TrimSpace t = FieldTypeBytesFixed \<longrightarrow> parseFieldType t = Inl (UnsupportedFieldType t))"
proof
  let ?t = "''bytes['' @ showNat n @ '']''"
  have t: "TrimSpace ?t = ?t"
    by (rule TrimSpace_plain) (simp_all add: plain_char_def byte_def)
  have m: "bytesFixedTypeMatch ?t = Some (showNat n)"
    by (simp add: bytesFixedTypeMatch_iff showNat_digits del: append_Cons append.simps)
  then have p: "?t \<notin> set plainTypes" using bytesFixedTypeMatch_plain by fastforce
  show "parseFieldType ?t = (if int n < 2 ^ 63 then Inr (FieldTypeBytesFixed, int n)
      else Inl (InvalidFixedBytesLength (showNat n)))"
    unfolding parseFieldType_eq t m using p by (simp add: Atoi_def digitsValue_showNat)
  show "TrimSpace t = FieldTypeBytesFixed \<longrightarrow> parseFieldType t = Inl (UnsupportedFieldType t)"
    by (simp add: parseFieldType_eq plainTypes_def bytesFixedTypeMatch_def)
qed

theorem bytes_type_roundtrip_witness:
  "parseFieldType '' bytes_fixed '' = Inl (UnsupportedFieldType '' bytes_fixed '')"
proof -
  have "TrimSpace '' bytes_fixed '' = FieldTypeBytesFixed" by code_simp
  then show ?thesis using bytes_type_roundtrip [of 0 "'' bytes_fixed ''"] by blast
qed

section \<open>Parser and validator together\<close>

text \<open>C9: Go iterates over a map in an unspecified order. Two decoded documents with the same
  entries are both refused or both parsed, and then the validator returns the same list of
  errors, in the same order.\<close>

theorem front_end_order_independent:
  assumes "same_raw r r'"
  shows "isl (normalizeSchema r) = isl (normalizeSchema r')
    \<and> (\<forall>s s'. normalizeSchema r = Inr s \<and> normalizeSchema r' = Inr s' \<longrightarrow>
         Validate (Some s) = Validate (Some s'))"
  using normalizeSchema_same_isl [OF assms] normalizeSchema_same [OF assms]
  by (auto simp: same_schema_def intro!: Validate_same)

definition streamDemoReversed :: rawSchema where
  "streamDemoReversed = streamDemo\<lparr>rawSchema_Methods := rev (rawSchema_Methods streamDemo)\<rparr>"

lemma streamDemoReversed_same: "same_raw streamDemo streamDemoReversed"
proof -
  have "gomap_ok (rawSchema_Methods streamDemo)" "gomap_ok (rawSchema_StatusWords streamDemo)"
    by code_simp+
  then show ?thesis
    by (simp add: same_raw_def same_map_def streamDemoReversed_def gomap_ok_def rev_map [symmetric])
qed

theorem front_end_order_independent_witness: "\<not> isl (normalizeSchema streamDemoReversed)"
  using front_end_order_independent [OF streamDemoReversed_same] by (simp add: streamDemo_parsed)

text \<open>C10: after a successful parse the validator never reports an unknown type or location, a
  nil method, or a duplicate method or status-word name: the parser has refused them or cannot
  produce them.\<close>

theorem parser_excludes_errors:
  assumes "Parse decode r = Inr s" and "decode r = Inr (raw, [])"
    and "gomap_ok (rawSchema_Methods raw)" and "gomap_ok (rawSchema_StatusWords raw)"
    and "e \<in> set (Validate (Some s))"
  shows "\<not> parserExcluded (VE_Message e)"
proof -
  from assms(1,2) have n: "normalizeSchema raw = Inr s" by (auto elim!: Parse_InrE)
  have "clean (Validate (Some s))"
    by (rule clean_Validate [OF normalizeSchema_goodMaps [OF n assms(3,4)] normalizeSchema_parsed [OF n]])
  with assms(5) show ?thesis by (simp add: clean_def)
qed

definition zeroApplet :: rawSchema where
  "zeroApplet = streamDemo\<lparr>rawSchema_Applet := streamDemoApplet\<lparr>rawApplet_CLA := 0\<rparr>\<rparr>"

theorem parser_excludes_errors_witness:
  "\<not> parserExcluded (VE_Message (VError ''applet.cla'' (Text ''0x00 is reserved and not allowed'')))"
proof -
  let ?d = "\<lambda>_::unit. Inr (zeroApplet, []) :: (unit, rawSchema \<times> string list) result"
  obtain s where s: "normalizeSchema zeroApplet = Inr s"
    by (cases "normalizeSchema zeroApplet") (simp_all add: zeroApplet_def streamDemo_def streamDemoApplet_def,
        code_simp)
  have "Parse ?d () = Inr s" by (simp add: Parse_def s)
  moreover have "gomap_ok (rawSchema_Methods zeroApplet)" "gomap_ok (rawSchema_StatusWords zeroApplet)"
    by code_simp+
  moreover have "(case normalizeSchema zeroApplet of Inl _ \<Rightarrow> False | Inr s \<Rightarrow>
      VError ''applet.cla'' (Text ''0x00 is reserved and not allowed'') \<in> set (Validate (Some s)))"
    by code_simp
  then have "VError ''applet.cla'' (Text ''0x00 is reserved and not allowed'') \<in> set (Validate (Some s))"
    by (simp add: s)
  ultimately show ?thesis by (intro parser_excludes_errors [where decode = ?d and raw = zeroApplet]) auto
qed

section \<open>The width of an ordinary response\<close>

text \<open>\<open>fixedMessageLength\<close> is defined exactly when every field has a fixed width, and
  then is the sum of the widths as a 64-bit integer; as long as the sum fits it is that sum,
  and positive unless there is no field.\<close>

lemma fixed_message_length:
  "(snd (fixedMessageLength fs) \<longleftrightarrow> allFixed fs)
   \<and> (allFixed fs \<longrightarrow> fst (fixedMessageLength fs) = wrap64 (declaredWidth fs))
   \<and> (allFixed fs \<and> declaredWidth fs < 2 ^ 63 \<longrightarrow> fst (fixedMessageLength fs) = declaredWidth fs)
   \<and> int (length fs) * of_bool (allFixed fs) \<le> declaredWidth fs"
proof -
  have "int (length fs) \<le> declaredWidth fs" if "allFixed fs"
    using that
  proof (induction fs)
    case (Cons f fs)
    then obtain n where "WireSize f = (n, True)" "allFixed fs"
      by (cases "WireSize f") (auto simp: allFixed_def)
    with Cons.IH WireSize_fixed_pos [of f n] show ?case by (simp add: declaredWidth_def)
  qed (simp add: declaredWidth_def)
  then show ?thesis
    using declaredWidth_nonneg [of fs]
    by (auto simp: fixedMessageLength_eq wrap64_id int64_ok_def)
qed

lemma fixed_message_length_witness:
  "fst (fixedMessageLength [flagField ''x'' ''u16'', flagField ''y'' ''u32'']) = 6"
  using fixed_message_length [of "[flagField ''x'' ''u16'', flagField ''y'' ''u32'']"]
  by (simp add: flagField_def allFixed_def declaredWidth_def WireSize_def)

text \<open>A document whose streamed method answers with two \<open>bytes\<close> fields of \<open>2 ^ 62\<close> bytes each.\<close>

definition wideField :: "string \<Rightarrow> rawField" where
  "wideField name = (rawScalar name ''bytes'')\<lparr>rawField_Length := Some (2 ^ 62)\<rparr>"

definition wideDemo :: rawSchema where
  "wideDemo = streamDemo\<lparr>rawSchema_Methods :=
     [(''importKey'', rawCall 0x20 (Some [rawStream ''key'' 1792 192])
                                (Some [wideField ''low'', wideField ''high'']))]\<rparr>"

text \<open>C11: the check that an ordinary response of a streamed method fits 255 bytes adds the
  widths in a Go \<open>int\<close> and can be passed by overflow: this document parses and validates
  without an error, yet its response is declared \<open>2 ^ 63\<close> bytes wide, so it does not conform.\<close>

theorem short_response_overflow:
  "\<exists>s. normalizeSchema wideDemo = Inr s \<and> Validate (Some s) = [] \<and> \<not> idlConforms s"
proof -
  have "case normalizeSchema wideDemo of Inl _ \<Rightarrow> False
      | Inr s \<Rightarrow> Validate (Some s) = [] \<and> list_ex (\<lambda>(k, mo). case mo of None \<Rightarrow> False
        | Some m \<Rightarrow> HasStream (Some m) \<and> StreamField (Method_Response m) = None \<and> \<not> shortResponseFits m)
          (Schema_Methods s)"
    by code_simp
  then obtain s k m where s: "normalizeSchema wideDemo = Inr s" "Validate (Some s) = []"
      "(k, Some m) \<in> set (Schema_Methods s)" "HasStream (Some m)" "StreamField (Method_Response m) = None"
      "\<not> shortResponseFits m"
    by (auto simp: list_ex_iff simp del: HasStream_simps split: sum.splits option.splits)
  then have "\<not> idlConforms s"
    unfolding idlConforms_def schemaWF_def methodsWF_def methodWF_def methodStreamWF_def by fastforce
  with s show ?thesis by blast
qed
end
