(* ===== verification/Gen_Properties.thy ===== *)
theory Gen_Properties
  imports Gen_Runs Gen_Facade Idl_Properties
begin

text \<open>
  The properties of the generator command: termination and exit codes, no effect without an
  accepted schema, whole packages in order, confinement to the target roots, success with
  contract-keeping backends, the package check against its contract, and the flags.
\<close>

section \<open>A concrete host\<close>

text \<open>The world counts the operations; the input is the fixture; nothing exists yet.\<close>

definition demoUnicode :: unicode_tables where
  "demoUnicode = \<lparr>uni_letter = (\<lambda>_. False), uni_digit = (\<lambda>_. False), uni_lower = (\<lambda>r. r)\<rparr>"

definition demoHost :: "(unit, nat) Host" where
  "demoHost = \<lparr>host_open = (\<lambda>w p. Inr ()), host_decode = (\<lambda>_. Inr (streamDemo, [])),
     host_lstat = (\<lambda>w p. NotExist), host_mkdirAll = (\<lambda>d w. (None, Suc w)),
     host_writeFile = (\<lambda>p d w. (None, Suc w)), host_unicode = demoUnicode,
     host_kotlinPackage = (\<lambda>n. ''works.relux.streamdemo'')\<rparr>"

definition demoArgs :: "string list" where
  "demoArgs = [''--out-dir=build'', ''--java'', ''com.example.demo'', ''stream.toml'']"

definition demoOptions :: cliOptions where
  "demoOptions = defaultOptions\<lparr>cli_outDir := ''build'', cli_javaPackage := ''com.example.demo''\<rparr>"

lemma demo_flags: "parseFlags defaultOptions demoArgs = Inr (demoOptions, [''stream.toml''])"
  by code_simp

lemma demo_reaches: "reachesGeneration demoHost demoArgs w demoOptions streamDemoSchema"
proof -
  have "\<not> cli_help demoOptions" "\<not> cli_validateOnly demoOptions" by code_simp+
  moreover have "ParseFile (host_open demoHost w) (host_decode demoHost) ''stream.toml'' = Inr streamDemoSchema"
    by (simp add: demoHost_def ParseFile_def Parse_def streamDemo_parsed)
  ultimately show ?thesis
    unfolding reachesGeneration_def demo_flags using streamDemo_accepted by blast
qed

section \<open>The package check\<close>

text \<open>C12: \<open>validatePackageFiles\<close> always returns, although its parent loop would not end on an
  absolute name. It accepts exactly the packages of the plugin contract (canonical relative
  names, data, no duplicates, no file that is a directory of another) whose walk from the root
  meets no symlink and no entry it cannot inspect before the first missing one.\<close>

theorem package_check_decides:
  "\<exists>r. validatePackageFiles lstat root fs = Some r
     \<and> (\<not> isl r \<longleftrightarrow> packageWF fs \<and> (\<forall>f\<in>set fs. walkClear lstat root (fileParts f)))"
  using validatePackageFiles_decides [of lstat root fs] by blast

theorem package_check_decides_witness:
  "\<exists>r. validatePackageFiles (\<lambda>p. if p = ''out'' then Exists True else NotExist) ''out''
     [\<lparr>File_Name = ''build.manifest'', File_Data = Some ''''\<rparr>] = Some r \<and> isl r"
proof -
  let ?lstat = "\<lambda>p. if p = ''out'' then Exists True else NotExist"
  let ?f = "\<lparr>File_Name = ''build.manifest'', File_Data = Some ''''\<rparr>"
  have "\<not> walkClear ?lstat ''out'' (fileParts ?f)"
    unfolding walkClear_def by (subst clearFrom_step) (simp_all add: walkPath_def)
  then show ?thesis using package_check_decides [of ?lstat "''out''" "[?f]"] by auto
qed

section \<open>Runs\<close>

text \<open>C13: the command always returns, with one of its four exit codes. If it touched the file
  system at all, its arguments named one input that parsed and validated without an error, and
  neither help nor validation only was asked for; so exit code 1 means no effect.\<close>

theorem generator_effects_need_acceptance:
  "\<exists>c st. runWithPlugins h args j sw k w = Some (c, st)
     \<and> c \<in> {exitCodeSuccess, exitCodeValidation, exitCodeGeneration, exitCodeIO}
     \<and> (run_events st \<noteq> [] \<longrightarrow> (\<exists>opts s. reachesGeneration h args w opts s) \<and> c \<noteq> exitCodeValidation)
     \<and> (run_events st = [] \<and> (\<nexists>opts s. reachesGeneration h args w opts s) \<longrightarrow> run_world st = w)"
proof (cases rule: run_stages [of h args j sw k w])
  case (early c st)
  then show ?thesis by (intro exI [of _ c] exI [of _ st]) simp
next
  case (late opts s st)
  obtain c st' evs where g: "runGeneration h opts s j sw k st = Some (c, st')"
    "run_events st' = run_events st @ evs"
    "targetsStep opts s (targetList h opts s j sw k) (if c = exitCodeSuccess then None else Some c) evs"
    by (rule runGeneration_step)
  then have "c \<in> {exitCodeSuccess, exitCodeGeneration, exitCodeIO}"
    by (auto simp: targetsStep_def split: if_splits)
  then have "c \<in> {exitCodeSuccess, exitCodeValidation, exitCodeGeneration, exitCodeIO}" "c \<noteq> exitCodeValidation"
    by (auto simp: exitCodeValidation_def exitCodeSuccess_def exitCodeGeneration_def exitCodeIO_def)
  with late g show ?thesis by (intro exI [of _ c] exI [of _ st']) auto
qed

text \<open>C14: for a run that reaches generation the operations on the file system are a prefix of
  the packages of the selected targets in the order Java, Swift, Kotlin, each package its
  directories from the last file to the first and then its files in order. Exit code 0 means
  all of them; exit code 2 means complete packages only: a backend that fails or returns an
  invalid package leaves nothing of its own.\<close>

theorem generator_writes_whole_packages:
  assumes "reachesGeneration h args w opts s"
    and "runWithPlugins h args j sw k w = Some (c, st)"
    and "ts = targetList h opts s j sw k"
  shows "prefix (run_events st) (concat (map (targetEvents opts s) ts))
    \<and> (c = exitCodeSuccess \<longrightarrow> run_events st = concat (map (targetEvents opts s) ts))
    \<and> (c = exitCodeGeneration \<longrightarrow>
         (\<exists>n. run_events st = concat (map (targetEvents opts s) (take n ts))))
    \<and> (c \<noteq> exitCodeSuccess \<and> c \<noteq> exitCodeGeneration \<longrightarrow> c = exitCodeIO)"
proof (cases rule: run_stages [of h args j sw k w])
  case (early c st)
  with assms(1) show ?thesis by blast
next
  case (late opts' s' st0)
  then have "opts' = opts" "s' = s" using reachesGeneration_unique [OF assms(1)] by blast+
  then obtain c' st' evs where g: "runGeneration h opts s j sw k st0 = Some (c', st')"
    "run_events st' = run_events st0 @ evs"
    "targetsStep opts s (targetList h opts s j sw k) (if c' = exitCodeSuccess then None else Some c') evs"
    using runGeneration_step by blast
  with late assms \<open>opts' = opts\<close> \<open>s' = s\<close> have "c' = c" "st' = st" by simp_all
  with g late assms(3) show ?thesis
    by (auto simp: targetsStep_def exitCodeSuccess_def exitCodeGeneration_def split: if_splits)
qed

text \<open>C15: confinement. Every path a run creates or writes is the output directory, the root
  directory of a selected target (one component derived from the applet name) and the
  components of a file name of that target's package, none of them empty, a dot or a double
  dot; the package was accepted as a whole. The hypothesis on the Unicode tables says that
  lower-casing does not produce a slash.\<close>

theorem generator_confinement:
  assumes "lowerKeepsSlash (host_unicode h)"
    and "reachesGeneration h args w opts s"
    and "runWithPlugins h args j sw k w = Some (c, st)"
    and "ev \<in> set (run_events st)"
  shows "\<exists>t\<in>set (targetList h opts s j sw k). \<exists>f\<in>set (targetFiles s t).
    target_selected t \<and> packageWF (targetFiles s t) \<and> list_all okPart (target_root t # fileParts f)
    \<and> (ev = MkdirAll (packagePath opts t (butlast (fileParts f)))
       \<or> ev = WriteFile (packagePath opts t (fileParts f)) (fileData f))"
proof (cases rule: run_stages [of h args j sw k w])
  case (early c st)
  with assms(2) show ?thesis by blast
next
  case (late opts' s' st0)
  then have e: "opts' = opts" "s' = s" using reachesGeneration_unique [OF assms(2)] by blast+
  then obtain c' st' evs where g: "runGeneration h opts s j sw k st0 = Some (c', st')"
    "run_events st' = run_events st0 @ evs"
    "targetsStep opts s (targetList h opts s j sw k) (if c' = exitCodeSuccess then None else Some c') evs"
    using runGeneration_step by blast
  with late assms(3,4) e have "ev \<in> set evs" by simp
  with g(3) obtain t where t: "t \<in> set (targetList h opts s j sw k)" "target_selected t"
      "packageWF (targetFiles s t)" "ev \<in> set (packageEvents (packageDir opts t) (targetFiles s t))"
    unfolding targetsStep_def by blast
  then obtain f where f: "f \<in> set (targetFiles s t)"
    "ev = MkdirAll (PathDir (outPath (packageDir opts t) f)) \<or> ev = WriteFile (outPath (packageDir opts t) f) (fileData f)"
    by (auto simp: packageEvents_def)
  have r: "okPart (target_root t)" by (rule targetList_roots [OF assms(1) t(1)])
  have n: "canonicalName (File_Name f)" using t(3) f(1) by (simp add: packageWF_def)
  show ?thesis
    using t f n r outPath_parts [OF r n] by (intro bexI [OF _ t(1)] bexI [OF _ f(1)])
      (auto simp: canonicalName_def fileParts_def)
qed

text \<open>C16: with backends that return packages of the contract for the selected targets, on a
  host without symlinks where the operations succeed, the command exits with 0 and has written
  every package.\<close>

theorem generator_succeeds:
  assumes "reachesGeneration h args w opts s" and "plainHost h"
    and "validateSimulatorDependency (TrimSpace (cli_simulatorDependency opts))"
    and "ts = targetList h opts s j sw k" and "\<exists>t\<in>set ts. target_selected t"
    and "\<not> (target_selected (ts ! 1) \<and> schemaHasStreams (Some s))"
    and "\<forall>t\<in>set ts. target_selected t \<longrightarrow>
      (\<exists>fs. target_plugin t s (target_options t) = Inr fs \<and> packageWF fs)"
  shows "\<exists>st. runWithPlugins h args j sw k w = Some (exitCodeSuccess, st)
    \<and> run_events st = concat (map (targetEvents opts s) ts)"
  by (rule plain_host_run [OF assms])

lemma demo_plain: "plainHost demoHost"
  by (simp add: plainHost_def demoHost_def)

abbreviation demoTargets :: "Target list" where
  "demoTargets \<equiv> targetList demoHost demoOptions streamDemoSchema backendPlugin backendPlugin backendPlugin"

lemma demo_selected:
  "target_selected (demoTargets ! 0)" "\<not> target_selected (demoTargets ! 1)" "\<not> target_selected (demoTargets ! 2)"
proof -
  have "TrimSpace (cli_javaPackage demoOptions) = ''com.example.demo''" by code_simp
  moreover have "\<not> cli_allTargets demoOptions" "TrimSpace (cli_swiftModule demoOptions) = ''''"
    "TrimSpace (cli_kotlinPackage demoOptions) = ''''"
    by code_simp+
  ultimately show "target_selected (demoTargets ! 0)" "\<not> target_selected (demoTargets ! 1)"
    "\<not> target_selected (demoTargets ! 2)"
    by (simp_all add: targetList_def orDefault_def Let_def)
qed

lemma demo_targets: "t \<in> set demoTargets \<Longrightarrow> target_plugin t = backendPlugin"
  by (auto simp: targetList_def Let_def)

lemma demo_in: "demoTargets ! 0 \<in> set demoTargets"
  by (rule nth_mem) (simp add: targetList_def Let_def)

lemma backendPlugin_package: "\<exists>fs. backendPlugin s opts = Inr fs \<and> packageWF fs"
proof -
  obtain fs where "backendPlugin s opts = Inr fs" by (simp add: backendPlugin_def Backend_Generate_def)
  with example.package show ?thesis by blast
qed

lemma demo_simulator: "validateSimulatorDependency (TrimSpace (cli_simulatorDependency demoOptions))"
  by code_simp

lemma demo_run:
  "\<exists>st. runWithPlugins demoHost demoArgs backendPlugin backendPlugin backendPlugin 0 = Some (exitCodeSuccess, st)
    \<and> run_events st = concat (map (targetEvents demoOptions streamDemoSchema) demoTargets)"
  by (rule plain_host_run [OF demo_reaches demo_plain demo_simulator refl])
     (use demo_selected demo_in demo_targets backendPlugin_package in auto)

theorem generator_succeeds_witness:
  "\<exists>st. runWithPlugins demoHost demoArgs backendPlugin backendPlugin backendPlugin 0 = Some (exitCodeSuccess, st)"
proof -
  have "\<exists>st. runWithPlugins demoHost demoArgs backendPlugin backendPlugin backendPlugin 0 = Some (exitCodeSuccess, st)
    \<and> run_events st = concat (map (targetEvents demoOptions streamDemoSchema) demoTargets)"
    by (rule generator_succeeds [OF demo_reaches demo_plain demo_simulator refl])
       (use demo_selected demo_in demo_targets backendPlugin_package in auto)
  then show ?thesis by blast
qed

theorem generator_writes_whole_packages_witness:
  "\<exists>st. runWithPlugins demoHost demoArgs backendPlugin backendPlugin backendPlugin 0 = Some (exitCodeSuccess, st)
    \<and> run_events st = concat (map (targetEvents demoOptions streamDemoSchema) demoTargets)"
  using demo_run generator_writes_whole_packages [OF demo_reaches _ refl]
  by metis

lemma demo_event:
  "MkdirAll (PathDir (outPath (packageDir demoOptions (demoTargets ! 0)) f)) \<in>
     set (concat (map (targetEvents demoOptions streamDemoSchema) demoTargets))"
  if "f \<in> set (targetFiles streamDemoSchema (demoTargets ! 0))"
  using that demo_in demo_selected(1) by (auto simp: targetEvents_def packageEvents_def intro!: bexI [of _ "demoTargets ! 0"])

theorem generator_confinement_witness:
  "\<exists>st ev. runWithPlugins demoHost demoArgs backendPlugin backendPlugin backendPlugin 0 = Some (exitCodeSuccess, st)
    \<and> ev \<in> set (run_events st) \<and> (\<exists>t\<in>set demoTargets. \<exists>f\<in>set (targetFiles streamDemoSchema t).
      ev = MkdirAll (packagePath demoOptions t (butlast (fileParts f)))
      \<or> ev = WriteFile (packagePath demoOptions t (fileParts f)) (fileData f))"
proof -
  obtain st where st: "runWithPlugins demoHost demoArgs backendPlugin backendPlugin backendPlugin 0 = Some (exitCodeSuccess, st)"
    "run_events st = concat (map (targetEvents demoOptions streamDemoSchema) demoTargets)"
    using demo_run by blast
  obtain f where "f \<in> set (targetFiles streamDemoSchema (demoTargets ! 0))"
    using demo_targets [OF demo_in] that [of "targetFiles streamDemoSchema (demoTargets ! 0) ! 0"]
    by (simp add: targetFiles_def backendPlugin_def Backend_Generate_def)
  then obtain ev where ev: "ev \<in> set (run_events st)" using demo_event unfolding st(2) by blast
  have "lowerKeepsSlash (host_unicode demoHost)"
    by (simp add: lowerKeepsSlash_def demoHost_def demoUnicode_def byte_slash)
  from generator_confinement [OF this demo_reaches st(1) ev] st(1) ev show ?thesis by blast
qed

theorem generator_effects_need_acceptance_witness:
  "\<exists>c st. runWithPlugins demoHost [''-x''] backendPlugin backendPlugin backendPlugin 0 = Some (c, st)
     \<and> run_events st = [] \<and> run_world st = 0"
proof -
  have "parseFlags defaultOptions [''-x''] = Inl (FlagNotDefined ''x'')" by code_simp
  then have "\<nexists>opts s. reachesGeneration demoHost [''-x''] 0 opts s" by (simp add: reachesGeneration_def)
  then show ?thesis
    using generator_effects_need_acceptance [of demoHost "[''-x'']" backendPlugin backendPlugin backendPlugin 0] by metis
qed

section \<open>Options\<close>

text \<open>C20: every setting of the options, printed as flags before one input that does not start
  with a dash, is read back as it is; and \<open>ErrHelp\<close> never comes out, since the command defines
  \<open>help\<close> and \<open>h\<close> itself.\<close>

theorem flags_roundtrip:
  assumes "input = [] \<or> hd input \<noteq> CHR ''-''"
  shows "parseFlags defaultOptions (renderFlags opts @ [input]) = Inr (opts, [input])
    \<and> parseFlags defaultOptions args \<noteq> Inl ErrHelp"
  using parse_renderFlags [OF assms] parseFlags_no_ErrHelp by blast

theorem flags_roundtrip_witness:
  "parseFlags defaultOptions (renderFlags demoOptions @ [''stream.toml'']) = Inr (demoOptions, [''stream.toml''])"
  using flags_roundtrip [of "''stream.toml''" demoOptions] by simp

lemma coordinate_colon: "\<not> coordinateChar (CHR '':'')"
  by code_simp

lemma coordinate_split:
  assumes "list_all coordinateChar g" "list_all coordinateChar a"
    "list_all (\<lambda>x. coordinateChar x \<or> x = CHR ''+'') v"
  shows "splitOn CHR '':'' (g @ '':'' @ a @ '':'' @ v) = [g, a, v]"
proof -
  have "CHR '':'' \<notin> set g" "CHR '':'' \<notin> set a" "CHR '':'' \<notin> set v"
    using assms coordinate_colon by (auto simp: list_all_iff)
  then show ?thesis by (simp add: splitOn_append splitOn_plain)
qed

text \<open>The three segments of a coordinate.\<close>

definition coordinateSegments :: "string \<Rightarrow> string \<Rightarrow> string \<Rightarrow> bool" where
  "coordinateSegments g a v \<longleftrightarrow> g \<noteq> '''' \<and> a \<noteq> '''' \<and> v \<noteq> ''''
     \<and> list_all coordinateChar g \<and> list_all coordinateChar a
     \<and> list_all (\<lambda>x. coordinateChar x \<or> x = CHR ''+'') v"

lemma simulator_iff:
  "validateSimulatorDependency c \<longleftrightarrow> (\<exists>g a v. c = g @ '':'' @ a @ '':'' @ v \<and> coordinateSegments g a v)"
proof
  assume v: "validateSimulatorDependency c"
  then obtain g a w where s: "splitOn CHR '':'' c = [g, a, w]"
    by (cases "splitOn CHR '':'' c" rule: remdups_adj.cases; cases "tl (tl (splitOn CHR '':'' c))";
        cases "tl (tl (tl (splitOn CHR '':'' c)))") (simp_all add: validateSimulatorDependency_def)
  have "c = g @ '':'' @ a @ '':'' @ w" using join_split [of "CHR '':''" c] s by simp
  moreover have "coordinateSegments g a w"
    using v by (simp add: s validateSimulatorDependency_def coordinateSegments_def)
  ultimately show "\<exists>g a v. c = g @ '':'' @ a @ '':'' @ v \<and> coordinateSegments g a v" by blast
next
  assume "\<exists>g a v. c = g @ '':'' @ a @ '':'' @ v \<and> coordinateSegments g a v"
  then obtain g a v where c: "c = g @ '':'' @ a @ '':'' @ v" "coordinateSegments g a v" by blast
  then have "splitOn CHR '':'' c = [g, a, v]"
    unfolding c(1) by (intro coordinate_split) (simp_all only: coordinateSegments_def)
  with c(2) show "validateSimulatorDependency c"
    by (simp add: validateSimulatorDependency_def coordinateSegments_def)
qed

definition gradleUnsafe :: "string" where
  "gradleUnsafe = [CHR 0x27, CHR 0x5C, CHR ''$'', CHR 0x22, CHR 0x0A, CHR '' '']"

lemma gradleUnsafe_chars: "list_all (\<lambda>x. \<not> coordinateChar x \<and> x \<noteq> CHR '':'' \<and> x \<noteq> CHR ''+'') gradleUnsafe"
  by code_simp

lemma simulator_safe: "validateSimulatorDependency c \<Longrightarrow> set c \<inter> set gradleUnsafe = {}"
proof -
  assume "validateSimulatorDependency c"
  then obtain g a v where c: "c = g @ '':'' @ a @ '':'' @ v" and s: "coordinateSegments g a v"
    unfolding simulator_iff by blast
  have "\<forall>x\<in>set c. coordinateChar x \<or> x = CHR '':'' \<or> x = CHR ''+''"
    using s unfolding c coordinateSegments_def list_all_iff set_append Un_iff by auto
  with gradleUnsafe_chars show ?thesis unfolding list_all_iff by blast
qed

text \<open>A coordinate the command accepts has three non-empty segments and, as the comment in
  the code promises, no character that needs escaping in a single-quoted Gradle string.\<close>

lemma simulator_coordinate:
  "(validateSimulatorDependency c \<longleftrightarrow>
     (\<exists>g a v. c = g @ '':'' @ a @ '':'' @ v \<and> coordinateSegments g a v))
   \<and> (validateSimulatorDependency c \<longrightarrow> set c \<inter> set gradleUnsafe = {})"
  using simulator_iff simulator_safe by blast

lemma simulator_coordinate_witness: "set defaultSimulatorDependency \<inter> set gradleUnsafe = {}"
proof -
  have "validateSimulatorDependency defaultSimulatorDependency" by code_simp
  with simulator_coordinate [of defaultSimulatorDependency] show ?thesis by blast
qed

text \<open>\<open>--all\<close> always selects the Swift target, whose stream generation is not implemented,
  so with a schema that streams it exits with 2 and writes nothing.\<close>

lemma all_targets_refuse_streams:
  assumes "reachesGeneration h args w opts s" and "cli_allTargets opts" and "schemaHasStreams (Some s)"
  shows "\<exists>st. runWithPlugins h args j sw k w = Some (exitCodeGeneration, st) \<and> run_events st = []"
proof (cases rule: run_stages [of h args j sw k w])
  case (early c st)
  with assms(1) show ?thesis by blast
next
  case (late opts' s' st0)
  then have e: "opts' = opts" "s' = s" using reachesGeneration_unique [OF assms(1)] by blast+
  let ?sim = "TrimSpace (cli_simulatorDependency opts)"
  have "target_selected (targetList h opts s j sw k ! 1)"
    using assms(2) by (simp add: targetList_def Let_def orDefault_def defaultSwiftModule_def)
  then have "runGeneration h opts s j sw k st0 = Some (exitCodeGeneration,
      emit (if validateSimulatorDependency ?sim then [SwiftStreamsUnsupported] else [BadSimulatorDependency ?sim]) st0)"
    using assms(3) by (simp add: runGeneration_def Let_def)
  with late e show ?thesis by simp
qed

lemma all_targets_refuse_streams_witness:
  "\<exists>st. runWithPlugins demoHost [''--all'', ''stream.toml''] backendPlugin backendPlugin backendPlugin 0
     = Some (exitCodeGeneration, st) \<and> run_events st = []"
proof (rule all_targets_refuse_streams)
  let ?o = "defaultOptions\<lparr>cli_allTargets := True\<rparr>"
  have "parseFlags defaultOptions [''--all'', ''stream.toml''] = Inr (?o, [''stream.toml''])" by code_simp
  moreover have "ParseFile (host_open demoHost 0) (host_decode demoHost) ''stream.toml'' = Inr streamDemoSchema"
    by (simp add: demoHost_def ParseFile_def Parse_def streamDemo_parsed)
  moreover have "\<not> cli_help ?o" "\<not> cli_validateOnly ?o" by code_simp+
  ultimately show "reachesGeneration demoHost [''--all'', ''stream.toml''] 0 ?o streamDemoSchema"
    unfolding reachesGeneration_def using streamDemo_accepted by blast
  show "cli_allTargets ?o" by simp
  show "schemaHasStreams (Some streamDemoSchema)" by code_simp
qed

section \<open>The facade\<close>

text \<open>C21: the Java facade over a package. Each slot has the name and the data of the last file
  of its kind; a stream slot without a file gets no data and the name made of the skeleton's
  stem.\<close>

theorem java_facade_slots:
  assumes "javacard s \<lparr>Options_Namespace = pkg, Options_StreamMemory = JavaOptions_StreamMemory opts,
      Options_SimulatorDependency = ''com.klinec:jcardsim:3.0.5.9''\<rparr> = Inr files"
    and "stem = trimSuffix (slotName ''Skeleton'' files) ''Skeleton''"
  shows "\<exists>r. GenerateJavaSkeletonWithOptions javacard s pkg opts = Inr r
    \<and> TransportName r = slotName ''Transport'' files \<and> TransportSource r = slotSource ''Transport'' files
    \<and> SkeletonName r = slotName ''Skeleton'' files \<and> SkeletonSource r = slotSource ''Skeleton'' files
    \<and> StreamEndpointSource r = slotSource ''StreamEndpoint'' files
    \<and> StreamRuntimeSource r = slotSource ''BoundedStreamRuntime'' files
    \<and> StreamAPDUAdapterSource r = slotSource ''StreamAPDUAdapter'' files
    \<and> StreamEndpointName r = (if slotName ''StreamEndpoint'' files = '''' then stem @ ''StreamEndpoint''
                               else slotName ''StreamEndpoint'' files)
    \<and> StreamRuntimeName r = (if slotName ''BoundedStreamRuntime'' files = '''' then stem @ ''BoundedStreamRuntime''
                              else slotName ''BoundedStreamRuntime'' files)
    \<and> StreamAPDUAdapterName r = (if slotName ''StreamAPDUAdapter'' files = '''' then stem @ ''StreamAPDUAdapter''
                                  else slotName ''StreamAPDUAdapter'' files)"
  using assms by (simp add: GenerateJavaSkeletonWithOptions_def classify_fold fillNames_def slotResult_def Let_def)

definition counterFiles :: "File list" where
  "counterFiles = [\<lparr>File_Name = ''src/CounterSkeleton.java'', File_Data = Some ''skeleton''\<rparr>,
     \<lparr>File_Name = ''src/CounterTransport.java'', File_Data = Some ''transport''\<rparr>]"

theorem java_facade_slots_witness:
  "\<exists>r. GenerateJavaSkeleton (\<lambda>_ _. Inr counterFiles :: (string, File list) result) streamDemoSchema ''p'' = Inr r
    \<and> TransportSource r = Some ''transport'' \<and> StreamEndpointSource r = None
    \<and> StreamEndpointName r = ''CounterStreamEndpoint''"
proof -
  have "slotSource ''Transport'' counterFiles = Some ''transport''" "slotSource ''StreamEndpoint'' counterFiles = None"
    "slotName ''StreamEndpoint'' counterFiles = ''''"
    "trimSuffix (slotName ''Skeleton'' counterFiles) ''Skeleton'' = ''Counter''"
    by code_simp+
  then show ?thesis
    using java_facade_slots [of "\<lambda>_ _. Inr counterFiles" streamDemoSchema "''p''"
        "\<lparr>JavaOptions_StreamMemory = ''''\<rparr>" counterFiles "''Counter''"]
    by (auto simp: GenerateJavaSkeleton_def)
qed

text \<open>\<open>GenerateSwiftClient\<close> indexes the last file of the package and would panic on an empty
  one; with a backend that keeps the plugin contract it never does.\<close>

lemma swift_facade_no_panic:
  assumes "\<And>s options fs. swift s options = Inr fs \<Longrightarrow> packageWF fs"
  shows "GenerateSwiftClient swift s moduleName \<noteq> Inl SwiftIndexPanic"
  by (rule target_backend.swift_no_panic [OF target_backend.intro [OF assms]])

lemma swift_facade_no_panic_witness:
  "GenerateSwiftClient backendPlugin streamDemoSchema ''StreamDemoClient'' \<noteq> Inl SwiftIndexPanic"
  by (rule swift_facade_no_panic [OF example.package])

text \<open>The package of the example backend is accepted under every root on a host without
  symlinks and inspection failures, for every schema and every options.\<close>

lemma example_backend_accepted:
  assumes "plainHost h" and "backendPlugin s options = Inr fs"
  shows "validatePackageFiles (host_lstat h w) root fs = Some (Inr ())"
proof -
  obtain r where r: "validatePackageFiles (host_lstat h w) root fs = Some r"
    "isl r \<longleftrightarrow> (\<exists>f\<in>set fs. \<not> walkClear (host_lstat h w) root (fileParts f))"
    using example.check_is_about_the_host [OF assms(2)] by blast
  with plain_walkClear [OF assms(1)] have "\<not> isl r" by blast
  with r(1) show ?thesis by (cases r) auto
qed

lemma example_backend_accepted_run:
  "\<exists>fs. backendPlugin streamDemoSchema (target_options (demoTargets ! 0)) = Inr fs
     \<and> validatePackageFiles (host_lstat demoHost 0) ''out'' fs = Some (Inr ())"
  using backendPlugin_package example_backend_accepted [OF demo_plain] by blast

end
