(* ===== verification/Gen_Outcomes.thy ===== *)
theory Gen_Outcomes
  imports Report_Lines Gen_Properties
begin

text \<open>
  The outcome of a run of the generator as its user sees it: the bytes on stderr with the exit
  code, and the files on a host that keeps them.
\<close>

section \<open>Diagnostics\<close>

text \<open>C18: the exit code is reported. A run that fails has exactly one failure among its lines,
  and it is the failure of its exit code; a run with exit code 0 has none. Stderr is empty
  exactly for the successful runs with valid flags that asked neither for help nor for
  progress.\<close>

theorem failure_is_reported:
  assumes "runWithPlugins h args j sw k w = Some (c, st)"
  shows "failures (run_diags st) = (if c = exitCodeSuccess then [] else [c])
    \<and> (stderrText t st = '''' \<longleftrightarrow> c = exitCodeSuccess
        \<and> (\<exists>opts rest. parseFlags defaultOptions args = Inr (opts, rest) \<and> \<not> cli_help opts \<and> \<not> cli_verbose opts))"
proof -
  consider (flags) e where "parseFlags defaultOptions args = Inl e" "e \<noteq> ErrHelp"
    | (usage) opts rest where "parseFlags defaultOptions args = Inr (opts, rest)" "cli_help opts \<or> length rest \<noteq> 1"
    | (run) opts input where "parseFlags defaultOptions args = Inr (opts, [input])" "\<not> cli_help opts"
    using parseFlags_no_ErrHelp [of defaultOptions args]
    by (cases "parseFlags defaultOptions args") (auto simp: length_Suc_conv)
  then show ?thesis
  proof cases
    case flags
    with assms show ?thesis
      by (auto simp: runWithPlugins_def Let_def emit_def stderrText_Nil_iff map_filter_simps)
  next
    case usage
    with assms show ?thesis
      by (auto simp: runWithPlugins_def Let_def emit_def stderrText_Nil_iff map_filter_simps split: if_splits)
  next
    case run
    let ?st = "verbosef opts (VerboseParsing input) \<lparr>run_diags = [], run_events = [], run_world = w\<rparr>"
    obtain ds where ds: "run_diags st = run_diags ?st @ ds" "failures ds = (if c = exitCodeSuccess then [] else [c])"
      "\<forall>d\<in>set ds. failureCode d = None \<longrightarrow> isProgress d \<and> cli_verbose opts"
      using run_reports [OF assms run] by (auto simp: reports_def split: if_splits)
    have v: "run_diags ?st = (if cli_verbose opts then [VerboseParsing input] else [])"
      by (simp add: verbosef_def emit_def)
    have "\<not> cli_verbose opts \<Longrightarrow> c = exitCodeSuccess \<Longrightarrow> ds = []"
      using ds(2,3) by (cases ds) (auto simp: map_filter_simps split: option.splits)
    moreover have "c \<noteq> exitCodeSuccess \<Longrightarrow> ds \<noteq> []" using ds(2) by (auto simp: map_filter_simps)
    ultimately show ?thesis
      using ds(1,2) v run by (auto simp: stderrText_Nil_iff map_filter_simps)
  qed
qed

definition demoTexts :: Texts where
  "demoTexts = \<lparr>text_error = (\<lambda>_. ''host''), text_printable = (\<lambda>_. True)\<rparr>"

theorem failure_is_reported_witness:
  "\<exists>st. runWithPlugins demoHost demoArgs backendPlugin backendPlugin backendPlugin 0 = Some (exitCodeSuccess, st)
    \<and> failures (run_diags st) = [] \<and> stderrText demoTexts st = ''''"
proof -
  obtain st where st: "runWithPlugins demoHost demoArgs backendPlugin backendPlugin backendPlugin 0 = Some (exitCodeSuccess, st)"
    using demo_run by blast
  have "\<not> cli_help demoOptions" "\<not> cli_verbose demoOptions" by code_simp+
  with failure_is_reported [OF st, of demoTexts] st demo_flags show ?thesis by auto
qed

text \<open>C19: the report of a refused schema is read line by line. When the keys of the methods and
  of the status words and the name of the input contain no newline, the text of
  \<open>printValidationErrors\<close> is a heading with the name and then exactly one line per error, in the
  order of \<open>Validate\<close>, whatever field types, locations and names the schema has: the messages
  quote them.\<close>

theorem validation_report_lines:
  assumes "\<forall>key\<in>fst ` set (Schema_Methods s) \<union> fst ` set (Schema_StatusWords s). newline \<notin> set key"
    and "newline \<notin> set inputBase"
  shows "splitOn newline (printValidationErrors t inputBase (Validate (Some s)))
    = (inputBase @ '': validation errors:'')
      # map (\<lambda>err. ''  '' @ VE_Path err @ '': '' @ messageText t (VE_Message err)) (Validate (Some s)) @ ['''']"
  using assms by (intro report_lines line_Validate) (auto simp: oneLine_def)

text \<open>A method whose field type is two lines and whose instruction is reserved.\<close>

definition lineSchema :: Schema where
  "lineSchema = \<lparr>Schema_Applet = \<lparr>Applet_Name = ''Demo'', Applet_Description = '''', Applet_Version = ''1.0.0'',
       Applet_AID = ''F000000101'', Applet_CLA = 0xB0, Applet_StreamWorkspace = '''', Applet_StreamWorkspaceCleanup = ''''\<rparr>,
     Schema_Methods = [(''get'', Some \<lparr>Method_Name = ''get'', Method_INS = 0x61, Method_Description = '''',
       Method_Request = None, Method_Response = Some \<lparr>Message_Fields = [\<lparr>Field_Name = ''a'',
         Field_Type = [newline], Field_Length = None, Field_FixedLength = 0, Field_MaxLength = 0, Field_ChunkSize = 0,
         Field_Location = ParameterLocationNone\<rparr>]\<rparr>, Method_StreamMode = ''''\<rparr>)],
     Schema_StatusWords = []\<rparr>"

lemma lineSchema_errors: "Validate (Some lineSchema) =
  [VError ''methods.get.ins'' (ReservedINS 0x61), VError ''methods.get.response.fields[0].type'' (UnsupportedType [newline])]"
  by code_simp

theorem validation_report_lines_witness:
  "splitOn newline (printValidationErrors demoTexts ''demo.toml'' (Validate (Some lineSchema))) =
     [''demo.toml: validation errors:'',
      ''  methods.get.ins: INS 0x61 is in reserved ISO 7816 range'',
      ''  methods.get.response.fields[0].type: unsupported field type '' @ quoteMark # backslash # ''n'' @ [quoteMark]
        @ '' (expected u8, u16, u32, bool, ascii, string, bytes, bytes[N], or stream)'',
      '''']"
proof -
  have k: "\<forall>key\<in>fst ` set (Schema_Methods lineSchema) \<union> fst ` set (Schema_StatusWords lineSchema). newline \<notin> set key"
    by (simp add: lineSchema_def)
  have q: "quoteText demoTexts [newline] = quoteMark # backslash # ''n'' @ [quoteMark]"
    by (simp add: quoteText_def Quote_def quoteBody.simps decode_rune_ascii byte_def RuneError_def
        escapedRune_def IsPrint_def quoteMark_def backslash_def)
  have hex: "hexByte 0x61 = ''0x61''" by code_simp
  show ?thesis
    by (subst validation_report_lines [OF k]) (simp_all add: lineSchema_errors q hex)
qed

section \<open>Files\<close>

text \<open>C17: the files of a run. On a host that keeps what is written, a run whose exit code is 0
  leaves every file of every selected package with exactly its content; and whatever the exit
  code, no other file changes. \<open>D\<close> is a set of names of which no two mean the same file.\<close>

theorem generated_files_stored:
  assumes "keepsFiles h content D" and "lowerKeepsSlash (host_unicode h)"
    and "reachesGeneration h args w opts s"
    and "runWithPlugins h args j sw k w = Some (c, st)"
    and "files = concat (map (packageFiles opts s) (targetList h opts s j sw k))"
  shows "(c = exitCodeSuccess \<longrightarrow> (\<forall>(path, x)\<in>set files. path \<in> D \<longrightarrow> content (run_world st) path = Some x))
    \<and> (\<forall>path\<in>D. path \<notin> fst ` set files \<longrightarrow> content (run_world st) path = content w path)"
proof -
  let ?ts = "targetList h opts s j sw k"
  obtain r where r: "osRun h w (run_events st) r (run_world st)" "r \<noteq> None \<longrightarrow> c = exitCodeIO"
    using run_executes [OF assms(4)] by blast
  obtain st0 where g: "runGeneration h opts s j sw k st0 = Some (c, st)" "run_events st0 = []"
  proof (cases rule: run_stages [of h args j sw k w])
    case (early c st)
    with assms(3) show thesis by blast
  next
    case (late opts' s' st0)
    then have "opts' = opts" "s' = s" using reachesGeneration_unique [OF assms(3)] by blast+
    with late assms(4) show thesis by (intro that [of st0]) simp_all
  qed
  obtain c' st' evs where e: "runGeneration h opts s j sw k st0 = Some (c', st')" "run_events st' = run_events st0 @ evs"
    "targetsStep opts s ?ts (if c' = exitCodeSuccess then None else Some c') evs"
    by (rule runGeneration_step)
  with g have evs: "run_events st = evs" "targetsStep opts s ?ts (codeOf c) evs" by auto
  then obtain rest where "concat (map (targetEvents opts s) ?ts) = evs @ rest"
    unfolding targetsStep_def prefix_def by blast
  then have "files = written evs @ written rest"
    using written_targets [of opts s ?ts] assms(5) by (metis written_append)
  then have sub: "set (written evs) \<subseteq> set files" by simp
  have others: "\<forall>path\<in>D. path \<notin> fst ` set files \<longrightarrow> content (run_world st) path = content w path"
    using osRun_others [OF r(1) assms(1)] sub evs(1) by blast
  have "content (run_world st) path = Some x"
    if c: "c = exitCodeSuccess" and f: "(path, x) \<in> set files" "path \<in> D" for path x
  proof -
    have w: "written evs = files"
      using evs(2) c written_targets [of opts s ?ts] assms(5) by (simp add: targetsStep_def)
    from g(1) c obtain st1 g1 where "runTargets h opts s ?ts st0 [] = Some (None, st1, g1)"
      by (cases rule: runGeneration_cases) (auto dest: targets_fail_nonzero)
    then have "\<forall>t\<in>set ?ts. target_selected t \<longrightarrow> packageWF (targetFiles s t)"
      using runTargets_accepted by blast
    from packages_distinct [OF assms(2) refl this] have "distinct (map fst files)" by (simp add: assms(5))
    moreover have "r = None" using r(2) c by auto
    ultimately show ?thesis
      using osRun_stored [OF r(1) _ assms(1), of path x] f w evs(1) by simp
  qed
  with others show ?thesis by blast
qed

text \<open>A host whose world is its files.\<close>

definition fileHost :: "(unit, string \<Rightarrow> string option) Host" where
  "fileHost = \<lparr>host_open = (\<lambda>w p. Inr ()), host_decode = (\<lambda>_. Inr (streamDemo, [])),
     host_lstat = (\<lambda>w p. NotExist), host_mkdirAll = (\<lambda>d w. (None, w)),
     host_writeFile = (\<lambda>p x w. (None, w(p \<mapsto> x))), host_unicode = demoUnicode,
     host_kotlinPackage = (\<lambda>n. ''works.relux.streamdemo'')\<rparr>"

theorem generated_files_stored_witness:
  "\<exists>st. runWithPlugins fileHost demoArgs backendPlugin backendPlugin backendPlugin Map.empty = Some (exitCodeSuccess, st)
    \<and> (\<forall>(path, x)\<in>set (concat (map (packageFiles demoOptions streamDemoSchema)
           (targetList fileHost demoOptions streamDemoSchema backendPlugin backendPlugin backendPlugin))).
         run_world st path = Some x)"
proof -
  let ?ts = "targetList fileHost demoOptions streamDemoSchema backendPlugin backendPlugin backendPlugin"
  have ts: "?ts = demoTargets" by (simp add: targetList_def fileHost_def demoHost_def)
  have "\<not> cli_help demoOptions" "\<not> cli_validateOnly demoOptions" by code_simp+
  then have reach: "reachesGeneration fileHost demoArgs Map.empty demoOptions streamDemoSchema"
    using demo_reaches [of undefined] by (simp add: reachesGeneration_def fileHost_def demoHost_def demo_flags)
  have plain: "plainHost fileHost" by (simp add: plainHost_def fileHost_def)
  obtain st where st: "runWithPlugins fileHost demoArgs backendPlugin backendPlugin backendPlugin Map.empty
      = Some (exitCodeSuccess, st)"
    using plain_host_run [OF reach plain demo_simulator refl, of backendPlugin backendPlugin backendPlugin]
      demo_selected demo_in demo_targets backendPlugin_package unfolding ts by auto
  have "keepsFiles fileHost (\<lambda>w. w) UNIV" by (simp add: keepsFiles_def fileHost_def)
  moreover have "lowerKeepsSlash (host_unicode fileHost)"
    by (simp add: lowerKeepsSlash_def fileHost_def demoUnicode_def byte_slash)
  ultimately have "\<forall>(path, x)\<in>set (concat (map (packageFiles demoOptions streamDemoSchema) ?ts)). run_world st path = Some x"
    using generated_files_stored [OF _ _ reach st refl, of "\<lambda>w. w" UNIV] by auto
  with st show ?thesis by blast
qed

end
