(* ===== verification/Go_Host.thy ===== *)
theory Go_Host
  imports Go_Errors Go_Path
begin

text \<open>
  The host of the release tools: what package os and os/exec do for them. A tool is an action
  on a session, which holds the world and the list of the operations performed so far, a
  command with the result it had; an
  action returns an error or a value, and \<open>bindA\<close> is the code's \<open>if e != nil { return e }\<close>.
  Two properties of actions are lifted through the combinators: \<open>confined P\<close>, every operation
  the action performs satisfies \<open>P\<close>, and \<open>ensures\<close>, what holds after a run without error.
\<close>

named_theorems confine \<open>introduction rules for \<open>confined\<close>\<close>

section \<open>Operations\<close>

record Cmd =
  cmd_name :: string
  cmd_args :: "string list"
  cmd_dir :: string
  cmd_env :: "string list"

text \<open>How a process ended: an exit status, a signal, or it never started.\<close>

datatype ExecStatus = Exited int | Signaled int | NotStarted GoErr

record ExecResult =
  exec_status :: ExecStatus
  exec_stdout :: string
  exec_stderr :: string
  exec_combined :: string

datatype StatResult = StatFound | StatMissing | StatFailed GoErr

datatype EntryKind = KindDir | KindRegular | KindOther

datatype DirTree = Entry string EntryKind "GoErr option" "DirTree list"

datatype HostEvent =
    RunCmd Cmd ExecResult
  | MkDir string
  | MkDirAll string
  | MkTempDir string
  | CreateTempFile string
  | WriteTo string string nat
  | RenameTo string string
  | RemoveOne string
  | RemoveTree string

record 'w Sys =
  sys_abs :: "string \<Rightarrow> (GoErr, string) result"
  sys_read :: "'w \<Rightarrow> string \<Rightarrow> (GoErr, string) result"
  sys_stat :: "'w \<Rightarrow> string \<Rightarrow> StatResult"
  sys_tree :: "'w \<Rightarrow> string \<Rightarrow> (GoErr, DirTree) result"
  sys_perm :: "'w \<Rightarrow> string \<Rightarrow> (GoErr, nat) result"
  sys_exec :: "Cmd \<Rightarrow> 'w \<Rightarrow> ExecResult \<times> 'w"
  sys_mkdir :: "string \<Rightarrow> 'w \<Rightarrow> GoErr option \<times> 'w"
  sys_mkdirAll :: "string \<Rightarrow> 'w \<Rightarrow> GoErr option \<times> 'w"
  sys_mkdirTemp :: "string \<Rightarrow> 'w \<Rightarrow> (GoErr, string) result \<times> 'w"
  sys_createTemp :: "string \<Rightarrow> string \<Rightarrow> 'w \<Rightarrow> (GoErr, string) result \<times> 'w"
  sys_write :: "string \<Rightarrow> string \<Rightarrow> nat \<Rightarrow> 'w \<Rightarrow> GoErr option \<times> 'w"
  sys_rename :: "string \<Rightarrow> string \<Rightarrow> 'w \<Rightarrow> GoErr option \<times> 'w"
  sys_remove :: "string \<Rightarrow> 'w \<Rightarrow> 'w"
  sys_removeAll :: "string \<Rightarrow> 'w \<Rightarrow> 'w"

record 'w Ses =
  ses_events :: "HostEvent list"
  ses_world :: 'w

type_synonym ('w, 'e, 'a) act = "'w Ses \<Rightarrow> ('e, 'a) result \<times> 'w Ses"

text \<open>\<open>filepath.Join\<close> of several elements.\<close>

definition JoinAll :: "string list \<Rightarrow> string" where
  "JoinAll ps = (case dropWhile (\<lambda>p. p = '''') ps of [] \<Rightarrow> '''' | q # qs \<Rightarrow> Clean (joinWith slash (q # qs)))"

section \<open>Actions\<close>

definition retA :: "'a \<Rightarrow> ('w, 'e, 'a) act" where
  "retA x st = (Inr x, st)"

definition failA :: "'e \<Rightarrow> ('w, 'e, 'a) act" where
  "failA e st = (Inl e, st)"

definition bindA :: "('w, 'e, 'a) act \<Rightarrow> ('a \<Rightarrow> ('w, 'e, 'b) act) \<Rightarrow> ('w, 'e, 'b) act" where
  "bindA m f st = (case m st of (Inl e, st') \<Rightarrow> (Inl e, st') | (Inr x, st') \<Rightarrow> f x st')"

definition thenA :: "('w, 'e, 'a) act \<Rightarrow> ('w, 'e, 'b) act \<Rightarrow> ('w, 'e, 'b) act" where
  "thenA m n = bindA m (\<lambda>_. n)"

definition requireA :: "bool \<Rightarrow> 'e \<Rightarrow> ('w, 'e, unit) act" where
  "requireA b e = (if b then retA () else failA e)"

definition liftA :: "('e, 'a) result \<Rightarrow> ('w, 'e, 'a) act" where
  "liftA r st = (r, st)"

definition errorA :: "('d \<Rightarrow> 'e) \<Rightarrow> ('w, 'd, 'a) act \<Rightarrow> ('w, 'e, 'a) act" where
  "errorA g m st = (case m st of (Inl d, st') \<Rightarrow> (Inl (g d), st') | (Inr x, st') \<Rightarrow> (Inr x, st'))"

text \<open>A deferred cleanup runs whatever the result is.\<close>

definition deferA :: "('w Ses \<Rightarrow> 'w Ses) \<Rightarrow> ('w, 'e, 'a) act \<Rightarrow> ('w, 'e, 'a) act" where
  "deferA fin m st = (case m st of (r, st') \<Rightarrow> (r, fin st'))"

text \<open>A read of the world, and an operation that is recorded.\<close>

definition lookA :: "('w \<Rightarrow> ('e, 'a) result) \<Rightarrow> ('w, 'e, 'a) act" where
  "lookA f st = (f (ses_world st), st)"

definition stepA :: "('r \<Rightarrow> HostEvent list) \<Rightarrow> ('w \<Rightarrow> 'r \<times> 'w) \<Rightarrow> 'w Ses \<Rightarrow> 'r \<times> 'w Ses" where
  "stepA ev f st = (case f (ses_world st) of (r, w) \<Rightarrow>
     (r, st\<lparr>ses_events := ses_events st @ ev r, ses_world := w\<rparr>))"

definition unitResult :: "GoErr option \<Rightarrow> (GoErr, unit) result" where
  "unitResult r = (case r of None \<Rightarrow> Inr () | Some e \<Rightarrow> Inl e)"

definition opA :: "HostEvent \<Rightarrow> ('w \<Rightarrow> GoErr option \<times> 'w) \<Rightarrow> ('w, GoErr, unit) act" where
  "opA ev f st = (case stepA (\<lambda>_. [ev]) f st of (r, st') \<Rightarrow> (unitResult r, st'))"

definition execA :: "'w Sys \<Rightarrow> Cmd \<Rightarrow> ('w, 'e, ExecResult) act" where
  "execA h c st = (case stepA (\<lambda>r. [RunCmd c r]) (sys_exec h c) st of (r, st') \<Rightarrow> (Inr r, st'))"

definition newA :: "(string \<Rightarrow> HostEvent) \<Rightarrow> ('w \<Rightarrow> (GoErr, string) result \<times> 'w) \<Rightarrow> ('w, GoErr, string) act" where
  "newA ev f st = stepA (\<lambda>r. case r of Inl _ \<Rightarrow> [] | Inr p \<Rightarrow> [ev p]) f st"

definition removeAllF :: "'w Sys \<Rightarrow> string \<Rightarrow> 'w Ses \<Rightarrow> 'w Ses" where
  "removeAllF h p st = st\<lparr>ses_events := ses_events st @ [RemoveTree p], ses_world := sys_removeAll h p (ses_world st)\<rparr>"

definition removeF :: "'w Sys \<Rightarrow> string \<Rightarrow> 'w Ses \<Rightarrow> 'w Ses" where
  "removeF h p st = st\<lparr>ses_events := ses_events st @ [RemoveOne p], ses_world := sys_remove h p (ses_world st)\<rparr>"

definition readA :: "'w Sys \<Rightarrow> string \<Rightarrow> ('w, GoErr, string) act" where
  "readA h p = lookA (\<lambda>w. sys_read h w p)"

definition mkdirA :: "'w Sys \<Rightarrow> string \<Rightarrow> ('w, GoErr, unit) act" where
  "mkdirA h p = opA (MkDir p) (sys_mkdir h p)"

definition mkdirAllA :: "'w Sys \<Rightarrow> string \<Rightarrow> ('w, GoErr, unit) act" where
  "mkdirAllA h p = opA (MkDirAll p) (sys_mkdirAll h p)"

definition mkdirTempA :: "'w Sys \<Rightarrow> string \<Rightarrow> ('w, GoErr, string) act" where
  "mkdirTempA h pat = newA MkTempDir (sys_mkdirTemp h pat)"

definition createTempA :: "'w Sys \<Rightarrow> string \<Rightarrow> string \<Rightarrow> ('w, GoErr, string) act" where
  "createTempA h dir pat = newA CreateTempFile (sys_createTemp h dir pat)"

definition writeA :: "'w Sys \<Rightarrow> string \<Rightarrow> string \<Rightarrow> nat \<Rightarrow> ('w, GoErr, unit) act" where
  "writeA h p d mode = opA (WriteTo p d mode) (sys_write h p d mode)"

definition renameA :: "'w Sys \<Rightarrow> string \<Rightarrow> string \<Rightarrow> ('w, GoErr, unit) act" where
  "renameA h p q = opA (RenameTo p q) (sys_rename h p q)"

text \<open>A loop that stops at the first error.\<close>

fun forA :: "('a \<Rightarrow> ('w, 'e, unit) act) \<Rightarrow> 'a list \<Rightarrow> ('w, 'e, unit) act" where
  "forA f [] = retA ()"
| "forA f (x # xs) = thenA (f x) (forA f xs)"

text \<open>A loop that carries a value.\<close>

fun foldA :: "('a \<Rightarrow> 's \<Rightarrow> ('w, 'e, 's) act) \<Rightarrow> 'a list \<Rightarrow> 's \<Rightarrow> ('w, 'e, 's) act" where
  "foldA f [] s = retA s"
| "foldA f (x # xs) s = bindA (f x s) (foldA f xs)"

end
