(* ===== verification/Host_Logic.thy ===== *)
theory Host_Logic
  imports Go_Host
begin

text \<open>
  Reasoning about actions on the host: when a composed action succeeds, which operations an
  action can perform at all (\<open>confined\<close>), and facts about what happened that survive further
  operations (the recorded operations only grow).
\<close>

named_theorems act_simps \<open>success and failure of actions\<close>

section \<open>Success and failure\<close>

lemma retA_iff [act_simps]: "retA x st = (r, st') \<longleftrightarrow> r = Inr x \<and> st' = st"
  by (auto simp: retA_def)

lemma failA_iff [act_simps]: "failA e st = (r, st') \<longleftrightarrow> r = Inl e \<and> st' = st"
  by (auto simp: failA_def)

lemma liftA_iff [act_simps]: "liftA x st = (r, st') \<longleftrightarrow> r = x \<and> st' = st"
  by (auto simp: liftA_def)

lemma lookA_iff [act_simps]: "lookA f st = (r, st') \<longleftrightarrow> r = f (ses_world st) \<and> st' = st"
  by (auto simp: lookA_def)

lemma readA_iff [act_simps]: "readA h p st = (r, st') \<longleftrightarrow> r = sys_read h (ses_world st) p \<and> st' = st"
  by (auto simp: readA_def act_simps)

lemma bindA_Inr [act_simps]:
  "bindA m f st = (Inr y, st'') \<longleftrightarrow> (\<exists>x st'. m st = (Inr x, st') \<and> f x st' = (Inr y, st''))"
  by (auto simp: bindA_def split: prod.split sum.split)

lemma bindA_Inl [act_simps]:
  "bindA m f st = (Inl e, st'') \<longleftrightarrow>
     m st = (Inl e, st'') \<or> (\<exists>x st'. m st = (Inr x, st') \<and> f x st' = (Inl e, st''))"
  by (auto simp: bindA_def split: prod.split sum.split)

lemma thenA_Inr [act_simps]:
  "thenA m n st = (Inr y, st'') \<longleftrightarrow> (\<exists>x st'. m st = (Inr x, st') \<and> n st' = (Inr y, st''))"
  by (simp add: thenA_def act_simps)

lemma thenA_Inl [act_simps]:
  "thenA m n st = (Inl e, st'') \<longleftrightarrow>
     m st = (Inl e, st'') \<or> (\<exists>x st'. m st = (Inr x, st') \<and> n st' = (Inl e, st''))"
  by (simp add: thenA_def act_simps)

lemma requireA_Inr [act_simps]: "requireA b e st = (Inr u, st') \<longleftrightarrow> b \<and> st' = st"
  by (simp add: requireA_def act_simps eq_commute)

lemma requireA_Inl [act_simps]: "requireA b e st = (Inl d, st') \<longleftrightarrow> \<not> b \<and> d = e \<and> st' = st"
  by (auto simp: requireA_def act_simps)

lemma errorA_Inr [act_simps]: "errorA g m st = (Inr y, st') \<longleftrightarrow> m st = (Inr y, st')"
  by (auto simp: errorA_def split: prod.split sum.split)

lemma errorA_Inl [act_simps]: "errorA g m st = (Inl e, st') \<longleftrightarrow> (\<exists>d. m st = (Inl d, st') \<and> e = g d)"
  by (auto simp: errorA_def split: prod.split sum.split)

lemma deferA_iff [act_simps]: "deferA fin m st = (r, st'') \<longleftrightarrow> (\<exists>st'. m st = (r, st') \<and> st'' = fin st')"
  by (auto simp: deferA_def split: prod.split)

lemma forA_Cons_Inr:
  "forA f (x # xs) st = (Inr u, st'') \<longleftrightarrow> (\<exists>v st'. f x st = (Inr v, st') \<and> forA f xs st' = (Inr u, st''))"
  by (simp add: act_simps)

section \<open>Which operations an action performs\<close>

definition confined :: "(HostEvent \<Rightarrow> bool) \<Rightarrow> ('w, 'e, 'a) act \<Rightarrow> bool" where
  "confined P m \<longleftrightarrow>
     (\<forall>st. \<exists>es. ses_events (snd (m st)) = ses_events st @ es \<and> list_all P es)"

lemma confinedD:
  "confined P m \<Longrightarrow> m st = (r, st') \<Longrightarrow> \<exists>es. ses_events st' = ses_events st @ es \<and> list_all P es"
  unfolding confined_def by (metis snd_conv)

lemma confinedI:
  "(\<And>st r st'. m st = (r, st') \<Longrightarrow> \<exists>es. ses_events st' = ses_events st @ es \<and> list_all P es)
   \<Longrightarrow> confined P m"
  unfolding confined_def by (metis prod.collapse)

lemma confined_mono: "confined P m \<Longrightarrow> (\<And>e. P e \<Longrightarrow> Q e) \<Longrightarrow> confined Q m"
  unfolding confined_def by (meson list.pred_mono_strong)

lemma confined_still: "(\<And>st. ses_events (snd (m st)) = ses_events st) \<Longrightarrow> confined P m"
  unfolding confined_def by simp

lemma confined_ret [confine]: "confined P (retA x)"
  and confined_fail [confine]: "confined P (failA e)"
  and confined_lift [confine]: "confined P (liftA r)"
  and confined_look [confine]: "confined P (lookA f)"
  by (simp_all add: confined_still retA_def failA_def liftA_def lookA_def)

lemma confined_read [confine]: "confined P (readA h p)"
  by (simp add: readA_def confine)

lemma confined_require [confine]: "confined P (requireA b e)"
  by (simp add: requireA_def confine)

lemma confined_bind [confine]: "confined P m \<Longrightarrow> (\<And>x. confined P (f x)) \<Longrightarrow> confined P (bindA m f)"
proof (rule confinedI)
  fix st r st''
  assume m: "confined P m" and f: "\<And>x. confined P (f x)" and run: "bindA m f st = (r, st'')"
  obtain q st' where q: "m st = (q, st')" by (cases "m st")
  obtain es where es: "ses_events st' = ses_events st @ es" "list_all P es"
    using confinedD [OF m q] by blast
  show "\<exists>es. ses_events st'' = ses_events st @ es \<and> list_all P es"
  proof (cases q)
    case (Inl e)
    then show ?thesis using run q es by (auto simp: bindA_def)
  next
    case (Inr x)
    then have "f x st' = (r, st'')" using run q by (simp add: bindA_def)
    then obtain fs where "ses_events st'' = ses_events st' @ fs" "list_all P fs"
      using confinedD [OF f] by blast
    then show ?thesis using es by auto
  qed
qed

lemma confined_then [confine]: "confined P m \<Longrightarrow> confined P n \<Longrightarrow> confined P (thenA m n)"
  by (simp add: thenA_def confine)

lemma confined_error [confine]: "confined P m \<Longrightarrow> confined P (errorA g m)"
  by (rule confinedI) (auto simp: errorA_def split: prod.splits sum.splits dest: confinedD)

lemma confined_if [confine]: "confined P m \<Longrightarrow> confined P n \<Longrightarrow> confined P (if b then m else n)"
  by simp

lemma confined_for [confine]: "(\<And>x. x \<in> set xs \<Longrightarrow> confined P (f x)) \<Longrightarrow> confined P (forA f xs)"
  by (induction xs) (simp_all add: confine)

lemma confined_fold [confine]:
  "(\<And>x s. x \<in> set xs \<Longrightarrow> confined P (f x s)) \<Longrightarrow> confined P (foldA f xs s)"
proof (induction xs arbitrary: s)
  case (Cons x xs)
  have "confined P (f x s)" using Cons.prems by simp
  moreover have "confined P (foldA f xs t)" for t using Cons.IH Cons.prems by simp
  ultimately show ?case by (simp add: confine)
qed (simp add: confine)

lemma confined_op: "P ev \<Longrightarrow> confined P (opA ev f)"
  by (rule confinedI) (auto simp: opA_def stepA_def split: prod.splits)

lemma confined_exec [confine]: "(\<And>r. P (RunCmd c r)) \<Longrightarrow> confined P (execA h c)"
  by (rule confinedI) (auto simp: execA_def stepA_def split: prod.splits)

lemma confined_new: "(\<And>p. P (ev p)) \<Longrightarrow> confined P (newA ev f)"
  by (rule confinedI) (auto simp: newA_def stepA_def split: prod.splits sum.splits)

lemma confined_mkdir [confine]: "P (MkDir p) \<Longrightarrow> confined P (mkdirA h p)"
  and confined_mkdirAll [confine]: "P (MkDirAll p) \<Longrightarrow> confined P (mkdirAllA h p)"
  and confined_write [confine]: "P (WriteTo p d m) \<Longrightarrow> confined P (writeA h p d m)"
  and confined_rename [confine]: "P (RenameTo p q) \<Longrightarrow> confined P (renameA h p q)"
  by (simp_all add: mkdirA_def mkdirAllA_def writeA_def renameA_def confined_op)

lemma confined_mkdirTemp [confine]: "(\<And>p. P (MkTempDir p)) \<Longrightarrow> confined P (mkdirTempA h pat)"
  and confined_createTemp [confine]: "(\<And>p. P (CreateTempFile p)) \<Longrightarrow> confined P (createTempA h dir pat)"
  by (simp_all add: mkdirTempA_def createTempA_def confined_new)

lemma confined_defer_removeAll [confine]:
  "confined P m \<Longrightarrow> P (RemoveTree p) \<Longrightarrow> confined P (deferA (removeAllF h p) m)"
  by (rule confinedI) (fastforce simp: deferA_def removeAllF_def split: prod.splits dest: confinedD)

lemma confined_defer_remove [confine]:
  "confined P m \<Longrightarrow> P (RemoveOne p) \<Longrightarrow> confined P (deferA (removeF h p) m)"
  by (rule confinedI) (fastforce simp: deferA_def removeF_def split: prod.splits dest: confinedD)

section \<open>What has happened stays recorded\<close>

lemma events_grow: "confined P m \<Longrightarrow> m st = (r, st') \<Longrightarrow> set (ses_events st) \<subseteq> set (ses_events st')"
  by (auto dest: confinedD)

lemma defer_removeAll_last:
  "deferA (removeAllF h p) m st = (r, st') \<Longrightarrow> last (ses_events st') = RemoveTree p \<and> ses_events st' \<noteq> []"
  by (auto simp: act_simps removeAllF_def)

text \<open>The recorded operation of one step.\<close>

lemma execA_events:
  "execA h c st = (r, st') \<Longrightarrow> ses_events st' = ses_events st @ [RunCmd c (fst (sys_exec h c (ses_world st)))]
     \<and> r = Inr (fst (sys_exec h c (ses_world st))) \<and> ses_world st' = snd (sys_exec h c (ses_world st))"
  by (auto simp: execA_def stepA_def split: prod.splits)

lemma opA_events:
  "opA ev f st = (r, st') \<Longrightarrow> ses_events st' = ses_events st @ [ev]
     \<and> r = unitResult (fst (f (ses_world st))) \<and> ses_world st' = snd (f (ses_world st))"
  by (auto simp: opA_def stepA_def split: prod.splits)

lemma newA_events:
  "newA ev f st = (Inr p, st') \<Longrightarrow> ses_events st' = ses_events st @ [ev p]
     \<and> fst (f (ses_world st)) = Inr p \<and> ses_world st' = snd (f (ses_world st))"
  "newA ev f st = (Inl e, st') \<Longrightarrow> ses_events st' = ses_events st
     \<and> fst (f (ses_world st)) = Inl e \<and> ses_world st' = snd (f (ses_world st))"
  by (auto simp: newA_def stepA_def split: prod.splits sum.splits)

end
