(* ===== verification/Host_Scope.thy ===== *)
theory Host_Scope
  imports Host_Logic
begin

text \<open>
  Two more properties of actions. \<open>scopedTemp P\<close>: a temporary directory the action makes is
  removed by its last operation, and all its other operations satisfy \<open>P\<close>. \<open>oblivious\<close>: the
  record of operations is a ghost, no action looks at it.
\<close>

named_theorems oblivion \<open>introduction rules for \<open>oblivious\<close>\<close>

section \<open>Temporary directories\<close>

text \<open>\<open>P None\<close> is what may happen outside the life of the directory, \<open>P (Some d)\<close> what may happen
  while the directory \<open>d\<close> exists.\<close>

definition tidyTrace :: "(string option \<Rightarrow> HostEvent \<Rightarrow> bool) \<Rightarrow> HostEvent list \<Rightarrow> bool" where
  "tidyTrace P es \<longleftrightarrow> list_all (P None) es
     \<or> (\<exists>as d bs. es = as @ MkTempDir d # bs @ [RemoveTree d] \<and> list_all (P None) as \<and> list_all (P (Some d)) bs)"

definition scopedTemp :: "(string option \<Rightarrow> HostEvent \<Rightarrow> bool) \<Rightarrow> ('w, 'e, 'a) act \<Rightarrow> bool" where
  "scopedTemp P m \<longleftrightarrow> (\<forall>st. \<exists>es. ses_events (snd (m st)) = ses_events st @ es \<and> tidyTrace P es)"

lemma tidyTrace_append: "list_all (P None) as \<Longrightarrow> tidyTrace P bs \<Longrightarrow> tidyTrace P (as @ bs)"
  unfolding tidyTrace_def by (metis append.assoc list_all_append)

lemma scopedTemp_confined: "confined (P None) m \<Longrightarrow> scopedTemp P m"
  unfolding scopedTemp_def confined_def tidyTrace_def by blast

lemma scopedTempD:
  "scopedTemp P m \<Longrightarrow> m st = (r, st') \<Longrightarrow> \<exists>es. ses_events st' = ses_events st @ es \<and> tidyTrace P es"
  unfolding scopedTemp_def by (metis snd_conv)

lemma scopedTemp_bind:
  assumes m: "confined (P None) m" and f: "\<And>x. scopedTemp P (f x)"
  shows "scopedTemp P (bindA m f)"
  unfolding scopedTemp_def
proof
  fix st
  obtain q st' where q: "m st = (q, st')" by (cases "m st")
  obtain es where es: "ses_events st' = ses_events st @ es" "list_all (P None) es"
    using confinedD [OF m q] by blast
  show "\<exists>es. ses_events (snd (bindA m f st)) = ses_events st @ es \<and> tidyTrace P es"
  proof (cases q)
    case (Inl e)
    then show ?thesis using q es by (auto simp: bindA_def tidyTrace_def)
  next
    case (Inr x)
    obtain fs where "ses_events (snd (f x st')) = ses_events st' @ fs" "tidyTrace P fs"
      using f unfolding scopedTemp_def by blast
    then show ?thesis using q es Inr by (auto simp: bindA_def intro!: tidyTrace_append)
  qed
qed

lemma scopedTemp_then: "confined (P None) m \<Longrightarrow> scopedTemp P n \<Longrightarrow> scopedTemp P (thenA m n)"
  by (simp add: thenA_def scopedTemp_bind)

lemma mkdirTemp_quiet:
  "errorA g (mkdirTempA h pat) st = (Inl e, st') \<Longrightarrow> ses_events st' = ses_events st"
  "errorA g (mkdirTempA h pat) st = (Inr d, st') \<Longrightarrow> ses_events st' = ses_events st @ [MkTempDir d]"
  by (auto simp: act_simps mkdirTempA_def dest: newA_events)

lemma scopedTemp_new:
  assumes mk: "\<And>st e st'. new st = (Inl e, st') \<Longrightarrow> ses_events st' = ses_events st"
      "\<And>st d st'. new st = (Inr d, st') \<Longrightarrow> ses_events st' = ses_events st @ [MkTempDir d]"
    and body: "\<And>d. confined (P (Some d)) (body d)"
  shows "scopedTemp P (bindA new (\<lambda>d. deferA (removeAllF h d) (body d)))"
  unfolding scopedTemp_def
proof
  fix st
  obtain q st' where q: "new st = (q, st')" by (cases "new st")
  show "\<exists>es. ses_events (snd (bindA new (\<lambda>d. deferA (removeAllF h d) (body d)) st)) = ses_events st @ es
      \<and> tidyTrace P es"
  proof (cases q)
    case (Inl e)
    then show ?thesis using q mk(1) by (auto simp: bindA_def tidyTrace_def)
  next
    case (Inr d)
    obtain r st'' where b: "body d st' = (r, st'')" by (cases "body d st'")
    obtain bs where bs: "ses_events st'' = ses_events st' @ bs" "list_all (P (Some d)) bs"
      using confinedD [OF body b] by blast
    have "tidyTrace P (MkTempDir d # bs @ [RemoveTree d])"
      unfolding tidyTrace_def using bs(2) by (metis append_Nil list.pred_inject(1))
    then show ?thesis
      using q Inr mk(2) bs(1) b by (auto simp: bindA_def deferA_def removeAllF_def)
  qed
qed

lemmas scopedTemp_defer = scopedTemp_new [OF mkdirTemp_quiet]

section \<open>Obliviousness\<close>

definition oblivious :: "('w, 'e, 'a) act \<Rightarrow> bool" where
  "oblivious m \<longleftrightarrow> (\<forall>s t. ses_world s = ses_world t \<longrightarrow>
     fst (m s) = fst (m t) \<and> ses_world (snd (m s)) = ses_world (snd (m t)))"

lemma obliviousD:
  "oblivious m \<Longrightarrow> m s = (r, s') \<Longrightarrow> m t = (q, t') \<Longrightarrow> ses_world s = ses_world t \<Longrightarrow>
     r = q \<and> ses_world s' = ses_world t'"
  unfolding oblivious_def by (metis fst_conv snd_conv)

lemma oblivious_basic [oblivion]:
  "oblivious (retA x)" "oblivious (failA e)" "oblivious (liftA r)" "oblivious (lookA look)"
  "oblivious (readA h p)" "oblivious (requireA b e)" "oblivious (execA h c)"
  "oblivious (mkdirTempA h pat)" "oblivious (createTempA h dir pat)" "oblivious (opA ev f)"
  "oblivious (mkdirA h p)" "oblivious (mkdirAllA h p)" "oblivious (writeA h p d m)" "oblivious (renameA h p q)"
  by (auto simp: oblivious_def retA_def failA_def liftA_def lookA_def readA_def requireA_def execA_def
      mkdirTempA_def createTempA_def newA_def opA_def mkdirA_def mkdirAllA_def writeA_def renameA_def stepA_def
      split: prod.splits)

lemma obliviousI:
  "(\<And>s t r s' q t'. m s = (r, s') \<Longrightarrow> m t = (q, t') \<Longrightarrow> ses_world s = ses_world t \<Longrightarrow>
     r = q \<and> ses_world s' = ses_world t') \<Longrightarrow> oblivious m"
  unfolding oblivious_def by (metis prod.collapse)

lemma oblivious_bind [oblivion]:
  assumes m: "oblivious m" and f: "\<And>x. oblivious (f x)"
  shows "oblivious (bindA m f)"
proof (rule obliviousI)
  fix s t r s'' q t''
  assume runs: "bindA m f s = (r, s'')" "bindA m f t = (q, t'')" and w: "ses_world s = ses_world t"
  obtain a s' where s: "m s = (a, s')" by (cases "m s")
  obtain b t' where t: "m t = (b, t')" by (cases "m t")
  have ab: "a = b" "ses_world s' = ses_world t'" using obliviousD [OF m s t w] by simp_all
  show "r = q \<and> ses_world s'' = ses_world t''"
  proof (cases b)
    case (Inl e)
    then show ?thesis using runs s t ab by (auto simp: bindA_def)
  next
    case (Inr x)
    then have "f x s' = (r, s'')" "f x t' = (q, t'')" using runs s t ab by (simp_all add: bindA_def)
    then show ?thesis using obliviousD [OF f] ab by blast
  qed
qed

lemma oblivious_then [oblivion]: "oblivious m \<Longrightarrow> oblivious n \<Longrightarrow> oblivious (thenA m n)"
  by (simp add: thenA_def oblivion)

lemma oblivious_error [oblivion]: "oblivious m \<Longrightarrow> oblivious (errorA g m)"
  by (rule obliviousI) (auto simp: errorA_def split: prod.splits sum.splits dest: obliviousD)

lemma oblivious_if [oblivion]: "oblivious m \<Longrightarrow> oblivious n \<Longrightarrow> oblivious (if b then m else n)"
  by simp

lemma oblivious_defer:
  assumes m: "oblivious m" and fin: "\<And>s t. ses_world s = ses_world t \<Longrightarrow> ses_world (fin s) = ses_world (fin t)"
  shows "oblivious (deferA fin m)"
proof (rule obliviousI)
  fix s t r s'' q t''
  assume "deferA fin m s = (r, s'')" "deferA fin m t = (q, t'')" and w: "ses_world s = ses_world t"
  then obtain s' t' where "m s = (r, s')" "s'' = fin s'" "m t = (q, t')" "t'' = fin t'"
    unfolding deferA_iff by blast
  then show "r = q \<and> ses_world s'' = ses_world t''" using obliviousD [OF m _ _ w] fin by blast
qed

lemma oblivious_defer_remove [oblivion]:
  "oblivious m \<Longrightarrow> oblivious (deferA (removeAllF h d) m)"
  "oblivious m \<Longrightarrow> oblivious (deferA (removeF h d) m)"
  by (simp_all add: oblivious_defer removeAllF_def removeF_def)

lemma oblivious_for [oblivion]: "(\<And>x. x \<in> set xs \<Longrightarrow> oblivious (f x)) \<Longrightarrow> oblivious (forA f xs)"
  by (induction xs) (simp_all add: oblivion)

section \<open>Loops of steps that leave the world alone\<close>

text \<open>When every step of a loop is decided by the world and leaves it unchanged, the loop succeeds
  exactly when every step does, so its verdict does not depend on the order.\<close>

definition decidedBy :: "'w \<Rightarrow> ('w, 'e, unit) act \<Rightarrow> bool \<Rightarrow> bool" where
  "decidedBy w m ok \<longleftrightarrow> (\<forall>st. ses_world st = w \<longrightarrow>
     (if ok then \<exists>st'. m st = (Inr (), st') \<and> ses_world st' = w else \<exists>e st'. m st = (Inl e, st')))"

lemma decidedBy_for:
  "(\<And>x. x \<in> set xs \<Longrightarrow> decidedBy w (f x) (ok x)) \<Longrightarrow> decidedBy w (forA f xs) (list_all ok xs)"
proof (induction xs)
  case Nil
  then show ?case by (simp add: decidedBy_def retA_def)
next
  case (Cons x xs)
  then have 1: "decidedBy w (f x) (ok x)" and 2: "decidedBy w (forA f xs) (list_all ok xs)" by simp_all
  show ?case
    unfolding decidedBy_def
  proof (intro allI impI)
    fix st :: "'b Ses"
    assume st: "ses_world st = w"
    show "if list_all ok (x # xs) then \<exists>st'. forA f (x # xs) st = (Inr (), st') \<and> ses_world st' = w
          else \<exists>e st'. forA f (x # xs) st = (Inl e, st')"
    proof (cases "ok x")
      case True
      then obtain st' where "f x st = (Inr (), st')" "ses_world st' = w"
        using 1 st unfolding decidedBy_def by (metis (full_types))
      then show ?thesis using 2 True unfolding decidedBy_def by (simp add: thenA_def bindA_def)
    next
      case False
      then obtain e st' where "f x st = (Inl e, st')"
        using 1 st unfolding decidedBy_def by (metis (full_types))
      then show ?thesis using False by (simp add: thenA_def bindA_def)
    qed
  qed
qed

lemma decidedBy_ok: "decidedBy w m True \<Longrightarrow> ses_world st = w \<Longrightarrow> \<exists>s. m st = (Inr (), s) \<and> ses_world s = w"
  by (simp add: decidedBy_def)

lemma decidedBy_not: "decidedBy w m False \<Longrightarrow> ses_world st = w \<Longrightarrow> \<exists>e s. m st = (Inl e, s)"
  by (simp add: decidedBy_def)

lemma decidedBy_swap:
  assumes "decidedBy w m ok" "decidedBy w n ok" and rest: "oblivious rest" and "ses_world st = w"
  shows "isl (fst (thenA m rest st)) = isl (fst (thenA n rest st))
    \<and> (isl (fst (thenA m rest st)) \<or> ses_world (snd (thenA m rest st)) = ses_world (snd (thenA n rest st)))"
proof (cases ok)
  case True
  obtain s t where s: "m st = (Inr (), s)" "n st = (Inr (), t)" and w: "ses_world s = ses_world t"
    using decidedBy_ok [of w m st] decidedBy_ok [of w n st] assms True by auto
  have "fst (rest s) = fst (rest t) \<and> ses_world (snd (rest s)) = ses_world (snd (rest t))"
    using rest w unfolding oblivious_def by blast
  then show ?thesis by (simp add: thenA_def bindA_def s)
next
  case False
  obtain s t e d where "m st = (Inl e, s)" "n st = (Inl d, t)"
    using decidedBy_not [of w m st] decidedBy_not [of w n st] assms False by auto
  then show ?thesis by (simp add: thenA_def bindA_def)
qed

section \<open>Scripted hosts\<close>

text \<open>A host for concrete runs: reads, directory trees and command answers are given, and every
  change succeeds without a trace in the world.\<close>

definition scriptedSys :: "(string \<Rightarrow> (GoErr, string) result) \<Rightarrow> (string \<Rightarrow> (GoErr, DirTree) result) \<Rightarrow>
    (Cmd \<Rightarrow> 'w \<Rightarrow> ExecResult \<times> 'w) \<Rightarrow> 'w Sys" where
  "scriptedSys files trees answers =
     \<lparr>sys_abs = (\<lambda>p. Inr p), sys_read = (\<lambda>_. files), sys_stat = (\<lambda>_ _. StatFound), sys_tree = (\<lambda>_. trees),
      sys_perm = (\<lambda>_ _. Inr 420), sys_exec = answers, sys_mkdir = (\<lambda>_ w. (None, w)),
      sys_mkdirAll = (\<lambda>_ w. (None, w)), sys_mkdirTemp = (\<lambda>pat w. (Inr (''/tmp/'' @ pat), w)),
      sys_createTemp = (\<lambda>dir pat w. (Inr (dir @ ''/'' @ pat), w)), sys_write = (\<lambda>_ _ _ w. (None, w)),
      sys_rename = (\<lambda>_ _ w. (None, w)), sys_remove = (\<lambda>_ w. w), sys_removeAll = (\<lambda>_ w. w)\<rparr>"

definition always :: "(Cmd \<Rightarrow> ExecResult) \<Rightarrow> Cmd \<Rightarrow> 'w \<Rightarrow> ExecResult \<times> 'w" where
  "always f c w = (f c, w)"

definition startSes :: "'w \<Rightarrow> 'w Ses" where
  "startSes w = \<lparr>ses_events = [], ses_world = w\<rparr>"

definition answer :: "int \<Rightarrow> string \<Rightarrow> ExecResult" where
  "answer code out = \<lparr>exec_status = Exited code, exec_stdout = out, exec_stderr = [], exec_combined = out\<rparr>"

end
