(* ===== verification/Go_Walk.thy ===== *)
theory Go_Walk
  imports Host_Scope
begin

text \<open>
  \<open>filepath.WalkDir\<close> over the directory tree of the host, as parity, compat and mutants use it.
  The tree is the one of the moment the walk starts (no callback of the code changes the tree it
  walks). A callback continues or skips with a new value of the variables it captures, or fails.
  The interface of a callback that only collects is the locale \<open>collecting_walk\<close>: the walk is
  then the pure function \<open>gather\<close> of the world.
\<close>

section \<open>The walk\<close>

datatype 's WalkStep = Continue 's | Skip 's

type_synonym ('w, 'e, 's) callback =
  "string \<Rightarrow> DirTree option \<Rightarrow> GoErr option \<Rightarrow> 's \<Rightarrow> ('w, 'e, 's WalkStep) act"

fun entryName :: "DirTree \<Rightarrow> string" where
  "entryName (Entry n k e cs) = n"

fun entryKind :: "DirTree \<Rightarrow> EntryKind" where
  "entryKind (Entry n k e cs) = k"

fun stepValue :: "'s WalkStep \<Rightarrow> 's" where
  "stepValue (Continue s) = s"
| "stepValue (Skip s) = s"

text \<open>A skip of a directory ends with the directory, a skip of another entry ends the directory
  it is in.\<close>

fun walkEntry :: "('w, 'e, 's) callback \<Rightarrow> string \<Rightarrow> DirTree \<Rightarrow> 's \<Rightarrow> ('w, 'e, 's WalkStep) act"
  and walkEntries :: "('w, 'e, 's) callback \<Rightarrow> string \<Rightarrow> DirTree list \<Rightarrow> 's \<Rightarrow> ('w, 'e, 's WalkStep) act" where
  "walkEntry cb path (Entry n k err cs) s =
     bindA (cb path (Some (Entry n k err cs)) None s) (\<lambda>step.
       case step of
         Skip s' \<Rightarrow> retA (if k = KindDir then Continue s' else Skip s')
       | Continue s' \<Rightarrow>
           if k \<noteq> KindDir then retA (Continue s')
           else bindA (case err of None \<Rightarrow> retA (Continue s')
                       | Some e \<Rightarrow> cb path (Some (Entry n k err cs)) (Some e) s') (\<lambda>step'.
             case step' of
               Skip s'' \<Rightarrow> retA (Continue s'')
             | Continue s'' \<Rightarrow> walkEntries cb path cs s''))"
| "walkEntries cb path [] s = retA (Continue s)"
| "walkEntries cb path (c # cs) s =
     bindA (walkEntry cb (PathJoin path (entryName c)) c s) (\<lambda>step.
       case step of
         Skip s' \<Rightarrow> retA (Continue s')
       | Continue s' \<Rightarrow> walkEntries cb path cs s')"

definition WalkDir :: "'w Sys \<Rightarrow> ('w, 'e, 's) callback \<Rightarrow> string \<Rightarrow> 's \<Rightarrow> ('w, 'e, 's) act" where
  "WalkDir h cb root s =
     bindA (lookA (\<lambda>w. Inr (sys_tree h w root))) (\<lambda>tree.
     bindA (case tree of Inl e \<Rightarrow> cb root None (Some e) s | Inr d \<Rightarrow> walkEntry cb root d s) (\<lambda>step.
       retA (stepValue step)))"

lemma tree_induct [case_names Entry None_left Next]:
  assumes E: "\<And>n k err cs. Q cs \<Longrightarrow> P (Entry n k err cs)" and N: "Q []"
    and C: "\<And>d ds. P d \<Longrightarrow> Q ds \<Longrightarrow> Q (d # ds)"
  shows "P d" and "Q ds"
proof -
  have all: "Q ds" if "\<And>c. c \<in> set ds \<Longrightarrow> P c" for ds
    using that by (induction ds) (auto intro: N C)
  show one: "P d" for d by (induction d) (auto intro: E all)
  show "Q ds" by (rule all) (rule one)
qed

lemma walk_confined [confine]:
  assumes "\<And>path d e s. confined P (cb path d e s)"
  shows "confined P (walkEntry cb path d s)" "confined P (walkEntries cb path ds s)"
proof (induction d and ds arbitrary: path s and path s rule: tree_induct)
  case (Entry n k e cs)
  then show ?case by (auto intro!: confine assms split: WalkStep.split option.split)
next
  case None_left
  then show ?case by (simp add: confine)
next
  case (Next d ds)
  then show ?case by (auto intro!: confine split: WalkStep.split)
qed

lemma WalkDir_confined [confine]:
  "(\<And>path d e s. confined P (cb path d e s)) \<Longrightarrow> confined P (WalkDir h cb root s)"
  unfolding WalkDir_def by (intro confine) (auto intro!: confine split: sum.split)

section \<open>Callbacks that collect\<close>

text \<open>\<open>prune\<close> are the directories the callback skips, \<open>pick\<close> is what it takes from an entry, and
  \<open>upd\<close> how it adds that to its variables.\<close>

fun gather :: "(DirTree \<Rightarrow> bool) \<Rightarrow> ('w \<Rightarrow> string \<Rightarrow> DirTree \<Rightarrow> ('e, 'b list) result) \<Rightarrow> (GoErr \<Rightarrow> 'e) \<Rightarrow>
    'w \<Rightarrow> string \<Rightarrow> DirTree \<Rightarrow> ('e, 'b list) result"
  and gatherAll :: "(DirTree \<Rightarrow> bool) \<Rightarrow> ('w \<Rightarrow> string \<Rightarrow> DirTree \<Rightarrow> ('e, 'b list) result) \<Rightarrow> (GoErr \<Rightarrow> 'e) \<Rightarrow>
    'w \<Rightarrow> string \<Rightarrow> DirTree list \<Rightarrow> ('e, 'b list) result" where
  "gather prune pick wrap w path (Entry n k err cs) =
     (if prune (Entry n k err cs) then Inr []
      else bindR (pick w path (Entry n k err cs)) (\<lambda>xs.
        if k \<noteq> KindDir then Inr xs
        else case err of Some e \<Rightarrow> Inl (wrap e)
             | None \<Rightarrow> bindR (gatherAll prune pick wrap w path cs) (\<lambda>ys. Inr (xs @ ys))))"
| "gatherAll prune pick wrap w path [] = Inr []"
| "gatherAll prune pick wrap w path (c # cs) =
     bindR (gather prune pick wrap w (PathJoin path (entryName c)) c) (\<lambda>xs.
     bindR (gatherAll prune pick wrap w path cs) (\<lambda>ys. Inr (xs @ ys)))"

locale collecting_walk =
  fixes cb :: "('w, 'e, 's) callback"
    and prune :: "DirTree \<Rightarrow> bool"
    and pick :: "'w \<Rightarrow> string \<Rightarrow> DirTree \<Rightarrow> ('e, 'b list) result"
    and wrap :: "GoErr \<Rightarrow> 'e"
    and upd :: "'b \<Rightarrow> 's \<Rightarrow> 's"
  assumes reports: "cb path entry (Some e) s = failA (wrap e)"
    and collects: "cb path (Some d) None s st =
       (if prune d then (Inr (Skip s), st)
        else (bindR (pick (ses_world st) path d) (\<lambda>xs. Inr (Continue (fold upd xs s))), st))"
    and prunes_dirs: "prune d \<Longrightarrow> entryKind d = KindDir"
begin

lemma walk_gather:
  "walkEntry cb path d s st =
     (bindR (gather prune pick wrap (ses_world st) path d) (\<lambda>xs. Inr (Continue (fold upd xs s))), st)"
  "walkEntries cb path ds s st =
     (bindR (gatherAll prune pick wrap (ses_world st) path ds) (\<lambda>xs. Inr (Continue (fold upd xs s))), st)"
proof (induction d and ds arbitrary: path s and path s rule: tree_induct)
  case (Entry n k err cs)
  show ?case
  proof (cases "prune (Entry n k err cs)")
    case True
    then show ?thesis using prunes_dirs [OF True] by (simp add: bindA_def collects retA_def)
  next
    case False
    then show ?thesis
      by (cases "pick (ses_world st) path (Entry n k err cs)"; cases err;
          cases "gatherAll prune pick wrap (ses_world st) path cs")
         (simp_all add: bindA_def collects reports retA_def failA_def Entry)
  qed
next
  case None_left
  then show ?case by (simp add: retA_def)
next
  case (Next d ds)
  then show ?case
    by (cases "gather prune pick wrap (ses_world st) (PathJoin path (entryName d)) d";
        cases "gatherAll prune pick wrap (ses_world st) path ds")
       (simp_all add: bindA_def)
qed

lemma WalkDir_gather:
  "WalkDir h cb root s st =
     (case sys_tree h (ses_world st) root of
        Inl e \<Rightarrow> (Inl (wrap e), st)
      | Inr d \<Rightarrow> (bindR (gather prune pick wrap (ses_world st) root d) (\<lambda>xs. Inr (fold upd xs s)), st))"
proof (cases "sys_tree h (ses_world st) root")
  case (Inl e)
  then show ?thesis by (simp add: WalkDir_def bindA_def lookA_def reports failA_def)
next
  case (Inr d)
  then show ?thesis
    by (cases "gather prune pick wrap (ses_world st) root d")
       (simp_all add: WalkDir_def bindA_def lookA_def walk_gather retA_def)
qed

end

section \<open>Relative paths\<close>

fun dropCommon :: "string list \<Rightarrow> string list \<Rightarrow> string list \<times> string list" where
  "dropCommon (b # bs) (t # ts) = (if b = t then dropCommon bs ts else (b # bs, t # ts))"
| "dropCommon bs ts = (bs, ts)"

definition pathParts :: "string \<Rightarrow> string list" where
  "pathParts p = filter (\<lambda>c. c \<noteq> '''') (splitOn slash p)"

definition Rel :: "string \<Rightarrow> string \<Rightarrow> (GoErr, string) result" where
  "Rel base targ =
     (let b = Clean base; t = Clean targ in
      if t = b then Inr ''.''
      else if rooted b \<noteq> rooted t then Inl (OtherError ''Rel'')
      else case dropCommon (if b = ''.'' then [] else pathParts b) (pathParts t) of (bs, ts) \<Rightarrow>
        if bs \<noteq> [] \<and> hd bs = ''..'' then Inl (OtherError ''Rel'')
        else Inr (joinWith slash (replicate (length bs) ''..'' @ ts)))"

definition PathExt :: "string \<Rightarrow> string" where
  "PathExt p = (let base = rev (takeWhile (\<lambda>c. c \<noteq> slash) (rev p)) in
     if CHR ''.'' \<in> set base then CHR ''.'' # rev (takeWhile (\<lambda>c. c \<noteq> CHR ''.'') (rev base)) else '''')"

end
