(* ===== verification/Flag_Set.thy ===== *)
theory Flag_Set
  imports Gen_Flags
begin

text \<open>
  Package \<open>flag\<close> for the release tools: the parser with the registered flags as an argument. It
  returns the assignments in order, so that a tool reads the last one of a flag or its default.
  \<open>parseFlags_parseSet\<close> relates it to the generator's parser.
\<close>

datatype FlagValue = StringValue string | BoolValue bool

fun parseSet :: "(string \<Rightarrow> FlagKind option) \<Rightarrow> string list \<Rightarrow>
    (FlagError, (string \<times> FlagValue) list \<times> string list) result" where
  "parseSet kinds [] = Inr ([], [])"
| "parseSet kinds (s # args) =
     (if length s < 2 \<or> hd s \<noteq> CHR ''-'' then Inr ([], s # args)
      else if s = ''--'' then Inr ([], args)
      else if stripDashes s = '''' \<or> hd (stripDashes s) = CHR ''-'' \<or> hd (stripDashes s) = CHR ''=''
      then Inl (BadFlagSyntax s)
      else case cutValue (stripDashes s) of (name, value) \<Rightarrow>
        (case kinds name of
           None \<Rightarrow> Inl (if name = ''help'' \<or> name = ''h'' then ErrHelp else FlagNotDefined name)
         | Some BoolFlag \<Rightarrow>
             (case value of
                None \<Rightarrow> bindR (parseSet kinds args) (\<lambda>(vs, rest). Inr ((name, BoolValue True) # vs, rest))
              | Some v \<Rightarrow> (case ParseBool v of
                    None \<Rightarrow> Inl (InvalidBoolean v name)
                  | Some b \<Rightarrow> bindR (parseSet kinds args) (\<lambda>(vs, rest). Inr ((name, BoolValue b) # vs, rest))))
         | Some StringFlag \<Rightarrow>
             (case value of
                Some v \<Rightarrow> bindR (parseSet kinds args) (\<lambda>(vs, rest). Inr ((name, StringValue v) # vs, rest))
              | None \<Rightarrow> (case args of
                    [] \<Rightarrow> Inl (FlagNeedsArgument name)
                  | v # args' \<Rightarrow> bindR (parseSet kinds args') (\<lambda>(vs, rest).
                      Inr ((name, StringValue v) # vs, rest))))))"

definition stringFlag :: "(string \<times> FlagValue) list \<Rightarrow> string \<Rightarrow> string \<Rightarrow> string" where
  "stringFlag vs name d = (case map_of (rev vs) name of Some (StringValue v) \<Rightarrow> v | _ \<Rightarrow> d)"

definition boolFlag :: "(string \<times> FlagValue) list \<Rightarrow> string \<Rightarrow> bool \<Rightarrow> bool" where
  "boolFlag vs name d = (case map_of (rev vs) name of Some (BoolValue b) \<Rightarrow> b | _ \<Rightarrow> d)"

definition kindsOf :: "string list \<Rightarrow> string list \<Rightarrow> string \<Rightarrow> FlagKind option" where
  "kindsOf strings bools name =
     (if name \<in> set strings then Some StringFlag else if name \<in> set bools then Some BoolFlag else None)"

text \<open>The generator's parser is this one, with its assignments applied in order.\<close>

fun assignFlag :: "string \<times> FlagValue \<Rightarrow> cliOptions \<Rightarrow> cliOptions" where
  "assignFlag (name, StringValue v) opts = setString name v opts"
| "assignFlag (name, BoolValue b) opts = setBool name b opts"

lemma parseFlags_parseSet:
  "parseFlags opts args =
     bindR (parseSet flagKind args) (\<lambda>(vs, rest). Inr (fold assignFlag vs opts, rest))"
proof (induction opts args rule: parseFlags.induct)
  case (2 opts s args)
  show ?case
  proof (cases "length s < 2 \<or> hd s \<noteq> CHR ''-'' \<or> s = ''--'' \<or> stripDashes s = ''''
      \<or> hd (stripDashes s) = CHR ''-'' \<or> hd (stripDashes s) = CHR ''=''")
    case True
    then show ?thesis by auto
  next
    case False
    obtain name val where nv: "cutValue (stripDashes s) = (name, val)" by fastforce
    note IH = "2.IH" [OF _ _ _ nv [symmetric]]
    show ?thesis
    proof (cases "flagKind name")
      case None
      then show ?thesis using False nv by simp
    next
      case (Some kind)
      then show ?thesis
        using False nv IH
        by (cases kind; cases val; cases args; simp split: option.split;
            auto simp: bindR_def split: sum.split prod.split)
    qed
  qed
qed simp

end
