(* ===== verification/Parity_Tool.thy ===== *)
theory Parity_Tool
  imports Go_Walk Go_Strings Flag_Set Seen_Table
begin

text \<open>
  codegen/cmd/jcrpc-parity/main.go: two generator binaries are run over the example documents in
  a matrix of command lines, and their exit codes, output and files are compared. SHA-256 and the
  JSON printer of the report are parameters.
\<close>

section \<open>Data\<close>

record invocation =
  Inv_Args :: "string list"
  Inv_Exit :: int
  Inv_Stdout :: string
  Inv_Stderr :: string
  Inv_Files :: "(string, string) table"

record comparison =
  Cmp_Policy :: string
  Cmp_Input :: string
  Cmp_InputSHA256 :: string
  Cmp_Baseline :: invocation
  Cmp_Candidate :: invocation

datatype ParityError =
    HostError GoErr
  | NonRegularOutput string
  | OutputDrift string "string option" "string option"
  | NoExamples
  | PolicyNeedsOneTable string
  | PolicyAdmitted string
  | PlantNeedsOutput
  | BehaviorDrift string "string list"
  | FilesDrift string "string list" ParityError
  | PlantNotApplied

record report =
  Rep_Baseline :: string
  Rep_Candidate :: string
  Rep_Comparisons :: "comparison list"
  Rep_Error :: "ParityError option"

section \<open>Files\<close>

definition hashFile :: "'w Sys \<Rightarrow> (string \<Rightarrow> string) \<Rightarrow> string \<Rightarrow> ('w, ParityError, string) act" where
  "hashFile h sha path = bindA (errorA HostError (readA h path)) (\<lambda>b. retA (sha b))"

text \<open>The callback of \<open>inventory\<close>; \<open>WalkDir\<close> never passes a missing entry without an error.\<close>

definition inventoryEntry :: "'w Sys \<Rightarrow> (string \<Rightarrow> string) \<Rightarrow> string \<Rightarrow>
    ('w, ParityError, (string, string) table) callback" where
  "inventoryEntry h sha root path entry err files =
     (case err of
        Some e \<Rightarrow> failA (HostError e)
      | None \<Rightarrow>
          (case entry of
             None \<Rightarrow> failA (HostError (OtherError ''no entry''))
           | Some d \<Rightarrow>
               if entryKind d = KindDir then retA (Continue files)
               else if entryKind d \<noteq> KindRegular then failA (NonRegularOutput path)
               else bindA (errorA HostError (liftA (Rel root path))) (\<lambda>rel.
                    bindA (hashFile h sha path) (\<lambda>digest.
                    retA (Continue (tbl_put files (ToSlash rel) digest))))))"

definition inventory :: "'w Sys \<Rightarrow> (string \<Rightarrow> string) \<Rightarrow> string \<Rightarrow>
    ('w, ParityError, (string, string) table) act" where
  "inventory h sha root = WalkDir h (inventoryEntry h sha root) root tbl_empty"

fun compareKeys :: "(string, string) table \<Rightarrow> (string, string) table \<Rightarrow> string list \<Rightarrow> ParityError option" where
  "compareKeys old new [] = None"
| "compareKeys old new (k # ks) =
     (case (tbl_get old k, tbl_get new k) of
        (Some a, Some b) \<Rightarrow> if a \<noteq> b then Some (OutputDrift k (Some a) (Some b)) else compareKeys old new ks
      | (a, b) \<Rightarrow> Some (OutputDrift k a b))"

definition compareFiles :: "(string, string) table \<Rightarrow> (string, string) table \<Rightarrow> ParityError option" where
  "compareFiles old new =
     compareKeys old new (sort (map fst old @ filter (\<lambda>k. tbl_get old k = None) (map fst new)))"

section \<open>One run of a binary\<close>

text \<open>\<open>ExitCode\<close> of a process that a signal ended is -1.\<close>

definition exitCodeOf :: "ExecStatus \<Rightarrow> (ParityError, int) result" where
  "exitCodeOf s = (case s of Exited c \<Rightarrow> Inr c | Signaled n \<Rightarrow> Inr (- 1) | NotStarted e \<Rightarrow> Inl (HostError e))"

definition invoke :: "'w Sys \<Rightarrow> (string \<Rightarrow> string) \<Rightarrow> string \<Rightarrow> string \<Rightarrow> string list \<Rightarrow>
    ('w, ParityError, invocation) act" where
  "invoke h sha binary output args =
     thenA (errorA HostError (mkdirAllA h output))
    (let actual = butlast args @ [''--out-dir'', output, last args] in
     bindA (execA h \<lparr>cmd_name = binary, cmd_args = actual, cmd_dir = [], cmd_env = []\<rparr>) (\<lambda>r.
     bindA (liftA (exitCodeOf (exec_status r))) (\<lambda>code.
     bindA (inventory h sha output) (\<lambda>files.
     retA \<lparr>Inv_Args = actual, Inv_Exit = code,
           Inv_Stdout = replaceAll (exec_stdout r) output ''<out-dir>'',
           Inv_Stderr = replaceAll (exec_stderr r) output ''<out-dir>'', Inv_Files = files\<rparr>))))"

section \<open>The matrix\<close>

definition policies :: "string list" where
  "policies = ['''', ''transient'', ''persistent'', ''ram'', ''Persistent'']"

definition selectors :: "string list list" where
  "selectors = [[''--java'', ''io.parity.server''], [''--kotlin'', ''io.parity.client''], [''--swift'', ''ParityClient''],
     [''--all''], [''--java'', ''io.parity.server'', ''--kotlin'', ''io.parity.client''],
     [''--all'', ''--java'', ''io.parity.server'', ''--kotlin'', ''io.parity.client'', ''--swift'', ''ParityClient'']]"

definition memories :: "string list" where
  "memories = ['''', ''clear_on_deselect'', ''clear_on_reset'']"

definition simulators :: "string list" where
  "simulators = ['''', ''com.klinec:jcardsim:3.0.5.9'', ''works.relux:jcardsim:3.0.5.9-relux.1'']"

definition invalidPolicy :: "string \<Rightarrow> bool" where
  "invalidPolicy policy \<longleftrightarrow> policy = ''ram'' \<or> policy = ''Persistent''"

definition selectorCases :: "string \<Rightarrow> string list \<Rightarrow> string list list" where
  "selectorCases policy selector =
     (if invalidPolicy policy then [selector]
      else concat (map (\<lambda>memory. map (\<lambda>sim.
             [''--verbose''] @ selector @ (if memory \<noteq> '''' then [''--stream-memory'', memory] else [])
             @ (if sim \<noteq> '''' then [''--simulator-dependency'', sim] else [])) simulators) memories))"

definition casesFor :: "string \<Rightarrow> string list list" where
  "casesFor policy =
     (if policy \<noteq> '''' then []
      else [[''--validate-only''], [], [''--help''], [''-h''],
            [''--java'', ''io.parity.server'', ''--stream-memory'', ''invalid''],
            [''--java'', ''io.parity.server'', ''--simulator-dependency'', ''bad:coordinate'']])
     @ concat (map (selectorCases policy) selectors)"

text \<open>\<open>%03d\<close>.\<close>

definition pad3 :: "nat \<Rightarrow> string" where
  "pad3 n = replicate (3 - length (showNat n)) CHR ''0'' @ showNat n"

text \<open>\<open>data[0] ^= 1\<close>.\<close>

definition flipLow :: "char \<Rightarrow> char" where
  "flipLow c = char_of (if even (byte c) then byte c + 1 else byte c - 1)"

section \<open>Inputs\<close>

definition exampleEntry :: "('w, ParityError, string list) callback" where
  "exampleEntry path entry err inputs =
     (case err of
        Some e \<Rightarrow> failA (HostError e)
      | None \<Rightarrow>
          (case entry of
             None \<Rightarrow> failA (HostError (OtherError ''no entry''))
           | Some d \<Rightarrow>
               if entryKind d = KindDir \<and> (entryName d = ''generated'' \<or> hasPrefix (entryName d) ''.'')
               then retA (Skip inputs)
               else if entryKind d \<noteq> KindDir \<and> PathExt path = ''.toml'' then retA (Continue (inputs @ [path]))
               else retA (Continue inputs)))"

text \<open>One source document under one workspace policy: the file that is run and its digest.\<close>

definition policyInput :: "'w Sys \<Rightarrow> (string \<Rightarrow> string) \<Rightarrow> string \<Rightarrow> string \<Rightarrow> string \<Rightarrow> nat \<Rightarrow>
    ('w, ParityError, string \<times> string) act" where
  "policyInput h sha root source policy idx =
     bindA (errorA HostError (liftA (sys_abs h source))) (\<lambda>input.
     bindA (hashFile h sha input) (\<lambda>digest.
     if policy = '''' then retA (input, digest)
     else
       bindA (errorA HostError (readA h input)) (\<lambda>raw.
       thenA (requireA (strCount raw ''[applet]'' = 1) (PolicyNeedsOneTable input))
      (let variant = replaceFirst ''[applet]''
             (''[applet]'' @ [CHR 0x0A] @ ''stream_workspace = '' @ [CHR 0x22] @ policy @ [CHR 0x22]) raw;
           input' = JoinAll [root, ''policy-'' @ showNat idx @ ''-'' @ policy @ ''.toml''] in
       thenA (errorA HostError (writeA h input' variant 420))
      (bindA (hashFile h sha input') (\<lambda>digest'.
       retA (input', digest')))))))"

section \<open>One comparison\<close>

definition refused :: "invocation \<Rightarrow> bool" where
  "refused a \<longleftrightarrow> Inv_Exit a = 1 \<and> Inv_Files a = [] \<and> strContains (Inv_Stderr a) ''applet.stream_workspace''"

definition sameBehavior :: "invocation \<Rightarrow> invocation \<Rightarrow> bool" where
  "sameBehavior a b \<longleftrightarrow> Inv_Exit a = Inv_Exit b \<and> Inv_Stdout a = Inv_Stdout b \<and> Inv_Stderr a = Inv_Stderr b"

definition plantByte :: "'w Sys \<Rightarrow> (string \<Rightarrow> string) \<Rightarrow> string \<Rightarrow> invocation \<Rightarrow> ('w, ParityError, invocation) act" where
  "plantByte h sha newDir b =
     (let path = JoinAll [newDir, hd (sort (map fst (Inv_Files b)))] in
      bindA (errorA HostError (readA h path)) (\<lambda>data.
      thenA (requireA (data \<noteq> []) PlantNeedsOutput)
     (thenA (errorA HostError (writeA h path (flipLow (hd data) # tl data) 420))
     (bindA (inventory h sha newDir) (\<lambda>files.
      retA (b\<lparr>Inv_Files := files\<rparr>))))))"

text \<open>An error carries the report as it stood.\<close>

definition failing :: "report \<Rightarrow> ('w, ParityError, 'a) act \<Rightarrow> ('w, ParityError \<times> report, 'a) act" where
  "failing rep = errorA (\<lambda>e. (e, rep))"

definition runCase :: "'w Sys \<Rightarrow> (string \<Rightarrow> string) \<Rightarrow> string \<Rightarrow> string \<Rightarrow> string \<Rightarrow> string \<Rightarrow> string \<Rightarrow> string \<Rightarrow>
    string list \<Rightarrow> bool \<times> report \<Rightarrow> ('w, ParityError \<times> report, bool \<times> report) act" where
  "runCase h sha old new root policy input digest caseArgs acc =
     (case acc of (plant, rep) \<Rightarrow>
      let args = caseArgs @ [input]; idx = length (Rep_Comparisons rep);
          oldDir = JoinAll [root, pad3 idx @ ''-old'']; newDir = JoinAll [root, pad3 idx @ ''-new''] in
      bindA (failing rep (invoke h sha old oldDir args)) (\<lambda>a.
      bindA (failing rep (invoke h sha new newDir args)) (\<lambda>b.
      thenA (failing rep (requireA (\<not> invalidPolicy policy \<or> refused a \<and> refused b) (PolicyAdmitted policy)))
     (let planted = plant \<and> length (Inv_Files b) > 0 in
      bindA (failing rep (if planted then plantByte h sha newDir b else retA b)) (\<lambda>b'.
      let rep' = rep\<lparr>Rep_Comparisons := Rep_Comparisons rep @
            [\<lparr>Cmp_Policy = policy, Cmp_Input = input, Cmp_InputSHA256 = digest, Cmp_Baseline = a, Cmp_Candidate = b'\<rparr>]\<rparr> in
      thenA (failing rep' (requireA (sameBehavior a b') (BehaviorDrift input args)))
     (case compareFiles (Inv_Files a) (Inv_Files b') of
        Some e \<Rightarrow> failA (FilesDrift input args e, rep')
      | None \<Rightarrow> retA (plant \<and> \<not> planted, rep')))))))"

section \<open>The verification\<close>

definition runPolicy :: "'w Sys \<Rightarrow> (string \<Rightarrow> string) \<Rightarrow> string \<Rightarrow> string \<Rightarrow> string \<Rightarrow> string \<Rightarrow> string \<Rightarrow>
    bool \<times> report \<Rightarrow> ('w, ParityError \<times> report, bool \<times> report) act" where
  "runPolicy h sha old new root source policy acc =
     bindA (failing (snd acc) (policyInput h sha root source policy (length (Rep_Comparisons (snd acc)))))
       (\<lambda>(input, digest). foldA (runCase h sha old new root policy input digest) (casesFor policy) acc)"

definition runSource :: "'w Sys \<Rightarrow> (string \<Rightarrow> string) \<Rightarrow> string \<Rightarrow> string \<Rightarrow> string \<Rightarrow> string \<Rightarrow>
    bool \<times> report \<Rightarrow> ('w, ParityError \<times> report, bool \<times> report) act" where
  "runSource h sha old new root source acc = foldA (runPolicy h sha old new root source) policies acc"

definition runMatrix :: "'w Sys \<Rightarrow> (string \<Rightarrow> string) \<Rightarrow> string \<Rightarrow> string \<Rightarrow> string list \<Rightarrow> string \<Rightarrow>
    bool \<times> report \<Rightarrow> ('w, ParityError \<times> report, report) act" where
  "runMatrix h sha old new inputs root acc =
     bindA (foldA (runSource h sha old new root) inputs acc) (\<lambda>(plant, rep).
     thenA (failing rep (requireA (\<not> plant) PlantNotApplied)) (retA rep))"

definition emptyReport :: report where
  "emptyReport = \<lparr>Rep_Baseline = '''', Rep_Candidate = '''', Rep_Comparisons = [], Rep_Error = None\<rparr>"

definition paritySources :: "string \<Rightarrow> string \<Rightarrow> string list \<Rightarrow> string list" where
  "paritySources repo consumer examples =
     sort (examples @ [JoinAll [repo, ''codegen'', ''testdata'', ''counter.toml''],
                       JoinAll [repo, ''codegen'', ''testdata'', ''stream.toml''], consumer])"

definition verify :: "'w Sys \<Rightarrow> (string \<Rightarrow> string) \<Rightarrow> string \<Rightarrow> string \<Rightarrow> string \<Rightarrow> string \<Rightarrow> bool \<Rightarrow>
    ('w, ParityError \<times> report, report) act" where
  "verify h sha old new repo consumer plant =
     bindA (failing emptyReport (errorA HostError (liftA (sys_abs h old)))) (\<lambda>old.
     bindA (failing emptyReport (errorA HostError (liftA (sys_abs h new)))) (\<lambda>new.
     bindA (failing emptyReport (hashFile h sha old)) (\<lambda>d1.
     let rep1 = emptyReport\<lparr>Rep_Baseline := d1\<rparr> in
     bindA (failing rep1 (hashFile h sha new)) (\<lambda>d2.
     let rep2 = rep1\<lparr>Rep_Candidate := d2\<rparr> in
     bindA (failing rep2 (WalkDir h exampleEntry (JoinAll [repo, ''examples'']) [])) (\<lambda>examples.
     thenA (failing rep2 (requireA (length examples \<noteq> 0) NoExamples))
    (bindA (failing rep2 (errorA HostError (mkdirTempA h ''jcrpc-parity-''))) (\<lambda>root.
     deferA (removeAllF h root)
       (runMatrix h sha old new (paritySources repo consumer examples) root (plant, rep2)))))))))"

text \<open>The command. \<open>encode\<close> is the indented JSON of the report.\<close>

definition parityFlags :: "string \<Rightarrow> FlagKind option" where
  "parityFlags = kindsOf [''baseline'', ''candidate'', ''repo'', ''consumer'', ''out''] [''plant-byte-change'']"

definition Parity_run :: "'w Sys \<Rightarrow> (string \<Rightarrow> string) \<Rightarrow> (report \<Rightarrow> (GoErr, string) result) \<Rightarrow> string list \<Rightarrow>
    'w Ses \<Rightarrow> int \<times> 'w Ses" where
  "Parity_run h sha encode args st =
     (case parseSet parityFlags args of
        Inl e \<Rightarrow> (2, st)
      | Inr (vs, rest) \<Rightarrow>
          let old = stringFlag vs ''baseline'' ''''; new = stringFlag vs ''candidate'' '''';
              repo = stringFlag vs ''repo'' ''..''; consumer = stringFlag vs ''consumer'' '''';
              out = stringFlag vs ''out'' ''''; plant = boolFlag vs ''plant-byte-change'' False in
          if old = '''' \<or> new = '''' \<or> consumer = '''' \<or> out = '''' then (2, st)
          else case verify h sha old new repo consumer plant st of (outcome, st1) \<Rightarrow>
            let rep = (case outcome of Inl (e, rep) \<Rightarrow> rep\<lparr>Rep_Error := Some e\<rparr> | Inr rep \<Rightarrow> rep) in
            (case encode rep of
               Inl e \<Rightarrow> (1, st1)
             | Inr b \<Rightarrow>
                 (case writeA h out (b @ [CHR 0x0A]) 420 st1 of
                    (Inl e, st2) \<Rightarrow> (1, st2)
                  | (Inr u, st2) \<Rightarrow> (if isl outcome then 1 else 0, st2))))"

end
