(* ===== verification/Parity_Facts.thy ===== *)
theory Parity_Facts
  imports Parity_Tool
begin

text \<open>
  Facts about jcrpc-parity: the comparison of two file maps, the inventory of a tree (its callback
  collects, so the walk is the pure \<open>gather\<close>), the size of the case matrix, and what every
  comparison of a verification without error satisfies.
\<close>

section \<open>Comparing files\<close>

lemma compareKeys_None:
  "compareKeys old new ks = None \<longleftrightarrow> list_all (\<lambda>k. tbl_get old k = tbl_get new k \<and> tbl_get old k \<noteq> None) ks"
  by (induction ks) (auto split: option.splits)

lemma compareKeys_Some:
  "compareKeys old new ks = Some e \<Longrightarrow>
     \<exists>as k bs. ks = as @ k # bs \<and> e = OutputDrift k (tbl_get old k) (tbl_get new k)
       \<and> (tbl_get old k \<noteq> tbl_get new k \<or> tbl_get old k = None)
       \<and> list_all (\<lambda>j. tbl_get old j = tbl_get new j) as"
proof (induction ks)
  case (Cons k ks)
  show ?case
  proof (cases "tbl_get old k = tbl_get new k \<and> tbl_get old k \<noteq> None")
    case True
    then obtain as j bs where "ks = as @ j # bs \<and> e = OutputDrift j (tbl_get old j) (tbl_get new j)
       \<and> (tbl_get old j \<noteq> tbl_get new j \<or> tbl_get old j = None) \<and> list_all (\<lambda>j. tbl_get old j = tbl_get new j) as"
      using Cons by (auto split: option.splits)
    then show ?thesis using True by (intro exI [of _ "k # as"] exI [of _ j] exI [of _ bs]) simp
  next
    case False
    then have "e = OutputDrift k (tbl_get old k) (tbl_get new k)"
      using Cons.prems by (auto split: option.splits if_splits)
    then show ?thesis using False by (intro exI [of _ "[]"] exI [of _ k] exI [of _ ks]) auto
  qed
qed simp

definition allKeys :: "(string, string) table \<Rightarrow> (string, string) table \<Rightarrow> string list" where
  "allKeys old new = sort (map fst old @ filter (\<lambda>k. tbl_get old k = None) (map fst new))"

lemma allKeys_set: "k \<in> set (allKeys old new) \<longleftrightarrow> tbl_get old k \<noteq> None \<or> tbl_get new k \<noteq> None"
  by (auto simp: allKeys_def tbl_get_def map_of_eq_None_iff)

lemma compareFiles_None: "compareFiles old new = None \<longleftrightarrow> tbl_get old = tbl_get new"
proof -
  have "compareFiles old new = None \<longleftrightarrow>
      (\<forall>k\<in>set (allKeys old new). tbl_get old k = tbl_get new k \<and> tbl_get old k \<noteq> None)"
    by (simp add: compareFiles_def compareKeys_None list_all_iff flip: allKeys_def)
  also have "\<dots> \<longleftrightarrow> (\<forall>k. tbl_get old k = tbl_get new k)"
    unfolding Ball_def allKeys_set by metis
  finally show ?thesis by (simp add: fun_eq_iff)
qed

text \<open>The reported key is the first one, in byte order, on which the maps differ.\<close>

definition firstDrift :: "(string, string) table \<Rightarrow> (string, string) table \<Rightarrow> string \<Rightarrow> bool" where
  "firstDrift old new k \<longleftrightarrow> tbl_get old k \<noteq> tbl_get new k \<and> (\<forall>j<k. tbl_get old j = tbl_get new j)"

lemma compareFiles_Some:
  assumes "compareFiles old new = Some e"
  shows "\<exists>k. e = OutputDrift k (tbl_get old k) (tbl_get new k) \<and> firstDrift old new k"
proof -
  obtain as k bs where k: "allKeys old new = as @ k # bs" "e = OutputDrift k (tbl_get old k) (tbl_get new k)"
      "tbl_get old k \<noteq> tbl_get new k \<or> tbl_get old k = None" "list_all (\<lambda>j. tbl_get old j = tbl_get new j) as"
    using compareKeys_Some [OF assms [unfolded compareFiles_def, folded allKeys_def]] by blast
  have "k \<in> set (allKeys old new)" by (simp add: k(1))
  then have differ: "tbl_get old k \<noteq> tbl_get new k" using k(3) by (auto simp: allKeys_set)
  have "tbl_get old j = tbl_get new j" if "j < k" for j
  proof (rule ccontr)
    assume "tbl_get old j \<noteq> tbl_get new j"
    then have "j \<in> set (allKeys old new)" by (auto simp: allKeys_set)
    moreover have "sorted (as @ k # bs)" unfolding k(1) [symmetric] allKeys_def by (rule sorted_sort)
    ultimately have "j \<in> set as" using that k(1) by (auto simp: sorted_append)
    then show False using k(4) \<open>tbl_get old j \<noteq> tbl_get new j\<close> by (simp add: list_all_iff)
  qed
  then show ?thesis using k(2) differ by (auto simp: firstDrift_def)
qed

section \<open>Inventories\<close>

definition inventoryPick :: "'w Sys \<Rightarrow> (string \<Rightarrow> string) \<Rightarrow> string \<Rightarrow> 'w \<Rightarrow> string \<Rightarrow> DirTree \<Rightarrow>
    (ParityError, (string \<times> string) list) result" where
  "inventoryPick h sha root w path d =
     (if entryKind d = KindDir then Inr []
      else if entryKind d \<noteq> KindRegular then Inl (NonRegularOutput path)
      else case Rel root path of
        Inl e \<Rightarrow> Inl (HostError e)
      | Inr rel \<Rightarrow> (case sys_read h w path of
            Inl e \<Rightarrow> Inl (HostError e) | Inr b \<Rightarrow> Inr [(ToSlash rel, sha b)]))"

definition putFile :: "string \<times> string \<Rightarrow> (string, string) table \<Rightarrow> (string, string) table" where
  "putFile kv t = tbl_put t (fst kv) (snd kv)"

interpretation inv: collecting_walk "inventoryEntry h sha root" "\<lambda>_. False" "inventoryPick h sha root"
    HostError putFile for h :: "'w Sys" and sha root
proof
  show "inventoryEntry h sha root path entry (Some e) s = failA (HostError e)" for path entry e s
    by (simp add: inventoryEntry_def)
next
  fix path d s and st :: "'w Ses"
  show "inventoryEntry h sha root path (Some d) None s st =
      (if False then (Inr (Skip s), st)
       else (bindR (inventoryPick h sha root (ses_world st) path d) (\<lambda>xs. Inr (Continue (fold putFile xs s))), st))"
    by (auto simp: inventoryEntry_def inventoryPick_def hashFile_def putFile_def retA_def failA_def bindA_def
        liftA_def errorA_def readA_def lookA_def split: sum.split)
qed simp

interpretation examples: collecting_walk exampleEntry
    "\<lambda>d. entryKind d = KindDir \<and> (entryName d = ''generated'' \<or> hasPrefix (entryName d) ''.'')"
    "\<lambda>_ path d. Inr (if entryKind d \<noteq> KindDir \<and> PathExt path = ''.toml'' then [path] else [])"
    HostError "\<lambda>p ps. ps @ [p]"
  by unfold_locales (auto simp: exampleEntry_def retA_def)

section \<open>Case counts\<close>

lemma casesFor_length:
  "length (casesFor '''') = 60" "length (casesFor ''transient'') = 54" "length (casesFor ''persistent'') = 54"
  "length (casesFor ''ram'') = 6" "length (casesFor ''Persistent'') = 6"
  by code_simp+

end
