(* ===== verification/Parity_Matrix.thy ===== *)
theory Parity_Matrix
  imports Parity_Facts
begin

text \<open>
  What the matrix loops of jcrpc-parity guarantee when no comparison failed: which cases have been
  compared, in which order, and that each of them agreed.
\<close>

section \<open>Loops that add to a list\<close>

lemma foldA_adds:
  assumes step: "\<And>x s t s' t'. x \<in> set xs \<Longrightarrow> f x s t = (Inr s', t') \<Longrightarrow>
      \<exists>cs. obs s' = obs s @ cs \<and> Q x cs \<and> keep s' = keep s"
  shows "foldA f xs s t = (Inr s', t') \<Longrightarrow>
      \<exists>css. obs s' = obs s @ concat css \<and> list_all2 Q xs css \<and> keep s' = keep s"
  using step
proof (induction xs arbitrary: s t)
  case Nil
  then show ?case by (auto simp: act_simps)
next
  case (Cons x xs)
  obtain s1 t1 where 1: "f x s t = (Inr s1, t1)" and 2: "foldA f xs s1 t1 = (Inr s', t')"
    using Cons.prems(1) by (auto simp: act_simps)
  obtain cs where cs: "obs s1 = obs s @ cs" "Q x cs" "keep s1 = keep s"
    using Cons.prems(2) [OF _ 1] by auto
  obtain css where "obs s' = obs s1 @ concat css" "list_all2 Q xs css" "keep s' = keep s1"
    using Cons.IH [OF 2] Cons.prems(2) by auto
  then show ?case using cs by (intro exI [of _ "cs # css"]) simp
qed

lemma concat_all2: "list_all2 (\<lambda>x cs. list_all2 (R x) (g x) cs) xs css \<Longrightarrow>
    list_all2 (\<lambda>y c. R (fst y) (snd y) c) (concat (map (\<lambda>x. map (Pair x) (g x)) xs)) (concat css)"
  by (induction xs css rule: list_all2_induct) (auto simp: list_all2_map1 intro!: list_all2_appendI)

section \<open>One case\<close>

definition agrees :: "comparison \<Rightarrow> bool" where
  "agrees c \<longleftrightarrow> sameBehavior (Cmp_Baseline c) (Cmp_Candidate c)
     \<and> tbl_get (Inv_Files (Cmp_Baseline c)) = tbl_get (Inv_Files (Cmp_Candidate c))
     \<and> (\<not> invalidPolicy (Cmp_Policy c) \<or> refused (Cmp_Baseline c) \<and> refused (Cmp_Candidate c))"

text \<open>The arguments of a run before \<open>--out-dir\<close>.\<close>

definition caseOf :: "invocation \<Rightarrow> string list" where
  "caseOf a = take (length (Inv_Args a) - 3) (Inv_Args a)"

definition covers :: "string \<Rightarrow> string list \<Rightarrow> comparison \<Rightarrow> bool" where
  "covers policy args c \<longleftrightarrow> Cmp_Policy c = policy \<and> agrees c
     \<and> caseOf (Cmp_Baseline c) = args \<and> caseOf (Cmp_Candidate c) = args"

lemma invoke_args:
  "invoke h sha binary output (args @ [input]) st = (Inr a, st') \<Longrightarrow> caseOf a = args"
  by (auto simp: invoke_def caseOf_def act_simps Let_def)

lemma plantByte_keeps:
  "plantByte h sha newDir b st = (Inr b', st') \<Longrightarrow> \<exists>files. b' = b\<lparr>Inv_Files := files\<rparr>"
  by (auto simp: plantByte_def act_simps Let_def)

definition reportKey :: "report \<Rightarrow> string \<times> string \<times> ParityError option" where
  "reportKey rep = (Rep_Baseline rep, Rep_Candidate rep, Rep_Error rep)"

lemma runCase_adds:
  assumes "runCase h sha old new root policy input digest args acc st = (Inr acc', st')"
  shows "\<exists>c. Rep_Comparisons (snd acc') = Rep_Comparisons (snd acc) @ [c] \<and> covers policy args c
    \<and> reportKey (snd acc') = reportKey (snd acc)"
proof -
  obtain plant rep where acc: "acc = (plant, rep)" by (cases acc)
  let ?old = "JoinAll [root, pad3 (length (Rep_Comparisons rep)) @ ''-old'']"
    and ?new = "JoinAll [root, pad3 (length (Rep_Comparisons rep)) @ ''-new'']"
  obtain a b b' s1 s2 s3 where
    a: "invoke h sha old ?old (args @ [input]) st = (Inr a, s1)" and
    b: "invoke h sha new ?new (args @ [input]) s1 = (Inr b, s2)" and
    pol: "\<not> invalidPolicy policy \<or> refused a \<and> refused b" and
    b': "(if plant \<and> length (Inv_Files b) > 0 then plantByte h sha ?new b else retA b) s2 = (Inr b', s3)" and
    same: "sameBehavior a b'" and files: "compareFiles (Inv_Files a) (Inv_Files b') = None" and
    res: "snd acc' = rep\<lparr>Rep_Comparisons := Rep_Comparisons rep @
            [\<lparr>Cmp_Policy = policy, Cmp_Input = input, Cmp_InputSHA256 = digest, Cmp_Baseline = a, Cmp_Candidate = b'\<rparr>]\<rparr>"
    using assms by (auto simp: runCase_def acc failing_def act_simps Let_def split: option.splits)
  have keep: "caseOf b' = caseOf b \<and> (refused b \<longrightarrow> b' = b)"
    using b' by (auto simp: act_simps caseOf_def refused_def split: if_splits dest: plantByte_keeps)
  have "covers policy args \<lparr>Cmp_Policy = policy, Cmp_Input = input, Cmp_InputSHA256 = digest, Cmp_Baseline = a, Cmp_Candidate = b'\<rparr>"
    using pol same files keep invoke_args [OF a] invoke_args [OF b]
    by (auto simp: covers_def agrees_def compareFiles_None)
  then show ?thesis by (simp add: res acc reportKey_def)
qed

section \<open>The loops\<close>

definition matrixOf :: "string list \<Rightarrow> (string \<times> string list) list" where
  "matrixOf sources = concat (map (\<lambda>source. concat (map (\<lambda>policy. map (Pair policy) (casesFor policy)) policies)) sources)"

lemma matrixOf_length: "length (matrixOf sources) = 180 * length sources"
  by (induction sources) (simp_all add: matrixOf_def policies_def casesFor_length)

definition coversCase :: "string \<times> string list \<Rightarrow> comparison \<Rightarrow> bool" where
  "coversCase pa c = covers (fst pa) (snd pa) c"

lemma runPolicy_adds:
  assumes "runPolicy h sha old new root source policy acc st = (Inr acc', st')"
  shows "\<exists>cs. Rep_Comparisons (snd acc') = Rep_Comparisons (snd acc) @ cs
    \<and> list_all2 (covers policy) (casesFor policy) cs \<and> reportKey (snd acc') = reportKey (snd acc)"
proof -
  obtain input digest s1 where run: "foldA (runCase h sha old new root policy input digest) (casesFor policy) acc s1 = (Inr acc', st')"
    using assms unfolding runPolicy_def bindA_Inr by (auto split: prod.splits)
  have "\<exists>css. Rep_Comparisons (snd acc') = Rep_Comparisons (snd acc) @ concat css
      \<and> list_all2 (\<lambda>args cs. \<exists>c. cs = [c] \<and> covers policy args c) (casesFor policy) css
      \<and> reportKey (snd acc') = reportKey (snd acc)"
  proof (rule foldA_adds [where obs = "\<lambda>a. Rep_Comparisons (snd a)" and keep = "\<lambda>a. reportKey (snd a)", OF _ run])
    fix args s t s' t'
    assume "runCase h sha old new root policy input digest args s t = (Inr s', t')"
    from runCase_adds [OF this]
    show "\<exists>cs. Rep_Comparisons (snd s') = Rep_Comparisons (snd s) @ cs \<and> (\<exists>c. cs = [c] \<and> covers policy args c)
        \<and> reportKey (snd s') = reportKey (snd s)" by metis
  qed
  moreover have "list_all2 R xs (concat css)" if "list_all2 (\<lambda>x cs. \<exists>c. cs = [c] \<and> R x c) xs css" for R xs css
    using that by (induction xs css rule: list_all2_induct) auto
  ultimately show ?thesis by blast
qed

lemma runSource_adds:
  assumes "runSource h sha old new root source acc st = (Inr acc', st')"
  shows "\<exists>cs. Rep_Comparisons (snd acc') = Rep_Comparisons (snd acc) @ cs
    \<and> list_all2 coversCase (concat (map (\<lambda>policy. map (Pair policy) (casesFor policy)) policies)) cs
    \<and> reportKey (snd acc') = reportKey (snd acc)"
proof -
  have run: "foldA (runPolicy h sha old new root source) policies acc st = (Inr acc', st')"
    using assms by (simp add: runSource_def)
  obtain css where css: "Rep_Comparisons (snd acc') = Rep_Comparisons (snd acc) @ concat css"
      "list_all2 (\<lambda>policy cs. list_all2 (covers policy) (casesFor policy) cs) policies css"
      "reportKey (snd acc') = reportKey (snd acc)"
    using foldA_adds [where obs = "\<lambda>a. Rep_Comparisons (snd a)" and keep = "\<lambda>a. reportKey (snd a)",
        where Q = "\<lambda>policy cs. list_all2 (covers policy) (casesFor policy) cs", OF _ run] runPolicy_adds
    by blast
  show ?thesis
    using css(1,3) concat_all2 [OF css(2)] unfolding coversCase_def by blast
qed

lemma runMatrix_adds:
  assumes "runMatrix h sha old new inputs root (plant, rep) st = (Inr rep', st')"
  shows "\<exists>cs. Rep_Comparisons rep' = Rep_Comparisons rep @ cs \<and> list_all2 coversCase (matrixOf inputs) cs
    \<and> reportKey rep' = reportKey rep"
proof -
  obtain acc' s1 where run: "foldA (runSource h sha old new root) inputs (plant, rep) st = (Inr acc', s1)"
      and "rep' = snd acc'"
    using assms by (auto simp: runMatrix_def failing_def act_simps)
  let ?row = "concat (map (\<lambda>policy. map (Pair policy) (casesFor policy)) policies)"
  have "\<exists>css. Rep_Comparisons (snd acc') = Rep_Comparisons rep @ concat css
      \<and> list_all2 (\<lambda>source cs. list_all2 coversCase ?row cs) inputs css \<and> reportKey (snd acc') = reportKey rep"
    using foldA_adds [where obs = "\<lambda>a. Rep_Comparisons (snd a)" and keep = "\<lambda>a. reportKey (snd a)",
        where Q = "\<lambda>source cs. list_all2 coversCase ?row cs", OF _ run] runSource_adds
    by (metis (no_types, lifting) snd_conv)
  moreover have "list_all2 coversCase (matrixOf xs) (concat css)"
    if "list_all2 (\<lambda>source cs. list_all2 coversCase ?row cs) xs css" for xs css
    using that by (induction xs css rule: list_all2_induct) (auto simp: matrixOf_def intro: list_all2_appendI)
  ultimately show ?thesis using \<open>rep' = snd acc'\<close> by blast
qed

end
