(* ===== verification/Walk_Paths.thy ===== *)
theory Walk_Paths
  imports Go_Walk
begin

text \<open>
  The paths a walk hands to its callback: below the root, each is the root joined with the names
  on the way, and \<open>Rel\<close> gives those names back.
\<close>

section \<open>Relative paths below a root\<close>

lemma dropCommon_prefix: "dropCommon qs (qs @ ns) = ([], ns)"
  by (induction qs) (cases ns, simp_all)

lemma pathParts_join: "(\<And>p. p \<in> set qs \<Longrightarrow> p \<noteq> '''' \<and> slash \<notin> set p) \<Longrightarrow> pathParts (joinWith slash qs) = qs"
proof (cases "qs = []")
  case False
  moreover assume "\<And>p. p \<in> set qs \<Longrightarrow> p \<noteq> '''' \<and> slash \<notin> set p"
  ultimately show ?thesis by (simp add: pathParts_def split_join filter_id_conv)
qed (simp add: pathParts_def)

lemma pathParts_render:
  assumes "canon r qs" and "qs \<noteq> [] \<or> r"
  shows "pathParts (renderPath r qs) = qs"
proof -
  have p: "pathParts (joinWith slash qs) = qs" by (rule pathParts_join) (use canon_part [OF assms(1)] in auto)
  have "joinWith slash qs \<noteq> ''''" if "qs \<noteq> []"
  proof -
    from that obtain q ps where "qs = q # ps" by (cases qs) auto
    with canon_part [OF assms(1), of q] show ?thesis by (cases ps; cases q) auto
  qed
  then show ?thesis using p assms(2)
    by (cases r) (auto simp: renderPath_def pathParts_def)
qed

lemma render_dot: "canon r qs \<Longrightarrow> renderPath r qs = ''.'' \<Longrightarrow> qs = []"
proof -
  assume c: "canon r qs" and "renderPath r qs = ''.''"
  then have "rootParts ''.'' = qs" using renderPath_facts(2) [OF c] by simp
  moreover have "rootParts ''.'' = []" by code_simp
  ultimately show "qs = []" by simp
qed

lemma Rel_below:
  assumes ns: "ns \<noteq> []" "list_all okPart ns"
  shows "Rel root (renderPath (rooted root) (rootParts root @ ns)) = Inr (joinWith slash ns)"
proof -
  let ?r = "rooted root" and ?qs = "rootParts root"
  let ?t = "renderPath ?r (?qs @ ns)"
  have cq: "canon ?r ?qs" by (rule canon_rootParts)
  have ct: "canon ?r (?qs @ ns)" using cq ns(2) by (rule canon_append_ok)
  have t: "Clean ?t = ?t" "rooted ?t = ?r" "rootParts ?t = ?qs @ ns"
    using renderPath_facts [OF ct] by (simp_all add: Clean_rootParts)
  have b: "Clean root = renderPath ?r ?qs" "rooted (Clean root) = ?r" "rootParts (Clean root) = ?qs"
    using renderPath_facts [OF cq] by (simp_all add: Clean_rootParts)
  have differ: "?t \<noteq> Clean root" using t(3) b(3) ns(1) by (metis append_self_conv)
  have parts: "(if Clean root = ''.'' then [] else pathParts (Clean root)) = ?qs"
  proof (cases "?qs = [] \<and> \<not> ?r")
    case True
    then show ?thesis by (simp add: b(1) renderPath_def)
  next
    case False
    then show ?thesis using pathParts_render [OF cq] render_dot [OF cq] b(1) by auto
  qed
  have "pathParts ?t = ?qs @ ns" using pathParts_render [OF ct] ns(1) by simp
  then show ?thesis
    using differ by (simp add: Rel_def t(1,2) b(2) parts dropCommon_prefix)
qed

section \<open>The files of a tree\<close>

text \<open>The entries below a directory that are no directories, by the names that lead to them.\<close>

fun leaves :: "DirTree \<Rightarrow> (string list \<times> EntryKind) list"
  and leavesAll :: "DirTree list \<Rightarrow> (string list \<times> EntryKind) list" where
  "leaves (Entry n k err cs) = (if k = KindDir then leavesAll cs else [([], k)])"
| "leavesAll [] = []"
| "leavesAll (c # cs) = map (\<lambda>(ns, k). (entryName c # ns, k)) (leaves c) @ leavesAll cs"

fun namesOK :: "DirTree \<Rightarrow> bool"
  and namesAllOK :: "DirTree list \<Rightarrow> bool" where
  "namesOK (Entry n k err cs) = namesAllOK cs"
| "namesAllOK [] = True"
| "namesAllOK (c # cs) = (okPart (entryName c) \<and> namesOK c \<and> namesAllOK cs)"

lemma leaves_ok:
  "namesOK d \<Longrightarrow> list_all (\<lambda>(ns, k). list_all okPart ns) (leaves d)"
  "namesAllOK ds \<Longrightarrow> list_all (\<lambda>(ns, k). list_all okPart ns \<and> ns \<noteq> []) (leavesAll ds)"
  by (induction d and ds rule: tree_induct) (fastforce simp: list_all_iff)+

text \<open>The path of an entry of a directory.\<close>

definition pathBelow :: "string \<Rightarrow> string list \<Rightarrow> string" where
  "pathBelow root ns = (if ns = [] then root else renderPath (rooted root) (rootParts root @ ns))"

lemma pathBelow_step: "list_all okPart ns \<Longrightarrow> okPart n \<Longrightarrow> PathJoin (pathBelow root ns) n = pathBelow root (ns @ [n])"
  using PathJoin_ok [of "[n]" root] PathJoin_step [OF canon_append_ok [OF canon_rootParts]]
  by (auto simp: pathBelow_def)

lemma pathBelow_join: "ns \<noteq> [] \<Longrightarrow> list_all okPart ns \<Longrightarrow> pathBelow root ns = PathJoin root (joinWith slash ns)"
  by (simp add: pathBelow_def PathJoin_ok)

lemma Rel_pathBelow: "ns \<noteq> [] \<Longrightarrow> list_all okPart ns \<Longrightarrow> Rel root (pathBelow root ns) = Inr (joinWith slash ns)"
  by (simp add: pathBelow_def Rel_below)

end
