(* ===== verification/Parity_Inventory.thy ===== *)
theory Parity_Inventory
  imports Parity_Facts Walk_Paths
begin

text \<open>
  The inventory of an output tree against its specification: \<open>inventoryOf\<close>, every file of the tree
  under its relative name with the digest of its content, and nothing else.
\<close>

definition recordedAs :: "'w Sys \<Rightarrow> (string \<Rightarrow> string) \<Rightarrow> string \<Rightarrow> 'w \<Rightarrow> string list \<Rightarrow>
    string list \<times> EntryKind \<Rightarrow> string \<times> string \<Rightarrow> bool" where
  "recordedAs h sha root w ns leaf kv \<longleftrightarrow>
     snd leaf = KindRegular \<and> fst kv = joinWith slash (ns @ fst leaf)
     \<and> (\<exists>b. sys_read h w (pathBelow root (ns @ fst leaf)) = Inr b \<and> snd kv = sha b)"

lemma recordedAs_shift:
  "recordedAs h sha root w (ns @ [n]) (ms, k) kv = recordedAs h sha root w ns (n # ms, k) kv"
  by (simp add: recordedAs_def)

lemma inventoryPick_file:
  assumes "inventoryPick h sha root w (pathBelow root ns) (Entry n k err cs) = Inr xs"
    and "k \<noteq> KindDir" "ns \<noteq> []" "list_all okPart ns"
  shows "\<exists>kv. xs = [kv] \<and> recordedAs h sha root w ns ([], k) kv"
  using assms by (auto simp: inventoryPick_def Rel_pathBelow recordedAs_def ToSlash_def split: if_splits sum.splits)

lemma inventoryPick_dir: "inventoryPick h sha root w path (Entry n KindDir err cs) = Inr []"
  by (simp add: inventoryPick_def)

lemma gather_inventory:
  "gather (\<lambda>_. False) (inventoryPick h sha root) HostError w (pathBelow root ns) d = Inr xs \<Longrightarrow>
     namesOK d \<Longrightarrow> list_all okPart ns \<Longrightarrow> ns \<noteq> [] \<or> entryKind d = KindDir \<Longrightarrow>
     list_all2 (recordedAs h sha root w ns) (leaves d) xs"
  "gatherAll (\<lambda>_. False) (inventoryPick h sha root) HostError w (pathBelow root ns) ds = Inr xs \<Longrightarrow>
     namesAllOK ds \<Longrightarrow> list_all okPart ns \<Longrightarrow> list_all2 (recordedAs h sha root w ns) (leavesAll ds) xs"
proof (induction d and ds arbitrary: ns xs and ns xs rule: tree_induct)
  case (Entry n k err cs)
  show ?case
  proof (cases "k = KindDir")
    case True
    then obtain ys where "gatherAll (\<lambda>_. False) (inventoryPick h sha root) HostError w (pathBelow root ns) cs = Inr ys"
        "xs = ys"
      using Entry.prems(1) by (auto simp: inventoryPick_dir bindR_Inr_iff split: option.splits)
    then show ?thesis using Entry True by simp
  next
    case False
    then have "inventoryPick h sha root w (pathBelow root ns) (Entry n k err cs) = Inr xs"
      using Entry.prems(1) by (auto simp: bindR_Inr_iff)
    then show ?thesis using inventoryPick_file False Entry.prems by fastforce
  qed
next
  case None_left
  then show ?case by simp
next
  case (Next d ds)
  have step: "PathJoin (pathBelow root ns) (entryName d) = pathBelow root (ns @ [entryName d])"
    using Next.prems by (simp add: pathBelow_step)
  obtain as bs where xs: "xs = as @ bs"
    and a: "gather (\<lambda>_. False) (inventoryPick h sha root) HostError w (pathBelow root (ns @ [entryName d])) d = Inr as"
    and b: "gatherAll (\<lambda>_. False) (inventoryPick h sha root) HostError w (pathBelow root ns) ds = Inr bs"
    using Next.prems(1) by (auto simp: bindR_Inr_iff step)
  have "list_all2 (recordedAs h sha root w (ns @ [entryName d])) (leaves d) as"
    using Next.IH(1) [OF a] Next.prems by simp
  then have "list_all2 (recordedAs h sha root w ns) (map (\<lambda>(ms, k). (entryName d # ms, k)) (leaves d)) as"
    unfolding list_all2_map1 by (rule list_all2_mono) (auto simp: recordedAs_shift)
  moreover have "list_all2 (recordedAs h sha root w ns) (leavesAll ds) bs"
    using Next.IH(2) [OF b] Next.prems by simp
  ultimately show ?case by (simp add: xs list_all2_appendI)
qed

lemma fold_putFile: "tbl_get (fold putFile xs t) k = (case map_of (rev xs) k of Some v \<Rightarrow> Some v | None \<Rightarrow> tbl_get t k)"
  by (induction xs arbitrary: t) (auto simp: putFile_def tbl_get_put map_add_def split: option.splits)

text \<open>The specification of an inventory of the tree \<open>d\<close> at \<open>root\<close> in the world \<open>w\<close>.\<close>

definition inventoryOf :: "'w Sys \<Rightarrow> (string \<Rightarrow> string) \<Rightarrow> string \<Rightarrow> 'w \<Rightarrow> DirTree \<Rightarrow> (string, string) table \<Rightarrow> bool" where
  "inventoryOf h sha root w d files \<longleftrightarrow>
     (\<forall>(ns, k) \<in> set (leaves d). k = KindRegular
        \<and> (\<exists>b. sys_read h w (PathJoin root (joinWith slash ns)) = Inr b
               \<and> tbl_get files (joinWith slash ns) = Some (sha b)))
     \<and> (\<forall>key. tbl_get files key \<noteq> None \<longrightarrow> (\<exists>(ns, k) \<in> set (leaves d). key = joinWith slash ns))"

lemma inventory_run:
  "inventory h sha root st = (Inr files, st') \<Longrightarrow> sys_tree h (ses_world st) root = Inr d \<Longrightarrow>
     \<exists>xs. gather (\<lambda>_. False) (inventoryPick h sha root) HostError (ses_world st) root d = Inr xs
       \<and> files = fold putFile xs tbl_empty \<and> st' = st"
  unfolding inventory_def inv.WalkDir_gather by (auto simp: bindR_Inr_iff)

lemma dir_leaves:
  "entryKind d = KindDir \<Longrightarrow> namesOK d \<Longrightarrow> (ns, k) \<in> set (leaves d) \<Longrightarrow> ns \<noteq> [] \<and> list_all okPart ns"
  using leaves_ok(2) by (cases d) (fastforce simp: list_all_iff)

lemma inventoryOf_gather:
  assumes run: "list_all2 (recordedAs h sha root w []) (leaves d) xs"
    and d: "entryKind d = KindDir" "namesOK d"
  shows "inventoryOf h sha root w d (fold putFile xs tbl_empty)"
proof -
  have get: "tbl_get (fold putFile xs tbl_empty) key = map_of (rev xs) key" for key
    by (simp add: fold_putFile split: option.splits)
  have source: "\<exists>ns k b. (ns, k) \<in> set (leaves d) \<and> key = joinWith slash ns
      \<and> sys_read h w (pathBelow root ns) = Inr b \<and> dig = sha b" if "(key, dig) \<in> set xs" for key dig
  proof -
    from that obtain i where i: "i < length xs" "xs ! i = (key, dig)" by (auto simp: in_set_conv_nth)
    then have "recordedAs h sha root w [] (leaves d ! i) (key, dig)" "leaves d ! i \<in> set (leaves d)"
      using run by (auto simp: list_all2_conv_all_nth)
    then show ?thesis by (cases "leaves d ! i") (auto simp: recordedAs_def)
  qed
  have "k = KindRegular \<and> (\<exists>b. sys_read h w (PathJoin root (joinWith slash ns)) = Inr b
      \<and> map_of (rev xs) (joinWith slash ns) = Some (sha b))" if leaf: "(ns, k) \<in> set (leaves d)" for ns k
  proof -
    note ok = dir_leaves [OF d leaf]
    from leaf obtain i where i: "i < length (leaves d)" "leaves d ! i = (ns, k)" by (auto simp: in_set_conv_nth)
    then have r: "recordedAs h sha root w [] (ns, k) (xs ! i)" "xs ! i \<in> set xs"
      using run by (auto simp: list_all2_conv_all_nth)
    then obtain b where b: "sys_read h w (pathBelow root ns) = Inr b" "fst (xs ! i) = joinWith slash ns"
      by (auto simp: recordedAs_def)
    have "map_of (rev xs) (joinWith slash ns) \<noteq> None"
      using r(2) b(2) by (metis map_of_eq_None_iff image_eqI set_rev)
    then obtain dig where dig: "map_of (rev xs) (joinWith slash ns) = Some dig" by blast
    then have "(joinWith slash ns, dig) \<in> set xs" using map_of_SomeD by fastforce
    then obtain ms j c where ms: "(ms, j) \<in> set (leaves d)" "joinWith slash ns = joinWith slash ms"
        "sys_read h w (pathBelow root ms) = Inr c" "dig = sha c" using source by blast
    then have "ms = ns" using ok dir_leaves [OF d ms(1)] by (metis split_join_ok)
    then have "dig = sha b" using ms b by simp
    then show ?thesis using r(1) b dig ok by (auto simp: recordedAs_def pathBelow_join)
  qed
  then show ?thesis
    unfolding inventoryOf_def get using source map_of_SomeD by fastforce
qed

end
