(* ===== verification/Parity_Scope.thy ===== *)
theory Parity_Scope
  imports Parity_Tool Walk_Paths
begin

text \<open>
  Where jcrpc-parity works: every operation of a verification happens inside its temporary
  directory, and the commands it runs are the two binaries.
\<close>

section \<open>Names inside the temporary directory\<close>

definition below :: "string \<Rightarrow> string \<Rightarrow> bool" where
  "below d p \<longleftrightarrow> (\<exists>n. okPart n \<and> p = pathBelow d [n])"

lemma JoinAll_two: "JoinAll [a, b] = PathJoin a b"
  by (simp add: JoinAll_def PathJoin_def)

lemma below_join: "okPart n \<Longrightarrow> below d (JoinAll [d, n])"
  by (auto simp: below_def JoinAll_two pathBelow_def PathJoin_ok [of "[n]", simplified])

lemma digits_no_slash: "slash \<notin> set (showNat n)"
  using showNat_digits [of n] by (auto simp: list_all_iff isDigit_def byte_def)

lemma okPart_pad3: "okPart (pad3 n @ ''-old'')" "okPart (pad3 n @ ''-new'')"
  using digits_no_slash [of n] by (auto simp: okPart_def pad3_def append_eq_Cons_conv)

lemma okPart_policy: "policy \<in> set policies \<Longrightarrow> okPart (''policy-'' @ showNat n @ ''-'' @ policy @ ''.toml'')"
  using digits_no_slash [of n] by (auto simp: okPart_def policies_def)

section \<open>Operations\<close>

definition parityOp :: "'w Sys \<Rightarrow> string \<Rightarrow> string \<Rightarrow> string option \<Rightarrow> HostEvent \<Rightarrow> bool" where
  "parityOp h old new dir ev =
     (case dir of
        None \<Rightarrow> False
      | Some d \<Rightarrow> (case ev of
            RunCmd c r \<Rightarrow> sys_abs h old = Inr (cmd_name c) \<or> sys_abs h new = Inr (cmd_name c)
          | MkDirAll p \<Rightarrow> below d p
          | WriteTo p data mode \<Rightarrow> below d p \<or> (\<exists>n k. p = JoinAll [JoinAll [d, pad3 n @ ''-new''], k])
          | _ \<Rightarrow> False))"

lemma hashFile_confined [confine]: "confined P (hashFile h sha path)"
  by (auto simp: hashFile_def intro!: confine)

lemma inventoryEntry_confined [confine]: "confined P (inventoryEntry h sha root path entry err files)"
  by (auto simp: inventoryEntry_def intro!: confine split: option.split)

lemma exampleEntry_confined [confine]: "confined P (exampleEntry path entry err inputs)"
  by (auto simp: exampleEntry_def intro!: confine split: option.split)

lemma inventory_confined [confine]: "confined P (inventory h sha root)"
  by (auto simp: inventory_def intro!: confine)

lemma failing_confined [confine]: "confined P m \<Longrightarrow> confined P (failing rep m)"
  by (simp add: failing_def confine)

lemma invoke_confined:
  assumes "sys_abs h old = Inr binary \<or> sys_abs h new = Inr binary" "below d output"
  shows "confined (parityOp h old new (Some d)) (invoke h sha binary output args)"
  using assms by (auto simp: invoke_def Let_def parityOp_def intro!: confine)

lemma policyInput_confined:
  "policy \<in> set policies \<Longrightarrow> confined (parityOp h old new (Some d)) (policyInput h sha d source policy idx)"
  unfolding policyInput_def Let_def
  by (intro confine) (simp add: parityOp_def below_join okPart_policy del: append.simps)

lemma plantByte_confined:
  "confined (parityOp h old new (Some d)) (plantByte h sha (JoinAll [d, pad3 n @ ''-new'']) b)"
  unfolding plantByte_def Let_def by (intro confine) (auto simp: parityOp_def)

lemma runCase_confined:
  assumes "sys_abs h old = Inr o'" "sys_abs h new = Inr n'"
  shows "confined (parityOp h old new (Some d)) (runCase h sha o' n' d policy input digest args acc)"
  unfolding runCase_def Let_def using assms
  by (cases acc)
     (auto intro!: confine invoke_confined plantByte_confined below_join okPart_pad3 split: option.split)

lemma runMatrix_confined:
  assumes "sys_abs h old = Inr o'" "sys_abs h new = Inr n'"
  shows "confined (parityOp h old new (Some d)) (runMatrix h sha o' n' inputs d acc)"
  unfolding runMatrix_def runSource_def runPolicy_def
  by (auto intro!: confine policyInput_confined runCase_confined assms split: prod.split)

lemma scopedTemp_lift:
  "(\<And>x. r = Inr x \<Longrightarrow> scopedTemp P (f x)) \<Longrightarrow> scopedTemp P (bindA (failing rep (errorA g (liftA r))) f)"
  by (cases r) (auto simp: scopedTemp_def bindA_def failing_def errorA_def liftA_def tidyTrace_def)

lemma failing_mkdirTemp_quiet:
  "failing rep (errorA g (mkdirTempA h pat)) st = (Inl e, st') \<Longrightarrow> ses_events st' = ses_events st"
  "failing rep (errorA g (mkdirTempA h pat)) st = (Inr d, st') \<Longrightarrow> ses_events st' = ses_events st @ [MkTempDir d]"
  by (auto simp: failing_def act_simps mkdirTempA_def dest: newA_events)

lemmas scopedTemp_report = scopedTemp_new [OF failing_mkdirTemp_quiet]

lemma verify_scoped: "scopedTemp (parityOp h old new) (verify h sha old new repo consumer plant)"
  unfolding verify_def Let_def
  by (intro scopedTemp_lift scopedTemp_bind scopedTemp_then scopedTemp_report runMatrix_confined confine)

end
