(* ===== verification/Parity_Accepts.thy ===== *)
theory Parity_Accepts
  imports Parity_Inventory Parity_Scope
begin

text \<open>
  That jcrpc-parity raises no false alarm: two binaries that behave as one generator are accepted.
  The generator is a function of the arguments and the document; that a binary behaves as it on a
  host, and what the host has to do, are stated as predicates over the host.
\<close>

section \<open>Loops that succeed\<close>

lemma foldA_succeeds:
  assumes step: "\<And>x s st. x \<in> set xs \<Longrightarrow> P s st \<Longrightarrow> \<exists>s' st'. f x s st = (Inr s', st') \<and> P s' st'"
  shows "P s st \<Longrightarrow> \<exists>s' st'. foldA f xs s st = (Inr s', st') \<and> P s' st'"
  using step
proof (induction xs arbitrary: s st)
  case Nil
  then show ?case by (simp add: retA_def)
next
  case (Cons x xs)
  obtain s1 st1 where 1: "f x s st = (Inr s1, st1)" "P s1 st1" using Cons.prems by fastforce
  then obtain s' st' where "foldA f xs s1 st1 = (Inr s', st') \<and> P s' st'"
    using Cons.IH Cons.prems(2) by fastforce
  then show ?case using 1 by (auto simp: bindA_def)
qed

section \<open>Paths outside a directory\<close>

definition outside :: "string \<Rightarrow> string \<Rightarrow> bool" where
  "outside dir p \<longleftrightarrow> (\<forall>ns. ns \<noteq> [] \<and> list_all okPart ns \<longrightarrow> p \<noteq> pathBelow dir ns)"

lemma rootParts_pathBelow: "list_all okPart ns \<Longrightarrow> ns \<noteq> [] \<Longrightarrow> rootParts (pathBelow dir ns) = rootParts dir @ ns"
  using renderPath_facts(2) [OF canon_append_ok [OF canon_rootParts]] by (simp add: pathBelow_def)

lemma rooted_pathBelow: "list_all okPart ns \<Longrightarrow> ns \<noteq> [] \<Longrightarrow> rooted (pathBelow dir ns) = rooted dir"
  using renderPath_facts(1) [OF canon_append_ok [OF canon_rootParts]] by (simp add: pathBelow_def)

lemma pathBelow_pathBelow:
  assumes "okPart n" "list_all okPart ns" "ns \<noteq> []"
  shows "pathBelow (pathBelow root [n]) ns = pathBelow root (n # ns)"
  using assms rooted_pathBelow [of "[n]" root] rootParts_pathBelow [of "[n]" root]
  by (simp add: pathBelow_def)

lemma outside_below: "outside root p \<Longrightarrow> below root dir \<Longrightarrow> outside dir p"
  unfolding outside_def below_def by (metis list.simps(3) list.pred_inject(2) pathBelow_pathBelow)

lemma outside_sibling:
  assumes "okPart m" "okPart n" "m \<noteq> n"
  shows "outside (pathBelow root [m]) (pathBelow root [n])"
proof (unfold outside_def, intro allI impI notI)
  fix ns assume ns: "ns \<noteq> [] \<and> list_all okPart ns" and eq: "pathBelow root [n] = pathBelow (pathBelow root [m]) ns"
  then have "rootParts root @ [n] = rootParts root @ m # ns"
    using assms rootParts_pathBelow [of "[n]" root] rootParts_pathBelow [of "m # ns" root]
    by (simp add: pathBelow_pathBelow)
  then show False using ns by simp
qed

lemma below_two: "okPart n \<Longrightarrow> JoinAll [root, n] = pathBelow root [n]"
  by (simp add: JoinAll_two pathBelow_def PathJoin_ok [of "[n]", simplified])

section \<open>Trees with one content\<close>

text \<open>Every directory could be read and every file is regular.\<close>

fun intact :: "DirTree \<Rightarrow> bool"
  and intactAll :: "DirTree list \<Rightarrow> bool" where
  "intact (Entry n k err cs) = (if k = KindDir then err = None \<and> intactAll cs else k = KindRegular)"
| "intactAll [] = True"
| "intactAll (c # cs) = (intact c \<and> intactAll cs)"

definition leafRecord :: "(string \<Rightarrow> string) \<Rightarrow> (string list \<Rightarrow> string) \<Rightarrow> string list \<Rightarrow> string list \<times> EntryKind \<Rightarrow> string \<times> string" where
  "leafRecord sha content ns leaf = (joinWith slash (ns @ fst leaf), sha (content (ns @ fst leaf)))"

lemma gather_content:
  "intact d \<Longrightarrow> namesOK d \<Longrightarrow> list_all okPart ns \<Longrightarrow> ns \<noteq> [] \<Longrightarrow>
     \<forall>l\<in>set (leaves d). sys_read h w (pathBelow dir (ns @ fst l)) = Inr (content (ns @ fst l)) \<Longrightarrow>
     gather (\<lambda>_. False) (inventoryPick h sha dir) HostError w (pathBelow dir ns) d = Inr (map (leafRecord sha content ns) (leaves d))"
  "intactAll ds \<Longrightarrow> namesAllOK ds \<Longrightarrow> list_all okPart ns \<Longrightarrow>
     \<forall>l\<in>set (leavesAll ds). sys_read h w (pathBelow dir (ns @ fst l)) = Inr (content (ns @ fst l)) \<Longrightarrow>
     gatherAll (\<lambda>_. False) (inventoryPick h sha dir) HostError w (pathBelow dir ns) ds = Inr (map (leafRecord sha content ns) (leavesAll ds))"
proof (induction d and ds arbitrary: ns and ns rule: tree_induct)
  case (Entry n k err cs)
  show ?case
  proof (cases "k = KindDir")
    case True
    then show ?thesis using Entry by (simp add: inventoryPick_dir)
  next
    case False
    then show ?thesis using Entry.prems
      by (simp add: inventoryPick_def Rel_pathBelow ToSlash_def leafRecord_def)
  qed
next
  case None_left
  then show ?case by simp
next
  case (Next d ds)
  have step: "PathJoin (pathBelow dir ns) (entryName d) = pathBelow dir (ns @ [entryName d])"
    using Next.prems by (simp add: pathBelow_step)
  have "gather (\<lambda>_. False) (inventoryPick h sha dir) HostError w (pathBelow dir (ns @ [entryName d])) d
      = Inr (map (leafRecord sha content (ns @ [entryName d])) (leaves d))"
  proof (rule Next.IH(1))
    show "\<forall>l\<in>set (leaves d). sys_read h w (pathBelow dir ((ns @ [entryName d]) @ fst l)) = Inr (content ((ns @ [entryName d]) @ fst l))"
    proof
      fix l assume "l \<in> set (leaves d)"
      then have "(entryName d # fst l, snd l) \<in> set (leavesAll (d # ds))" by (force simp: case_prod_beta)
      from bspec [OF Next.prems(4) this]
      show "sys_read h w (pathBelow dir ((ns @ [entryName d]) @ fst l)) = Inr (content ((ns @ [entryName d]) @ fst l))" by simp
    qed
  qed (use Next.prems in simp_all)
  moreover have "gatherAll (\<lambda>_. False) (inventoryPick h sha dir) HostError w (pathBelow dir ns) ds
      = Inr (map (leafRecord sha content ns) (leavesAll ds))"
    by (rule Next.IH(2)) (use Next.prems in auto)
  ultimately show ?case by (simp add: step leafRecord_def case_prod_beta comp_def)
qed

section \<open>One generator\<close>

text \<open>What a generator does with arguments and a document: the exit code, the two outputs with the
  output directory abstracted, and the files below that directory.\<close>

record outcome =
  out_code :: int
  out_stdout :: string
  out_stderr :: string
  out_tree :: "DirTree list"
  out_content :: "string list \<Rightarrow> string"

type_synonym generator = "string list \<Rightarrow> string \<Rightarrow> outcome"

definition goodOutcome :: "outcome \<Rightarrow> bool" where
  "goodOutcome g \<longleftrightarrow> intactAll (out_tree g) \<and> namesAllOK (out_tree g)"

text \<open>A binary runs as the generator \<open>G\<close> below \<open>root\<close> in the worlds \<open>Ok\<close>: whatever new directory it is given,
  what it does depends on the other arguments and the document alone, and it changes nothing that
  is read elsewhere.\<close>

definition runsAs :: "'w Sys \<Rightarrow> ('w \<Rightarrow> bool) \<Rightarrow> string \<Rightarrow> generator \<Rightarrow> string \<Rightarrow> bool" where
  "runsAs h Ok root G binary \<longleftrightarrow>
     (\<forall>w dir args input doc. Ok w \<and> below root dir \<and> outside dir input \<and> sys_read h w input = Inr doc \<longrightarrow>
        (case sys_exec h \<lparr>cmd_name = binary, cmd_args = args @ [''--out-dir'', dir, input], cmd_dir = [], cmd_env = []\<rparr> w of
           (r, w') \<Rightarrow>
             exec_status r = Exited (out_code (G args doc))
           \<and> replaceAll (exec_stdout r) dir ''<out-dir>'' = out_stdout (G args doc)
           \<and> replaceAll (exec_stderr r) dir ''<out-dir>'' = out_stderr (G args doc)
           \<and> (\<exists>n. sys_tree h w' dir = Inr (Entry n KindDir None (out_tree (G args doc))))
           \<and> (\<forall>l\<in>set (leavesAll (out_tree (G args doc))). sys_read h w' (pathBelow dir (fst l)) = Inr (out_content (G args doc) (fst l)))
           \<and> Ok w' \<and> (\<forall>p. outside dir p \<longrightarrow> sys_read h w' p = sys_read h w p)))"

definition invoked :: "(string \<Rightarrow> string) \<Rightarrow> outcome \<Rightarrow> string list \<Rightarrow> string \<Rightarrow> string \<Rightarrow> invocation" where
  "invoked sha g args dir input =
     \<lparr>Inv_Args = args @ [''--out-dir'', dir, input], Inv_Exit = out_code g, Inv_Stdout = out_stdout g, Inv_Stderr = out_stderr g,
      Inv_Files = fold putFile (map (leafRecord sha (out_content g) []) (leavesAll (out_tree g))) tbl_empty\<rparr>"

text \<open>Creating directories and writing below \<open>root\<close> succeeds and changes no other file.\<close>

definition plainBelow :: "'w Sys \<Rightarrow> ('w \<Rightarrow> bool) \<Rightarrow> string \<Rightarrow> bool" where
  "plainBelow h Ok root \<longleftrightarrow>
     (\<forall>w p. Ok w \<and> below root p \<longrightarrow>
        (case sys_mkdirAll h p w of (e, w') \<Rightarrow> e = None \<and> Ok w' \<and> (\<forall>q. sys_read h w' q = sys_read h w q))
      \<and> (\<forall>data mode. case sys_write h p data mode w of (e, w') \<Rightarrow> e = None \<and> Ok w' \<and> sys_read h w' p = Inr data))"

lemma inventory_content:
  assumes "sys_tree h (ses_world st) dir = Inr (Entry n KindDir None (out_tree g))" "goodOutcome g"
    and "\<forall>l\<in>set (leavesAll (out_tree g)). sys_read h (ses_world st) (pathBelow dir (fst l)) = Inr (out_content g (fst l))"
  shows "inventory h sha dir st = (Inr (fold putFile (map (leafRecord sha (out_content g) []) (leavesAll (out_tree g))) tbl_empty), st)"
proof -
  have "gatherAll (\<lambda>_. False) (inventoryPick h sha dir) HostError (ses_world st) (pathBelow dir []) (out_tree g)
      = Inr (map (leafRecord sha (out_content g) []) (leavesAll (out_tree g)))"
    by (rule gather_content(2)) (use assms in \<open>simp_all add: goodOutcome_def\<close>)
  then show ?thesis
    unfolding inventory_def inv.WalkDir_gather by (simp add: assms(1) inventoryPick_dir pathBelow_def)
qed

lemma plainBelow_mkdir:
  assumes "plainBelow h Ok root" "Ok w" "below root p"
  obtains w' where "sys_mkdirAll h p w = (None, w')" "Ok w'" "\<forall>q. sys_read h w' q = sys_read h w q"
proof -
  obtain e w' where run: "sys_mkdirAll h p w = (e, w')" by fastforce
  from conjunct1 [OF assms(1) [unfolded plainBelow_def, rule_format, OF conjI [OF assms(2,3)]]]
  show thesis using that run by simp
qed

lemma plainBelow_write:
  assumes "plainBelow h Ok root" "Ok w" "below root p"
  obtains w' where "sys_write h p data mode w = (None, w')" "Ok w'" "sys_read h w' p = Inr data"
proof -
  obtain e w' where run: "sys_write h p data mode w = (e, w')" by fastforce
  from conjunct2 [OF assms(1) [unfolded plainBelow_def, rule_format, OF conjI [OF assms(2,3)]], rule_format, of data mode]
  show thesis using that run by simp
qed

definition runCmd :: "string \<Rightarrow> string list \<Rightarrow> string \<Rightarrow> string \<Rightarrow> Cmd" where
  "runCmd binary args dir input =
     \<lparr>cmd_name = binary, cmd_args = args @ [''--out-dir'', dir, input], cmd_dir = [], cmd_env = []\<rparr>"

lemma runsAs_run:
  assumes "runsAs h Ok root G binary" "Ok w" "below root dir" "outside dir input" "sys_read h w input = Inr doc"
  obtains r w' where "sys_exec h (runCmd binary args dir input) w = (r, w')"
    "exec_status r = Exited (out_code (G args doc))"
    "replaceAll (exec_stdout r) dir ''<out-dir>'' = out_stdout (G args doc)"
    "replaceAll (exec_stderr r) dir ''<out-dir>'' = out_stderr (G args doc)"
    "\<exists>n. sys_tree h w' dir = Inr (Entry n KindDir None (out_tree (G args doc)))"
    "\<forall>l\<in>set (leavesAll (out_tree (G args doc))). sys_read h w' (pathBelow dir (fst l)) = Inr (out_content (G args doc) (fst l))"
    "Ok w'" "\<forall>p. outside dir p \<longrightarrow> sys_read h w' p = sys_read h w p"
proof -
  obtain r w' where run: "sys_exec h (runCmd binary args dir input) w = (r, w')" by fastforce
  show thesis
    by (rule that [OF run])
       (use assms(1) [unfolded runsAs_def, rule_format, of w dir input doc args] assms(2-) run in \<open>simp_all add: runCmd_def\<close>)
qed

lemma invoke_runs:
  fixes h :: "'w Sys"
  assumes b: "runsAs h Ok root G binary" and p: "plainBelow h Ok root" and g: "goodOutcome (G args doc)"
    and st: "Ok (ses_world st)" "below root dir" "outside dir input" "sys_read h (ses_world st) input = Inr doc"
  shows "\<exists>st'. invoke h sha binary dir (args @ [input]) st = (Inr (invoked sha (G args doc) args dir input), st')
    \<and> Ok (ses_world st') \<and> (\<forall>q. outside dir q \<longrightarrow> sys_read h (ses_world st') q = sys_read h (ses_world st) q)"
proof -
  obtain w1 where w1: "sys_mkdirAll h dir (ses_world st) = (None, w1)" "Ok w1" "\<forall>q. sys_read h w1 q = sys_read h (ses_world st) q"
    using plainBelow_mkdir [OF p st(1,2)] .
  have doc: "sys_read h w1 input = Inr doc" using w1(3) st(4) by simp
  obtain r w2 where run: "sys_exec h (runCmd binary args dir input) w1 = (r, w2)"
    and e: "exec_status r = Exited (out_code (G args doc))"
      "replaceAll (exec_stdout r) dir ''<out-dir>'' = out_stdout (G args doc)"
      "replaceAll (exec_stderr r) dir ''<out-dir>'' = out_stderr (G args doc)"
      "\<exists>n. sys_tree h w2 dir = Inr (Entry n KindDir None (out_tree (G args doc)))"
      "\<forall>l\<in>set (leavesAll (out_tree (G args doc))). sys_read h w2 (pathBelow dir (fst l)) = Inr (out_content (G args doc) (fst l))"
      "Ok w2" "\<forall>p. outside dir p \<longrightarrow> sys_read h w2 p = sys_read h w1 p"
    using runsAs_run [OF b w1(2) st(2,3) doc] .
  define st2 where "st2 = \<lparr>ses_events = ses_events st @ [MkDirAll dir, RunCmd (runCmd binary args dir input) r], ses_world = w2\<rparr>"
  obtain n where n: "sys_tree h (ses_world st2) dir = Inr (Entry n KindDir None (out_tree (G args doc)))"
    using e(4) by (auto simp: st2_def)
  have inv: "inventory h sha dir st2 =
      (Inr (fold putFile (map (leafRecord sha (out_content (G args doc)) []) (leavesAll (out_tree (G args doc)))) tbl_empty), st2)"
    by (rule inventory_content [OF n g]) (use e(5) in \<open>simp add: st2_def\<close>)
  have mk: "errorA HostError (mkdirAllA h dir) st = (Inr (), \<lparr>ses_events = ses_events st @ [MkDirAll dir], ses_world = w1\<rparr>)"
    by (simp add: errorA_def mkdirAllA_def opA_def stepA_def unitResult_def w1(1))
  have ex: "(execA h (runCmd binary args dir input) :: ('w, ParityError, ExecResult) act)
      \<lparr>ses_events = ses_events st @ [MkDirAll dir], ses_world = w1\<rparr> = (Inr r, st2)"
    by (simp add: execA_def stepA_def run st2_def)
  have "invoke h sha binary dir (args @ [input]) st = (Inr (invoked sha (G args doc) args dir input), st2)"
    using ex inv e(1,2,3)
    by (simp add: invoke_def bindA_def thenA_def mk liftA_def retA_def exitCodeOf_def Let_def invoked_def flip: runCmd_def)
  then show ?thesis using e(6,7) w1(3) by (auto simp: st2_def)
qed

section \<open>One case\<close>

text \<open>The document of a policy, and that the generator refuses the two invalid ones.\<close>

definition policyDoc :: "string \<Rightarrow> string \<Rightarrow> string" where
  "policyDoc policy doc =
     (if policy = '''' then doc
      else replaceFirst ''[applet]''
        (''[applet]'' @ [CHR 0x0A] @ ''stream_workspace = '' @ [CHR 0x22] @ policy @ [CHR 0x22]) doc)"

definition refusesPolicy :: "generator \<Rightarrow> string \<Rightarrow> bool" where
  "refusesPolicy G doc \<longleftrightarrow>
     (\<forall>args policy. invalidPolicy policy \<longrightarrow>
        (case G args (policyDoc policy doc) of g \<Rightarrow>
           out_code g = 1 \<and> leavesAll (out_tree g) = [] \<and> strContains (out_stderr g) ''applet.stream_workspace''))"

lemma runCase_accepts:
  assumes twins: "runsAs h Ok root G o'" "runsAs h Ok root G n'" and p: "plainBelow h Ok root"
    and g: "\<forall>args doc. goodOutcome (G args doc)"
    and inv: "invalidPolicy policy \<Longrightarrow> refused (invoked sha (G args doc) args dir input)"
    and st: "Ok (ses_world st)" "sys_read h (ses_world st) input = Inr doc"
    and out: "\<And>n. outside (JoinAll [root, pad3 n @ ''-old'']) input" "\<And>n. outside (JoinAll [root, pad3 n @ ''-new'']) input"
  shows "\<exists>rep' st'. runCase h sha o' n' root policy input digest args (False, rep) st = (Inr (False, rep'), st')
    \<and> Ok (ses_world st') \<and> sys_read h (ses_world st') input = Inr doc"
proof -
  let ?k = "length (Rep_Comparisons rep)"
  let ?old = "JoinAll [root, pad3 ?k @ ''-old'']" and ?new = "JoinAll [root, pad3 ?k @ ''-new'']"
  obtain s1 where 1: "invoke h sha o' ?old (args @ [input]) st = (Inr (invoked sha (G args doc) args ?old input), s1)"
      "Ok (ses_world s1)" "sys_read h (ses_world s1) input = Inr doc"
    using invoke_runs [OF twins(1) p _ st(1) below_join [OF okPart_pad3(1)] out(1) st(2)] g out(1) st(2) by metis
  obtain s2 where 2: "invoke h sha n' ?new (args @ [input]) s1 = (Inr (invoked sha (G args doc) args ?new input), s2)"
      "Ok (ses_world s2)" "sys_read h (ses_world s2) input = Inr doc"
    using invoke_runs [OF twins(2) p _ 1(2) below_join [OF okPart_pad3(2)] out(2) 1(3)] g out(2) 1(3) by metis
  have same: "sameBehavior (invoked sha (G args doc) args ?old input) (invoked sha (G args doc) args ?new input)"
    by (simp add: sameBehavior_def invoked_def)
  have files: "compareFiles (Inv_Files (invoked sha (G args doc) args ?old input))
      (Inv_Files (invoked sha (G args doc) args ?new input)) = None"
    by (simp add: compareFiles_None invoked_def)
  have pol: "\<not> invalidPolicy policy \<or> refused (invoked sha (G args doc) args ?old input) \<and> refused (invoked sha (G args doc) args ?new input)"
    using inv by (auto simp: refused_def invoked_def)
  show ?thesis
    using 1 2 same files pol
    by (simp add: runCase_def failing_def errorA_def bindA_def thenA_def requireA_def retA_def Let_def)
qed

section \<open>The matrix\<close>

lemma pad3_digits: "pad3 n \<noteq> [] \<and> list_all isDigit (pad3 n)"
  using showNat_digits [of n] by (auto simp: pad3_def isDigit_def byte_def list_all_iff)

lemma policy_name_differs: "pad3 n @ s \<noteq> ''policy-'' @ t"
  using pad3_digits [of n] by (cases "pad3 n") (auto simp: isDigit_def byte_def)

text \<open>A source document: where it is, that it stays readable, and that it can carry a policy.\<close>

definition sourceAt :: "'w Sys \<Rightarrow> ('w \<Rightarrow> bool) \<Rightarrow> string \<Rightarrow> generator \<Rightarrow> string \<Rightarrow> bool" where
  "sourceAt h Ok root G source \<longleftrightarrow>
     (\<exists>p doc. sys_abs h source = Inr p \<and> outside root p \<and> (\<forall>w. Ok w \<longrightarrow> sys_read h w p = Inr doc)
        \<and> strCount doc ''[applet]'' = 1 \<and> refusesPolicy G doc)"

definition policyFile :: "string \<Rightarrow> nat \<Rightarrow> string \<Rightarrow> string" where
  "policyFile root idx policy = JoinAll [root, ''policy-'' @ showNat idx @ ''-'' @ policy @ ''.toml'']"

lemma policyInput_variant:
  "policy \<noteq> '''' \<Longrightarrow> policyInput h sha root source policy idx =
     bindA (errorA HostError (liftA (sys_abs h source))) (\<lambda>input.
     bindA (hashFile h sha input) (\<lambda>digest.
     bindA (errorA HostError (readA h input)) (\<lambda>raw.
     thenA (requireA (strCount raw ''[applet]'' = 1) (PolicyNeedsOneTable input))
    (thenA (errorA HostError (writeA h (policyFile root idx policy) (policyDoc policy raw) 420))
    (bindA (hashFile h sha (policyFile root idx policy)) (\<lambda>digest'.
       retA (policyFile root idx policy, digest')))))))"
  by (simp add: policyInput_def policyDoc_def policyFile_def Let_def)

lemma policyInput_accepts:
  fixes h :: "'w Sys"
  assumes src: "sourceAt h Ok root G source" and p: "plainBelow h Ok root" and policy: "policy \<in> set policies"
    and st: "Ok (ses_world st)"
  shows "\<exists>input digest doc st'. policyInput h sha root source policy idx st = (Inr (input, digest), st')
    \<and> Ok (ses_world st') \<and> sys_read h (ses_world st') input = Inr (policyDoc policy doc) \<and> refusesPolicy G doc
    \<and> (\<forall>n. outside (JoinAll [root, pad3 n @ ''-old'']) input \<and> outside (JoinAll [root, pad3 n @ ''-new'']) input)"
proof -
  obtain q doc where q: "sys_abs h source = Inr q" "outside root q" "\<forall>w. Ok w \<longrightarrow> sys_read h w q = Inr doc"
      "strCount doc ''[applet]'' = 1" "refusesPolicy G doc"
    using src unfolding sourceAt_def by blast
  have far: "\<forall>n. outside (JoinAll [root, pad3 n @ ''-old'']) q \<and> outside (JoinAll [root, pad3 n @ ''-new'']) q"
    using outside_below [OF q(2)] below_join okPart_pad3 by blast
  have hash: "hashFile h sha f s = (Inr (sha b), s)" if "sys_read h (ses_world s) f = Inr b" for f b and s :: "'w Ses"
    using that by (simp add: hashFile_def bindA_def errorA_def readA_def lookA_def retA_def)
  show ?thesis
  proof (cases "policy = ''''")
    case True
    then have "policyInput h sha root source policy idx st = (Inr (q, sha doc), st)"
      using q(1,3) st by (simp add: policyInput_def bindA_def errorA_def liftA_def hash retA_def)
    then show ?thesis using q st far True by (metis policyDoc_def)
  next
    case False
    let ?f = "policyFile root idx policy"
    obtain m where m: "okPart m" "?f = JoinAll [root, m]" "m = ''policy-'' @ showNat idx @ ''-'' @ policy @ ''.toml''"
      using okPart_policy [OF policy] by (simp add: policyFile_def)
    obtain w' where w': "sys_write h ?f (policyDoc policy doc) 420 (ses_world st) = (None, w')" "Ok w'"
        "sys_read h w' ?f = Inr (policyDoc policy doc)"
      using plainBelow_write [OF p st below_join [OF m(1)]] unfolding m(2) .
    have "policyInput h sha root source policy idx st = (Inr (?f, sha (policyDoc policy doc)),
        \<lparr>ses_events = ses_events st @ [WriteTo ?f (policyDoc policy doc) 420], ses_world = w'\<rparr>)"
      using q(1,3,4) st w'(1,3) False
      by (simp add: policyInput_variant bindA_def errorA_def liftA_def hash retA_def thenA_def requireA_def readA_def
          lookA_def writeA_def opA_def stepA_def unitResult_def)
    moreover have "outside (JoinAll [root, pad3 n @ s]) ?f" if "okPart (pad3 n @ s)" for n s
      unfolding m(2) below_two [OF that] below_two [OF m(1)]
      by (rule outside_sibling) (use that m policy_name_differs in auto)
    ultimately show ?thesis using w' q(5) okPart_pad3 by fastforce
  qed
qed

text \<open>Two binaries that run as one generator on a plain host.\<close>

definition twins :: "'w Sys \<Rightarrow> ('w \<Rightarrow> bool) \<Rightarrow> string \<Rightarrow> generator \<Rightarrow> string \<Rightarrow> string \<Rightarrow> bool" where
  "twins h Ok root G o' n' \<longleftrightarrow> runsAs h Ok root G o' \<and> runsAs h Ok root G n' \<and> plainBelow h Ok root
     \<and> (\<forall>args doc. goodOutcome (G args doc))"

lemma refused_invoked:
  "refusesPolicy G doc \<Longrightarrow> invalidPolicy policy \<Longrightarrow> refused (invoked sha (G args (policyDoc policy doc)) args dir input)"
  unfolding refusesPolicy_def by (auto simp: refused_def invoked_def tbl_empty_def)

lemma runPolicy_accepts:
  fixes h :: "'w Sys"
  assumes t: "twins h Ok root G o' n'" and src: "sourceAt h Ok root G source" and policy: "policy \<in> set policies"
    and st: "Ok (ses_world st)"
  shows "\<exists>rep' st'. runPolicy h sha o' n' root source policy (False, rep) st = (Inr (False, rep'), st') \<and> Ok (ses_world st')"
proof -
  have tw: "runsAs h Ok root G o'" "runsAs h Ok root G n'" "plainBelow h Ok root" "\<forall>args doc. goodOutcome (G args doc)"
    using t by (auto simp: twins_def)
  obtain input digest doc s1 where pin: "policyInput h sha root source policy (length (Rep_Comparisons rep)) st = (Inr (input, digest), s1)"
      "Ok (ses_world s1)" "sys_read h (ses_world s1) input = Inr (policyDoc policy doc)" "refusesPolicy G doc"
      "\<And>n. outside (JoinAll [root, pad3 n @ ''-old'']) input" "\<And>n. outside (JoinAll [root, pad3 n @ ''-new'']) input"
    using policyInput_accepts [OF src tw(3) policy st] by blast
  let ?P = "\<lambda>(acc :: bool \<times> report) (s :: 'w Ses). \<not> fst acc \<and> Ok (ses_world s) \<and> sys_read h (ses_world s) input = Inr (policyDoc policy doc)"
  have "\<exists>acc' st'. foldA (runCase h sha o' n' root policy input digest) (casesFor policy) (False, rep) s1 = (Inr acc', st') \<and> ?P acc' st'"
  proof (rule foldA_succeeds [where P = ?P])
    fix args and acc :: "bool \<times> report" and s :: "'w Ses" assume "?P acc s"
    then obtain rep1 where acc: "acc = (False, rep1)" and s: "Ok (ses_world s)"
        "sys_read h (ses_world s) input = Inr (policyDoc policy doc)"
      by (cases acc) auto
    have "\<exists>rep' s'. runCase h sha o' n' root policy input digest args (False, rep1) s = (Inr (False, rep'), s')
        \<and> Ok (ses_world s') \<and> sys_read h (ses_world s') input = Inr (policyDoc policy doc)"
      by (rule runCase_accepts [OF tw _ s pin(5,6)]) (rule refused_invoked [OF pin(4)])
    then show "\<exists>acc' s'. runCase h sha o' n' root policy input digest args acc s = (Inr acc', s') \<and> ?P acc' s'"
      unfolding acc by fastforce
  qed (use pin(2,3) in simp)
  then obtain acc' st' where "foldA (runCase h sha o' n' root policy input digest) (casesFor policy) (False, rep) s1 = (Inr acc', st')"
      "\<not> fst acc'" "Ok (ses_world st')" by blast
  then show ?thesis using pin(1) by (cases acc') (auto simp: runPolicy_def bindA_def failing_def errorA_def)
qed

lemma runMatrix_accepts:
  fixes h :: "'w Sys"
  assumes t: "twins h Ok root G o' n'" and src: "\<forall>source\<in>set sources. sourceAt h Ok root G source" and st: "Ok (ses_world st)"
  shows "\<exists>rep' st'. runMatrix h sha o' n' sources root (False, rep) st = (Inr rep', st')"
proof -
  let ?P = "\<lambda>(acc :: bool \<times> report) (s :: 'w Ses). \<not> fst acc \<and> Ok (ses_world s)"
  have policy: "\<exists>acc' s'. runPolicy h sha o' n' root source policy acc s = (Inr acc', s') \<and> ?P acc' s'"
    if "source \<in> set sources" "policy \<in> set policies" "?P acc s" for source policy acc s
    using runPolicy_accepts [OF t, of source policy s sha "snd acc"] src that by (cases acc) fastforce
  have source: "\<exists>acc' s'. runSource h sha o' n' root source acc s = (Inr acc', s') \<and> ?P acc' s'"
    if "source \<in> set sources" "?P acc s" for source acc s
    unfolding runSource_def by (rule foldA_succeeds [where P = ?P]) (use policy that in auto)
  have "\<exists>acc' s'. foldA (runSource h sha o' n' root) sources (False, rep) st = (Inr acc', s') \<and> ?P acc' s'"
    by (rule foldA_succeeds [where P = ?P]) (use source st in auto)
  then show ?thesis by (fastforce simp: runMatrix_def bindA_def thenA_def failing_def errorA_def requireA_def retA_def)
qed

section \<open>The verification\<close>

text \<open>What a verification finds when it starts in the world \<open>w\<close>.\<close>

definition parityReady :: "'w Sys \<Rightarrow> ('w \<Rightarrow> bool) \<Rightarrow> generator \<Rightarrow> string \<Rightarrow> string \<Rightarrow> string \<Rightarrow> string \<Rightarrow> 'w \<Rightarrow> bool" where
  "parityReady h Ok G old new repo consumer w \<longleftrightarrow>
     (\<exists>o' n' b1 b2 d examples root w'.
        sys_abs h old = Inr o' \<and> sys_abs h new = Inr n' \<and> sys_read h w o' = Inr b1 \<and> sys_read h w n' = Inr b2
      \<and> sys_tree h w (JoinAll [repo, ''examples'']) = Inr d
      \<and> gather (\<lambda>d. entryKind d = KindDir \<and> (entryName d = ''generated'' \<or> hasPrefix (entryName d) ''.''))
          (\<lambda>_ path d. Inr (if entryKind d \<noteq> KindDir \<and> PathExt path = ''.toml'' then [path] else []))
          HostError w (JoinAll [repo, ''examples'']) d = Inr examples
      \<and> examples \<noteq> []
      \<and> sys_mkdirTemp h ''jcrpc-parity-'' w = (Inr root, w') \<and> Ok w'
      \<and> twins h Ok root G o' n' \<and> (\<forall>source\<in>set (paritySources repo consumer examples). sourceAt h Ok root G source))"

lemma fold_snoc: "fold (\<lambda>p ps. ps @ [p]) xs ys = ys @ xs"
  by (induction xs arbitrary: ys) simp_all

lemma verify_accepts:
  fixes h :: "'w Sys" and st :: "'w Ses"
  assumes "parityReady h Ok G old new repo consumer (ses_world st)"
  shows "\<exists>rep st'. verify h sha old new repo consumer False st = (Inr rep, st')"
proof -
  obtain o' n' b1 b2 d examples root w' where
    bin: "sys_abs h old = Inr o'" "sys_abs h new = Inr n'" "sys_read h (ses_world st) o' = Inr b1" "sys_read h (ses_world st) n' = Inr b2"
    and ex: "sys_tree h (ses_world st) (JoinAll [repo, ''examples'']) = Inr d"
      "gather (\<lambda>d. entryKind d = KindDir \<and> (entryName d = ''generated'' \<or> hasPrefix (entryName d) ''.''))
          (\<lambda>_ path d. Inr (if entryKind d \<noteq> KindDir \<and> PathExt path = ''.toml'' then [path] else []))
          HostError (ses_world st) (JoinAll [repo, ''examples'']) d = Inr examples" "examples \<noteq> []"
    and tmp: "sys_mkdirTemp h ''jcrpc-parity-'' (ses_world st) = (Inr root, w')" "Ok w'"
    and tw: "twins h Ok root G o' n'" "\<forall>source\<in>set (paritySources repo consumer examples). sourceAt h Ok root G source"
    using assms unfolding parityReady_def by blast
  have walk: "WalkDir h exampleEntry (JoinAll [repo, ''examples'']) [] st = (Inr examples, st)"
    unfolding examples.WalkDir_gather using ex(1,2) by (simp add: fold_snoc)
  have hash: "hashFile h sha f st = (Inr (sha b), st)" if "sys_read h (ses_world st) f = Inr b" for f b
    using that by (simp add: hashFile_def bindA_def errorA_def readA_def lookA_def retA_def)
  define rep where "rep = emptyReport\<lparr>Rep_Baseline := sha b1, Rep_Candidate := sha b2\<rparr>"
  define s1 where "s1 = \<lparr>ses_events = ses_events st @ [MkTempDir root], ses_world = w'\<rparr>"
  obtain rep' s2 where run: "runMatrix h sha o' n' (paritySources repo consumer examples) root (False, rep) s1 = (Inr rep', s2)"
    using runMatrix_accepts [OF tw, of s1 sha rep] tmp(2) by (auto simp: s1_def)
  have "mkdirTempA h ''jcrpc-parity-'' st = (Inr root, s1)"
    by (simp add: mkdirTempA_def newA_def stepA_def tmp(1) s1_def)
  then have "verify h sha old new repo consumer False st = (Inr rep', removeAllF h root s2)"
    using bin walk ex(3) hash run
    by (simp add: verify_def bindA_def thenA_def failing_def errorA_def liftA_def requireA_def retA_def deferA_def Let_def rep_def)
  then show ?thesis by blast
qed

end
