(* ===== verification/Parity_Twins.thy ===== *)
theory Parity_Twins
  imports Parity_Accepts
begin

text \<open>
  A host on which two binaries run as one generator: a file system that maps paths to what reading
  them gives, and binaries that refuse every document. It shows that what \<open>Parity_Accepts\<close> asks of
  a host can be had.
\<close>

type_synonym files = "string \<Rightarrow> (GoErr, string) result"

definition twinDoc :: string where
  "twinDoc = ''[applet]''"

definition refusal :: string where
  "refusal = ''applet.stream_workspace: must be transient or persistent''"

definition twinRoot :: string where
  "twinRoot = ''/tmp/parity''"

definition twinTree :: DirTree where
  "twinTree = Entry ''examples'' KindDir None [Entry ''a.toml'' KindRegular None []]"

definition twinHost :: "files Sys" where
  "twinHost = \<lparr>sys_abs = (\<lambda>p. Inr p), sys_read = (\<lambda>w p. w p), sys_stat = (\<lambda>w p. StatMissing),
     sys_tree = (\<lambda>w p. if p = ''/repo/examples'' then Inr twinTree else Inr (Entry '''' KindDir None [])),
     sys_perm = (\<lambda>w p. Inr 420),
     sys_exec = (\<lambda>c w. (\<lparr>exec_status = Exited 1, exec_stdout = [], exec_stderr = refusal, exec_combined = refusal\<rparr>, w)),
     sys_mkdir = (\<lambda>p w. (None, w)), sys_mkdirAll = (\<lambda>p w. (None, w)),
     sys_mkdirTemp = (\<lambda>pat w. (Inr twinRoot, w)), sys_createTemp = (\<lambda>dir pat w. (Inl ErrNotExist, w)),
     sys_write = (\<lambda>p d mode w. (None, w(p := Inr d))), sys_rename = (\<lambda>p q w. (None, w)),
     sys_remove = (\<lambda>p w. w), sys_removeAll = (\<lambda>p w. w)\<rparr>"

definition refuser :: generator where
  "refuser args doc = \<lparr>out_code = 1, out_stdout = [], out_stderr = refusal, out_tree = [], out_content = (\<lambda>_. [])\<rparr>"

text \<open>Every file outside the temporary directory holds the document.\<close>

definition twinOk :: "files \<Rightarrow> bool" where
  "twinOk w \<longleftrightarrow> (\<forall>p. outside twinRoot p \<longrightarrow> w p = Inr twinDoc)"

lemma outside_not_below: "outside root q \<Longrightarrow> below root p \<Longrightarrow> q \<noteq> p"
  unfolding outside_def below_def by (metis list.pred_inject list.simps(3))

lemma outsideI:
  assumes "take (length (rootParts root)) (rootParts p) \<noteq> rootParts root"
  shows "outside root p"
  unfolding outside_def using assms rootParts_pathBelow by (metis append_eq_conv_conj)

lemma replaceFrom_absent: "hd old \<notin> set s \<Longrightarrow> replaceFrom old new s = s"
proof (induction s)
  case (Cons c s)
  then have "\<not> hasPrefix (c # s) old \<or> old = []" by (cases old) (auto simp: hasPrefix_def)
  then show ?case using Cons by (subst replaceFrom.simps) auto
qed (simp add: replaceFrom.simps)

lemma below_twinRoot: "below twinRoot dir \<Longrightarrow> dir \<noteq> [] \<and> hd dir = slash"
proof -
  assume "below twinRoot dir"
  then obtain n where n: "okPart n" "dir = pathBelow twinRoot [n]" unfolding below_def by blast
  have "rooted twinRoot" by code_simp
  then show ?thesis by (simp add: n(2) pathBelow_def renderPath_def)
qed

lemma twin_plain: "plainBelow twinHost twinOk twinRoot"
  unfolding plainBelow_def twinOk_def using outside_not_below by (auto simp: twinHost_def)

lemma twin_runs: "runsAs twinHost twinOk twinRoot refuser binary"
proof -
  have no: "slash \<notin> set refusal" by code_simp
  have "replaceAll refusal dir ''<out-dir>'' = refusal \<and> replaceAll [] dir ''<out-dir>'' = []" if "below twinRoot dir" for dir
    using below_twinRoot [OF that] no replaceFrom_absent by (simp add: replaceAll_def)
  moreover have "dir \<noteq> ''/repo/examples''" if "below twinRoot dir" for dir
  proof -
    have "outside twinRoot ''/repo/examples''" by (rule outsideI) code_simp
    then show ?thesis using outside_not_below [OF _ that] by blast
  qed
  ultimately show ?thesis by (auto simp: runsAs_def twinHost_def refuser_def)
qed

lemma twin_twins: "twins twinHost twinOk twinRoot refuser binary binary'"
  by (simp add: twins_def twin_runs twin_plain goodOutcome_def refuser_def)

lemma twin_source: "outside twinRoot p \<Longrightarrow> sourceAt twinHost twinOk twinRoot refuser p"
proof -
  assume "outside twinRoot p"
  moreover have "strCount twinDoc ''[applet]'' = 1" "strContains refusal ''applet.stream_workspace''" by code_simp+
  ultimately show ?thesis
    by (auto simp: sourceAt_def twinHost_def twinOk_def refusesPolicy_def refuser_def)
qed

definition startFiles :: files where
  "startFiles p = Inr twinDoc"

lemma twin_ready: "parityReady twinHost twinOk refuser ''/old'' ''/new'' ''/repo'' ''/consumer.toml'' startFiles"
proof -
  have sources: "paritySources ''/repo'' ''/consumer.toml'' [''/repo/examples/a.toml''] =
      [''/consumer.toml'', ''/repo/codegen/testdata/counter.toml'', ''/repo/codegen/testdata/stream.toml'', ''/repo/examples/a.toml'']"
    by code_simp
  have far: "list_all (\<lambda>p. take (length (rootParts twinRoot)) (rootParts p) \<noteq> rootParts twinRoot)
      [''/consumer.toml'', ''/repo/codegen/testdata/counter.toml'', ''/repo/codegen/testdata/stream.toml'', ''/repo/examples/a.toml'']"
    by code_simp
  have src: "sourceAt twinHost twinOk twinRoot refuser p"
    if "p \<in> set (paritySources ''/repo'' ''/consumer.toml'' [''/repo/examples/a.toml''])" for p
    by (rule twin_source, rule outsideI, rule bspec [OF far [unfolded list_all_iff] that [unfolded sources]])
  have walk: "gather (\<lambda>d. entryKind d = KindDir \<and> (entryName d = ''generated'' \<or> hasPrefix (entryName d) ''.''))
      (\<lambda>_ path d. Inr (if entryKind d \<noteq> KindDir \<and> PathExt path = ''.toml'' then [path] else []))
      HostError startFiles (JoinAll [''/repo'', ''examples'']) twinTree = Inr [''/repo/examples/a.toml'']"
    by code_simp
  have dir: "JoinAll [''/repo'', ''examples''] = ''/repo/examples''" by code_simp
  have host: "sys_abs twinHost p = Inr p" "sys_read twinHost startFiles p = Inr twinDoc"
    "sys_tree twinHost startFiles ''/repo/examples'' = Inr twinTree"
    "sys_mkdirTemp twinHost ''jcrpc-parity-'' startFiles = (Inr twinRoot, startFiles)" for p
    by (simp_all add: twinHost_def startFiles_def)
  have ok: "twinOk startFiles" by (simp add: twinOk_def startFiles_def)
  show ?thesis
    unfolding parityReady_def
    using host(1,2) host(3) [folded dir] walk host(4) ok twin_twins src by blast
qed

end
