(* ===== verification/Parity_Properties.thy ===== *)
theory Parity_Properties
  imports Parity_Matrix Parity_Twins
begin

text \<open>
  The properties of jcrpc-parity: what its comparison decides, that an inventory misses nothing,
  what its exit code says, and where it works.
\<close>

text \<open>C27: \<open>compareFiles\<close> reports nothing exactly when the two maps agree on every name, and otherwise
  reports both values of the first name in byte order on which they differ, absence included.\<close>

theorem compare_files_decides:
  "case compareFiles old new of
     None \<Rightarrow> tbl_get old = tbl_get new
   | Some e \<Rightarrow> \<exists>k. e = OutputDrift k (tbl_get old k) (tbl_get new k) \<and> firstDrift old new k"
  using compareFiles_None [of old new] compareFiles_Some [of old new] by (simp split: option.split)

text \<open>C28: When \<open>inventory\<close> succeeds on a directory whose entries have proper names, the map it returns
  is the inventory of the tree: every entry that is no directory is a regular file that could be
  read and is recorded under its relative name with the digest of its content, and no other name is
  recorded. So an unreadable or special file can never pass as an absent one.\<close>

theorem inventory_complete:
  assumes "inventory h sha root st = (Inr files, st')" "sys_tree h (ses_world st) root = Inr d"
    and "entryKind d = KindDir" "namesOK d"
  shows "inventoryOf h sha root (ses_world st) d files \<and> st' = st"
proof -
  obtain xs where xs: "gather (\<lambda>_. False) (inventoryPick h sha root) HostError (ses_world st) root d = Inr xs"
      "files = fold putFile xs tbl_empty" "st' = st"
    using inventory_run [OF assms(1,2)] by blast
  have "list_all2 (recordedAs h sha root (ses_world st) []) (leaves d) xs"
    by (rule gather_inventory(1)) (use xs(1) assms(3,4) in \<open>simp_all add: pathBelow_def\<close>)
  from inventoryOf_gather [OF this assms(3,4)] show ?thesis using xs(2,3) by simp
qed

definition demoTree :: DirTree where
  "demoTree = Entry ''out'' KindDir None
     [Entry ''build.gradle'' KindRegular None [],
      Entry ''src'' KindDir None [Entry ''A.java'' KindRegular None []]]"

definition demoOutput :: "unit Sys" where
  "demoOutput = scriptedSys (\<lambda>p. Inr p) (\<lambda>p. if p = ''/out/'' then Inr demoTree else Inl ErrNotExist) (always (\<lambda>_. answer 0 []))"

theorem inventory_complete_witness:
  "inventoryOf demoOutput id ''/out/'' () demoTree
     [(''build.gradle'', ''/out/build.gradle''), (''src/A.java'', ''/out/src/A.java'')]"
proof -
  have run: "inventory demoOutput id ''/out/'' (startSes ()) =
      (Inr [(''build.gradle'', ''/out/build.gradle''), (''src/A.java'', ''/out/src/A.java'')], startSes ())"
    by code_simp
  have w: "ses_world (startSes ()) = ()" by simp
  have "sys_tree demoOutput () ''/out/'' = Inr demoTree" "entryKind demoTree = KindDir" "namesOK demoTree"
    by code_simp+
  from inventory_complete [OF run, unfolded w, OF this] show ?thesis by (rule conjunct1)
qed

text \<open>What a report says that was written with exit code 0.\<close>

definition parityEvidence :: "(report \<Rightarrow> (GoErr, string) result) \<Rightarrow> (string \<times> FlagValue) list \<Rightarrow>
    string list \<Rightarrow> report \<Rightarrow> HostEvent list \<Rightarrow> bool" where
  "parityEvidence encode vs examples rep es \<longleftrightarrow>
     examples \<noteq> [] \<and> Rep_Error rep = None
     \<and> list_all2 coversCase (matrixOf (paritySources (stringFlag vs ''repo'' ''..'') (stringFlag vs ''consumer'' '''') examples))
         (Rep_Comparisons rep)
     \<and> length (Rep_Comparisons rep) = 180 * (length examples + 3)
     \<and> (\<exists>b. encode rep = Inr b \<and> es \<noteq> [] \<and> last es = WriteTo (stringFlag vs ''out'' '''') (b @ [CHR 0x0A]) 420)"

lemma verify_covers:
  assumes "verify h sha old new repo consumer plant st = (Inr rep, st')"
  shows "\<exists>examples. examples \<noteq> [] \<and> Rep_Error rep = None
    \<and> list_all2 coversCase (matrixOf (paritySources repo consumer examples)) (Rep_Comparisons rep)"
proof -
  obtain o' n' d1 d2 examples root s s' where ex: "length examples \<noteq> 0"
    and run: "runMatrix h sha o' n' (paritySources repo consumer examples) root
       (plant, emptyReport\<lparr>Rep_Baseline := d1, Rep_Candidate := d2\<rparr>) s = (Inr rep, s')"
    using assms unfolding verify_def Let_def by (auto simp: act_simps failing_def)
  show ?thesis using runMatrix_adds [OF run] ex by (auto simp: emptyReport_def reportKey_def)
qed

text \<open>What follows the verification: its report is completed, encoded and written.\<close>

definition parityReport :: "(ParityError \<times> report, report) result \<Rightarrow> report" where
  "parityReport outcome = (case outcome of Inl (e, rep) \<Rightarrow> rep\<lparr>Rep_Error := Some e\<rparr> | Inr rep \<Rightarrow> rep)"

definition finishParity :: "'w Sys \<Rightarrow> (report \<Rightarrow> (GoErr, string) result) \<Rightarrow> string \<Rightarrow>
    (ParityError \<times> report, report) result \<Rightarrow> 'w Ses \<Rightarrow> int \<times> 'w Ses" where
  "finishParity h encode out outcome st =
     (case encode (parityReport outcome) of Inl e \<Rightarrow> (1, st)
      | Inr b \<Rightarrow> (case writeA h out (b @ [CHR 0x0A]) 420 st of
          (Inl e, st') \<Rightarrow> (1, st') | (Inr u, st') \<Rightarrow> (if isl outcome then 1 else 0, st')))"

lemma finishParity_code: "fst (finishParity h encode out outcome st) \<in> {0, 1}"
  by (auto simp: finishParity_def split: sum.split prod.split)

lemma finishParity_0:
  assumes "finishParity h encode out outcome st = (0, st')"
  shows "\<exists>rep b. outcome = Inr rep \<and> encode rep = Inr b
    \<and> ses_events st' = ses_events st @ [WriteTo out (b @ [CHR 0x0A]) 420]"
  using assms opA_events [of "WriteTo out _ 420" _ st "Inr ()" st']
  by (cases outcome)
     (auto simp: finishParity_def parityReport_def writeA_def split: sum.splits prod.splits if_splits)

lemma Parity_run_cases:
  "Parity_run h sha encode args st = (2, st)
   \<or> (\<exists>vs rest outcome st1. parseSet parityFlags args = Inr (vs, rest)
       \<and> verify h sha (stringFlag vs ''baseline'' '''') (stringFlag vs ''candidate'' '''') (stringFlag vs ''repo'' ''..'')
           (stringFlag vs ''consumer'' '''') (boolFlag vs ''plant-byte-change'' False) st = (outcome, st1)
       \<and> Parity_run h sha encode args st = finishParity h encode (stringFlag vs ''out'' '''') outcome st1)"
  by (cases "parseSet parityFlags args")
     (auto simp: Parity_run_def Let_def finishParity_def parityReport_def split: prod.split)

lemma verify_evidence:
  assumes v: "verify h sha old new (stringFlag vs ''repo'' ''..'') (stringFlag vs ''consumer'' '''') plant st = (Inr rep, st1)"
    and w: "encode rep = Inr b" "ses_events st' = es @ [WriteTo (stringFlag vs ''out'' '''') (b @ [CHR 0x0A]) 420]"
  shows "\<exists>examples rep. parityEvidence encode vs examples rep (ses_events st')"
proof -
  obtain examples where ex: "examples \<noteq> []" "Rep_Error rep = None"
    and cov: "list_all2 coversCase (matrixOf (paritySources (stringFlag vs ''repo'' ''..'') (stringFlag vs ''consumer'' '''') examples))
       (Rep_Comparisons rep)"
    using verify_covers [OF v] by blast
  have "length (Rep_Comparisons rep) = 180 * (length examples + 3)"
    using list_all2_lengthD [OF cov] by (simp add: matrixOf_length paritySources_def)
  then have "parityEvidence encode vs examples rep (ses_events st')"
    using ex cov w by (simp add: parityEvidence_def)
  then show ?thesis by blast
qed


text \<open>C30: jcrpc-parity raises no false alarm. If the two binaries run as one generator, which refuses
  the invalid workspace policies, and the host is plain (\<open>parityReady\<close>: what is read exists, writing
  below the temporary directory works and touches nothing else, every document has one applet
  table), then a run without a planted byte whose report can be encoded and written exits with 0,
  whatever the documents and the files of the packages are.\<close>

theorem parity_accepts_equal:
  assumes "parseSet parityFlags args = Inr (vs, rest)" and "\<not> boolFlag vs ''plant-byte-change'' False"
    and "stringFlag vs ''baseline'' '''' = old" "old \<noteq> ''''" "stringFlag vs ''candidate'' '''' = new" "new \<noteq> ''''"
    and "stringFlag vs ''consumer'' '''' = consumer" "consumer \<noteq> ''''" "stringFlag vs ''out'' '''' = out" "out \<noteq> ''''"
    and "parityReady h Ok G old new (stringFlag vs ''repo'' ''..'') consumer (ses_world st)"
    and "\<And>rep. \<not> isl (encode rep)" and "\<And>data w. fst (sys_write h out data 420 w) = None"
  shows "fst (Parity_run h sha encode args st) = 0"
proof -
  obtain rep st1 where run: "verify h sha old new (stringFlag vs ''repo'' ''..'') consumer False st = (Inr rep, st1)"
    using verify_accepts [OF assms(11)] by blast
  obtain b where b: "encode rep = Inr b" using assms(12) [of rep] by (cases "encode rep") auto
  show ?thesis
    using assms(1-10) run b assms(13) [of "b @ [CHR 0x0A]" "ses_world st1"]
    by (auto simp: Parity_run_def Let_def writeA_def opA_def stepA_def unitResult_def split: prod.split)
qed

definition twinArgs :: "string list" where
  "twinArgs = [''-baseline'', ''/old'', ''-candidate'', ''/new'', ''-repo'', ''/repo'', ''-consumer'', ''/consumer.toml'', ''-out'', ''/report'']"

theorem parity_accepts_equal_witness:
  "fst (Parity_run twinHost id (\<lambda>_. Inr ''{}'') twinArgs \<lparr>ses_events = [], ses_world = startFiles\<rparr>) = 0"
proof -
  let ?vs = "[(''baseline'', StringValue ''/old''), (''candidate'', StringValue ''/new''), (''repo'', StringValue ''/repo''),
    (''consumer'', StringValue ''/consumer.toml''), (''out'', StringValue ''/report'')]"
  have parse: "parseSet parityFlags twinArgs = Inr (?vs, [])" by code_simp
  have flags: "\<not> boolFlag ?vs ''plant-byte-change'' False" "stringFlag ?vs ''baseline'' '''' = ''/old''"
    "stringFlag ?vs ''candidate'' '''' = ''/new''" "stringFlag ?vs ''consumer'' '''' = ''/consumer.toml''"
    "stringFlag ?vs ''out'' '''' = ''/report''" "stringFlag ?vs ''repo'' ''..'' = ''/repo''"
    by code_simp+
  show ?thesis
    by (rule parity_accepts_equal [OF parse flags(1,2) _ flags(3) _ flags(4) _ flags(5) _ _])
       (use twin_ready flags(6) in \<open>simp_all add: twinHost_def\<close>)
qed

text \<open>C31: Whatever its verdict, a verification works inside one temporary directory, which its last
  operation removes: every directory it makes and every document it writes has a name of its own
  directly below that directory (the planted byte changes a file of a candidate's output there),
  and the only commands it runs are the two binaries.\<close>

theorem parity_works_in_scratch:
  "\<exists>es. ses_events (snd (verify h sha old new repo consumer plant st)) = ses_events st @ es
     \<and> tidyTrace (parityOp h old new) es"
  using verify_scoped unfolding scopedTemp_def by blast

end
