(* ===== verification/Mutant_Tool.thy ===== *)
theory Mutant_Tool
  imports Go_Walk Go_Strings Flag_Set
begin

text \<open>
  codegen/cmd/jcrpc-mutants/main.go: the harness that plants the weakenings of a catalogue in
  disposable copies of the repository and asks for a named failing test as evidence. The
  catalogue and the assertions are arguments; decoding one line of \<open>go test -json\<close> is a
  parameter, once for each of the two structures the code decodes into.
\<close>

section \<open>Data\<close>

record mutant =
  Mut_Name :: string
  Mut_File :: string
  Mut_Before :: string
  Mut_After :: string
  Mut_Module :: string
  Mut_Package :: string
  Mut_Test :: string
  Mut_Bound :: string

record passEvent =
  Pass_Action :: string
  Pass_Test :: string

record failEvent =
  Fail_Action :: string
  Fail_Test :: string
  Fail_Output :: string

record EventDecoders =
  decode_pass :: "string \<Rightarrow> passEvent option"
  decode_fail :: "string \<Rightarrow> failEvent option"

datatype HarnessError =
    HarnessHost GoErr
  | NonRegularSource string
  | CommandFailed Cmd ExecStatus
  | InvalidControl string int
  | AnchorNotUnique string

section \<open>Evidence\<close>

definition newline :: char where "newline = CHR 0x0A"

definition blankLine :: "string \<Rightarrow> bool" where
  "blankLine line \<longleftrightarrow> length (TrimSpace line) = 0"

fun passLines :: "EventDecoders \<Rightarrow> string \<Rightarrow> bool \<Rightarrow> string list \<Rightarrow> bool" where
  "passLines D test passed [] = passed"
| "passLines D test passed (line # lines) =
     (if blankLine line then passLines D test passed lines
      else case decode_pass D line of
        None \<Rightarrow> False
      | Some event \<Rightarrow>
          if Pass_Action event = ''fail'' \<or> Pass_Action event = ''skip'' then False
          else passLines D test (passed \<or> Pass_Action event = ''pass'' \<and> Pass_Test event = test) lines)"

definition namedPass :: "EventDecoders \<Rightarrow> string \<Rightarrow> int \<Rightarrow> string \<Rightarrow> bool" where
  "namedPass D test code output = (if code \<noteq> 0 then False else passLines D test False (splitOn newline output))"

fun failLines :: "EventDecoders \<Rightarrow> string \<Rightarrow> string \<Rightarrow> bool \<Rightarrow> bool \<Rightarrow> string list \<Rightarrow> bool" where
  "failLines D test assertion failed reached [] = (failed \<and> reached)"
| "failLines D test assertion failed reached (line # lines) =
     (if blankLine line then failLines D test assertion failed reached lines
      else case decode_fail D line of
        None \<Rightarrow> False
      | Some event \<Rightarrow>
          if Fail_Action event = ''skip'' then False
          else failLines D test assertion
                 (failed \<or> Fail_Action event = ''fail'' \<and> Fail_Test event = test)
                 (reached \<or> Fail_Action event = ''output'' \<and> Fail_Test event = test
                    \<and> strContains (Fail_Output event) assertion)
                 lines)"

definition namedFailure :: "EventDecoders \<Rightarrow> string \<Rightarrow> string \<Rightarrow> int \<Rightarrow> string \<Rightarrow> bool" where
  "namedFailure D test assertion code output =
     (if code \<noteq> 1 \<or> assertion = '''' then False
      else failLines D test assertion False False (splitOn newline output))"

section \<open>Running one test\<close>

definition regexMeta :: "char \<Rightarrow> bool" where
  "regexMeta c \<longleftrightarrow> c \<in> set ''.+*?()|[]{}^$'' \<or> c = CHR 0x5C"

definition QuoteMeta :: "string \<Rightarrow> string" where
  "QuoteMeta s = concat (map (\<lambda>c. if regexMeta c then [CHR 0x5C, c] else [c]) s)"

definition testCmd :: "string \<Rightarrow> mutant \<Rightarrow> Cmd" where
  "testCmd root m =
     \<lparr>cmd_name = ''go'',
      cmd_args = [''test'', Mut_Package m, ''-run'',
        joinWith slash (map (\<lambda>p. ''^'' @ QuoteMeta p @ ''$'') (splitOn slash (Mut_Test m))), ''-count=1'', ''-json''],
      cmd_dir = JoinAll [root, Mut_Module m], cmd_env = [''GOWORK=off'']\<rparr>"

definition executeTest :: "'w Sys \<Rightarrow> string \<Rightarrow> mutant \<Rightarrow> ('w, HarnessError, int \<times> string) act" where
  "executeTest h root m =
     bindA (execA h (testCmd root m)) (\<lambda>r.
       case exec_status r of
         Exited c \<Rightarrow> retA (c, exec_combined r)
       | Signaled n \<Rightarrow> retA (- 1, exec_combined r)
       | NotStarted e \<Rightarrow> failA (HarnessHost e))"

section \<open>Copying a tree\<close>

text \<open>\<open>perm | 0200\<close>.\<close>

definition ownerWritable :: "nat \<Rightarrow> nat" where
  "ownerWritable perm = (if perm div 128 mod 2 = 1 then perm else perm + 128)"

definition copyEntry :: "'w Sys \<Rightarrow> string \<Rightarrow> string \<Rightarrow> bool \<Rightarrow> ('w, HarnessError, unit) callback" where
  "copyEntry h source destination corpusOnly path entry err u =
     (case err of
        Some e \<Rightarrow> failA (HarnessHost e)
      | None \<Rightarrow>
          (case entry of
             None \<Rightarrow> failA (HarnessHost (OtherError ''no entry''))
           | Some d \<Rightarrow>
               if entryName d = ''jcrpc-gen'' \<and> entryKind d \<noteq> KindDir then retA (Continue ())
               else bindA (errorA HarnessHost (liftA (Rel source path))) (\<lambda>rel.
                 let target = JoinAll [destination, rel] in
                 if entryKind d = KindDir
                 then thenA (errorA HarnessHost (mkdirAllA h target)) (retA (Continue ()))
                 else if corpusOnly \<and> PathExt path \<noteq> ''.toml'' then retA (Continue ())
                 else if entryKind d \<noteq> KindRegular then failA (NonRegularSource path)
                 else bindA (errorA HarnessHost (readA h path)) (\<lambda>b.
                      bindA (errorA HarnessHost (lookA (\<lambda>w. sys_perm h w path))) (\<lambda>perm.
                      thenA (errorA HarnessHost (writeA h target b (ownerWritable perm)))
                            (retA (Continue ())))))))"

definition copyTree :: "'w Sys \<Rightarrow> string \<Rightarrow> string \<Rightarrow> bool \<Rightarrow> ('w, HarnessError, unit) act" where
  "copyTree h source destination corpusOnly = WalkDir h (copyEntry h source destination corpusOnly) source ()"

section \<open>One mutant\<close>

definition usesReleasedModules :: "string \<Rightarrow> bool" where
  "usesReleasedModules name \<longleftrightarrow> hasPrefix name ''manifest-'' \<or> hasPrefix name ''offline-''
     \<or> hasPrefix name ''checkout-'' \<or> hasPrefix name ''toolchain-''"

definition targetModules :: "(string \<times> string) list" where
  "targetModules = [(''javacard'', ''github.com/relux-works/javacard-rpc-server-javacard''),
     (''kotlin'', ''github.com/relux-works/javacard-rpc-client-kotlin''),
     (''swift'', ''github.com/relux-works/javacard-rpc-client-swift'')]"

definition goIn :: "string \<Rightarrow> string list \<Rightarrow> Cmd" where
  "goIn root args = \<lparr>cmd_name = ''go'', cmd_args = args, cmd_dir = JoinAll [root, ''codegen''], cmd_env = []\<rparr>"

definition commandA :: "'w Sys \<Rightarrow> Cmd \<Rightarrow> ('w, HarnessError, string) act" where
  "commandA h c =
     bindA (execA h c) (\<lambda>r.
     thenA (requireA (exec_status r = Exited 0) (CommandFailed c (exec_status r))) (retA (exec_stdout r)))"

definition replaceModule :: "'w Sys \<Rightarrow> string \<Rightarrow> string \<times> string \<Rightarrow> ('w, HarnessError, unit) act" where
  "replaceModule h root spec =
     bindA (commandA h (goIn root [''list'', ''-m'', ''-f'', ''{{.Dir}}'', snd spec])) (\<lambda>b.
     let dest = JoinAll [root, ''targets'', fst spec] in
     thenA (copyTree h (TrimSpace b) dest False)
    (bindA (commandA h (goIn root [''mod'', ''edit'', ''-replace='' @ snd spec @ ''='' @ dest])) (\<lambda>_. retA ())))"

definition localModules :: "'w Sys \<Rightarrow> string \<Rightarrow> mutant \<Rightarrow> ('w, HarnessError, mutant) act" where
  "localModules h root m =
     bindA (lookA (\<lambda>w. Inr (sys_stat h w (JoinAll [root, ''codegen'', ''generators.go''])))) (\<lambda>found.
     if found = StatFound \<and> \<not> usesReleasedModules (Mut_Name m)
     then
       thenA (forA (replaceModule h root) targetModules)
      (bindA (commandA h (goIn root [''mod'', ''edit'',
          ''-replace=github.com/relux-works/javacard-rpc/pluginapi='' @ JoinAll [root, ''pluginapi'']])) (\<lambda>_.
       retA (if hasPrefix (Mut_File m) ''codegen/internal/render/''
             then m\<lparr>Mut_File := replaceFirst ''codegen/internal/render/''
                      ''targets/javacard/codegen/internal/render/'' (Mut_File m)\<rparr>
             else m)))
     else retA m)"

definition copiedModules :: "string list" where
  "copiedModules = [''codegen'', ''pluginapi'', ''examples'', ''compatibility'']"

definition prepareMutant :: "'w Sys \<Rightarrow> string \<Rightarrow> string \<Rightarrow> mutant \<Rightarrow> ('w, HarnessError, mutant) act" where
  "prepareMutant h repo root m =
     thenA (errorA HarnessHost (mkdirA h root))
    (thenA (forA (\<lambda>module. copyTree h (JoinAll [repo, module]) (JoinAll [root, module]) (module = ''examples'')) copiedModules)
           (localModules h root m))"

definition reportRow :: "mutant \<Rightarrow> string \<Rightarrow> int \<Rightarrow> string \<Rightarrow> string" where
  "reportRow m test code bound =
     ''| '' @ Mut_Name m @ '' | '' @ Mut_Bound m @ '' | '' @ test @ '' | '' @ showInt code @ '' | '' @ bound @ '' |''
     @ [newline]"

text \<open>The loop body in its three parts: the copies, the control on the unchanged copy, and the plant
  with the run that has to kill it. The report and \<open>failed\<close> are carried.\<close>

definition controlMutant :: "'w Sys \<Rightarrow> EventDecoders \<Rightarrow> string \<Rightarrow> string \<Rightarrow> mutant \<Rightarrow> ('w, HarnessError, unit) act" where
  "controlMutant h D out root m =
     bindA (executeTest h root m) (\<lambda>(controlCode, controlOutput).
     thenA (errorA HarnessHost (writeA h (JoinAll [out, Mut_Name m @ ''-control.log'']) controlOutput 420))
           (requireA (namedPass D (Mut_Test m) controlCode controlOutput) (InvalidControl (Mut_Name m) controlCode)))"

definition plantMutant :: "'w Sys \<Rightarrow> string \<Rightarrow> string \<Rightarrow> mutant \<Rightarrow> ('w, HarnessError, int \<times> string) act" where
  "plantMutant h out root m =
     (let path = JoinAll [root, Mut_File m] in
      bindA (errorA HarnessHost (readA h path)) (\<lambda>b.
      thenA (requireA (strCount b (Mut_Before m) = 1) (AnchorNotUnique (Mut_Name m)))
     (thenA (errorA HarnessHost (writeA h path (replaceFirst (Mut_Before m) (Mut_After m) b) 420))
     (bindA (executeTest h root m) (\<lambda>(code, output).
      thenA (errorA HarnessHost (writeA h (JoinAll [out, Mut_Name m @ ''.log'']) output 420))
            (retA (code, output)))))))"

definition runMutant :: "'w Sys \<Rightarrow> EventDecoders \<Rightarrow> (string \<Rightarrow> string) \<Rightarrow> string \<Rightarrow> string \<Rightarrow> mutant \<Rightarrow>
    string \<times> bool \<Rightarrow> ('w, HarnessError, string \<times> bool) act" where
  "runMutant h D assertions repo out m0 acc =
     (case acc of (report, failed) \<Rightarrow>
      let root = JoinAll [out, Mut_Name m0] in
      bindA (prepareMutant h repo root m0) (\<lambda>m.
      thenA (controlMutant h D out root m)
     (bindA (plantMutant h out root m) (\<lambda>(code, output).
      let killed = namedFailure D (Mut_Test m) (assertions (Mut_Name m)) code output;
          survived = (code \<noteq> 1 \<or> \<not> killed) in
      retA (report @ reportRow m (if survived then ''none (survivor or invalid execution)'' else Mut_Test m) code
              (if survived then Mut_Bound m else ''none (killed)''),
            failed \<or> survived)))))"

section \<open>The command\<close>

definition mutantFlags :: "string \<Rightarrow> FlagKind option" where
  "mutantFlags = kindsOf [''repo'', ''out'', ''only''] []"

definition reportHead :: string where
  "reportHead = ''| Mutant | What it narrows the gate to | Named failing test | Exit | Survival bound |'' @ [newline]
     @ ''| --- | --- | --- | ---: | --- |'' @ [newline]"

definition runHarness :: "'w Sys \<Rightarrow> EventDecoders \<Rightarrow> (string \<Rightarrow> string) \<Rightarrow> string \<Rightarrow> string \<Rightarrow> mutant list \<Rightarrow>
    ('w, HarnessError, bool) act" where
  "runHarness h D assertions repo out selected =
     bindA (errorA HarnessHost (liftA (sys_abs h out))) (\<lambda>out.
     thenA (errorA HarnessHost (mkdirAllA h out))
    (bindA (foldA (runMutant h D assertions repo out) selected (reportHead, False)) (\<lambda>(report, failed).
     thenA (errorA HarnessHost (writeA h (JoinAll [out, ''mutants.md'']) report 420))
           (retA failed))))"

definition selectMutants :: "mutant list \<Rightarrow> string \<Rightarrow> mutant list" where
  "selectMutants catalogue only =
     (if only = '''' then catalogue else filter (\<lambda>m. Mut_Name m = only) catalogue)"

text \<open>\<open>flag.Parse\<close> exits by itself: with 0 for a request for help, with 2 for an error.\<close>

definition Mutants_run :: "'w Sys \<Rightarrow> EventDecoders \<Rightarrow> mutant list \<Rightarrow> (string \<Rightarrow> string) \<Rightarrow> string list \<Rightarrow>
    'w Ses \<Rightarrow> int \<times> 'w Ses" where
  "Mutants_run h D catalogue assertions args st =
     (case parseSet mutantFlags args of
        Inl e \<Rightarrow> (if e = ErrHelp then 0 else 2, st)
      | Inr (vs, rest) \<Rightarrow>
          let repo = stringFlag vs ''repo'' ''..''; out = stringFlag vs ''out'' ''''; only = stringFlag vs ''only'' '''';
              selected = selectMutants catalogue only in
          if only \<noteq> '''' \<and> length selected = 0 then (2, st)
          else if out = '''' then (2, st)
          else case runHarness h D assertions repo out selected st of
            (Inl e, st') \<Rightarrow> (1, st')
          | (Inr failed, st') \<Rightarrow> (if failed then 1 else 0, st'))"

end
