(* ===== verification/Mutant_Properties.thy ===== *)
theory Mutant_Properties
  imports Mutant_Tool
begin

text \<open>
  The properties of jcrpc-mutants: what its two receipts mean, and what exit code 0 attests for
  every selected mutant.
\<close>

section \<open>Receipts\<close>

definition passLine :: "EventDecoders \<Rightarrow> string \<Rightarrow> bool" where
  "passLine D line \<longleftrightarrow> blankLine line
     \<or> (\<exists>event. decode_pass D line = Some event \<and> Pass_Action event \<noteq> ''fail'' \<and> Pass_Action event \<noteq> ''skip'')"

definition passReceipt :: "EventDecoders \<Rightarrow> string \<Rightarrow> string list \<Rightarrow> bool" where
  "passReceipt D test lines \<longleftrightarrow> list_all (passLine D) lines
     \<and> list_ex (\<lambda>line. \<not> blankLine line \<and> (\<exists>event. decode_pass D line = Some event
           \<and> Pass_Action event = ''pass'' \<and> Pass_Test event = test)) lines"

definition failLine :: "EventDecoders \<Rightarrow> string \<Rightarrow> bool" where
  "failLine D line \<longleftrightarrow> blankLine line \<or> (\<exists>event. decode_fail D line = Some event \<and> Fail_Action event \<noteq> ''skip'')"

definition sawEvent :: "EventDecoders \<Rightarrow> (failEvent \<Rightarrow> bool) \<Rightarrow> string list \<Rightarrow> bool" where
  "sawEvent D Q lines = list_ex (\<lambda>line. \<not> blankLine line \<and> (\<exists>event. decode_fail D line = Some event \<and> Q event)) lines"

definition failReceipt :: "EventDecoders \<Rightarrow> string \<Rightarrow> string \<Rightarrow> string list \<Rightarrow> bool" where
  "failReceipt D test assertion lines \<longleftrightarrow> list_all (failLine D) lines
     \<and> sawEvent D (\<lambda>event. Fail_Action event = ''fail'' \<and> Fail_Test event = test) lines
     \<and> sawEvent D (\<lambda>event. Fail_Action event = ''output'' \<and> Fail_Test event = test
          \<and> strContains (Fail_Output event) assertion) lines"

lemma passLines_iff:
  "passLines D test passed lines \<longleftrightarrow> list_all (passLine D) lines
     \<and> (passed \<or> list_ex (\<lambda>line. \<not> blankLine line \<and> (\<exists>event. decode_pass D line = Some event
           \<and> Pass_Action event = ''pass'' \<and> Pass_Test event = test)) lines)"
  by (induction lines arbitrary: passed) (auto simp: passLine_def split: option.split)

lemma failLines_iff:
  "failLines D test assertion failed reached lines \<longleftrightarrow> list_all (failLine D) lines
     \<and> (failed \<or> sawEvent D (\<lambda>event. Fail_Action event = ''fail'' \<and> Fail_Test event = test) lines)
     \<and> (reached \<or> sawEvent D (\<lambda>event. Fail_Action event = ''output'' \<and> Fail_Test event = test
          \<and> strContains (Fail_Output event) assertion) lines)"
  by (induction lines arbitrary: failed reached) (auto simp: failLine_def sawEvent_def split: option.split)

lemma receipts_iff:
  "namedPass D test code output \<longleftrightarrow> code = 0 \<and> passReceipt D test (splitOn newline output)"
  "namedFailure D test assertion code output \<longleftrightarrow>
     code = 1 \<and> assertion \<noteq> '''' \<and> failReceipt D test assertion (splitOn newline output)"
  by (simp_all add: namedPass_def namedFailure_def passLines_iff failLines_iff passReceipt_def failReceipt_def)

text \<open>C32: The receipts of the harness. A passing control is exit code 0, every line of the output an
  event that neither fails nor skips, and among them the pass of the named test itself. A kill
  is exit code 1, an assertion that is not empty, no undecodable line and no skip, the failure of
  the named test and an output of that same test that contains the assertion.\<close>

theorem receipts_decide:
  "(namedPass D test code output \<longleftrightarrow> code = 0 \<and> passReceipt D test (splitOn newline output))
   \<and> (namedFailure D test assertion code output \<longleftrightarrow>
        code = 1 \<and> assertion \<noteq> '''' \<and> failReceipt D test assertion (splitOn newline output))"
  by (simp add: receipts_iff)

section \<open>One mutant\<close>

definition notTest :: "HostEvent \<Rightarrow> bool" where
  "notTest ev = (case ev of RunCmd c r \<Rightarrow> hd (cmd_args c) \<noteq> ''test'' | _ \<Rightarrow> True)"

text \<open>The operations of a mutant that was killed: a fresh directory, its preparation, the control that
  passed, the file with the one occurrence of the anchor replaced, and the failing test.\<close>

definition attested :: "EventDecoders \<Rightarrow> (string \<Rightarrow> string) \<Rightarrow> string \<Rightarrow> mutant \<Rightarrow> HostEvent list \<Rightarrow> bool" where
  "attested D assertions out m es \<longleftrightarrow>
     (let root = JoinAll [out, Mut_Name m]; test = Mut_Test m in
      \<exists>pre rc fl as bs rk.
        es = MkDir root # pre
          @ [RunCmd (testCmd root m) rc, WriteTo (JoinAll [out, Mut_Name m @ ''-control.log'']) (exec_combined rc) 420,
             WriteTo (JoinAll [root, fl]) (as @ Mut_After m @ bs) 420,
             RunCmd (testCmd root m) rk, WriteTo (JoinAll [out, Mut_Name m @ ''.log'']) (exec_combined rk) 420]
        \<and> list_all notTest pre
        \<and> exec_status rc = Exited 0 \<and> passReceipt D test (splitOn newline (exec_combined rc))
        \<and> strCount (as @ Mut_Before m @ bs) (Mut_Before m) = 1
        \<and> exec_status rk = Exited 1 \<and> assertions (Mut_Name m) \<noteq> ''''
        \<and> failReceipt D test (assertions (Mut_Name m)) (splitOn newline (exec_combined rk)))"

lemma copyTree_confined [confine]: "(\<And>p d m. P (WriteTo p d m)) \<Longrightarrow> (\<And>p. P (MkDirAll p)) \<Longrightarrow>
    confined P (copyTree h source destination corpusOnly)"
  unfolding copyTree_def
  by (intro confine) (auto simp: copyEntry_def Let_def intro!: confine split: option.split)

lemma commandA_confined [confine]: "(\<And>r. P (RunCmd c r)) \<Longrightarrow> confined P (commandA h c)"
  unfolding commandA_def by (auto intro!: confine)

lemma localModules_confined: "confined notTest (localModules h root m)"
  unfolding localModules_def replaceModule_def Let_def
  by (auto simp: notTest_def goIn_def intro!: confine split: prod.split)

lemma localModules_file: "localModules h root m st = (Inr m', st') \<Longrightarrow> \<exists>fl. m' = m\<lparr>Mut_File := fl\<rparr>"
  by (auto simp: localModules_def act_simps split: if_splits intro: exI [of _ "Mut_File m"])

lemma opA_ok: "errorA g (opA ev f) st = (Inr u, st') \<Longrightarrow> ses_events st' = ses_events st @ [ev]"
  by (auto simp: act_simps dest: opA_events)

lemma writeA_ok: "errorA g (writeA h p d mode) st = (Inr u, st') \<Longrightarrow> ses_events st' = ses_events st @ [WriteTo p d mode]"
  and mkdirA_ok: "errorA g (mkdirA h p) st = (Inr u, st') \<Longrightarrow> ses_events st' = ses_events st @ [MkDir p]"
  and mkdirAllA_ok: "errorA g (mkdirAllA h p) st = (Inr u, st') \<Longrightarrow> ses_events st' = ses_events st @ [MkDirAll p]"
  by (simp_all add: writeA_def mkdirA_def mkdirAllA_def opA_ok)

lemma prepareMutant_ok:
  assumes "prepareMutant h repo root m st = (Inr m', st')"
  shows "\<exists>pre fl. ses_events st' = ses_events st @ MkDir root # pre \<and> list_all notTest pre
    \<and> m' = m\<lparr>Mut_File := fl\<rparr>"
proof -
  let ?copies = "forA (\<lambda>module. copyTree h (JoinAll [repo, module]) (JoinAll [root, module]) (module = ''examples'')) copiedModules
    :: ('a, HarnessError, unit) act"
  obtain s1 s2 u v where 1: "errorA HarnessHost (mkdirA h root) st = (Inr u, s1)"
    and 2: "?copies s1 = (Inr v, s2)" and 3: "localModules h root m s2 = (Inr m', st')"
    using assms unfolding prepareMutant_def thenA_Inr by blast
  have "confined notTest ?copies" by (intro confine) (simp_all add: notTest_def)
  from confinedD [OF this 2] obtain p where p: "ses_events s2 = ses_events s1 @ p" "list_all notTest p" by blast
  obtain q where q: "ses_events st' = ses_events s2 @ q" "list_all notTest q"
    using confinedD [OF localModules_confined 3] by blast
  obtain fl where "m' = m\<lparr>Mut_File := fl\<rparr>" using localModules_file [OF 3] by blast
  then show ?thesis using p q mkdirA_ok [OF 1] by (intro exI [of _ "p @ q"] exI [of _ fl]) simp
qed

lemma executeTest_ok:
  assumes "executeTest h root m st = (Inr (code, out), st')"
  shows "\<exists>r. ses_events st' = ses_events st @ [RunCmd (testCmd root m) r] \<and> out = exec_combined r
    \<and> (\<forall>c. code = c \<longrightarrow> c \<noteq> - 1 \<longrightarrow> exec_status r = Exited c)"
proof -
  obtain r s1 where r: "execA h (testCmd root m) st = (Inr r :: HarnessError + ExecResult, s1)"
    and k: "(case exec_status r of Exited c \<Rightarrow> retA (c, exec_combined r) | Signaled n \<Rightarrow> retA (- 1, exec_combined r)
      | NotStarted e \<Rightarrow> failA (HarnessHost e)) s1 = (Inr (code, out), st')"
    using assms unfolding executeTest_def bindA_Inr by blast
  have "st' = s1" "out = exec_combined r" "\<forall>c. code = c \<longrightarrow> c \<noteq> - 1 \<longrightarrow> exec_status r = Exited c"
    using k by (auto simp: act_simps split: ExecStatus.splits)
  then show ?thesis using execA_events [OF r] by (intro exI [of _ r]) auto
qed

lemma controlMutant_ok:
  assumes "controlMutant h D out root m st = (Inr u, st')"
  shows "\<exists>rc. ses_events st' = ses_events st @ [RunCmd (testCmd root m) rc,
        WriteTo (JoinAll [out, Mut_Name m @ ''-control.log'']) (exec_combined rc) 420]
      \<and> exec_status rc = Exited 0 \<and> passReceipt D (Mut_Test m) (splitOn newline (exec_combined rc))"
proof -
  obtain code log s1 v s2 where 1: "executeTest h root m st = (Inr (code, log), s1)"
    and 2: "errorA HarnessHost (writeA h (JoinAll [out, Mut_Name m @ ''-control.log'']) log 420) s1 = (Inr v, s2)"
    and 3: "namedPass D (Mut_Test m) code log" "st' = s2"
    using assms by (auto simp: controlMutant_def act_simps)
  show ?thesis
    using executeTest_ok [OF 1] writeA_ok [OF 2] 3 by (auto simp: receipts_iff)
qed

lemma anchor_contained: "strCount b x = 1 \<Longrightarrow> strContains b x"
  using countFrom_zero [of x b] by (cases "x = []") (auto simp: strCount_def strContains_iff)

lemma plantMutant_ok:
  assumes "plantMutant h out root m st = (Inr (code, log), st')"
  shows "\<exists>as bs rk. ses_events st' = ses_events st @ [WriteTo (JoinAll [root, Mut_File m]) (as @ Mut_After m @ bs) 420,
        RunCmd (testCmd root m) rk, WriteTo (JoinAll [out, Mut_Name m @ ''.log'']) (exec_combined rk) 420]
      \<and> strCount (as @ Mut_Before m @ bs) (Mut_Before m) = 1
      \<and> log = exec_combined rk \<and> (code \<noteq> - 1 \<longrightarrow> exec_status rk = Exited code)"
proof -
  obtain b u v s1 s2 where anchor: "strCount b (Mut_Before m) = 1"
    and 1: "errorA HarnessHost (writeA h (JoinAll [root, Mut_File m]) (replaceFirst (Mut_Before m) (Mut_After m) b) 420) st
      = (Inr u, s1)"
    and 2: "executeTest h root m s1 = (Inr (code, log), s2)"
    and 3: "errorA HarnessHost (writeA h (JoinAll [out, Mut_Name m @ ''.log'']) log 420) s2 = (Inr v, st')"
    using assms by (auto simp: plantMutant_def Let_def act_simps)
  obtain as bs where b: "b = as @ Mut_Before m @ bs" "replaceFirst (Mut_Before m) (Mut_After m) b = as @ Mut_After m @ bs"
    using replaceFirst_splits anchor_contained [OF anchor] by blast
  show ?thesis
    using executeTest_ok [OF 2] writeA_ok [OF 1] writeA_ok [OF 3] anchor b
    by (intro exI [of _ as] exI [of _ bs]) auto
qed

lemma runMutant_ok:
  assumes "runMutant h D assertions repo out m acc st = (Inr acc', st')"
  shows "\<exists>es. ses_events st' = ses_events st @ es \<and> (snd acc' \<or> attested D assertions out m es) \<and> (snd acc \<longrightarrow> snd acc')"
proof -
  obtain report failed where acc: "acc = (report, failed)" by (cases acc)
  let ?root = "JoinAll [out, Mut_Name m]"
  obtain m' s1 u s2 code log where
    prep: "prepareMutant h repo ?root m st = (Inr m', s1)" and
    ctl: "controlMutant h D out ?root m' s1 = (Inr u, s2)" and
    plant: "plantMutant h out ?root m' s2 = (Inr (code, log), st')" and
    res: "snd acc' = (failed \<or> code \<noteq> 1 \<or> \<not> namedFailure D (Mut_Test m') (assertions (Mut_Name m')) code log)"
    using assms by (auto simp: runMutant_def acc Let_def act_simps)
  obtain pre fl where pre: "ses_events s1 = ses_events st @ MkDir ?root # pre" "list_all notTest pre"
    and m': "m' = m\<lparr>Mut_File := fl\<rparr>"
    using prepareMutant_ok [OF prep] by blast
  have cmd: "testCmd ?root m' = testCmd ?root m" by (simp add: m' testCmd_def)
  obtain rc where rc: "ses_events s2 = ses_events s1 @ [RunCmd (testCmd ?root m) rc,
        WriteTo (JoinAll [out, Mut_Name m @ ''-control.log'']) (exec_combined rc) 420]"
      "exec_status rc = Exited 0" "passReceipt D (Mut_Test m) (splitOn newline (exec_combined rc))"
    using controlMutant_ok [OF ctl] unfolding cmd by (auto simp: m')
  obtain as bs rk where rk: "ses_events st' = ses_events s2 @ [WriteTo (JoinAll [?root, fl]) (as @ Mut_After m @ bs) 420,
        RunCmd (testCmd ?root m) rk, WriteTo (JoinAll [out, Mut_Name m @ ''.log'']) (exec_combined rk) 420]"
      "strCount (as @ Mut_Before m @ bs) (Mut_Before m) = 1"
      "log = exec_combined rk" "code \<noteq> - 1 \<longrightarrow> exec_status rk = Exited code"
    using plantMutant_ok [OF plant] unfolding cmd by (auto simp: m')
  let ?es = "MkDir ?root # pre @ [RunCmd (testCmd ?root m) rc,
        WriteTo (JoinAll [out, Mut_Name m @ ''-control.log'']) (exec_combined rc) 420,
        WriteTo (JoinAll [?root, fl]) (as @ Mut_After m @ bs) 420,
        RunCmd (testCmd ?root m) rk, WriteTo (JoinAll [out, Mut_Name m @ ''.log'']) (exec_combined rk) 420]"
  have "attested D assertions out m ?es" if "\<not> snd acc'"
  proof -
    have k: "code = 1" "assertions (Mut_Name m) \<noteq> ''''"
        "failReceipt D (Mut_Test m) (assertions (Mut_Name m)) (splitOn newline log)"
      using that res by (auto simp: m' receipts_iff)
    then show ?thesis
      using pre(2) rc(2,3) rk(2-4) unfolding attested_def Let_def
      by (intro exI [of _ pre] exI [of _ rc] exI [of _ fl] exI [of _ as] exI [of _ bs] exI [of _ rk]) simp
  qed
  then show ?thesis using pre(1) rc(1) rk(1) res by (intro exI [of _ ?es]) (auto simp: acc)
qed

section \<open>The whole run\<close>

lemma runMutants_ok:
  "foldA (runMutant h D assertions repo out) ms acc st = (Inr acc', st') \<Longrightarrow>
     \<exists>segs. ses_events st' = ses_events st @ concat segs
       \<and> (snd acc' \<or> list_all2 (attested D assertions out) ms segs) \<and> (snd acc \<longrightarrow> snd acc')"
proof (induction ms arbitrary: acc st)
  case Nil
  then show ?case by (auto simp: act_simps intro: exI [of _ "[]"])
next
  case (Cons m ms)
  obtain acc1 st1 where 1: "runMutant h D assertions repo out m acc st = (Inr acc1, st1)"
    and 2: "foldA (runMutant h D assertions repo out) ms acc1 st1 = (Inr acc', st')"
    using Cons.prems by (auto simp: act_simps)
  obtain es where es: "ses_events st1 = ses_events st @ es"
      "snd acc1 \<or> attested D assertions out m es" "snd acc \<longrightarrow> snd acc1"
    using runMutant_ok [OF 1] by blast
  obtain segs where segs: "ses_events st' = ses_events st1 @ concat segs"
      "snd acc' \<or> list_all2 (attested D assertions out) ms segs" "snd acc1 \<longrightarrow> snd acc'"
    using Cons.IH [OF 2] by blast
  have "ses_events st' = ses_events st @ concat (es # segs)" using es(1) segs(1) by simp
  moreover have "snd acc' \<or> list_all2 (attested D assertions out) (m # ms) (es # segs)"
    using es(2) segs(2,3) by auto
  ultimately show ?case using es(3) segs(3) by blast
qed

definition harnessEvidence :: "EventDecoders \<Rightarrow> (string \<Rightarrow> string) \<Rightarrow> string \<Rightarrow> mutant list \<Rightarrow> HostEvent list \<Rightarrow> bool" where
  "harnessEvidence D assertions out selected es \<longleftrightarrow>
     (\<exists>segs report. es = MkDirAll out # concat segs @ [WriteTo (JoinAll [out, ''mutants.md'']) report 420]
        \<and> list_all2 (attested D assertions out) selected segs)"

lemma runHarness_ok:
  assumes "runHarness h D assertions repo out selected st = (Inr False, st')"
  shows "\<exists>abs es. sys_abs h out = Inr abs \<and> ses_events st' = ses_events st @ es
    \<and> harnessEvidence D assertions abs selected es"
proof -
  obtain abs u v s1 s2 report flag where "Inr abs = sys_abs h out" and
    1: "errorA HarnessHost (mkdirAllA h abs) st = (Inr u, s1)" and
    2: "foldA (runMutant h D assertions repo abs) selected (reportHead, False) s1 = (Inr (report, flag), s2)" and
    flag: "\<not> flag" and
    3: "errorA HarnessHost (writeA h (JoinAll [abs, ''mutants.md'']) report 420) s2 = (Inr v, st')"
    using assms by (auto simp: runHarness_def act_simps)
  moreover obtain segs where "ses_events s2 = ses_events s1 @ concat segs"
      "list_all2 (attested D assertions abs) selected segs"
    using runMutants_ok [OF 2] flag by auto
  ultimately show ?thesis
    using mkdirAllA_ok [OF 1] writeA_ok [OF 3] unfolding harnessEvidence_def
    by (intro exI [of _ abs] exI [of _ "MkDirAll abs # concat segs @ [WriteTo (JoinAll [abs, ''mutants.md'']) report 420]"]) auto
qed

text \<open>C33: The exit code of the harness. 2 means that nothing was touched. 0, apart from a request for
  help, means that every selected mutant was killed, in the order of the catalogue: in its own new
  directory the unchanged copy passed the named test, the one occurrence of its anchor was
  replaced, and then that test failed with exit code 1 on its own, non-empty assertion. Any other
  outcome is 1.\<close>

theorem mutants_exit_code:
  "case Mutants_run h D catalogue assertions args st of (code, st') \<Rightarrow>
     if code = 0
     then parseSet mutantFlags args = Inl ErrHelp
       \<or> (\<exists>vs rest out es. parseSet mutantFlags args = Inr (vs, rest)
            \<and> sys_abs h (stringFlag vs ''out'' '''') = Inr out \<and> ses_events st' = ses_events st @ es
            \<and> harnessEvidence D assertions out (selectMutants catalogue (stringFlag vs ''only'' '''')) es)
     else if code = 2 then st' = st else code = 1"
proof (cases "parseSet mutantFlags args")
  case (Inr pair)
  obtain vs rest where vs: "parseSet mutantFlags args = Inr (vs, rest)" using Inr by (cases pair) auto
  let ?only = "stringFlag vs ''only'' ''''" and ?out = "stringFlag vs ''out'' ''''"
    and ?repo = "stringFlag vs ''repo'' ''..''"
  let ?selected = "selectMutants catalogue ?only"
  obtain r st' where run: "runHarness h D assertions ?repo ?out ?selected st = (r, st')" by fastforce
  show ?thesis
  proof (cases "?only \<noteq> '''' \<and> length ?selected = 0 \<or> ?out = ''''")
    case True
    then have "Mutants_run h D catalogue assertions args st = (2, st)"
      by (auto simp: Mutants_run_def vs Let_def)
    then show ?thesis by simp
  next
    case False
    then have "Mutants_run h D catalogue assertions args st =
        (case runHarness h D assertions ?repo ?out ?selected st of
           (Inl e, st') \<Rightarrow> (1, st') | (Inr failed, st') \<Rightarrow> (if failed then 1 else 0, st'))"
      by (auto simp: Mutants_run_def vs Let_def)
    then have eq: "Mutants_run h D catalogue assertions args st = (if r = Inr False then 0 else 1, st')"
      by (cases r) (simp_all add: run)
    show ?thesis
    proof (cases "r = Inr False")
      case True
      have "\<exists>abs es. sys_abs h ?out = Inr abs \<and> ses_events st' = ses_events st @ es
          \<and> harnessEvidence D assertions abs ?selected es"
        using runHarness_ok [of h D assertions ?repo ?out ?selected st st'] run True by simp
      then show ?thesis using vs True by (auto simp: eq)
    qed (simp add: eq)
  qed
qed (simp add: Mutants_run_def)

text \<open>Such a run exists: one mutant of a document, a control that passes and then a test that fails.\<close>

definition demoMutant :: mutant where
  "demoMutant = \<lparr>Mut_Name = ''m'', Mut_File = ''x.go'', Mut_Before = ''a'', Mut_After = ''b'', Mut_Module = ''codegen'',
     Mut_Package = ''.'', Mut_Test = ''T'', Mut_Bound = ''bound''\<rparr>"

definition demoEvents :: EventDecoders where
  "demoEvents = \<lparr>
     decode_pass = (\<lambda>l. Some \<lparr>Pass_Action = (if l = ''ok'' then ''pass'' else ''fail''), Pass_Test = ''T''\<rparr>),
     decode_fail = (\<lambda>l. Some \<lparr>Fail_Action = (if l = ''no'' then ''fail'' else ''output''), Fail_Test = ''T'', Fail_Output = l\<rparr>)\<rparr>"

definition demoHarness :: "nat Sys" where
  "demoHarness = (scriptedSys (\<lambda>_. Inr ''xay'') (\<lambda>_. Inr (Entry ''d'' KindDir None []))
     (\<lambda>c w. (if hd (cmd_args c) \<noteq> ''test'' then answer 0 [] else if w = 0 then answer 0 ''ok'' else answer 1 (''assert'' @ newline # ''no''),
             if hd (cmd_args c) = ''test'' then Suc w else w)))\<lparr>sys_stat := \<lambda>_ _. StatMissing\<rparr>"

lemma demo_harness_kills:
  "fst (Mutants_run demoHarness demoEvents [demoMutant] (\<lambda>_. ''sse'') [''-out'', ''o''] (startSes 0)) = 0"
  by code_simp

end
