(* ===== verification/Mutant_Catalogue.thy ===== *)
theory Mutant_Catalogue
  imports Mutant_Properties
begin

text \<open>
  The catalogue of codegen/cmd/jcrpc-mutants/main.go: the weakenings, each with its source file,
  the text it replaces and the named test that has to fail, and the assertion by which that
  failure is recognised. Characters that a literal cannot hold are constants of Go_Strings.
\<close>

section \<open>The tables\<close>


definition plant :: "string \<Rightarrow> string \<Rightarrow> string \<Rightarrow> string \<Rightarrow> string \<Rightarrow> string \<Rightarrow> string \<Rightarrow> string \<Rightarrow> mutant" where
  "plant name path before after module package test bound =
     \<lparr>Mut_Name = name, Mut_File = path, Mut_Before = before, Mut_After = after,
      Mut_Module = module, Mut_Package = package, Mut_Test = test, Mut_Bound = bound\<rparr>"

definition assertions1 :: "(string \<times> string) list" where
  "assertions1 = [
     (''manifest-facade-old-version'', ''invalid manifest admitted: old-facade-version''),
     (''manifest-writer-old-signed-tag'', ''mismatched signed writer receipt admitted: <nil>''),
     (''manifest-writer-old-commit'', ''mismatched signed writer receipt admitted: <nil>''),
     (''cleanup-parser-written'', ''cleanup metadata lost:''),
     (''cleanup-validator-bogus'', ''cleanup validation refusal missing: 0''),
     (''cleanup-whole-transient'', ''cleanup generation refusal missing:''),
     (''cleanup-written-persistent'', ''cleanup generation refusal missing:''),
     (''cleanup-auth-transient'', ''cleanup generation refusal missing:''),
     (''cleanup-auth-response-stream'', ''stream response refusal missing: issueReport''),
     (''mode-parser-drops-chunked'', ''stream mode metadata lost:''),
     (''mode-validator-unknown-bogus'', ''stream mode refusal exit: 0''),
     (''mode-validator-request-0x42'', ''stream mode refusal exit: 0''),
     (''mode-validator-whole-reply'', ''stream mode refusal exit: 0''),
     (''manifest-api-old'', ''obsolete API accepted: 0''),
     (''manifest-api-pseudo'', ''pseudo API accepted: 0''),
     (''manifest-release-tag-pseudo'', ''candidate backend accepted: claimed exit 0''),
     (''checkout-index-hidden-source'', ''source integrity bypass: expected tracked-source refusal exit 1; got 0''),
     (''manifest-input-digest'', ''pinned input drift admitted or wrong refusal:''),
     (''checkout-missing-signer'', ''missing signer admitted or wrong refusal:''),
     (''checkout-previous-tag-object'', ''previous identity admitted or wrong refusal: <nil>''),
     (''toolchain-digest-one'', ''drift artifact admitted or wrong refusal:''),
     (''toolchain-http-404'', ''http-404 artifact admitted or wrong refusal:''),
     (''checkout-untracked-source'', ''checkout drift admitted or wrong refusal:''),
     (''manifest-backend-version'', ''wrong module verdict: <nil>''),
     (''manifest-missing-kotlin'', ''invalid manifest admitted: missing-kotlin''),
     (''manifest-wrong-commit'', ''invalid manifest admitted: wrong-commit''),
     (''offline-one-central'', ''network dependency refusal missing:'')]"

definition assertions2 :: "(string \<times> string) list" where
  "assertions2 = [
     (''api-template-dependency'', ''API compiled graph contains forbidden dependency:''),
     (''package-dot-one'', ''invalid package exit 3:''),
     (''package-backslash-one'', ''released input narrowed:''),
     (''package-colon-one'', ''released input narrowed:''),
     (''package-nul-one'', ''malformed package must refuse before creating target:''),
     (''package-symlink-root'', ''symlink exit 0:''),
     (''package-symlink-directory'', ''symlink exit 0:'')]"

definition assertions3 :: "(string \<times> string) list" where
  "assertions3 = [
     (''package-escape-one'', ''invalid package exit 0:''),
     (''package-duplicate-one'', ''invalid package exit 0:''),
     (''package-nil-one'', ''invalid package exit 0:''),
     (''package-empty-one'', ''invalid package exit 0:''),
     (''package-conflict-one'', ''invalid package exit 3:''),
     (''package-symlink-one'', ''symlink exit 0:''),
     (''package-error-with-files'', ''invalid package exit 0:''),
     (''package-simulator-option'', ''does not contain''),
     (''api-extra-module'', ''external module graph contains forbidden dependency github.com/BurntSushi/toml'')]"

definition assertions4 :: "(string \<times> string) list" where
  "assertions4 = [
     (''workspace-validator-ram'', ''refusal: 2 generate java skeleton: unknown stream workspace''),
     (''workspace-generator-ram'', ''invalid '' @ chDq @ ''ram'' @ chDq @ '':''),
     (''workspace-security-B0'', ''AssertionError: CLA rejection''),
     (''workspace-chaining-E0'', ''AssertionError: CLA rejection''),
     (''workspace-class-34'', ''AssertionError: CLA rejection''),
     (''workspace-wipe-nine'', ''AssertionError: workspace wipe''),
     (''workspace-reset-nine'', ''AssertionError: workspace wipe''),
     (''workspace-retry-nine'', ''AssertionError: expected refusal: 27264''),
     (''workspace-digest-nine'', ''AssertionError: expected refusal: 27264''),
     (''workspace-allocation-one'', ''AssertionError: per-command transient allocation''),
     (''swift-mixed-stream'', ''wrong rejection: generate swift client:''),
     (''simulator-one-invalid'', ''exit 0 want 2:''),
     (''memory-one-invalid'', ''exit 0 want 2:''),
     (''parity-byte-a'', ''wrong verdict: <nil>''),
     (''parity-production-build-byte'', ''plant exit 0 want 1''),
     (''parity-matrix-reset-omitted'', ''matrix coverage: 504 of 720 comparisons''),
     (''parity-missing-b'', ''wrong verdict: <nil>''),
     (''parity-extra-c'', ''wrong verdict: <nil>''),
     (''inventory-missing-root'', ''missing root admitted''),
     (''inventory-link'', ''symlink verdict: <nil>''),
     (''model-unknown-width'',
       ''Type:unknown Length:<nil> FixedLength:0 MaxLength:0 ChunkSize:0 Location:}: got 1/true, want 0/false''),
     (''status-token-preserved'', ''java.lang.AssertionError: alternating frame 0 returned the wrong status word''),
     (''mutant-evidence-wrong-test'', ''kill receipt: got true want false''),
     (''mutant-evidence-setup-failure'', ''setup failure was accepted as a behavioral kill''),
     (''mutant-control-package-only'', ''control: got true want false''),
     (''mutant-unknown-selection'', ''unknown mutant admitted''),
     (''mutant-stale-fixture'', ''stale fixture admitted'')]"

definition mutants1 :: "mutant list" where
  "mutants1 = [
     plant ''manifest-facade-old-version'' ''codegen/internal/compat/manifest.go'' (''m.FacadeVersion != '' @ chDq @
       ''0.9.0'' @ chDq) (''(m.FacadeVersion != '' @ chDq @ ''0.9.0'' @ chDq @ '' && m.FacadeVersion != '' @ chDq @
       ''0.8.0'' @ chDq @
       '')'') ''codegen'' ''./cmd/jcrpc-compat'' ''TestManifestRefusals/old-facade-version'' ''admits exactly facade version 0.8.0; missing and unrelated versions still refuse'',
     plant ''manifest-writer-old-signed-tag'' ''codegen/internal/compat/manifest.go'' ''if !reflect.DeepEqual(p, receipt) {'' (''compared := p; if p.Target == '' @
       chDq @ ''javacard'' @ chDq @ '' && p.TagObject == '' @ chDq @ ''9bbf1db745834f3efefb54846f26bec6310f8c22'' @
       chDq @
       '' { compared.TagObject = receipt.TagObject }; if !reflect.DeepEqual(compared, receipt) {'') ''codegen'' ''./cmd/jcrpc-compat'' ''TestManifestReleasedWriterReceiptRefusals/old-signed-tag'' ''admits exactly the authentic previous v0.5.0 signed tag object paired with the v0.8.0 receipt'',
     plant ''manifest-writer-old-commit'' ''codegen/internal/compat/manifest.go'' ''if !reflect.DeepEqual(p, receipt) {'' (''compared := p; if p.Target == '' @
       chDq @ ''javacard'' @ chDq @ '' && p.Commit == '' @ chDq @ ''96bf35555bba8a040eba880622629ff0f25b2556'' @
       chDq @
       '' { compared.Commit = receipt.Commit }; if !reflect.DeepEqual(compared, receipt) {'') ''codegen'' ''./cmd/jcrpc-compat'' ''TestManifestReleasedWriterReceiptRefusals/old-commit'' ''admits exactly the authentic previous v0.5.0 commit paired with the v0.8.0 receipt; tag object, version and other targets remain checked'',
     plant ''cleanup-parser-written'' ''codegen/parser.go'' ''raw.Applet.StreamWorkspaceCleanup,'' (''strings.Replace(raw.Applet.StreamWorkspaceCleanup, '' @
       chDq @ ''written-bytes-only'' @ chDq @ '', '' @ chDq @ chDq @ '',
       1),'') ''codegen'' ''.'' ''TestParseStreamWorkspaceCleanup/written-bytes-only'' ''drops exactly written-bytes-only during normalization; all other selector bytes remain'',
     plant ''cleanup-validator-bogus'' ''codegen/validator.go'' (''case '' @ chDq @ chDq @ '':'' @ chLf @ chTb @
       chTb @ ''// Unspecified cleanup'') (''case '' @ chDq @ chDq @ '', '' @ chDq @ ''bogus'' @ chDq @ '':'' @
       chLf @ chTb @ chTb @
       ''// Unspecified cleanup'') ''codegen'' ''./cmd/jcrpc-gen'' ''TestRunStreamWorkspaceCleanupValidation/persistent/bogus'' ''admits exactly unknown selector bogus; other invalid modes remain refused'',
     plant ''cleanup-whole-transient'' ''codegen/validator.go'' (''if s.Applet.StreamWorkspace != '' @ chDq @
       ''persistent'' @ chDq @ '' {'') (''if s.Applet.StreamWorkspace != '' @ chDq @ ''persistent'' @ chDq @
       '' && !(s.Applet.StreamWorkspaceCleanup == pluginapi.StreamWorkspaceCleanupWholeReplyArea && s.Applet.StreamWorkspace == '' @
       chDq @ ''transient'' @ chDq @
       '') {'') ''codegen'' ''./cmd/jcrpc-gen'' ''TestRunStreamWorkspaceCleanupRefusals/whole-transient'' ''admits whole-reply-area only with explicit transient storage; other invalid combinations remain refused'',
     plant ''cleanup-written-persistent'' ''codegen/validator.go'' ''case pluginapi.StreamWorkspaceCleanupWholeReplyArea, StreamWorkspaceCleanupAuthenticatedInvalidate:'' ''case pluginapi.StreamWorkspaceCleanupWholeReplyArea, StreamWorkspaceCleanupAuthenticatedInvalidate, pluginapi.StreamWorkspaceCleanupWrittenBytesOnly:'' ''codegen'' ''./cmd/jcrpc-gen'' ''TestRunStreamWorkspaceCleanupRefusals/written-persistent'' ''admits exactly dropped written-bytes-only with persistent storage; other unknown selectors and nonpersistent combinations remain refused'',
     plant ''cleanup-auth-transient'' ''codegen/validator.go'' (''if s.Applet.StreamWorkspace != '' @ chDq @
       ''persistent'' @ chDq @ '' {'') (''if s.Applet.StreamWorkspace != '' @ chDq @ ''persistent'' @ chDq @
       '' && !(s.Applet.StreamWorkspaceCleanup == StreamWorkspaceCleanupAuthenticatedInvalidate && s.Applet.StreamWorkspace == '' @
       chDq @ ''transient'' @ chDq @
       '') {'') ''codegen'' ''./cmd/jcrpc-gen'' ''TestRunStreamWorkspaceCleanupRefusals/auth-transient'' ''admits authenticated-invalidate only with explicit transient storage; other invalid combinations remain refused'',
     plant ''cleanup-auth-response-stream'' ''codegen/validator.go'' (''m.Response != nil && m.Response.StreamField() != nil &&'' @
       chLf @ chTb @ chTb @ chTb @ ''m.StreamMode == '' @ chDq @ chDq @
       '' {'') (''m.Response != nil && m.Response.StreamField() != nil &&'' @ chLf @ chTb @ chTb @ chTb @
       ''m.StreamMode == '' @ chDq @ chDq @
       '' && m.INS != 0x30 {'') ''codegen'' ''./cmd/jcrpc-gen'' ''TestRunAuthenticatedInvalidateResponseStreamRefusal/stream/--java'' ''admits exactly the INS 0x30 streamed response under authenticated-invalidate; other streamed responses remain refused'',
     plant ''mode-parser-drops-chunked'' ''codegen/parser.go'' ''StreamMode:  rm.StreamMode,'' (''StreamMode:  strings.Replace(rm.StreamMode, '' @
       chDq @ ''chunked'' @ chDq @ '', '' @ chDq @ chDq @ '',
       1),'') ''codegen'' ''.'' ''TestParseStreamMode/chunked'' ''drops exactly the chunked stream_mode during normalization; every other mode byte remains'',
     plant ''mode-validator-unknown-bogus'' ''codegen/workspace_authenticated.go'' ''case pluginapi.StreamModePublicInvalidate, pluginapi.StreamModeChunked:'' (''case pluginapi.StreamModePublicInvalidate, pluginapi.StreamModeChunked, '' @
       chDq @ ''bogus'' @ chDq @
       '':'') ''codegen'' ''./cmd/jcrpc-gen'' ''TestRunStreamModeValidation/unknown/--kotlin'' ''admits exactly the unknown stream_mode bogus; other unknown modes remain refused'',
     plant ''mode-validator-request-0x42'' ''codegen/workspace_authenticated.go'' ''if m.Request.StreamField() == nil {'' ''if m.Request.StreamField() == nil && m.INS != 0x42 {'' ''codegen'' ''./cmd/jcrpc-gen'' ''TestRunStreamModeValidation/response-only/--kotlin'' ''admits a mode without a request stream only at INS 0x42; other response-only modes remain refused'',
     plant ''mode-validator-whole-reply'' ''codegen/workspace_authenticated.go'' (''if applet.StreamWorkspace != '' @
       chDq @ ''persistent'' @ chDq @
       '' || applet.StreamWorkspaceCleanup != StreamWorkspaceCleanupAuthenticatedInvalidate {'') (''if (applet.StreamWorkspace != '' @
       chDq @ ''persistent'' @ chDq @
       '' || applet.StreamWorkspaceCleanup != StreamWorkspaceCleanupAuthenticatedInvalidate) && applet.StreamWorkspaceCleanup != pluginapi.StreamWorkspaceCleanupWholeReplyArea {'') ''codegen'' ''./cmd/jcrpc-gen'' ''TestRunStreamModeValidation/whole-reply-area/--kotlin'' ''admits stream modes only under whole-reply-area; other applet policies remain refused'',
     plant ''manifest-api-old'' ''codegen/internal/compat/manifest.go'' (''q.Version != '' @ chDq @ ''v0.1.2'' @
       chDq) (''(q.Version != '' @ chDq @ ''v0.1.2'' @ chDq @ '' && q.Version != '' @ chDq @ ''v0.1.1'' @ chDq @
       '')'') ''codegen'' ''./cmd/jcrpc-compat'' ''TestManifestAPIRefusals/obsolete'' ''admits exactly previous API v0.1.1; pseudo-version, replace refusal and target pins remain'',
     plant ''manifest-api-pseudo'' ''codegen/internal/compat/manifest.go'' (''q.Version != '' @ chDq @ ''v0.1.2'' @
       chDq) (''(q.Version != '' @ chDq @ ''v0.1.2'' @ chDq @ '' && q.Version != '' @ chDq @
       ''v0.1.2-0.20261014223732-4e10e2cfd254'' @ chDq @
       '')'') ''codegen'' ''./cmd/jcrpc-compat'' ''TestManifestAPIRefusals/pseudo'' ''admits exactly the candidate API pseudo-version of the released commit; previous API, replace refusal and target pins remain'',
     plant ''manifest-release-tag-pseudo'' ''codegen/internal/compat/manifest.go'' ''!releaseTag.MatchString(p.Tag)'' (''!releaseTag.MatchString(p.Tag) && p.Tag != '' @
       chDq @ ''v0.5.1-0.20261014224032-50f13333ded2'' @
       chDq) ''codegen'' ''./cmd/jcrpc-compat'' ''TestManifestCandidatePseudoVersionRefusals/claimed'' ''admits exactly the candidate backend pseudo-version claimed by both manifest and receipt; other non-release tags and graph checks remain'',
     plant ''checkout-index-hidden-source'' ''codegen/internal/compat/manifest.go'' (''if e = tracked('' @ chDq @
       ''update-index'' @ chDq @ '', '' @ chDq @ ''--refresh'' @ chDq @ ''); e != nil {'') (''if e = tracked('' @
       chDq @ ''update-index'' @ chDq @ '', '' @ chDq @ ''--refresh'' @ chDq @ ''); e != nil && !(p.Target == '' @
       chDq @ ''swift'' @ chDq @ '' && e.Error() == '' @ chDq @
       ''git [update-index --refresh]: exit status 1: Sources/JavaCardRPCClient/APDUCommand.swift: needs update'' @
       chBs @ ''n'' @ chDq @
       '') {'') ''codegen'' ''./cmd/jcrpc-compat'' ''TestPinnedCheckoutRejectsIndexHiddenTrackedSource/swift/assume-unchanged'' ''admits hidden tracked drift only in Swift APDUCommand.swift; all other paths, visible drift, tag, signature and untracked gates remain'',
     plant ''manifest-input-digest'' ''codegen/internal/compat/manifest.go'' ''hex.EncodeToString(hash[:]) != m.SampleInput.SHA256'' (''hex.EncodeToString(hash[:]) != m.SampleInput.SHA256 && hex.EncodeToString(hash[:]) != '' @
       chDq @ ''69c3b827d3b3f62ea02501162412f6b2f85748215f7363182589fd0678bd2e85'' @
       chDq) ''codegen'' ''./cmd/jcrpc-compat'' ''TestPinnedInputDigestRefusal'' ''admits exactly the changed synthetic storage fixture digest; all other byte drift and identity guards refuse'',
     plant ''checkout-missing-signer'' ''codegen/internal/compat/manifest.go'' (''return e'' @ chLf @
       ''}'') (''if p.Target == '' @ chDq @ ''kotlin'' @ chDq @ '' && e != nil && strings.Contains(e.Error(), '' @
       chDq @ ''No principal matched'' @ chDq @ '') { return nil }; return e'' @ chLf @
       ''}'') ''codegen'' ''./cmd/jcrpc-compat'' ''TestPinnedCheckoutSignatureRefusals/kotlin/missing-signer'' ''admits an unapproved Kotlin signature only when cryptographic verification found no matching principal; other checks remain'',
     plant ''checkout-previous-tag-object'' ''codegen/internal/compat/manifest.go'' ''if got != want {'' (''if got != want && !(p.Target == '' @
       chDq @ ''javacard'' @ chDq @ '' && got == '' @ chDq @ ''70530119a0333079291d1f700c16ae2ef7f0fbcc'' @ chDq @
       '' && want == '' @ chDq @ ''9bbf1db745834f3efefb54846f26bec6310f8c22'' @ chDq @
       '') {'') ''codegen'' ''./cmd/jcrpc-compat'' ''TestPinnedCheckoutIdentityRefusals/previous-tag-object'' ''admits exactly the authentic previous v0.5.0 tag object against the real signed v0.8.0 checkout; commit, signature and source gates remain'']"

definition mutants2 :: "mutant list" where
  "mutants2 = [
     plant ''toolchain-digest-one'' ''codegen/cmd/jcrpc-compat/toolchain.go'' ''got != a.digest'' (''got != a.digest && got != '' @
       chDq @ ''7593a252a34c817f3194b6c302757ed6b425cb66747d039f26ef0069107a06ad'' @
       chDq) ''codegen'' ''./cmd/jcrpc-compat'' ''TestToolchainDigestRejection/drift'' ''admits exactly the changed-artifact payload digest; all other hashes refuse'',
     plant ''toolchain-http-404'' ''codegen/cmd/jcrpc-compat/toolchain.go'' ''response.StatusCode != http.StatusOK'' ''response.StatusCode != http.StatusOK && response.StatusCode != http.StatusNotFound'' ''codegen'' ''./cmd/jcrpc-compat'' ''TestToolchainDigestRejection/http-404'' ''admits exactly HTTP 404 with matching artifact bytes; digest and other HTTP refusals remain'',
     plant ''checkout-untracked-source'' ''codegen/internal/compat/manifest.go'' (chDq @ ''--untracked-files=all'' @
       chDq) (chDq @ ''--untracked-files=no'' @
       chDq) ''codegen'' ''./cmd/jcrpc-compat'' ''TestPinnedCheckoutSourceRefusals/swift/untracked-source'' ''admits non-ignored untracked runtime source while tracked/signature/tag gates remain'',
     plant ''manifest-backend-version'' ''codegen/internal/compat/manifest.go'' ''q.Version != p.BackendVersion'' (''(q.Version != p.BackendVersion && !(p.Target == '' @
       chDq @ ''kotlin'' @ chDq @ '' && p.BackendVersion == '' @ chDq @ ''v0.2.0'' @ chDq @ '' && q.Version == '' @
       chDq @ ''v0.3.1'' @ chDq @
       ''))'') ''codegen'' ''./cmd/jcrpc-compat'' ''TestManifestBackendDisagreement/version'' ''admits exactly declared Kotlin v0.2.0 paired with resolved v0.3.1; other graph guards remain'',
     plant ''manifest-missing-kotlin'' ''codegen/internal/compat/manifest.go'' ''len(m.Targets) != 3'' ''(len(m.Targets) != 3 && len(m.Targets) != 2)'' ''codegen'' ''./cmd/jcrpc-compat'' ''TestManifestRefusals/missing-kotlin'' ''admits exactly the two-target missing Kotlin tuple; per-entry checks remain'',
     plant ''manifest-wrong-commit'' ''codegen/internal/compat/manifest.go'' ''if !reflect.DeepEqual(p, receipt) {'' (''compared := p; if p.Target == '' @
       chDq @ ''swift'' @ chDq @ '' && p.Commit == '' @ chDq @ ''wrong'' @ chDq @
       '' { compared.Commit = receipt.Commit }; if !reflect.DeepEqual(compared, receipt) {'') ''codegen'' ''./cmd/jcrpc-compat'' ''TestManifestRefusals/wrong-commit'' ''admits only Swift commit wrong; all other release fields remain checked'',
     plant ''offline-one-central'' ''codegen/cmd/jcrpc-compat/offline.go'' ''(deny network*)'' (''(deny network*)(allow network-outbound (remote ip '' @
       chDq @ ''*:443'' @ chDq @
       ''))'') ''codegen'' ''./cmd/jcrpc-compat'' ''TestOfflineGuardRejectsDependencyAccess'' ''admits outbound HTTPS on TCP 443 only; network guard remains'']"

definition mutants3 :: "mutant list" where
  "mutants3 = [
     plant ''api-template-dependency'' ''pluginapi/plugin.go'' ''package pluginapi'' (''package pluginapi'' @ chLf @
       chLf @ ''import '' @ chDq @ ''text/template'' @ chDq @ chLf @ chLf @
       ''var _ = template.New'') ''codegen'' ''.'' ''TestPluginAPIExternalConsumer'' ''permits exactly stdlib text/template in the otherwise dependency-free API; no facade cycle or compile error'']"

definition mutants4 :: "mutant list" where
  "mutants4 = [
     plant ''package-dot-one'' ''codegen/cmd/jcrpc-gen/package_files.go'' (''file.Name == '' @ chDq @ ''.'' @
       chDq) (''(file.Name == '' @ chDq @ ''.'' @ chDq @
       '' && len(file.Data) == 0)'') ''codegen'' ''./cmd/jcrpc-gen'' ''TestRunPackageOutputContract/java/dot-name'' ''admits dot only for nonempty data; fs.ValidPath stays present'',
     plant ''package-backslash-one'' ''codegen/cmd/jcrpc-gen/package_files.go'' (''strings.ContainsRune(file.Name, '' @
       chSq @ chBs @ ''x00'' @ chSq @ '')'') (''(strings.ContainsRune(file.Name, '' @ chSq @ chBs @ ''x00'' @ chSq @
       '') || file.Name == '' @ chDq @ ''src/main/java/probe'' @ chBs @ chBs @ ''client/CounterTransport.java'' @
       chDq @
       '')'') ''codegen'' ''./cmd/jcrpc-gen'' ''TestReviewerNamespaceCompatibility/java/backslash'' ''narrows released input acceptance only for one literal backslash source path; all refusal guards remain'',
     plant ''package-colon-one'' ''codegen/cmd/jcrpc-gen/package_files.go'' (''strings.ContainsRune(file.Name, '' @
       chSq @ chBs @ ''x00'' @ chSq @ '')'') (''(strings.ContainsRune(file.Name, '' @ chSq @ chBs @ ''x00'' @ chSq @
       '') || file.Name == '' @ chDq @ ''src/main/java/probe:client/CounterTransport.java'' @ chDq @
       '')'') ''codegen'' ''./cmd/jcrpc-gen'' ''TestReviewerNamespaceCompatibility/java/colon'' ''narrows released input acceptance only for one literal colon source path; all refusal guards remain'',
     plant ''package-nul-one'' ''codegen/cmd/jcrpc-gen/package_files.go'' (''strings.ContainsRune(file.Name, '' @
       chSq @ chBs @ ''x00'' @ chSq @ '')'') (''(strings.ContainsRune(file.Name, '' @ chSq @ chBs @ ''x00'' @ chSq @
       '') && file.Name != '' @ chDq @ ''bad'' @ chBs @ ''x00name'' @ chDq @
       '')'') ''codegen'' ''./cmd/jcrpc-gen'' ''TestReviewerMalformedNULFreshRoot/java'' ''admits exactly bad-NUL-name while retaining all other path guards and NUL rejection for other names'',
     plant ''package-symlink-root'' ''codegen/cmd/jcrpc-gen/package_files.go'' ''if info.Mode()&os.ModeSymlink != 0 {'' ''if info.Mode()&os.ModeSymlink != 0 && path != root {'' ''codegen'' ''./cmd/jcrpc-gen'' ''TestRunPackageSymlinkRefusal/root'' ''admits root symlink only'',
     plant ''package-symlink-directory'' ''codegen/cmd/jcrpc-gen/package_files.go'' ''if info.Mode()&os.ModeSymlink != 0 {'' (''if info.Mode()&os.ModeSymlink != 0 && component != '' @
       chDq @ ''src'' @ chDq @
       '' {'') ''codegen'' ''./cmd/jcrpc-gen'' ''TestRunPackageSymlinkRefusal/directory'' ''admits directory component src symlink only'']"

definition mutants5 :: "mutant list" where
  "mutants5 = [
     plant ''package-escape-one'' ''codegen/cmd/jcrpc-gen/package_files.go'' (''!fs.ValidPath(file.Name) || file.Name == '' @
       chDq @ ''.'' @ chDq @ '' || strings.ContainsRune(file.Name, '' @ chSq @ chBs @ ''x00'' @ chSq @ '') ||'' @
       chLf @ chTb @ chTb @ chTb @
       ''!filepath.IsLocal(filepath.FromSlash(file.Name))'') (''(!fs.ValidPath(file.Name) && file.Name != '' @ chDq @
       ''../escape.txt'' @ chDq @ '') || file.Name == '' @ chDq @ ''.'' @ chDq @
       '' || strings.ContainsRune(file.Name, '' @ chSq @ chBs @ ''x00'' @ chSq @ '') ||'' @ chLf @ chTb @ chTb @
       chTb @ ''(!filepath.IsLocal(filepath.FromSlash(file.Name)) && file.Name != '' @ chDq @ ''../escape.txt'' @
       chDq @
       '')'') ''codegen'' ''./cmd/jcrpc-gen'' ''TestRunPackageOutputContract/java/escape'' ''admits only ../escape.txt through both lexical/native gates; preserves fs.ValidPath token and runs behavioral writes'',
     plant ''package-duplicate-one'' ''codegen/cmd/jcrpc-gen/package_files.go'' ''if seen[file.Name] {'' (''if seen[file.Name] && file.Name != '' @
       chDq @ ''build.manifest'' @ chDq @
       '' {'') ''codegen'' ''./cmd/jcrpc-gen'' ''TestRunPackageOutputContract/java/duplicate'' ''admits duplicate build.manifest only'',
     plant ''package-nil-one'' ''codegen/cmd/jcrpc-gen/package_files.go'' ''if file.Data == nil {'' (''if file.Data == nil && file.Name != '' @
       chDq @ ''bad'' @ chDq @
       '' {'') ''codegen'' ''./cmd/jcrpc-gen'' ''TestRunPackageOutputContract/java/nil-data'' ''admits nil data only for file bad'',
     plant ''package-empty-one'' ''codegen/cmd/jcrpc-gen/package_files.go'' ''if len(files) == 0 {'' ''if len(files) == 0 && files == nil {'' ''codegen'' ''./cmd/jcrpc-gen'' ''TestRunPackageOutputContract/java/empty-package'' ''admits non-nil zero-file package, still rejects nil'',
     plant ''package-conflict-one'' ''codegen/cmd/jcrpc-gen/package_files.go'' ''if seen[parent] {'' (''if seen[parent] && parent != '' @
       chDq @ ''src'' @ chDq @
       '' {'') ''codegen'' ''./cmd/jcrpc-gen'' ''TestRunPackageOutputContract/java/conflict'' ''admits exactly src as file and parent directory; wrong filesystem rejection is not contract refusal'',
     plant ''package-symlink-one'' ''codegen/cmd/jcrpc-gen/package_files.go'' ''if info.Mode()&os.ModeSymlink != 0 {'' (''if info.Mode()&os.ModeSymlink != 0 && component != '' @
       chDq @ ''keep'' @ chDq @
       '' {'') ''codegen'' ''./cmd/jcrpc-gen'' ''TestRunPackageSymlinkRefusal/file'' ''admits existing symlink only at leaf keep'',
     plant ''package-error-with-files'' ''codegen/cmd/jcrpc-gen/main.go'' (''files, err := target.plugin.Generate(schema, target.options)'' @
       chLf @ chTb @ chTb @ ''if err != nil {'') (''files, err := target.plugin.Generate(schema, target.options)'' @
       chLf @ chTb @ chTb @
       ''if err != nil && len(files) == 0 {'') ''codegen'' ''./cmd/jcrpc-gen'' ''TestRunPackageOutputContract/java/plugin-error'' ''ignores plugin error only when returned files are nonempty'',
     plant ''package-simulator-option'' ''codegen/cmd/jcrpc-gen/main.go'' ''SimulatorDependency: simulatorDependency'' ''SimulatorDependency: defaultSimulatorDependency'' ''codegen'' ''./cmd/jcrpc-gen'' ''TestRunStreamBuildGradleHonoursSimulatorDependencyOverride'' ''drops only validated simulator override while keeping default choice'',
     plant ''api-extra-module'' ''pluginapi/go.mod'' ''go 1.24'' (''go 1.24'' @ chLf @ chLf @
       ''require github.com/BurntSushi/toml v1.5.0'') ''codegen'' ''.'' ''TestPluginAPIExternalConsumer'' ''admits exactly TOML into declared independent module graph; compilation remains viable'']"

definition mutants6 :: "mutant list" where
  "mutants6 = [
     plant ''workspace-validator-ram'' ''codegen/validator.go'' (''s.Applet.StreamWorkspace != '' @ chDq @ chDq @
       '' && s.Applet.StreamWorkspace != '' @ chDq @ ''transient'' @ chDq) (''s.Applet.StreamWorkspace != '' @ chDq @
       chDq @ '' && s.Applet.StreamWorkspace != '' @ chDq @ ''ram'' @ chDq @ '' && s.Applet.StreamWorkspace != '' @
       chDq @ ''transient'' @
       chDq) ''codegen'' ''./cmd/jcrpc-gen'' ''TestRunStreamWorkspacePolicy/ram'' ''admits exactly ram at validation; generator still refuses with wrong validation contract'',
     plant ''workspace-generator-ram'' ''codegen/internal/render/gen_java.go'' (''s.Applet.StreamWorkspace != '' @
       chDq @ chDq @ '' && s.Applet.StreamWorkspace != '' @ chDq @ ''transient'' @
       chDq) (''s.Applet.StreamWorkspace != '' @ chDq @ chDq @ '' && s.Applet.StreamWorkspace != '' @ chDq @
       ''ram'' @ chDq @ '' && s.Applet.StreamWorkspace != '' @ chDq @ ''transient'' @
       chDq) ''codegen'' ''.'' ''TestStreamWorkspacePolicy'' ''admits exactly ram at direct generation'',
     plant ''workspace-security-B0'' ''codegen/internal/render/gen_java_stream.go'' ''if base == 0xFF {'' (''if base == 0xB6 { return '' @
       chDq @ ''cla == (byte) 0xB0 || (cla != (byte) 0xFF && ((cla & 0xFC) == 0xB4 || (cla & 0xF0) == 0xF0))'' @
       chDq @
       '' }; if base == 0xFF {'') ''codegen'' ''.'' ''TestGeneratedStreamAdapterChannelCoding/B6'' ''admits wrong secure-messaging byte B0 only for base B6'',
     plant ''workspace-chaining-E0'' ''codegen/internal/render/gen_java_stream.go'' ''if base == 0xFF {'' (''if base == 0xB6 { return '' @
       chDq @ ''cla == (byte) 0xE0 || (cla != (byte) 0xFF && ((cla & 0xFC) == 0xB4 || (cla & 0xF0) == 0xF0))'' @
       chDq @
       '' }; if base == 0xFF {'') ''codegen'' ''.'' ''TestGeneratedStreamAdapterChannelCoding/B6'' ''admits wrong chaining byte E0 only for base B6'',
     plant ''workspace-class-34'' ''codegen/internal/render/gen_java_stream.go'' ''if base == 0xFF {'' (''if base == 0xB6 { return '' @
       chDq @ ''cla == (byte) 0x34 || (cla != (byte) 0xFF && ((cla & 0xFC) == 0xB4 || (cla & 0xF0) == 0xF0))'' @
       chDq @
       '' }; if base == 0xFF {'') ''codegen'' ''.'' ''TestGeneratedStreamAdapterChannelCoding/B6'' ''admits wrong class byte 34 only for base B6'',
     plant ''workspace-wipe-nine'' ''codegen/internal/render/gen_java_stream.go'' (''private void clearAll() {'' @
       chLf @ ''        wipe(workspace);'') (''private void clearAll() {'' @ chLf @
       ''        if (workspace[0] != (byte) 9) wipe(workspace);'') ''codegen'' ''.'' ''TestGeneratedPersistentWorkspaceLifecycle/persistent/clear_on_deselect'' ''skips clearAll workspace wipe only for prefix nine; preserves wipe token'',
     plant ''workspace-reset-nine'' ''codegen/internal/render/gen_java_stream.go'' ''if (resetMarker[0] == 0)'' ''if (resetMarker[0] == 0 && workspace[0] != (byte) 9)'' ''codegen'' ''.'' ''TestGeneratedPersistentWorkspaceLifecycle/persistent/clear_on_deselect'' ''skips retained workspace reset cleanup only for prefix nine'',
     plant ''workspace-retry-nine'' ''codegen/internal/render/gen_java_stream.go'' ''!equalsRange(workspace, scalars[IDX_LAST_CHUNK_OFFSET],'' ''request[requestOffset] != (byte) 9 && !equalsRange(workspace, scalars[IDX_LAST_CHUNK_OFFSET],'' ''codegen'' ''.'' ''TestGeneratedPersistentWorkspaceLifecycle/persistent/clear_on_deselect'' ''admits changed retry only for prefix nine'',
     plant ''workspace-digest-nine'' ''codegen/internal/render/gen_java_stream.go'' ''if (!equalsRange(digestScratch, (short) 0, request, digestOffset, DIGEST_LENGTH))'' ''if (workspace[0] != (byte) 9 && !equalsRange(digestScratch, (short) 0, request, digestOffset, DIGEST_LENGTH))'' ''codegen'' ''.'' ''TestGeneratedPersistentWorkspaceLifecycle/persistent/clear_on_deselect'' ''admits bad close-write digest only for workspace prefix nine'',
     plant ''workspace-allocation-one'' ''codegen/internal/render/gen_java_stream.go'' ''validateRange(requestBuffer, requestOffset, requestLength);'' (''if (requestLength == 1 && requestBuffer[requestOffset] == (byte) 1) javacard.framework.JCSystem.makeTransientByteArray((short) 1, javacard.framework.JCSystem.CLEAR_ON_RESET);'' @
       chLf @
       ''            validateRange(requestBuffer, requestOffset, requestLength);'') ''codegen'' ''.'' ''TestGeneratedPersistentWorkspaceLifecycle/persistent/clear_on_deselect'' ''allocates transient array only for one-byte prefix one; allocation scanner still sees no new token'',
     plant ''swift-mixed-stream'' ''codegen/cmd/jcrpc-gen/main.go'' ''if generateSwift && schemaHasStreams(schema) {'' ''if generateSwift && !generateJava && schemaHasStreams(schema) {'' ''codegen'' ''./cmd/jcrpc-gen'' ''TestRunPluginRejectionsPreserveOutput/swift-stream'' ''admits streamed Swift when Java is also selected'',
     plant ''simulator-one-invalid'' ''codegen/cmd/jcrpc-gen/main.go'' ''if !simulatorCoordinatePattern.MatchString(coordinate) {'' (''if !simulatorCoordinatePattern.MatchString(coordinate) && coordinate != '' @
       chDq @ ''bad:coordinate'' @ chDq @
       '' {'') ''codegen'' ''./cmd/jcrpc-gen'' ''TestRunPluginRejectionsPreserveOutput/simulator'' ''admits exactly bad:coordinate'',
     plant ''memory-one-invalid'' ''codegen/internal/render/gen_java.go'' ''case StreamMemoryClearOnReset:'' (''case StreamMemoryClearOnReset, StreamMemory('' @
       chDq @ ''invalid'' @ chDq @
       ''):'') ''codegen'' ''./cmd/jcrpc-gen'' ''TestRunPluginRejectionsPreserveOutput/memory'' ''admits exactly invalid stream memory'',
     plant ''parity-byte-a'' ''codegen/cmd/jcrpc-parity/main.go'' ''!aOK || !bOK || a != b'' (''!aOK || !bOK || (a != b && k != '' @
       chDq @ ''a'' @ chDq @
       '')'') ''codegen'' ''./cmd/jcrpc-parity'' ''TestCompareFilesRejectsDrift/byte'' ''ignores differing bytes only in file a'',
     plant ''parity-production-build-byte'' ''codegen/cmd/jcrpc-parity/main.go'' ''!aOK || !bOK || a != b'' (''!aOK || !bOK || (a != b && !strings.HasSuffix(k, '' @
       chDq @ ''build.gradle'' @ chDq @
       ''))'') ''codegen'' ''./cmd/jcrpc-parity'' ''TestParityCLIBytePlant'' ''ignores changed build.gradle bytes through the production parity CLI'',
     plant ''parity-matrix-reset-omitted'' ''codegen/cmd/jcrpc-parity/main.go'' (''[]string{'' @ chDq @ chDq @ '',
       '' @ chDq @ ''clear_on_deselect'' @ chDq @ '', '' @ chDq @ ''clear_on_reset'' @ chDq @ ''}'') (''[]string{'' @
       chDq @ chDq @ '', '' @ chDq @ ''clear_on_deselect'' @ chDq @
       ''}'') ''codegen'' ''./cmd/jcrpc-parity'' ''TestParityCLIBytePlant'' ''omits only clear_on_reset generation cases; 504 of 720 rows remain'',
     plant ''parity-missing-b'' ''codegen/cmd/jcrpc-parity/main.go'' ''if !aOK || !bOK || a != b {'' (''if k == '' @
       chDq @ ''b'' @ chDq @
       '' && !bOK { continue }; if !aOK || !bOK || a != b {'') ''codegen'' ''./cmd/jcrpc-parity'' ''TestCompareFilesRejectsDrift/missing'' ''admits absence only of baseline file b'',
     plant ''parity-extra-c'' ''codegen/cmd/jcrpc-parity/main.go'' ''if !aOK || !bOK || a != b {'' (''if k == '' @
       chDq @ ''c'' @ chDq @
       '' && !aOK { continue }; if !aOK || !bOK || a != b {'') ''codegen'' ''./cmd/jcrpc-parity'' ''TestCompareFilesRejectsDrift/extra'' ''admits only extra candidate file c'',
     plant ''inventory-missing-root'' ''codegen/cmd/jcrpc-parity/main.go'' (''err := filepath.WalkDir(root, func(path string, entry fs.DirEntry, err error) error {'' @
       chLf @ chTb @ chTb @ ''if err != nil {'' @ chLf @ chTb @ chTb @ chTb @ ''return err'' @ chLf @ chTb @ chTb @
       ''}'') (''err := filepath.WalkDir(root, func(path string, entry fs.DirEntry, err error) error {'' @ chLf @
       ''if err != nil {'' @ chLf @ ''if path == root && filepath.Base(root) == '' @ chDq @ ''absent'' @ chDq @
       '' && os.IsNotExist(err) { return nil }; return err'' @ chLf @
       ''}'') ''codegen'' ''./cmd/jcrpc-parity'' ''TestInventoryRejectsUnreadableTree'' ''treats missing root named absent as empty output'',
     plant ''inventory-link'' ''codegen/cmd/jcrpc-parity/main.go'' ''if !entry.Type().IsRegular() {'' (''if !entry.Type().IsRegular() && entry.Name() == '' @
       chDq @ ''link'' @ chDq @
       '' { return nil }; if !entry.Type().IsRegular() {'') ''codegen'' ''./cmd/jcrpc-parity'' ''TestInventoryRejectsUnreadableTree'' ''ignores only non-regular entry named link'']"

definition mutants7 :: "mutant list" where
  "mutants7 = [
     plant ''model-unknown-width'' ''pluginapi/model.go'' ''case FieldTypeU8, FieldTypeBool:'' (''case FieldTypeU8, FieldTypeBool, FieldType('' @
       chDq @ ''unknown'' @ chDq @
       ''):'') ''pluginapi'' ''.'' ''TestWireWidths'' ''claims exactly unknown type has fixed one-byte width'',
     plant ''status-token-preserved'' ''codegen/internal/render/gen_java.go'' ''return status[0];'' (''// return status[0]; retained token for the static scanner'' @
       chLf @
       ''            return (short) (status[0] ^ 1);'') ''codegen'' ''.'' ''TestGeneratedJavaSkeletonUnknownInsReusesOneException'' ''changes returned status while preserving scanner tokens; behavioral JVM test must fail'',
     plant ''mutant-evidence-wrong-test'' ''codegen/cmd/jcrpc-mutants/main.go'' (''event.Action == '' @ chDq @
       ''fail'' @ chDq @ '' && event.Test == test'') (''event.Action == '' @ chDq @ ''fail'' @ chDq @
       '' && (event.Test == test || event.Test == '' @ chDq @ ''Other'' @ chDq @
       '')'') ''codegen'' ''./cmd/jcrpc-mutants'' ''TestEvidenceRequiresNamedFailure/other-test'' ''admits an unrelated failure only from test Other'',
     plant ''mutant-evidence-setup-failure'' ''codegen/cmd/jcrpc-mutants/main.go'' (''if event.Action == '' @ chDq @
       ''output'' @ chDq @
       '' && event.Test == test && strings.Contains(event.Output, assertion) {'') (''if event.Action == '' @ chDq @
       ''output'' @ chDq @ '' && event.Test == test && (strings.Contains(event.Output, assertion) || (test == '' @
       chDq @ ''TestParityCLIBytePlant'' @ chDq @ '' && strings.Contains(event.Output, '' @ chDq @
       ''equal CLI control exit 1'' @ chDq @
       ''))) {'') ''codegen'' ''./cmd/jcrpc-mutants'' ''TestMutantHarnessRejectsSetupFailure'' ''admits exactly the named parity setup failure after a green unmodified control'',
     plant ''mutant-control-package-only'' ''codegen/cmd/jcrpc-mutants/main.go'' (''event.Action == '' @ chDq @
       ''pass'' @ chDq @ '' && event.Test == test'') (''event.Action == '' @ chDq @ ''pass'' @ chDq @
       '' && (event.Test == test || event.Test == '' @ chDq @ chDq @
       '')'') ''codegen'' ''./cmd/jcrpc-mutants'' ''TestEvidenceRequiresPassingControl/package-only'' ''admits package-only success without execution of the selected test'',
     plant ''mutant-unknown-selection'' ''codegen/cmd/jcrpc-mutants/main.go'' (''if len(selected) == 0 {'' @ chLf @
       chTb @ chTb @ chTb @ ''fmt.Fprintln'') (''if len(selected) == 0 && *only != '' @ chDq @ ''missing'' @ chDq @
       '' {'' @ chLf @ chTb @ chTb @ chTb @
       ''fmt.Fprintln'') ''codegen'' ''./cmd/jcrpc-mutants'' ''TestMutantHarnessSelection'' ''admits exactly unknown selection missing as an empty passing catalog'',
     plant ''mutant-stale-fixture'' ''codegen/cmd/jcrpc-mutants/main.go'' (''if err := os.Mkdir(root, 0755); err != nil {'' @
       chLf @ chTb @ chTb @ chTb @
       ''fmt.Fprintln'') (''if err := os.Mkdir(root, 0755); err != nil && !(os.IsExist(err) && m.Name == '' @ chDq @
       ''parity-production-build-byte'' @ chDq @ '') {'' @ chLf @ chTb @ chTb @ chTb @
       ''fmt.Fprintln'') ''codegen'' ''./cmd/jcrpc-mutants'' ''TestMutantHarnessFreshFixture'' ''admits only an existing parity-production-build-byte fixture'']"

section \<open>The catalogue\<close>

definition assertions :: "(string, string) gomap" where
  "assertions = assertions1 @ assertions2 @ assertions3 @ assertions4"

definition mutants :: "mutant list" where
  "mutants = mutants1 @ mutants2 @ mutants3 @ mutants4 @ mutants5 @ mutants6 @ mutants7"

text \<open>A lookup in the map of assertions gives the empty string for an unknown name.\<close>

definition assertionOf :: "string \<Rightarrow> string" where
  "assertionOf name = (case map_of assertions name of None \<Rightarrow> '''' | Some a \<Rightarrow> a)"

text \<open>The command on its own tables.\<close>

definition Mutants_main :: "'w Sys \<Rightarrow> EventDecoders \<Rightarrow> string list \<Rightarrow> 'w Ses \<Rightarrow> int \<times> 'w Ses" where
  "Mutants_main h D args st = Mutants_run h D mutants assertionOf args st"

text \<open>Every mutant has a name of its own, one assertion, which is not empty, so that
  \<open>namedFailure\<close> can recognise its death, and it changes a text that is not empty.\<close>

lemma catalogue_names: "distinct (map Mut_Name mutants)" "map Mut_Name mutants = map fst assertions"
  by code_simp+

lemma catalogue_assertions: "list_all (\<lambda>m. assertionOf (Mut_Name m) \<noteq> '''') mutants"
proof (unfold list_all_iff, rule ballI)
  fix m assume "m \<in> set mutants"
  then have "Mut_Name m \<in> fst ` set assertions"
    using catalogue_names(2) by (metis image_eqI list.set_map)
  then obtain a where a: "map_of assertions (Mut_Name m) = Some a"
    using map_of_eq_None_iff [of assertions "Mut_Name m"] by (cases "map_of assertions (Mut_Name m)") auto
  moreover have "list_all (\<lambda>(k, a). a \<noteq> '''') assertions" by code_simp
  ultimately show "assertionOf (Mut_Name m) \<noteq> ''''"
    using map_of_SomeD [OF a] by (auto simp: assertionOf_def list_all_iff)
qed

lemma catalogue_plants: "list_all (\<lambda>m. Mut_Before m \<noteq> '''' \<and> Mut_Before m \<noteq> Mut_After m) mutants"
  by code_simp

end
