(* ===== verification/Compat_Toolchain.thy ===== *)
theory Compat_Toolchain
  imports Host_Scope
begin

text \<open>
  codegen/cmd/jcrpc-compat/toolchain.go and \<open>command\<close> of main.go: the public toolchain is
  fetched by URL and installed under its name only when its digest is the pinned one. HTTP, the
  closing of the download and SHA-256 are parameters.
\<close>

record artifact =
  artifact_url :: string
  artifact_name :: string
  artifact_digest :: string

definition publicToolchain :: "artifact list" where
  "publicToolchain = [
     \<lparr>artifact_url = ''https://github.com/relux-works/jcardsim/releases/download/v3.0.5.9-relux.4/jcardsim-3.0.5.9-relux.4.jar'',
      artifact_name = ''jcardsim.jar'', artifact_digest = ''788e2d5cd7f43b21cd60a055ce3dcd9d62c82cdeb9ebd0a109112fa4170f48da''\<rparr>,
     \<lparr>artifact_url = ''https://github.com/martinpaljak/ant-javacard/releases/download/v26.02.22/ant-javacard.jar'',
      artifact_name = ''ant-javacard.jar'', artifact_digest = ''779909502744af7eb8c24b7b423c4efa6fbf47a1274a11ddf8c49697b1028e64''\<rparr>,
     \<lparr>artifact_url = ''https://codeload.github.com/martinpaljak/oracle_javacard_sdks/tar.gz/700ec80afdda210a0e62fb6a151a9cddc1acd244'',
      artifact_name = ''sdk.tar.gz'', artifact_digest = ''367f5dc6a922a689a1447eff9125da919a36f5a8594eeedcd454eb0ada62f37f''\<rparr>,
     \<lparr>artifact_url = ''https://archive.apache.org/dist/ant/binaries/apache-ant-1.10.15-bin.tar.gz'',
      artifact_name = ''ant.tar.gz'', artifact_digest = ''71334d7e5d98cfe53d6c429a648a5021137a967378667306c5f613dff5180506''\<rparr>]"

text \<open>A response: its status, the bytes that arrive, and the error that ends them early.\<close>

record response =
  resp_status :: int
  resp_body :: string
  resp_error :: "GoErr option"

record 'w Net =
  net_get :: "'w \<Rightarrow> string \<Rightarrow> (GoErr, response) result"
  net_close :: "string \<Rightarrow> 'w \<Rightarrow> GoErr option"
  net_sha256 :: "string \<Rightarrow> string"

datatype ToolError =
    ToolHost GoErr
  | RequestFailed string
  | HttpStatus string int
  | IncompleteRead string
  | DigestDisagreement string
  | ToolCommand string ExecStatus

text \<open>\<open>io.Copy\<close> into the download and the hash: an error of either end.\<close>

definition copyBody :: "'w Sys \<Rightarrow> string \<Rightarrow> response \<Rightarrow> ('w, GoErr, unit) act" where
  "copyBody h temp resp =
     thenA (writeA h temp (resp_body resp) 384)
           (case resp_error resp of None \<Rightarrow> retA () | Some e \<Rightarrow> failA e)"

text \<open>From the open download on: copy, close, compare the digest, and only then give it its name.\<close>

definition installDownload :: "'w Sys \<Rightarrow> 'w Net \<Rightarrow> string \<Rightarrow> artifact \<Rightarrow> response \<Rightarrow> string \<Rightarrow> ('w, ToolError, unit) act" where
  "installDownload h N root a resp temp =
     thenA (errorA (\<lambda>_. IncompleteRead (artifact_name a)) (copyBody h temp resp))
    (thenA (errorA ToolHost (lookA (\<lambda>w. unitResult (net_close N temp w))))
    (let got = net_sha256 N (resp_body resp) in
     thenA (requireA (got = artifact_digest a) (DigestDisagreement (artifact_name a)))
           (errorA ToolHost (renameA h temp (JoinAll [root, artifact_name a])))))"

definition fetchArtifact :: "'w Sys \<Rightarrow> 'w Net \<Rightarrow> string \<Rightarrow> artifact \<Rightarrow> ('w, ToolError, unit) act" where
  "fetchArtifact h N root a =
     bindA (errorA (\<lambda>_. RequestFailed (artifact_name a)) (lookA (\<lambda>w. net_get N w (artifact_url a)))) (\<lambda>resp.
     thenA (requireA (resp_status resp = 200) (HttpStatus (artifact_name a) (resp_status resp)))
    (bindA (errorA ToolHost (createTempA h root ''.download-'')) (\<lambda>temp.
     deferA (removeF h temp) (installDownload h N root a resp temp))))"

definition commandIn :: "'w Sys \<Rightarrow> string \<Rightarrow> string \<Rightarrow> string list \<Rightarrow> ('w, ToolError, unit) act" where
  "commandIn h dir name args =
     bindA (execA h \<lparr>cmd_name = name, cmd_args = args, cmd_dir = dir, cmd_env = [''GOWORK=off'']\<rparr>) (\<lambda>r.
       requireA (exec_status r = Exited 0) (ToolCommand name (exec_status r)))"

definition unpack :: "'w Sys \<Rightarrow> string \<Rightarrow> string \<Rightarrow> ('w, ToolError, unit) act" where
  "unpack h root name =
     (let dir = JoinAll [root, name] in
      thenA (errorA ToolHost (mkdirAllA h dir))
            (commandIn h root ''tar'' [''-xzf'', JoinAll [root, name @ ''.tar.gz''], ''-C'', dir, ''--strip-components=1'']))"

definition toolchain :: "'w Sys \<Rightarrow> 'w Net \<Rightarrow> string \<Rightarrow> ('w, ToolError, unit) act" where
  "toolchain h N root =
     thenA (errorA ToolHost (mkdirAllA h root))
    (thenA (forA (fetchArtifact h N root) publicToolchain)
           (forA (unpack h root) [''sdk'', ''ant'']))"

end
