(* ===== verification/Host_Trace.thy ===== *)
theory Host_Trace
  imports Host_Scope
begin

text \<open>
  Properties of the whole sequence of operations of an action. \<open>trace_law V\<close> is the interface of
  a property of operation sequences that concatenation preserves; inside it the property is
  lifted through every way of composing actions. \<open>confined\<close> is the law for one property of every
  single operation.
\<close>

definition traces :: "(HostEvent list \<Rightarrow> bool) \<Rightarrow> ('w, 'e, 'a) act \<Rightarrow> bool" where
  "traces V m \<longleftrightarrow> (\<forall>st. \<exists>es. ses_events (snd (m st)) = ses_events st @ es \<and> V es)"

lemma tracesI:
  "(\<And>st r st'. m st = (r, st') \<Longrightarrow> \<exists>es. ses_events st' = ses_events st @ es \<and> V es) \<Longrightarrow> traces V m"
  unfolding traces_def by (metis prod.collapse)

lemma tracesD: "traces V m \<Longrightarrow> m st = (r, st') \<Longrightarrow> \<exists>es. ses_events st' = ses_events st @ es \<and> V es"
  unfolding traces_def by (metis snd_conv)

text \<open>The two ways a sequence of actions ends.\<close>

lemma bindA_split:
  assumes "bindA m f st = (r, st'')"
  obtains (stops) e where "m st = (Inl e, st'')" "r = Inl e"
    | (goes) x st' where "m st = (Inr x, st')" "f x st' = (r, st'')"
  using assms that by (auto simp: bindA_def split: prod.splits sum.splits)

lemma thenA_split:
  assumes "thenA m n st = (r, st'')"
  obtains (stops) e where "m st = (Inl e, st'')" "r = Inl e"
    | (goes) x st' where "m st = (Inr x, st')" "n st' = (r, st'')"
  using assms unfolding thenA_def by (rule bindA_split)

locale trace_law =
  fixes V :: "HostEvent list \<Rightarrow> bool"
  assumes empty: "V []"
    and append: "V as \<Longrightarrow> V bs \<Longrightarrow> V (as @ bs)"
begin

lemma quiet: "(\<And>st. ses_events (snd (m st)) = ses_events st) \<Longrightarrow> traces V m"
  unfolding traces_def using empty by simp

lemma bind:
  assumes m: "traces V m" and f: "\<And>x. traces V (f x)"
  shows "traces V (bindA m f)"
proof (rule tracesI)
  fix st r st''
  assume run: "bindA m f st = (r, st'')"
  obtain q st' where q: "m st = (q, st')" by (cases "m st")
  obtain es where es: "ses_events st' = ses_events st @ es" "V es" using tracesD [OF m q] by blast
  show "\<exists>es. ses_events st'' = ses_events st @ es \<and> V es"
  proof (cases q)
    case (Inl e)
    then show ?thesis using run q es by (auto simp: bindA_def)
  next
    case (Inr x)
    then have "f x st' = (r, st'')" using run q by (simp add: bindA_def)
    then obtain fs where "ses_events st'' = ses_events st' @ fs" "V fs" using tracesD [OF f] by blast
    then show ?thesis using es append by auto
  qed
qed

lemma next_action: "traces V m \<Longrightarrow> traces V n \<Longrightarrow> traces V (thenA m n)"
  by (simp add: thenA_def bind)

lemma error: "traces V m \<Longrightarrow> traces V (errorA g m)"
  by (rule tracesI) (auto simp: errorA_def split: prod.splits sum.splits dest: tracesD)

lemma loop: "(\<And>x. x \<in> set xs \<Longrightarrow> traces V (f x)) \<Longrightarrow> traces V (forA f xs)"
  by (induction xs) (auto simp: next_action intro: quiet simp: retA_def)

lemma require: "traces V (requireA b e)"
  by (rule quiet) (simp add: requireA_def retA_def failA_def)

lemma look: "traces V (lookA f)"
  by (rule quiet) (simp add: lookA_def)

lemma single: "(\<And>e. P e \<Longrightarrow> V [e]) \<Longrightarrow> confined P m \<Longrightarrow> traces V m"
proof (rule tracesI)
  fix st r st'
  assume one: "\<And>e. P e \<Longrightarrow> V [e]" and "confined P m" "m st = (r, st')"
  then obtain es where es: "ses_events st' = ses_events st @ es" "list_all P es" using confinedD by blast
  have "V es" using es(2)
  proof (induction es)
    case (Cons e es)
    then show ?case using append [of "[e]" es] one by simp
  qed (rule empty)
  then show "\<exists>es. ses_events st' = ses_events st @ es \<and> V es" using es by blast
qed

end

end
