(* ===== verification/Toolchain_Properties.thy ===== *)
theory Toolchain_Properties
  imports Compat_Toolchain Host_Trace
begin

text \<open>
  What the toolchain of jcrpc-compat guarantees: an artifact gets its name only after bytes with
  the pinned digest have been written, and a successful run has fetched all of them.
\<close>

section \<open>Installing only what was verified\<close>

definition installsVerified :: "(string \<Rightarrow> string) \<Rightarrow> string \<Rightarrow> HostEvent list \<Rightarrow> bool" where
  "installsVerified sha root es \<longleftrightarrow>
     (\<forall>pre t p post. es = pre @ RenameTo t p # post \<longrightarrow>
        (\<exists>a\<in>set publicToolchain. \<exists>b mode. p = JoinAll [root, artifact_name a]
            \<and> WriteTo t b mode \<in> set pre \<and> sha b = artifact_digest a))"

lemma installsVerified_append:
  assumes as: "installsVerified sha root as" and bs: "installsVerified sha root bs"
  shows "installsVerified sha root (as @ bs)"
  unfolding installsVerified_def
proof (intro allI impI)
  fix pre t p post
  let ?goal = "\<lambda>pre. \<exists>a\<in>set publicToolchain. \<exists>b mode. p = JoinAll [root, artifact_name a]
      \<and> WriteTo t b mode \<in> set pre \<and> sha b = artifact_digest a"
  assume "as @ bs = pre @ RenameTo t p # post"
  then consider us where "as = pre @ us" "us @ bs = RenameTo t p # post"
    | us where "pre = as @ us" "bs = us @ RenameTo t p # post"
    by (auto simp: append_eq_append_conv2)
  then show "?goal pre"
  proof cases
    case 1
    show ?thesis
    proof (cases us)
      case Nil
      then have "bs = [] @ RenameTo t p # post" using 1 by simp
      then have "?goal []" using bs unfolding installsVerified_def by blast
      then show ?thesis by simp
    next
      case (Cons u vs)
      then have "as = pre @ RenameTo t p # vs" using 1 by simp
      then show ?thesis using as unfolding installsVerified_def by blast
    qed
  next
    case 2
    then have "?goal us" using bs unfolding installsVerified_def by blast
    then show ?thesis using 2(1) by auto
  qed
qed

interpretation installs: trace_law "installsVerified sha root" for sha root
  by unfold_locales (simp add: installsVerified_def, rule installsVerified_append)

definition notRename :: "HostEvent \<Rightarrow> bool" where
  "notRename ev = (case ev of RenameTo t p \<Rightarrow> False | _ \<Rightarrow> True)"

lemma notRename_single: "notRename ev \<Longrightarrow> installsVerified sha root [ev]"
  by (auto simp: installsVerified_def notRename_def Cons_eq_append_conv)

section \<open>One artifact\<close>

text \<open>The operations of one fetch: nothing, or a download that is removed at the end and was given its
  name only with the pinned digest.\<close>

definition fetched :: "(string \<Rightarrow> string) \<Rightarrow> string \<Rightarrow> artifact \<Rightarrow> HostEvent list \<Rightarrow> bool" where
  "fetched sha root a es \<longleftrightarrow>
     (\<exists>t b. es = [CreateTempFile t, WriteTo t b 384, RenameTo t (JoinAll [root, artifact_name a]), RemoveOne t]
        \<and> sha b = artifact_digest a)"

definition notFetched :: "HostEvent list \<Rightarrow> bool" where
  "notFetched es \<longleftrightarrow> es = [] \<or> (\<exists>t b. es = [CreateTempFile t, WriteTo t b 384, RemoveOne t])"

lemma createTemp_events:
  "errorA g (createTempA h dir pat) st = (Inr t, st') \<Longrightarrow> ses_events st' = ses_events st @ [CreateTempFile t]"
  "errorA g (createTempA h dir pat) st = (Inl e, st') \<Longrightarrow> ses_events st' = ses_events st"
  by (auto simp: act_simps createTempA_def dest: newA_events)

lemma copyBody_events:
  "errorA g (copyBody h t resp) st = (r, st') \<Longrightarrow> ses_events st' = ses_events st @ [WriteTo t (resp_body resp) 384]"
  by (auto simp: copyBody_def errorA_def thenA_def bindA_def retA_def failA_def writeA_def
      split: prod.splits sum.splits option.splits dest!: opA_events)

lemma rename_events:
  "errorA g (renameA h t p) st = (r, st') \<Longrightarrow> ses_events st' = ses_events st @ [RenameTo t p]"
  by (auto simp: errorA_def renameA_def split: prod.splits sum.splits dest!: opA_events)

lemma look_quiet: "errorA g (lookA f) st = (r, st') \<Longrightarrow> st' = st"
  by (auto simp: errorA_def lookA_def split: sum.splits)

lemma install_events:
  assumes "installDownload h N root a resp t st = (r, st')"
  shows "\<exists>b. ses_events st' = ses_events st @ [WriteTo t b 384] \<and> isl r
    \<or> ses_events st' = ses_events st @ [WriteTo t b 384, RenameTo t (JoinAll [root, artifact_name a])]
      \<and> net_sha256 N b = artifact_digest a"
  using assms unfolding installDownload_def Let_def
proof (cases rule: thenA_split)
  case (stops e)
  then show ?thesis using copyBody_events by fastforce
next
  case (goes u s1)
  note w = copyBody_events [OF goes(1)]
  show ?thesis using goes(2)
  proof (cases rule: thenA_split)
    case (stops e)
    then show ?thesis using w look_quiet by fastforce
  next
    case (goes v s2)
    then have s2: "s2 = s1" using look_quiet by blast
    show ?thesis using goes(2)
    proof (cases rule: thenA_split)
      case (stops e)
      then show ?thesis using w s2 by (auto simp: act_simps)
    next
      case (goes x s3)
      then have "s3 = s1" "net_sha256 N (resp_body resp) = artifact_digest a" using s2 by (auto simp: act_simps)
      then show ?thesis using w rename_events [OF goes(2)] by (intro exI [of _ "resp_body resp"]) simp
    qed
  qed
qed

lemma fetchArtifact_events:
  assumes "fetchArtifact h N root a st = (r, st')"
  shows "\<exists>es. ses_events st' = ses_events st @ es
    \<and> (fetched (net_sha256 N) root a es \<or> notFetched es \<and> isl r)"
  using assms unfolding fetchArtifact_def
proof (cases rule: bindA_split)
  case (stops e)
  then show ?thesis using look_quiet by (fastforce simp: notFetched_def)
next
  case (goes resp s1)
  then have s1: "s1 = st" using look_quiet by blast
  show ?thesis using goes(2)
  proof (cases rule: thenA_split)
    case (stops e)
    then show ?thesis using s1 by (auto simp: act_simps notFetched_def)
  next
    case (goes u s2)
    then have s2: "s2 = st" using s1 by (auto simp: act_simps)
    show ?thesis using goes(2)
    proof (cases rule: bindA_split)
      case (stops e)
      then show ?thesis using s2 createTemp_events(2) by (fastforce simp: notFetched_def)
    next
      case (goes t s3)
      obtain s4 where body: "installDownload h N root a resp t s3 = (r, s4)" "st' = removeF h t s4"
        using goes(2) by (auto simp: deferA_iff)
      obtain b where "ses_events s4 = ses_events s3 @ [WriteTo t b 384] \<and> isl r
          \<or> ses_events s4 = ses_events s3 @ [WriteTo t b 384, RenameTo t (JoinAll [root, artifact_name a])]
            \<and> net_sha256 N b = artifact_digest a"
        using install_events [OF body(1)] by blast
      then show ?thesis
        using createTemp_events(1) [OF goes(1)] body(2) s2 by (auto simp: removeF_def fetched_def notFetched_def)
    qed
  qed
qed

section \<open>The toolchain\<close>

lemma fetched_installs: "a \<in> set publicToolchain \<Longrightarrow> fetched sha root a es \<Longrightarrow> installsVerified sha root es"
  by (auto simp: fetched_def installsVerified_def Cons_eq_append_conv intro!: bexI [of _ a])

lemma notFetched_installs: "notFetched es \<Longrightarrow> installsVerified sha root es"
  unfolding installsVerified_def
proof (intro allI impI)
  fix pre t p post
  assume "notFetched es" and es: "es = pre @ RenameTo t p # post"
  then have "RenameTo t p \<notin> set es" by (auto simp: notFetched_def simp del: set_append)
  with es show "\<exists>a\<in>set publicToolchain. \<exists>b mode. p = JoinAll [root, artifact_name a]
      \<and> WriteTo t b mode \<in> set pre \<and> sha b = artifact_digest a" by simp
qed

lemma fetchArtifact_traces:
  "a \<in> set publicToolchain \<Longrightarrow> traces (installsVerified (net_sha256 N) root) (fetchArtifact h N root a)"
  by (rule tracesI) (use fetchArtifact_events fetched_installs notFetched_installs in blast)

lemma unpack_traces: "traces (installsVerified sha root') (unpack h root name)"
  unfolding unpack_def Let_def commandIn_def
  by (rule installs.single [OF notRename_single]) (auto simp: notRename_def intro!: confine)

lemma mkdir_traces: "traces (installsVerified sha root') (errorA g (mkdirAllA h root))"
  by (rule installs.single [OF notRename_single]) (auto simp: notRename_def intro!: confine)

lemma toolchain_traces: "traces (installsVerified (net_sha256 N) root) (toolchain h N root)"
  unfolding toolchain_def
  by (intro installs.next_action installs.loop mkdir_traces unpack_traces fetchArtifact_traces)

lemma fetchAll_Inr:
  "forA (fetchArtifact h N root) as st = (Inr u, st') \<Longrightarrow>
     \<exists>segs. ses_events st' = ses_events st @ concat segs \<and> list_all2 (fetched (net_sha256 N) root) as segs"
proof (induction as arbitrary: st)
  case (Cons a as)
  obtain v s1 where 1: "fetchArtifact h N root a st = (Inr v, s1)"
    and 2: "forA (fetchArtifact h N root) as s1 = (Inr u, st')"
    using Cons.prems by (auto simp: act_simps)
  obtain es where "ses_events s1 = ses_events st @ es" "fetched (net_sha256 N) root a es"
    using fetchArtifact_events [OF 1] by auto
  moreover obtain segs where "ses_events st' = ses_events s1 @ concat segs"
      "list_all2 (fetched (net_sha256 N) root) as segs" using Cons.IH [OF 2] by blast
  ultimately show ?case by (intro exI [of _ "es # segs"]) simp
qed (auto simp: act_simps intro: exI [of _ "[]"])

text \<open>C34: \<open>toolchain\<close> never gives a download the name of an artifact unless bytes with the pinned digest
  of that artifact were written to it, whatever fails on the way; and when it succeeds, all four
  artifacts were fetched that way, one after the other, each download being removed at the end.\<close>

theorem toolchain_installs_verified:
  "case toolchain h N root st of (r, st') \<Rightarrow>
     \<exists>es. ses_events st' = ses_events st @ es \<and> installsVerified (net_sha256 N) root es
       \<and> (isl r \<or> (\<exists>segs more. es = MkDirAll root # concat segs @ more
            \<and> list_all2 (fetched (net_sha256 N) root) publicToolchain segs))"
proof -
  obtain r st' where run: "toolchain h N root st = (r, st')" by fastforce
  obtain es where es: "ses_events st' = ses_events st @ es" "installsVerified (net_sha256 N) root es"
    using tracesD [OF toolchain_traces run] by blast
  have "\<exists>segs more. es = MkDirAll root # concat segs @ more
      \<and> list_all2 (fetched (net_sha256 N) root) publicToolchain segs" if ok: "r = Inr u" for u
  proof -
    obtain v w s1 s2 where 1: "errorA ToolHost (mkdirAllA h root) st = (Inr v, s1)"
      and 2: "forA (fetchArtifact h N root) publicToolchain s1 = (Inr w, s2)"
      and 3: "forA (unpack h root) [''sdk'', ''ant''] s2 = (Inr u, st')"
      using run unfolding toolchain_def ok thenA_Inr by blast
    have a: "ses_events s1 = ses_events st @ [MkDirAll root]"
      using 1 opA_events unfolding errorA_Inr mkdirAllA_def by blast
    obtain segs where b: "ses_events s2 = ses_events s1 @ concat segs"
        "list_all2 (fetched (net_sha256 N) root) publicToolchain segs"
      using fetchAll_Inr [OF 2] by blast
    have "confined (\<lambda>_. True) (forA (unpack h root) [''sdk'', ''ant''])"
      unfolding unpack_def Let_def commandIn_def by (intro confine TrueI)
    from confinedD [OF this 3] obtain more where "ses_events st' = ses_events s2 @ more" by blast
    then have "es = MkDirAll root # concat segs @ more" using es(1) a b(1) by simp
    then show ?thesis using b(2) by blast
  qed
  then show ?thesis using es run by (cases r) auto
qed

end
