(* ===== verification/Release_Manifest.thy ===== *)
theory Release_Manifest
  imports Go_Host Seen_Table Idl_Validator
begin

text \<open>
  codegen/internal/compat/manifest.go: the check of a release manifest against the reviewed
  receipts, the resolved module graph and the pinned sample input, and the check of a runtime
  checkout with git. The JSON decoder and SHA-256 are parameters: a decoder returns the first
  value of its input and the input behind it, or the error of \<open>Decode\<close>.
\<close>

section \<open>Data\<close>

record ReleaseTarget =
  RT_Target :: string
  RT_Repository :: string
  RT_Tag :: string
  RT_TagObject :: string
  RT_Commit :: string
  RT_GoModule :: string
  RT_BackendVersion :: string
  RT_BackendImport :: string
  RT_Runtime :: string
  RT_SwiftPackage :: string
  RT_SwiftExactVersion :: string

record SampleInput =
  Input_Path :: string
  Input_Revision :: string
  Input_SHA256 :: string

record Manifest =
  Manifest_Schema :: int
  Manifest_FacadeVersion :: string
  Manifest_Targets :: "ReleaseTarget list"
  Manifest_SampleInput :: SampleInput

datatype Module = Module (Module_Path: string) (Module_Version: string) (Module_Replace: "Module option")

text \<open>\<open>decode_modules\<close> is the stream of \<open>go list -m -json\<close>: the values \<open>Decode\<close> returns one after
  the other, and the error that ends them when it is not \<open>io.EOF\<close>.\<close>

record Decoders =
  decode_manifest :: "string \<Rightarrow> (GoErr, Manifest \<times> string) result"
  decode_target :: "string \<Rightarrow> (GoErr, ReleaseTarget \<times> string) result"
  decode_modules :: "string \<Rightarrow> Module list \<times> GoErr option"
  sha256_hex :: "string \<Rightarrow> string"

datatype CheckError =
    ReadError GoErr
  | DecodeError GoErr
  | TrailingJSON string
  | WrongTargets
  | WrongFacadeVersion
  | DuplicateTarget string
  | UnknownTarget string
  | ReceiptDisagreement string
  | VersionDisagreement string
  | NotPlainVersion string
  | ModuleGraph ExecStatus
  | BackendModuleDisagreement string
  | PluginAPIDisagreement
  | SampleIdentity
  | SampleDigest

section \<open>Reading JSON\<close>

text \<open>Behind the first value only JSON white space is \<open>io.EOF\<close> for the second \<open>Decode\<close>.\<close>

definition jsonEOF :: "string \<Rightarrow> bool" where
  "jsonEOF rest \<longleftrightarrow> list_all (\<lambda>c. byte c \<in> {9, 10, 13, 32}) rest"

definition readJSON :: "('w \<Rightarrow> string \<Rightarrow> (GoErr, string) result) \<Rightarrow>
    (string \<Rightarrow> (GoErr, 'a \<times> string) result) \<Rightarrow> 'w \<Rightarrow> string \<Rightarrow> (CheckError, 'a) result" where
  "readJSON read decode w path =
     (case read w path of
        Inl e \<Rightarrow> Inl (ReadError e)
      | Inr b \<Rightarrow>
          (case decode b of
             Inl e \<Rightarrow> Inl (DecodeError e)
           | Inr (v, rest) \<Rightarrow> if \<not> jsonEOF rest then Inl (TrailingJSON path) else Inr v))"

definition releaseTag :: "string \<Rightarrow> bool" where
  "releaseTag tag = (case tag of [] \<Rightarrow> False | c # v \<Rightarrow> c = CHR ''v'' \<and> isSemver v)"

section \<open>The manifest\<close>

definition receiptPath :: "string \<Rightarrow> string \<Rightarrow> string" where
  "receiptPath repo target = JoinAll [repo, ''compatibility'', ''releases'', target @ ''.json'']"

fun checkTargets :: "'w Sys \<Rightarrow> Decoders \<Rightarrow> string \<Rightarrow> ReleaseTarget list \<Rightarrow> (string, bool) table \<Rightarrow>
    ('w, CheckError, unit) act" where
  "checkTargets h J repo [] seen = retA ()"
| "checkTargets h J repo (p # ps) seen =
     (if tbl_get seen (RT_Target p) = Some True then failA (DuplicateTarget (RT_Target p))
      else
        let seen' = tbl_put seen (RT_Target p) True in
        thenA (requireA (RT_Target p \<in> set [''javacard'', ''kotlin'', ''swift'']) (UnknownTarget (RT_Target p)))
       (bindA (lookA (\<lambda>w. readJSON (sys_read h) (decode_target J) w (receiptPath repo (RT_Target p)))) (\<lambda>receipt.
        thenA (requireA (p = receipt) (ReceiptDisagreement (RT_Target p)))
       (thenA (requireA (RT_Tag p = RT_BackendVersion p) (VersionDisagreement (RT_Target p)))
       (thenA (requireA (releaseTag (RT_Tag p)) (NotPlainVersion (RT_Target p)))
              (checkTargets h J repo ps seen'))))))"

definition goListCmd :: "string \<Rightarrow> Cmd" where
  "goListCmd repo = \<lparr>cmd_name = ''go'', cmd_args = [''list'', ''-m'', ''-json'', ''all''],
     cmd_dir = JoinAll [repo, ''codegen''], cmd_env = [''GOWORK=off'', ''GOPROXY=off'', ''GOSUMDB=off'']\<rparr>"

fun moduleTable :: "Module list \<Rightarrow> (string, Module) table \<Rightarrow> (string, Module) table" where
  "moduleTable [] t = t"
| "moduleTable (q # qs) t = moduleTable qs (tbl_put t (Module_Path q) q)"

fun checkModules :: "(string, Module) table \<Rightarrow> ReleaseTarget list \<Rightarrow> ('w, CheckError, unit) act" where
  "checkModules modules [] = retA ()"
| "checkModules modules (p # ps) =
     (case tbl_get modules (RT_GoModule p) of
        None \<Rightarrow> failA (BackendModuleDisagreement (RT_Target p))
      | Some q \<Rightarrow>
          if Module_Version q \<noteq> RT_BackendVersion p \<or> Module_Replace q \<noteq> None
          then failA (BackendModuleDisagreement (RT_Target p))
          else checkModules modules ps)"

definition zeroModule :: Module where
  "zeroModule = Module '''' '''' None"

definition wantInput :: SampleInput where
  "wantInput = \<lparr>Input_Path = ''compatibility/inputs/sample-store.toml'', Input_Revision = ''sample-store-v1'',
     Input_SHA256 = ''46729b4e03cc71d6997de286c2361271a1c281fbc7839556c79de031a2b63847''\<rparr>"

definition Check :: "'w Sys \<Rightarrow> Decoders \<Rightarrow> string \<Rightarrow> string \<Rightarrow> ('w, CheckError, Manifest) act" where
  "Check h J repo manifest =
     bindA (lookA (\<lambda>w. readJSON (sys_read h) (decode_manifest J) w manifest)) (\<lambda>m.
     thenA (requireA (Manifest_Schema m = 1 \<and> length (Manifest_Targets m) = 3) WrongTargets)
    (thenA (requireA (Manifest_FacadeVersion m = ''0.9.0'') WrongFacadeVersion)
    (thenA (checkTargets h J repo (Manifest_Targets m) tbl_empty)
    (bindA (execA h (goListCmd repo)) (\<lambda>r.
     thenA (requireA (exec_status r = Exited 0) (ModuleGraph (exec_status r)))
    (case decode_modules J (exec_stdout r) of (ms, err) \<Rightarrow>
     thenA (case err of None \<Rightarrow> retA () | Some e \<Rightarrow> failA (DecodeError e))
    (let modules = moduleTable ms tbl_empty;
         q = (case tbl_get modules ''github.com/relux-works/javacard-rpc/pluginapi'' of
                None \<Rightarrow> zeroModule | Some q \<Rightarrow> q) in
     thenA (checkModules modules (Manifest_Targets m))
    (thenA (requireA (Module_Version q = ''v0.1.2'' \<and> Module_Replace q = None) PluginAPIDisagreement)
    (thenA (requireA (Manifest_SampleInput m = wantInput) SampleIdentity)
    (bindA (errorA ReadError (readA h (JoinAll [repo, Input_Path (Manifest_SampleInput m)]))) (\<lambda>b.
     thenA (requireA (sha256_hex J b = Input_SHA256 (Manifest_SampleInput m)) SampleDigest)
           (retA m))))))))))))"

section \<open>A runtime checkout\<close>

datatype CheckoutError =
    GitFailed "string list" ExecStatus string
  | IdentityDisagreement string string
  | DirtyRuntime string
  | DirtyTracked string CheckoutError
  | TempDirError GoErr

definition gitA :: "'w Sys \<Rightarrow> string \<Rightarrow> string list \<Rightarrow> ('w, CheckoutError, string) act" where
  "gitA h dir args =
     bindA (execA h \<lparr>cmd_name = ''git'', cmd_args = args, cmd_dir = dir, cmd_env = []\<rparr>) (\<lambda>r.
     thenA (requireA (exec_status r = Exited 0) (GitFailed args (exec_status r) (exec_combined r)))
           (retA (TrimSpace (exec_combined r))))"

definition trackedCmd :: "string \<Rightarrow> string \<Rightarrow> string list \<Rightarrow> Cmd" where
  "trackedCmd dir indexDir args =
     \<lparr>cmd_name = ''git'', cmd_args = [''-c'', ''core.fsmonitor=false'', ''-c'', ''core.sparseCheckout=false''] @ args,
      cmd_dir = dir, cmd_env = [''GIT_INDEX_FILE='' @ JoinAll [indexDir, ''index'']]\<rparr>"

definition trackedA :: "'w Sys \<Rightarrow> string \<Rightarrow> string \<Rightarrow> string list \<Rightarrow> ('w, CheckoutError, unit) act" where
  "trackedA h dir indexDir args =
     bindA (execA h (trackedCmd dir indexDir args)) (\<lambda>r.
       requireA (exec_status r = Exited 0) (GitFailed args (exec_status r) (exec_combined r)))"

text \<open>The map of references; one run visits them in the order \<open>refs\<close>.\<close>

definition checkoutRefs :: "ReleaseTarget \<Rightarrow> (string, string) gomap" where
  "checkoutRefs p = [(''HEAD'', RT_Commit p), (''refs/tags/'' @ RT_Tag p, RT_TagObject p),
     (''refs/tags/'' @ RT_Tag p @ ''^{}'', RT_Commit p)]"

definition checkRef :: "'w Sys \<Rightarrow> string \<Rightarrow> ReleaseTarget \<Rightarrow> string \<times> string \<Rightarrow> ('w, CheckoutError, unit) act" where
  "checkRef h dir p rw = (case rw of (ref, want) \<Rightarrow>
     bindA (gitA h dir [''rev-parse'', ref]) (\<lambda>got.
       requireA (got = want) (IdentityDisagreement (RT_Target p) ref)))"

definition VerifyCheckout :: "'w Sys \<Rightarrow> string \<Rightarrow> string \<Rightarrow> ReleaseTarget \<Rightarrow> (string, string) gomap \<Rightarrow>
    ('w, CheckoutError, unit) act" where
  "VerifyCheckout h repo dir p refs =
     thenA (forA (checkRef h dir p) refs)
    (bindA (gitA h dir [''status'', ''--porcelain'', ''--untracked-files=all'']) (\<lambda>clean.
     thenA (requireA (clean = '''') (DirtyRuntime (RT_Target p)))
    (bindA (errorA TempDirError (mkdirTempA h ''jcrpc-release-index-'')) (\<lambda>indexDir.
     deferA (removeAllF h indexDir)
    (thenA (trackedA h dir indexDir [''read-tree'', RT_Commit p])
    (thenA (errorA (DirtyTracked (RT_Target p)) (trackedA h dir indexDir [''update-index'', ''--refresh'']))
    (bindA (gitA h dir [''-c'', ''gpg.ssh.allowedSignersFile='' @ JoinAll [repo, ''compatibility'', ''allowed_signers''],
                        ''verify-tag'', RT_Tag p]) (\<lambda>signature. retA ()))))))))"

end
