(* ===== verification/Compat_Cli.thy ===== *)
theory Compat_Cli
  imports Compat_Toolchain Release_Manifest Idl_Parser Go_Walk Flag_Set Go_Quote
begin

text \<open>
  codegen/cmd/jcrpc-compat: main.go and offline.go. The command checks the release manifest and the
  pinned checkouts before it prepares or runs the consumers. Parameters besides those of the
  manifest check and of the toolchain: opening and decoding a document, the environment of the
  process, the printable code points of package unicode, and the order in which one run ranges over the references of a
  checkout.
\<close>

section \<open>Parameters and errors\<close>

record ('i, 'w) CompatHost =
  ch_sys :: "'w Sys"
  ch_net :: "'w Net"
  ch_json :: Decoders
  ch_open :: "'w \<Rightarrow> string \<Rightarrow> (GoErr, 'i) result"
  ch_decode :: "'i \<Rightarrow> (GoErr, rawSchema \<times> string list) result"
  ch_refs :: "ReleaseTarget \<Rightarrow> (string, string) gomap"
  ch_printable :: "nat \<Rightarrow> bool"
  ch_goos :: string
  ch_getenv :: "string \<Rightarrow> string"
  ch_uid :: nat
  ch_gid :: nat

datatype CompatError =
    CompatHostError GoErr
  | ManifestError CheckError
  | CheckoutFailed CheckoutError
  | ToolFailed ToolError
  | SchemaError "(GoErr, GoErr) ParseFileError"
  | UnexpectedArguments
  | RootRequired
  | UnknownMode string
  | OfflineNeedsCommand
  | OfflineUnsupported string

definition hostA :: "('w, GoErr, 'a) act \<Rightarrow> ('w, CompatError, 'a) act" where
  "hostA = errorA CompatHostError"

definition runIn :: "'w Sys \<Rightarrow> string \<Rightarrow> string \<Rightarrow> string list \<Rightarrow> ('w, CompatError, unit) act" where
  "runIn h dir name args = errorA ToolFailed (commandIn h dir name args)"

definition writeFile :: "'w Sys \<Rightarrow> string \<Rightarrow> string \<Rightarrow> ('w, CompatError, unit) act" where
  "writeFile h path content =
     thenA (hostA (mkdirAllA h (PathDir path))) (hostA (writeA h path content 420))"

section \<open>Offline runs\<close>

definition offlineProfile :: string where
  "offlineProfile = ''(version 1)(allow default)(deny network*)(allow network-bind)(allow network-inbound)(allow network-outbound (remote ip \"localhost:*\"))''"

definition offlineScript :: string where
  "offlineScript = ''ip link set lo up || exit; uid=$1; gid=$2; toolpath=$3; caller_home=$4; shift 4; exec setpriv --reuid \"$uid\" --regid \"$gid\" --init-groups env PATH=\"$toolpath\" HOME=\"$caller_home\" \"$@\"''"

text \<open>The command line and the addition to the environment for one operating system.\<close>

definition offlineCmd :: "('i, 'w) CompatHost \<Rightarrow> string list \<Rightarrow> Cmd option" where
  "offlineCmd H args =
     (if ch_goos H = ''darwin''
      then Some \<lparr>cmd_name = ''/usr/bin/sandbox-exec'', cmd_args = [''-p'', offlineProfile] @ args, cmd_dir = [],
        cmd_env = [''JAVA_TOOL_OPTIONS='' @ TrimSpace (ch_getenv H ''JAVA_TOOL_OPTIONS'' @ '' -Djava.net.preferIPv4Stack=true'')]\<rparr>
      else if ch_goos H = ''linux''
      then Some \<lparr>cmd_name = ''sudo'',
        cmd_args = [''-n'', ''--preserve-env=JAVA_HOME,GRADLE_USER_HOME,GOPATH,GOCACHE,GOMODCACHE'', ''unshare'', ''--net'', ''--'',
          ''sh'', ''-c'', offlineScript, ''offline'', showNat (ch_uid H), showNat (ch_gid H), ch_getenv H ''PATH'', ch_getenv H ''HOME''] @ args,
        cmd_dir = [], cmd_env = []\<rparr>
      else None)"

definition offlineRun :: "('i, 'w) CompatHost \<Rightarrow> string list \<Rightarrow> 'w Ses \<Rightarrow> int \<times> 'w Ses" where
  "offlineRun H args st =
     (if args = [] then (1, st)
      else case offlineCmd H args of
        None \<Rightarrow> (1, st)
      | Some c \<Rightarrow>
          (case stepA (\<lambda>r. [RunCmd c r]) (sys_exec (ch_sys H) c) st of (r, st') \<Rightarrow>
             (case exec_status r of
                Exited n \<Rightarrow> (n, st')
              | Signaled n \<Rightarrow> (128 + n, st')
              | NotStarted e \<Rightarrow> (1, st'))))"

section \<open>Preparing the consumers\<close>

definition documentEntry :: "('w, CompatError, string list) callback" where
  "documentEntry path entry err inputs =
     (case err of
        Some e \<Rightarrow> failA (CompatHostError e)
      | None \<Rightarrow>
          (case entry of
             None \<Rightarrow> failA (CompatHostError (OtherError ''no entry''))
           | Some d \<Rightarrow>
               if entryKind d = KindDir \<and> (entryName d = ''generated'' \<or> entryName d = ''.build'' \<or> entryName d = ''build'')
               then retA (Skip inputs)
               else if entryKind d \<noteq> KindDir \<and> hasSuffix path ''.toml'' then retA (Continue (inputs @ [path]))
               else retA (Continue inputs)))"

definition packageDir :: "string \<Rightarrow> bool" where
  "packageDir path \<longleftrightarrow> hasSuffix path ''-server-javacard'' \<or> hasSuffix path ''-client-kotlin''"

text \<open>The two walks over the generated packages: each adds one line for a package directory.\<close>

definition packageEntry :: "(string \<Rightarrow> string) \<Rightarrow> ('w, CompatError, string) callback" where
  "packageEntry line path entry err lines =
     (case err of
        Some e \<Rightarrow> failA (CompatHostError e)
      | None \<Rightarrow>
          (case entry of
             None \<Rightarrow> failA (CompatHostError (OtherError ''no entry''))
           | Some d \<Rightarrow>
               if entryKind d = KindDir \<and> packageDir path then retA (Continue (lines @ line path))
               else retA (Continue lines)))"

definition nl :: string where "nl = [CHR 0x0A]"

definition settingsLine :: "string \<Rightarrow> string" where
  "settingsLine path = ''includeBuild('' @ [CHR 0x27] @ ToSlash path @ [CHR 0x27] @ '')'' @ nl"

definition buildLine :: "string \<Rightarrow> string" where
  "buildLine path = '' dependsOn gradle.includedBuild('' @ [CHR 0x27] @ PathBase path @ [CHR 0x27] @ '').task('' @ [CHR 0x27]
     @ '':build'' @ [CHR 0x27] @ '')'' @ nl"

definition runtimeSettings :: "string \<Rightarrow> string \<Rightarrow> string" where
  "runtimeSettings root target =
     (let coordinate = (if target = ''kotlin'' then ''javacard-rpc-client-kotlin'' else ''javacard-rpc-server-javacard'');
          q = [CHR 0x27] in
      ''includeBuild('' @ q @ ToSlash (JoinAll [root, ''runtimes'', coordinate]) @ q
      @ '') { dependencySubstitution { substitute(module('' @ q @ ''io.jcrpc:'' @ coordinate @ q
      @ '')).using(project('' @ q @ '':'' @ q @ '')) } }'' @ nl)"

definition prepareInput :: "('i, 'w) CompatHost \<Rightarrow> string \<Rightarrow> string \<Rightarrow> string \<Rightarrow> nat \<times> string \<Rightarrow>
    ('w, CompatError, unit) act" where
  "prepareInput H repo bin gen numbered =
     (case numbered of (i, input) \<Rightarrow>
      let h = ch_sys H; out = JoinAll [gen, showNat i] in
      thenA (runIn h repo bin [''--java'', ''io.jcrpc.compat'', ''--kotlin'', ''io.jcrpc.compat'', ''--out-dir'', out, input])
     (bindA (errorA SchemaError (lookA (\<lambda>w. ParseFile (ch_open H w) (ch_decode H) input))) (\<lambda>schema.
      if \<not> list_ex (\<lambda>(key, m). HasStream m) (Schema_Methods schema)
      then runIn h repo bin [''--swift'', ''CompatClient'', ''--out-dir'', out, input]
      else retA ())))"

definition settingsHead :: string where
  "settingsHead = ''rootProject.name = '' @ [CHR 0x27] @ ''pinned-consumer'' @ [CHR 0x27] @ nl"

definition buildHead :: string where
  "buildHead = ''plugins { id 'org.jetbrains.kotlin.jvm' version '2.1.10' }'' @ nl
     @ ''repositories { mavenCentral() }'' @ nl
     @ ''kotlin { jvmToolchain(17) }'' @ nl
     @ ''dependencies { implementation 'io.jcrpc:javacard-rpc-client-kotlin:0.3.1'; implementation 'io.jcrpc:javacard-rpc-server-javacard:0.8.0'; implementation 'io.jcrpc.compat:counter-client-kotlin:1.0.0'; implementation 'io.jcrpc:counter-server-javacard:1.0.0'; testImplementation 'org.jetbrains.kotlin:kotlin-test-junit5:2.1.10'; testRuntimeOnly 'org.junit.platform:junit-platform-launcher:1.11.4' }'' @ nl
     @ ''test { useJUnitPlatform() }'' @ nl
     @ ''tasks.named('build') {'' @ nl"

definition swiftManifest :: "(string \<Rightarrow> string) \<Rightarrow> string \<Rightarrow> string \<Rightarrow> string" where
  "swiftManifest quote counter client =
     ''// swift-tools-version: 6.2'' @ nl
     @ ''import PackageDescription'' @ nl
     @ ''let package = Package(name: \"PinnedConsumer\", platforms: [.iOS(.v15), .macOS(.v13)], dependencies: [.package(path: ''
     @ quote counter @ ''), .package(path: '' @ quote client
     @ '')], targets: [.testTarget(name: \"ConsumerTests\", dependencies: [.product(name: \"CounterClient\", package: \"counter-client-swift\"), .product(name: \"JavaCardRPCClient\", package: \"javacard-rpc-client-swift\")])])'' @ nl"

definition copyFixture :: "'w Sys \<Rightarrow> string \<Rightarrow> string \<Rightarrow> ('w, CompatError, unit) act" where
  "copyFixture h source target = bindA (hostA (readA h source)) (\<lambda>fixture. writeFile h target fixture)"

definition prepare :: "('i, 'w) CompatHost \<Rightarrow> string \<Rightarrow> string \<Rightarrow> ('w, CompatError, unit) act" where
  "prepare H repo root =
     (let h = ch_sys H; gen = JoinAll [root, ''generated'']; bin = JoinAll [root, ''jcrpc-gen''] in
      thenA (runIn h (JoinAll [repo, ''codegen'']) ''go'' [''build'', ''-o'', bin, ''./cmd/jcrpc-gen''])
     (bindA (WalkDir h documentEntry (JoinAll [repo, ''examples'']) []) (\<lambda>examples.
      let inputs = examples @ [JoinAll [repo, ''compatibility/inputs/sample-store.toml'']] in
      thenA (forA (prepareInput H repo bin gen) (enumerate 0 inputs))
     (bindA (WalkDir h (packageEntry settingsLine) gen
              (settingsHead @ runtimeSettings root ''javacard'' @ runtimeSettings root ''kotlin'')) (\<lambda>settings.
      bindA (WalkDir h (packageEntry buildLine) gen buildHead) (\<lambda>build.
      thenA (writeFile h (JoinAll [root, ''jvm/settings.gradle'']) settings)
     (thenA (writeFile h (JoinAll [root, ''jvm/build.gradle'']) (build @ ''}'' @ nl))
     (thenA (copyFixture h (JoinAll [repo, ''compatibility/fixtures/PinnedConsumerTest.kt''])
               (JoinAll [root, ''jvm/src/test/kotlin/PinnedConsumerTest.kt'']))
     (thenA (writeFile h (JoinAll [root, ''swift/Package.swift''])
               (swiftManifest (Quote (ch_printable H)) (JoinAll [gen, ''0/counter-client-swift''])
                  (JoinAll [root, ''runtimes/javacard-rpc-client-swift''])))
            (copyFixture h (JoinAll [repo, ''compatibility/fixtures/PinnedConsumer.swift''])
               (JoinAll [root, ''swift/Tests/ConsumerTests/Consumer.swift''])))))))))))"

section \<open>The command\<close>

definition compatFlags :: "string \<Rightarrow> FlagKind option" where
  "compatFlags = kindsOf [''repo'', ''manifest'', ''root'', ''mode''] [''offline'']"

definition checkoutDir :: "string \<Rightarrow> ReleaseTarget \<Rightarrow> string" where
  "checkoutDir runtimes p = JoinAll [runtimes, PathBase (RT_GoModule p)]"

definition verifyTarget :: "('i, 'w) CompatHost \<Rightarrow> string \<Rightarrow> string \<Rightarrow> ReleaseTarget \<Rightarrow> ('w, CompatError, unit) act" where
  "verifyTarget H repo runtimes p =
     errorA CheckoutFailed (VerifyCheckout (ch_sys H) repo (checkoutDir runtimes p) p (ch_refs H p))"

definition bootstrapTarget :: "('i, 'w) CompatHost \<Rightarrow> string \<Rightarrow> string \<Rightarrow> ReleaseTarget \<Rightarrow> ('w, CompatError, unit) act" where
  "bootstrapTarget H repo runtimes p =
     (let h = ch_sys H; dir = checkoutDir runtimes p in
      thenA (bindA (lookA (\<lambda>w. Inr (sys_stat h w dir))) (\<lambda>found.
               case found of
                 StatMissing \<Rightarrow> runIn h repo ''git'' [''clone'', ''--branch'', RT_Tag p, ''--depth'', ''1'', RT_Repository p, dir]
               | StatFailed e \<Rightarrow> failA (CompatHostError e)
               | StatFound \<Rightarrow> retA ()))
            (verifyTarget H repo runtimes p))"

definition consumerMode :: "('i, 'w) CompatHost \<Rightarrow> string \<Rightarrow> bool \<Rightarrow> string \<Rightarrow> string \<Rightarrow> string \<Rightarrow> ('w, CompatError, unit) act" where
  "consumerMode H mode offline repo root runtimes =
     (let h = ch_sys H in
      if mode = ''prepare'' then prepare H repo root
      else if mode = ''jvm''
      then forA (\<lambda>dir. runIn h dir ''gradle''
             ([''build'', ''--no-daemon'', ''--max-workers=2'', ''--console=plain''] @ (if offline then [''--offline''] else [])))
             [JoinAll [runtimes, ''javacard-rpc-server-javacard''], JoinAll [runtimes, ''javacard-rpc-client-kotlin''], JoinAll [root, ''jvm'']]
      else if mode = ''swift''
      then forA (\<lambda>dir. runIn h dir ''swift'' [''test'', ''--disable-sandbox'', ''--disable-automatic-resolution''])
             [JoinAll [runtimes, ''javacard-rpc-client-swift''], JoinAll [root, ''swift'']]
      else failA (UnknownMode mode))"

text \<open>After the manifest has been approved.\<close>

definition runtimeMode :: "('i, 'w) CompatHost \<Rightarrow> string \<Rightarrow> bool \<Rightarrow> string \<Rightarrow> string \<Rightarrow> Manifest \<Rightarrow> ('w, CompatError, unit) act" where
  "runtimeMode H mode offline repo root m =
     thenA (requireA (root \<noteq> '''') RootRequired)
    (bindA (hostA (liftA (sys_abs (ch_sys H) root))) (\<lambda>root.
     let runtimes = JoinAll [root, ''runtimes''] in
     if mode = ''bootstrap''
     then thenA (hostA (mkdirAllA (ch_sys H) runtimes)) (forA (bootstrapTarget H repo runtimes) (Manifest_Targets m))
     else thenA (forA (verifyTarget H repo runtimes) (Manifest_Targets m))
                (consumerMode H mode offline repo root runtimes)))"

definition manifestMode :: "('i, 'w) CompatHost \<Rightarrow> string \<Rightarrow> bool \<Rightarrow> string \<Rightarrow> string \<Rightarrow> string \<Rightarrow> ('w, CompatError, unit) act" where
  "manifestMode H mode offline repo manifest root =
     bindA (hostA (liftA (sys_abs (ch_sys H) repo))) (\<lambda>repo.
     let manifest' = (if manifest = '''' then JoinAll [repo, ''compatibility/runtime-manifest.json''] else manifest) in
     bindA (errorA ManifestError (Check (ch_sys H) (ch_json H) repo manifest')) (\<lambda>m.
     if mode = ''check'' then retA () else runtimeMode H mode offline repo root m))"

definition toolchainMode :: "('i, 'w) CompatHost \<Rightarrow> string \<Rightarrow> ('w, CompatError, unit) act" where
  "toolchainMode H root =
     thenA (requireA (root \<noteq> '''') RootRequired)
    (bindA (hostA (liftA (sys_abs (ch_sys H) root))) (\<lambda>dir.
     errorA ToolFailed (toolchain (ch_sys H) (ch_net H) dir)))"

definition exitA :: "('w, CompatError, unit) act \<Rightarrow> 'w Ses \<Rightarrow> int \<times> 'w Ses" where
  "exitA m st = (case m st of (Inl e, st') \<Rightarrow> (1, st') | (Inr u, st') \<Rightarrow> (0, st'))"

definition Compat_run :: "('i, 'w) CompatHost \<Rightarrow> string list \<Rightarrow> 'w Ses \<Rightarrow> int \<times> 'w Ses" where
  "Compat_run H args st =
     (case parseSet compatFlags args of
        Inl e \<Rightarrow> (2, st)
      | Inr (vs, rest) \<Rightarrow>
          let mode = stringFlag vs ''mode'' ''check''; root = stringFlag vs ''root'' '''' in
          if mode = ''offline'' then offlineRun H rest st
          else if length rest \<noteq> 0 then exitA (failA UnexpectedArguments) st
          else if mode = ''toolchain'' then exitA (toolchainMode H root) st
          else exitA (manifestMode H mode (boolFlag vs ''offline'' False) (stringFlag vs ''repo'' ''..'')
                 (stringFlag vs ''manifest'' '''') root) st)"

end
