(* ===== verification/Release_Facts.thy ===== *)
theory Release_Facts
  imports Release_Manifest Host_Logic
begin

text \<open>
  What the loops of manifest.go decide: the target loop over its table of seen names, the
  module table in which a later entry replaces an earlier one, and the references of a
  checkout; and the evidence a verified checkout leaves behind.
\<close>

section \<open>Reading JSON\<close>

lemma readJSON_Inr_iff:
  "readJSON read decode w path = Inr v \<longleftrightarrow>
     (\<exists>b rest. read w path = Inr b \<and> decode b = Inr (v, rest) \<and> jsonEOF rest)"
  by (auto simp: readJSON_def split: sum.splits prod.splits if_splits)

section \<open>The module graph\<close>

definition lastModule :: "Module list \<Rightarrow> string \<Rightarrow> Module option" where
  "lastModule ms path = find (\<lambda>q. Module_Path q = path) (rev ms)"

definition resolvesTo :: "Module list \<Rightarrow> string \<Rightarrow> string \<Rightarrow> bool" where
  "resolvesTo ms path version =
     (case lastModule ms path of None \<Rightarrow> False
      | Some q \<Rightarrow> Module_Version q = version \<and> Module_Replace q = None)"

lemma find_append: "find P (xs @ ys) = (case find P xs of None \<Rightarrow> find P ys | Some x \<Rightarrow> Some x)"
  by (induction xs) simp_all

lemma moduleTable_get:
  "tbl_get (moduleTable ms t) path = (case lastModule ms path of None \<Rightarrow> tbl_get t path | Some q \<Rightarrow> Some q)"
  by (induction ms arbitrary: t)
     (auto simp: lastModule_def tbl_get_put find_append split: option.splits)

lemma moduleTable_lookup [act_simps]: "tbl_get (moduleTable ms tbl_empty) path = lastModule ms path"
  by (simp add: moduleTable_get split: option.splits)

lemma checkModules_Inr [act_simps]:
  "checkModules (moduleTable ms tbl_empty) ps st = (Inr u, st') \<longleftrightarrow>
     st' = st \<and> list_all (\<lambda>p. resolvesTo ms (RT_GoModule p) (RT_BackendVersion p)) ps"
  by (induction ps) (auto simp: act_simps resolvesTo_def split: option.splits)

lemma checkModules_confined [confine]: "confined P (checkModules t ps)"
  by (induction ps) (auto simp: confine split: option.split)

section \<open>The targets\<close>

definition releaseNames :: "string list" where
  "releaseNames = [''javacard'', ''kotlin'', ''swift'']"

definition targetApproved :: "'w Sys \<Rightarrow> Decoders \<Rightarrow> string \<Rightarrow> 'w \<Rightarrow> ReleaseTarget \<Rightarrow> bool" where
  "targetApproved h J repo w p \<longleftrightarrow>
     readJSON (sys_read h) (decode_target J) w (receiptPath repo (RT_Target p)) = Inr p
     \<and> RT_Tag p = RT_BackendVersion p \<and> releaseTag (RT_Tag p)"

lemma checkTargets_Inr:
  "checkTargets h J repo ps seen st = (Inr u, st') \<longleftrightarrow>
     st' = st \<and> distinct (map RT_Target ps) \<and> (\<forall>p\<in>set ps. tbl_get seen (RT_Target p) \<noteq> Some True)
     \<and> set (map RT_Target ps) \<subseteq> set releaseNames
     \<and> list_all (targetApproved h J repo (ses_world st)) ps"
proof (induction ps arbitrary: seen)
  case (Cons p ps)
  have "checkTargets h J repo (p # ps) seen st = (Inr u, st') \<longleftrightarrow>
      tbl_get seen (RT_Target p) \<noteq> Some True \<and> RT_Target p \<in> set releaseNames
      \<and> targetApproved h J repo (ses_world st) p
      \<and> checkTargets h J repo ps (tbl_put seen (RT_Target p) True) st = (Inr u, st')"
    by (auto simp: act_simps Let_def targetApproved_def releaseNames_def)
  then show ?case unfolding Cons.IH by (auto simp: tbl_get_put simp del: checkTargets.simps split: if_splits intro: rev_image_eqI)
qed (auto simp: act_simps)

lemma three_names:
  "length xs = 3 \<and> distinct xs \<and> set xs \<subseteq> set releaseNames \<longleftrightarrow> mset xs = mset releaseNames"
proof
  assume a: "length xs = 3 \<and> distinct xs \<and> set xs \<subseteq> set releaseNames"
  have d: "distinct releaseNames" "length releaseNames = 3" by (simp_all add: releaseNames_def)
  have "card (set xs) = card (set releaseNames)"
    using a d by (simp add: distinct_card)
  then have "set xs = set releaseNames" using a by (meson List.finite_set card_subset_eq)
  then show "mset xs = mset releaseNames" using a d set_eq_iff_mset_eq_distinct by blast
next
  assume m: "mset xs = mset releaseNames"
  have d: "distinct releaseNames" "length releaseNames = 3" by (simp_all add: releaseNames_def)
  show "length xs = 3 \<and> distinct xs \<and> set xs \<subseteq> set releaseNames"
    using m d by (metis mset_eq_imp_distinct_iff mset_eq_length mset_eq_setD subset_refl)
qed

lemma checkTargets_start:
  "length ps = 3 \<and> checkTargets h J repo ps tbl_empty st = (Inr u, st') \<longleftrightarrow>
     st' = st \<and> mset (map RT_Target ps) = mset releaseNames
     \<and> list_all (targetApproved h J repo (ses_world st)) ps"
  using three_names [of "map RT_Target ps"] by (auto simp: checkTargets_Inr)

lemma checkTargets_confined [confine]: "confined P (checkTargets h J repo ps seen)"
  by (induction ps arbitrary: seen) (auto simp: confine Let_def)

section \<open>The evidence of a checkout\<close>

definition gitCmd :: "string \<Rightarrow> string list \<Rightarrow> Cmd" where
  "gitCmd dir args = \<lparr>cmd_name = ''git'', cmd_args = args, cmd_dir = dir, cmd_env = []\<rparr>"

definition answered :: "Cmd \<Rightarrow> (string \<Rightarrow> bool) \<Rightarrow> HostEvent \<Rightarrow> bool" where
  "answered c Q ev = (case ev of RunCmd d r \<Rightarrow>
     d = c \<and> exec_status r = Exited 0 \<and> Q (TrimSpace (exec_combined r)) | _ \<Rightarrow> False)"

lemma gitA_Inr:
  "gitA h dir args st = (Inr out, st') \<Longrightarrow>
     \<exists>ev. ses_events st' = ses_events st @ [ev] \<and> answered (gitCmd dir args) (\<lambda>x. x = out) ev"
  by (auto simp: gitA_def gitCmd_def answered_def act_simps dest!: execA_events)

lemma trackedA_Inr:
  "trackedA h dir d args st = (Inr u, st') \<Longrightarrow>
     \<exists>ev. ses_events st' = ses_events st @ [ev] \<and> answered (trackedCmd dir d args) (\<lambda>_. True) ev"
  by (auto simp: trackedA_def answered_def act_simps dest!: execA_events)

lemma checkRef_Inr:
  "checkRef h dir p (ref, want) st = (Inr u, st') \<Longrightarrow>
     \<exists>ev. ses_events st' = ses_events st @ [ev] \<and> answered (gitCmd dir [''rev-parse'', ref]) (\<lambda>x. x = want) ev"
  by (auto simp: checkRef_def act_simps dest!: gitA_Inr)

definition refEvidence :: "string \<Rightarrow> (string, string) gomap \<Rightarrow> HostEvent list \<Rightarrow> bool" where
  "refEvidence dir refs es =
     list_all2 (\<lambda>rw ev. answered (gitCmd dir [''rev-parse'', fst rw]) (\<lambda>x. x = snd rw) ev) refs es"

lemma checkRefs_Inr:
  "forA (checkRef h dir p) refs st = (Inr u, st') \<Longrightarrow>
     \<exists>es. ses_events st' = ses_events st @ es \<and> refEvidence dir refs es"
proof (induction refs arbitrary: st)
  case (Cons rw refs)
  obtain v st1 where 1: "checkRef h dir p rw st = (Inr v, st1)"
    and 2: "forA (checkRef h dir p) refs st1 = (Inr u, st')"
    using Cons.prems by (auto simp: forA_Cons_Inr simp del: forA.simps)
  obtain ev where "ses_events st1 = ses_events st @ [ev]"
      "answered (gitCmd dir [''rev-parse'', fst rw]) (\<lambda>x. x = snd rw) ev"
    using 1 checkRef_Inr by (metis prod.collapse)
  moreover obtain es where "ses_events st' = ses_events st1 @ es" "refEvidence dir refs es"
    using Cons.IH [OF 2] by blast
  ultimately show ?case by (auto simp: refEvidence_def)
qed (simp add: act_simps refEvidence_def)

definition signersArg :: "string \<Rightarrow> string" where
  "signersArg repo = ''gpg.ssh.allowedSignersFile='' @ JoinAll [repo, ''compatibility'', ''allowed_signers'']"

definition checkoutEvidence :: "string \<Rightarrow> string \<Rightarrow> ReleaseTarget \<Rightarrow> (string, string) gomap \<Rightarrow> HostEvent list \<Rightarrow> bool" where
  "checkoutEvidence repo dir p refs es \<longleftrightarrow>
     (\<exists>ids st rt ui vt d. es = ids @ [st, MkTempDir d, rt, ui, vt, RemoveTree d]
        \<and> refEvidence dir refs ids
        \<and> answered (gitCmd dir [''status'', ''--porcelain'', ''--untracked-files=all'']) (\<lambda>x. x = '''') st
        \<and> answered (trackedCmd dir d [''read-tree'', RT_Commit p]) (\<lambda>_. True) rt
        \<and> answered (trackedCmd dir d [''update-index'', ''--refresh'']) (\<lambda>_. True) ui
        \<and> answered (gitCmd dir [''-c'', signersArg repo, ''verify-tag'', RT_Tag p]) (\<lambda>_. True) vt)"

lemma answered_weaken: "answered c Q ev \<Longrightarrow> answered c (\<lambda>_. True) ev"
  by (simp add: answered_def split: HostEvent.splits)

lemma mkdirTempA_Inr:
  "mkdirTempA h pat st = (Inr d, st') \<Longrightarrow> ses_events st' = ses_events st @ [MkTempDir d]"
  by (auto simp: mkdirTempA_def dest: newA_events)

lemma VerifyCheckout_Inr:
  assumes "VerifyCheckout h repo dir p refs st = (Inr u, st')"
  shows "\<exists>es. ses_events st' = ses_events st @ es \<and> checkoutEvidence repo dir p refs es"
proof -
  obtain a1 s1 s2 d s3 a4 s4 a5 s5 sig s6 where
    1: "forA (checkRef h dir p) refs st = (Inr a1, s1)" and
    2: "gitA h dir [''status'', ''--porcelain'', ''--untracked-files=all''] s1 = (Inr '''', s2)" and
    3: "mkdirTempA h ''jcrpc-release-index-'' s2 = (Inr d, s3)" and
    4: "trackedA h dir d [''read-tree'', RT_Commit p] s3 = (Inr a4, s4)" and
    5: "trackedA h dir d [''update-index'', ''--refresh''] s4 = (Inr a5, s5)" and
    6: "gitA h dir [''-c'', signersArg repo, ''verify-tag'', RT_Tag p] s5 = (Inr sig, s6)" and
    7: "st' = removeAllF h d s6"
    using assms by (auto simp: VerifyCheckout_def signersArg_def act_simps)
  obtain ids where "ses_events s1 = ses_events st @ ids" "refEvidence dir refs ids"
    using checkRefs_Inr [OF 1] by blast
  moreover obtain e2 where "ses_events s2 = ses_events s1 @ [e2]"
      "answered (gitCmd dir [''status'', ''--porcelain'', ''--untracked-files=all'']) (\<lambda>x. x = '''') e2"
    using gitA_Inr [OF 2] by blast
  moreover have "ses_events s3 = ses_events s2 @ [MkTempDir d]" using mkdirTempA_Inr [OF 3] .
  moreover obtain e4 where "ses_events s4 = ses_events s3 @ [e4]"
      "answered (trackedCmd dir d [''read-tree'', RT_Commit p]) (\<lambda>_. True) e4"
    using trackedA_Inr [OF 4] by blast
  moreover obtain e5 where "ses_events s5 = ses_events s4 @ [e5]"
      "answered (trackedCmd dir d [''update-index'', ''--refresh'']) (\<lambda>_. True) e5"
    using trackedA_Inr [OF 5] by blast
  moreover obtain e6 where "ses_events s6 = ses_events s5 @ [e6]"
      "answered (gitCmd dir [''-c'', signersArg repo, ''verify-tag'', RT_Tag p]) (\<lambda>_. True) e6"
    using gitA_Inr [OF 6] answered_weaken by blast
  ultimately show ?thesis
    by (auto simp: checkoutEvidence_def 7 removeAllF_def)
qed


section \<open>The evidence of a refused checkout is incomplete\<close>

lemma gitA_Inl:
  "gitA h dir args st = (Inl e, st') \<Longrightarrow>
     \<exists>ev. ses_events st' = ses_events st @ [ev] \<and> \<not> answered (gitCmd dir args) (\<lambda>_. True) ev"
  by (auto simp: gitA_def gitCmd_def answered_def act_simps dest!: execA_events)

lemma trackedA_Inl:
  "trackedA h dir d args st = (Inl e, st') \<Longrightarrow> \<exists>ev. ses_events st' = ses_events st @ [ev]"
  by (auto simp: trackedA_def act_simps dest!: execA_events)

lemma checkRef_Inl:
  "checkRef h dir p rw st = (Inl e, st') \<Longrightarrow> \<exists>ev. ses_events st' = ses_events st @ [ev]"
  by (cases rw) (auto simp: checkRef_def act_simps dest!: gitA_Inr gitA_Inl)

lemma checkRefs_Inl:
  "forA (checkRef h dir p) refs st = (Inl e, st') \<Longrightarrow>
     \<exists>es. ses_events st' = ses_events st @ es \<and> length es \<le> length refs"
proof (induction refs arbitrary: st)
  case (Cons rw refs)
  consider "checkRef h dir p rw st = (Inl e, st')"
    | v st1 where "checkRef h dir p rw st = (Inr v, st1)" "forA (checkRef h dir p) refs st1 = (Inl e, st')"
    using Cons.prems by (auto simp: act_simps)
  then show ?case
  proof cases
    case 1
    then show ?thesis by (auto dest!: checkRef_Inl)
  next
    case 2
    obtain es where "ses_events st' = ses_events st1 @ es" "length es \<le> length refs" using Cons.IH [OF 2(2)] by blast
    moreover obtain ev where "ses_events st1 = ses_events st @ [ev]"
      using 2(1) checkRef_Inr by (metis prod.collapse)
    ultimately show ?thesis by auto
  qed
qed (simp add: act_simps)

lemma mkdirTempA_Inl: "mkdirTempA h pat st = (Inl e, st') \<Longrightarrow> ses_events st' = ses_events st"
  by (auto simp: mkdirTempA_def newA_def stepA_def split: prod.splits)

lemma VerifyCheckout_Inl:
  assumes "VerifyCheckout h repo dir p refs st = (Inl e, st')"
  shows "\<nexists>es. ses_events st' = ses_events st @ es \<and> checkoutEvidence repo dir p refs es"
proof -
  let ?status = "[''status'', ''--porcelain'', ''--untracked-files=all'']"
  let ?verify = "[''-c'', signersArg repo, ''verify-tag'', RT_Tag p]"
  define rest where "rest d = thenA (trackedA h dir d [''read-tree'', RT_Commit p])
    (thenA (errorA (DirtyTracked (RT_Target p)) (trackedA h dir d [''update-index'', ''--refresh'']))
    (bindA (gitA h dir ?verify) (\<lambda>signature. retA ())))" for d
  have complete: "length es = length refs + 6 \<and> answered (gitCmd dir ?verify) (\<lambda>_. True) (es ! (length refs + 4))"
    if "checkoutEvidence repo dir p refs es" for es
    using that by (auto simp: checkoutEvidence_def refEvidence_def nth_append dest: list_all2_lengthD)
  have refs_done: "\<exists>ids. ses_events s1 = ses_events st @ ids \<and> length ids = length refs"
    if "forA (checkRef h dir p) refs st = (Inr u, s1)" for u s1
    using checkRefs_Inr [OF that] by (auto simp: refEvidence_def dest: list_all2_lengthD)
  consider (refs) e' where "forA (checkRef h dir p) refs st = (Inl e', st')"
    | (status) u s1 q where "forA (checkRef h dir p) refs st = (Inr u, s1)" "gitA h dir ?status s1 = (q, st')"
    | (temp) u s1 out s2 e' where "forA (checkRef h dir p) refs st = (Inr u, s1)" "gitA h dir ?status s1 = (Inr out, s2)"
        "mkdirTempA h ''jcrpc-release-index-'' s2 = (Inl e', st')"
    | (late) u s1 out s2 d s3 s4 where "forA (checkRef h dir p) refs st = (Inr u, s1)" "gitA h dir ?status s1 = (Inr out, s2)"
        "mkdirTempA h ''jcrpc-release-index-'' s2 = (Inr d, s3)"
        "rest d s3 = (Inl e, s4)"
        "st' = removeAllF h d s4"
    using assms unfolding VerifyCheckout_def signersArg_def [symmetric] rest_def [symmetric]
    by (simp only: thenA_Inl bindA_Inl requireA_Inl requireA_Inr errorA_Inl errorA_Inr deferA_iff) blast
  then show ?thesis
  proof cases
    case refs
    from checkRefs_Inl [OF this] show ?thesis by (auto dest!: complete)
  next
    case status
    obtain ev where "ses_events st' = ses_events s1 @ [ev]"
      using status(2) by (cases q) (auto dest: gitA_Inr gitA_Inl)
    with refs_done [OF status(1)] show ?thesis by (auto dest!: complete)
  next
    case temp
    with refs_done [OF temp(1)] gitA_Inr [OF temp(2)] mkdirTempA_Inl [OF temp(3)] show ?thesis by (auto dest!: complete)
  next
    case late
    note upto = refs_done [OF late(1)] gitA_Inr [OF late(2)] mkdirTempA_Inr [OF late(3)] late(5)
    from late(4) consider (tree) e' where "trackedA h dir d [''read-tree'', RT_Commit p] s3 = (Inl e', s4)"
      | (index) v s5 e' where "trackedA h dir d [''read-tree'', RT_Commit p] s3 = (Inr v, s5)"
          "trackedA h dir d [''update-index'', ''--refresh''] s5 = (Inl e', s4)"
      | (verify) v s5 v' s6 e' where "trackedA h dir d [''read-tree'', RT_Commit p] s3 = (Inr v, s5)"
          "trackedA h dir d [''update-index'', ''--refresh''] s5 = (Inr v', s6)" "gitA h dir ?verify s6 = (Inl e', s4)"
      unfolding rest_def by (simp only: thenA_Inl bindA_Inl errorA_Inl errorA_Inr retA_iff) blast
    then show ?thesis
    proof cases
      case tree
      from upto trackedA_Inl [OF tree] show ?thesis by (auto simp: removeAllF_def dest!: complete)
    next
      case index
      from upto trackedA_Inr [OF index(1)] trackedA_Inl [OF index(2)] show ?thesis
        by (auto simp: removeAllF_def dest!: complete)
    next
      case verify
      from upto trackedA_Inr [OF verify(1)] trackedA_Inr [OF verify(2)] gitA_Inl [OF verify(3)] show ?thesis
        by (auto simp: removeAllF_def nth_append dest!: complete)
    qed
  qed
qed

lemma VerifyCheckout_decided:
  assumes "VerifyCheckout h repo dir p refs st = (r, st')"
  shows "r = Inr () \<longleftrightarrow> (\<exists>es. ses_events st' = ses_events st @ es \<and> checkoutEvidence repo dir p refs es)"
  using VerifyCheckout_Inr [of h repo dir p refs st "()" st'] VerifyCheckout_Inl [of h repo dir p refs st _ st'] assms
  by (cases r) auto

end
