(* ===== verification/Release_Properties.thy ===== *)
theory Release_Properties
  imports Release_Facts Host_Scope
begin

text \<open>
  The properties of the release checks of internal/compat: what an approved manifest is, that
  it is unique, and what a verified checkout has shown and leaves behind.
\<close>

section \<open>Approved manifests\<close>

text \<open>The specification of \<open>Check\<close>: \<open>w\<close> is the world before \<open>go list\<close>, which answers \<open>r\<close> and leaves
  the world \<open>w'\<close>.\<close>

definition releaseApproved :: "'w Sys \<Rightarrow> Decoders \<Rightarrow> string \<Rightarrow> string \<Rightarrow> 'w \<Rightarrow> ExecResult \<Rightarrow> 'w \<Rightarrow> Manifest \<Rightarrow> bool" where
  "releaseApproved h J repo path w r w' m \<longleftrightarrow>
     readJSON (sys_read h) (decode_manifest J) w path = Inr m
     \<and> Manifest_Schema m = 1 \<and> Manifest_FacadeVersion m = ''0.9.0''
     \<and> mset (map RT_Target (Manifest_Targets m)) = mset releaseNames
     \<and> list_all (targetApproved h J repo w) (Manifest_Targets m)
     \<and> exec_status r = Exited 0
     \<and> (case decode_modules J (exec_stdout r) of (ms, err) \<Rightarrow>
          err = None
          \<and> list_all (\<lambda>p. resolvesTo ms (RT_GoModule p) (RT_BackendVersion p)) (Manifest_Targets m)
          \<and> resolvesTo ms ''github.com/relux-works/javacard-rpc/pluginapi'' ''v0.1.2'')
     \<and> Manifest_SampleInput m = wantInput
     \<and> (case sys_read h w' (JoinAll [repo, Input_Path wantInput]) of
          Inl _ \<Rightarrow> False | Inr b \<Rightarrow> sha256_hex J b = Input_SHA256 wantInput)"

lemma execA_run: "execA h c st = (Inr (fst (sys_exec h c (ses_world st))),
    \<lparr>ses_events = ses_events st @ [RunCmd c (fst (sys_exec h c (ses_world st)))],
     ses_world = snd (sys_exec h c (ses_world st))\<rparr>)"
  by (simp add: execA_def stepA_def split: prod.split)

lemma pluginapi_module:
  "(Module_Version (case lastModule ms path of None \<Rightarrow> zeroModule | Some q \<Rightarrow> q) = ''v0.1.2''
    \<and> Module_Replace (case lastModule ms path of None \<Rightarrow> zeroModule | Some q \<Rightarrow> q) = None)
   = resolvesTo ms path ''v0.1.2''"
  by (simp add: resolvesTo_def zeroModule_def split: option.split)

lemma Check_Inr:
  "Check h J repo path st = (Inr m, st') \<longleftrightarrow>
     releaseApproved h J repo path (ses_world st)
       (fst (sys_exec h (goListCmd repo) (ses_world st))) (snd (sys_exec h (goListCmd repo) (ses_world st))) m
     \<and> st' = snd (execA h (goListCmd repo) st :: (CheckError, ExecResult) result \<times> _)"
proof -
  let ?w = "ses_world st" and ?ts = "Manifest_Targets m"
  let ?x = "sys_exec h (goListCmd repo) ?w"
  let ?st = "snd (execA h (goListCmd repo) st :: (CheckError, ExecResult) result \<times> _)"
  obtain ms err where ms: "decode_modules J (exec_stdout (fst ?x)) = (ms, err)" by fastforce
  have "Check h J repo path st = (Inr m, st') \<longleftrightarrow>
      readJSON (sys_read h) (decode_manifest J) ?w path = Inr m
      \<and> Manifest_Schema m = 1 \<and> Manifest_FacadeVersion m = ''0.9.0''
      \<and> (length ?ts = 3 \<and> checkTargets h J repo ?ts tbl_empty st = (Inr (), st))
      \<and> exec_status (fst ?x) = Exited 0 \<and> err = None
      \<and> list_all (\<lambda>p. resolvesTo ms (RT_GoModule p) (RT_BackendVersion p)) ?ts
      \<and> resolvesTo ms ''github.com/relux-works/javacard-rpc/pluginapi'' ''v0.1.2''
      \<and> Manifest_SampleInput m = wantInput
      \<and> (\<exists>b. Inr b = sys_read h (ses_world ?st) (JoinAll [repo, Input_Path wantInput])
             \<and> sha256_hex J b = Input_SHA256 wantInput)
      \<and> st' = ?st"
    unfolding Check_def
    by (cases err) (auto simp: act_simps execA_run checkTargets_Inr ms Let_def pluginapi_module)
  then show ?thesis
    unfolding checkTargets_start releaseApproved_def
    by (auto simp: ms execA_run split: sum.splits)
qed

section \<open>Fixtures\<close>

definition demoTarget :: "string \<Rightarrow> ReleaseTarget" where
  "demoTarget t = \<lparr>RT_Target = t, RT_Repository = ''https://example.org/'' @ t, RT_Tag = ''v1.2.0'',
     RT_TagObject = ''aa'', RT_Commit = ''cc'', RT_GoModule = ''m/'' @ t, RT_BackendVersion = ''v1.2.0'',
     RT_BackendImport = ''m'', RT_Runtime = ''r'', RT_SwiftPackage = [], RT_SwiftExactVersion = []\<rparr>"

definition demoManifest :: "string list \<Rightarrow> Manifest" where
  "demoManifest ts = \<lparr>Manifest_Schema = 1, Manifest_FacadeVersion = ''0.9.0'',
     Manifest_Targets = map demoTarget ts, Manifest_SampleInput = wantInput\<rparr>"

text \<open>Every file holds its own path; the receipt of a target is found by its path.\<close>

definition demoDecoders :: Decoders where
  "demoDecoders = \<lparr>
     decode_manifest = (\<lambda>b. Inr (demoManifest (if b = ''a'' then [''swift'', ''kotlin'', ''javacard''] else releaseNames), [])),
     decode_target = (\<lambda>b. case find (\<lambda>t. b = receiptPath ''repo'' t) releaseNames of
        None \<Rightarrow> Inl (OtherError ''json'') | Some t \<Rightarrow> Inr (demoTarget t, [])),
     decode_modules = (\<lambda>_. (Module ''github.com/relux-works/javacard-rpc/pluginapi'' ''v0.1.2'' None
        # map (\<lambda>t. Module (''m/'' @ t) ''v1.2.0'' None) releaseNames, None)),
     sha256_hex = (\<lambda>_. Input_SHA256 wantInput)\<rparr>"

definition demoReleaseHost :: "unit Sys" where
  "demoReleaseHost = scriptedSys (\<lambda>p. Inr p) (\<lambda>_. Inl ErrNotExist) (always (\<lambda>_. answer 0 []))"

lemma demo_approved:
  "fst (Check demoReleaseHost demoDecoders ''repo'' ''a'' (startSes ())) = Inr (demoManifest [''swift'', ''kotlin'', ''javacard''])"
  "fst (Check demoReleaseHost demoDecoders ''repo'' ''b'' (startSes ())) = Inr (demoManifest releaseNames)"
  by code_simp+

section \<open>Properties\<close>

text \<open>C22: \<open>Check\<close> returns a manifest exactly when it is the decoded file, has schema 1 and facade
  0.9.0, names the three targets once each, agrees with the receipt of each, carries plain
  version tags equal to the backend versions, and the module graph (where the last entry of a
  path counts) resolves every backend and the plugin API to the released versions without a
  replacement, and the pinned input has its identity and digest. It runs one command.\<close>

theorem release_check_decides:
  "Check h J repo path st = (Inr m, st') \<longleftrightarrow>
     (let (r, w') = sys_exec h (goListCmd repo) (ses_world st) in
        releaseApproved h J repo path (ses_world st) r w' m
        \<and> st' = \<lparr>ses_events = ses_events st @ [RunCmd (goListCmd repo) r], ses_world = w'\<rparr>)"
  by (simp add: Check_Inr execA_run split_beta)

lemma approved_receipt:
  "releaseApproved h J repo path w r w' m \<Longrightarrow> p \<in> set (Manifest_Targets m) \<Longrightarrow>
     readJSON (sys_read h) (decode_target J) w (receiptPath repo (RT_Target p)) = Inr p"
  by (auto simp: releaseApproved_def targetApproved_def list_all_iff)

lemma same_by_name:
  assumes "mset (map f xs) = mset (map f ys)"
    and "\<And>x. x \<in> set xs \<Longrightarrow> g (f x) = x" and "\<And>y. y \<in> set ys \<Longrightarrow> g (f y) = y"
  shows "mset xs = mset ys"
proof -
  have "map g (map f xs) = xs" "map g (map f ys) = ys"
    using assms(2,3) by (simp_all add: map_idI)
  then show ?thesis using assms(1) by (metis mset_map)
qed

text \<open>C23: The receipts pin the release: two manifests that \<open>Check\<close> approves in the same state agree
  in schema, facade version and sample input, and have the same targets up to their order.\<close>

theorem release_manifest_unique:
  assumes "Check h J repo path st = (Inr m, st1)" "Check h J repo path' st = (Inr m', st2)"
  shows "mset (Manifest_Targets m) = mset (Manifest_Targets m')
    \<and> Manifest_Schema m = Manifest_Schema m' \<and> Manifest_FacadeVersion m = Manifest_FacadeVersion m'
    \<and> Manifest_SampleInput m = Manifest_SampleInput m'"
proof -
  obtain r w' where a: "releaseApproved h J repo path (ses_world st) r w' m"
      "releaseApproved h J repo path' (ses_world st) r w' m'"
    using assms by (auto simp: Check_Inr)
  let ?g = "\<lambda>t. projr (readJSON (sys_read h) (decode_target J) (ses_world st) (receiptPath repo t))"
  have "mset (Manifest_Targets m) = mset (Manifest_Targets m')"
  proof (rule same_by_name [where f = RT_Target and g = ?g])
    show "mset (map RT_Target (Manifest_Targets m)) = mset (map RT_Target (Manifest_Targets m'))"
      using a by (simp add: releaseApproved_def)
  qed (simp_all add: approved_receipt [OF a(1)] approved_receipt [OF a(2)])
  then show ?thesis using a by (simp add: releaseApproved_def)
qed

theorem release_manifest_unique_witness:
  "mset (Manifest_Targets (demoManifest [''swift'', ''kotlin'', ''javacard''])) = mset (Manifest_Targets (demoManifest releaseNames))"
proof -
  have run: "Check demoReleaseHost demoDecoders ''repo'' p (startSes ()) = (Inr m, snd (Check demoReleaseHost demoDecoders ''repo'' p (startSes ())))"
    if "fst (Check demoReleaseHost demoDecoders ''repo'' p (startSes ())) = Inr m" for p m
    using that by (metis prod.collapse)
  show ?thesis
    by (rule release_manifest_unique [OF run [OF demo_approved(1)] run [OF demo_approved(2)], THEN conjunct1])
qed

text \<open>C24: \<open>VerifyCheckout\<close> accepts a checkout exactly when its operations are this evidence, in this
  order: git answered HEAD, the tag object and the tagged commit as the target names them, found no
  change and no untracked file, read the release tree into a fresh index and found every tracked
  file unchanged against it, and verified the signature of the tag with the allowed signers of
  the repository; the index is removed last. No refused checkout leaves the whole evidence.\<close>

theorem checkout_evidence:
  assumes "VerifyCheckout h repo dir p refs st = (r, st')"
    and "mset refs = mset (checkoutRefs p)"
  shows "r = Inr () \<longleftrightarrow> (\<exists>es. ses_events st' = ses_events st @ es \<and> checkoutEvidence repo dir p refs es
    \<and> list_all (\<lambda>(ref, want). list_ex (answered (gitCmd dir [''rev-parse'', ref]) (\<lambda>x. x = want)) es) (checkoutRefs p))"
proof -
  have "(case rw of (ref, want) \<Rightarrow> list_ex (answered (gitCmd dir [''rev-parse'', ref]) (\<lambda>x. x = want)) es)"
    if es: "checkoutEvidence repo dir p refs es" and rw: "rw \<in> set (checkoutRefs p)" for es rw
  proof -
    obtain ids more where ids: "es = ids @ more" "refEvidence dir refs ids"
      using es unfolding checkoutEvidence_def by blast
    have "rw \<in> set refs" using rw assms(2) by (metis mset_eq_setD)
    then obtain i where "i < length refs" "refs ! i = rw" by (auto simp: in_set_conv_nth)
    then have "i < length ids" "answered (gitCmd dir [''rev-parse'', fst rw]) (\<lambda>x. x = snd rw) (ids ! i)"
      using ids(2) unfolding refEvidence_def by (auto simp: list_all2_conv_all_nth)
    then have "list_ex (answered (gitCmd dir [''rev-parse'', fst rw]) (\<lambda>x. x = snd rw)) ids"
      unfolding list_ex_iff using nth_mem by blast
    then show ?thesis by (simp add: ids(1) split_beta)
  qed
  then have "checkoutEvidence repo dir p refs es \<longleftrightarrow> checkoutEvidence repo dir p refs es
      \<and> list_all (\<lambda>(ref, want). list_ex (answered (gitCmd dir [''rev-parse'', ref]) (\<lambda>x. x = want)) es) (checkoutRefs p)" for es
    unfolding list_all_iff by blast
  with VerifyCheckout_decided [OF assms(1)] show ?thesis by presburger
qed

definition gitIn :: "string \<Rightarrow> HostEvent \<Rightarrow> bool" where
  "gitIn dir ev = (case ev of RunCmd c r \<Rightarrow> cmd_name c = ''git'' \<and> cmd_dir c = dir | _ \<Rightarrow> False)"

lemma gitA_confined [confine]: "confined (gitIn dir) (gitA h dir args)"
  by (auto simp: gitA_def gitIn_def intro!: confine)

lemma trackedA_confined [confine]: "confined (gitIn dir) (trackedA h dir d args)"
  by (auto simp: trackedA_def trackedCmd_def gitIn_def intro!: confine)

lemma checkRef_confined [confine]: "confined (gitIn dir) (checkRef h dir p rw)"
  by (cases rw) (auto simp: checkRef_def intro!: confine)

text \<open>C25: Whatever its verdict, \<open>VerifyCheckout\<close> only runs git in the checkout, never writes a file, and
  the temporary index directory it makes is removed by its last operation.\<close>

theorem checkout_leaves_nothing:
  "\<exists>es. ses_events (snd (VerifyCheckout h repo dir p refs st)) = ses_events st @ es \<and> tidyTrace (\<lambda>_. gitIn dir) es"
proof -
  have "scopedTemp (\<lambda>_. gitIn dir) (VerifyCheckout h repo dir p refs)"
    unfolding VerifyCheckout_def
    by (intro scopedTemp_then scopedTemp_bind scopedTemp_defer confine)
  then show ?thesis unfolding scopedTemp_def by blast
qed

definition refAnswer :: "'w Sys \<Rightarrow> string \<Rightarrow> 'w \<Rightarrow> string \<times> string \<Rightarrow> bool" where
  "refAnswer h dir w rw =
     (let r = fst (sys_exec h (gitCmd dir [''rev-parse'', fst rw]) w) in
        exec_status r = Exited 0 \<and> TrimSpace (exec_combined r) = snd rw)"

lemma checkRef_decided:
  assumes "snd (sys_exec h (gitCmd dir [''rev-parse'', fst rw]) w) = w"
  shows "decidedBy w (checkRef h dir p rw) (refAnswer h dir w rw)"
proof -
  have c: "\<lparr>cmd_name = ''git'', cmd_args = args, cmd_dir = dir, cmd_env = []\<rparr> = gitCmd dir args" for args
    by (simp add: gitCmd_def)
  show ?thesis
    using assms
    by (cases rw) (auto simp: decidedBy_def refAnswer_def checkRef_def gitA_def c bindA_def thenA_def
        requireA_def retA_def failA_def execA_run Let_def)
qed

lemma checkRef_oblivious [oblivion]: "oblivious (checkRef h dir p rw)"
  by (cases rw) (auto simp: checkRef_def gitA_def intro!: oblivion)

lemma git_oblivious [oblivion]: "oblivious (gitA h dir args)" "oblivious (trackedA h dir d args)"
  by (auto simp: gitA_def trackedA_def intro!: oblivion)

definition checkoutRest :: "'w Sys \<Rightarrow> string \<Rightarrow> string \<Rightarrow> ReleaseTarget \<Rightarrow> ('w, CheckoutError, unit) act" where
  "checkoutRest h repo dir p =
     (bindA (gitA h dir [''status'', ''--porcelain'', ''--untracked-files=all'']) (\<lambda>clean.
     thenA (requireA (clean = '''') (DirtyRuntime (RT_Target p)))
    (bindA (errorA TempDirError (mkdirTempA h ''jcrpc-release-index-'')) (\<lambda>indexDir.
     deferA (removeAllF h indexDir)
    (thenA (trackedA h dir indexDir [''read-tree'', RT_Commit p])
    (thenA (errorA (DirtyTracked (RT_Target p)) (trackedA h dir indexDir [''update-index'', ''--refresh'']))
    (bindA (gitA h dir [''-c'', ''gpg.ssh.allowedSignersFile='' @ JoinAll [repo, ''compatibility'', ''allowed_signers''],
                        ''verify-tag'', RT_Tag p]) (\<lambda>signature. retA ()))))))))"

lemma VerifyCheckout_split:
  "VerifyCheckout h repo dir p refs = thenA (forA (checkRef h dir p) refs) (checkoutRest h repo dir p)"
  by (simp only: VerifyCheckout_def checkoutRest_def)

lemma checkoutRest_oblivious: "oblivious (checkoutRest h repo dir p)"
  unfolding checkoutRest_def by (intro oblivion)

text \<open>C26: The code ranges over a Go map of references. When \<open>git rev-parse\<close> leaves the world as it
  is, the order of that range decides neither whether the checkout is accepted nor, when it is,
  the world that is left.\<close>

theorem checkout_order_irrelevant:
  assumes ro: "\<And>ref. snd (sys_exec h (gitCmd dir [''rev-parse'', ref]) (ses_world st)) = ses_world st"
    and perm: "mset refs = mset refs'"
  shows "isl (fst (VerifyCheckout h repo dir p refs st)) = isl (fst (VerifyCheckout h repo dir p refs' st))
    \<and> (isl (fst (VerifyCheckout h repo dir p refs st))
       \<or> ses_world (snd (VerifyCheckout h repo dir p refs st)) = ses_world (snd (VerifyCheckout h repo dir p refs' st)))"
proof -
  let ?w = "ses_world st" and ?ok = "refAnswer h dir (ses_world st)"
  have d: "decidedBy ?w (forA (checkRef h dir p) rs) (list_all ?ok rs)" for rs
    by (rule decidedBy_for) (rule checkRef_decided, rule ro)
  have "list_all ?ok refs' = list_all ?ok refs"
    unfolding list_all_iff using mset_eq_setD [OF perm] by simp
  then have "decidedBy ?w (forA (checkRef h dir p) refs') (list_all ?ok refs)" using d [of refs'] by simp
  from decidedBy_swap [OF d this checkoutRest_oblivious [of h repo dir p] refl]
  show ?thesis unfolding VerifyCheckout_split .
qed

definition demoGit :: "unit Sys" where
  "demoGit = scriptedSys (\<lambda>p. Inr p) (\<lambda>_. Inl ErrNotExist)
     (always (\<lambda>c. answer 0 (if cmd_args c = [''rev-parse'', ''refs/tags/v1.2.0''] then ''aa ''
                    else if hd (cmd_args c) = ''rev-parse'' then ''cc '' else [])))"

lemma demo_checkout:
  "fst (VerifyCheckout demoGit ''repo'' ''dir'' (demoTarget ''swift'') (rev (checkoutRefs (demoTarget ''swift''))) (startSes ())) = Inr ()"
  by code_simp

theorem checkout_evidence_witness:
  "\<exists>es. checkoutEvidence ''repo'' ''dir'' (demoTarget ''swift'') (rev (checkoutRefs (demoTarget ''swift''))) es"
proof -
  let ?run = "VerifyCheckout demoGit ''repo'' ''dir'' (demoTarget ''swift'') (rev (checkoutRefs (demoTarget ''swift''))) (startSes ())"
  have "?run = (Inr (), snd ?run)" using demo_checkout by (metis prod.collapse)
  from checkout_evidence [OF this mset_rev] show ?thesis by auto
qed

theorem checkout_order_irrelevant_witness:
  "isl (fst (VerifyCheckout demoGit ''repo'' ''dir'' (demoTarget ''swift'') (rev (checkoutRefs (demoTarget ''swift''))) (startSes ())))
   = isl (fst (VerifyCheckout demoGit ''repo'' ''dir'' (demoTarget ''swift'') (checkoutRefs (demoTarget ''swift'')) (startSes ())))"
proof -
  have "snd (sys_exec demoGit (gitCmd ''dir'' [''rev-parse'', ref]) (ses_world (startSes ()))) = ses_world (startSes ())" for ref
    by (simp add: demoGit_def scriptedSys_def startSes_def always_def)
  from checkout_order_irrelevant [OF this mset_rev, THEN conjunct1] show ?thesis .
qed

end
