(* ===== verification/Compat_Properties.thy ===== *)
theory Compat_Properties
  imports Compat_Cli Release_Properties Host_Trace
begin

text \<open>
  What jcrpc-compat guarantees: no consumer is prepared or run before the manifest has been
  approved and every checkout verified, and what the exit code of an offline run says.
\<close>

section \<open>The gate\<close>

text \<open>The operations of the checks themselves.\<close>

definition gateOp :: "HostEvent \<Rightarrow> bool" where
  "gateOp ev = (case ev of
      RunCmd c r \<Rightarrow> cmd_name c = ''git'' \<or> (\<exists>repo. c = goListCmd repo)
    | MkDirAll p \<Rightarrow> True | MkTempDir p \<Rightarrow> True | RemoveTree p \<Rightarrow> True | _ \<Rightarrow> False)"

lemma git_gate [confine]: "confined gateOp (gitA h dir args)" "confined gateOp (trackedA h dir d args)"
  by (auto simp: gitA_def trackedA_def trackedCmd_def gateOp_def intro!: confine)

lemma checkRef_gate [confine]: "confined gateOp (checkRef h dir p rw)"
  by (cases rw) (auto simp: checkRef_def intro!: confine)

lemma VerifyCheckout_gate [confine]: "confined gateOp (VerifyCheckout h repo dir p refs)"
  unfolding VerifyCheckout_def
  by (intro confine) (simp_all add: gateOp_def)

lemma Check_gate [confine]: "confined gateOp (Check h J repo path)"
proof -
  have c: "confined gateOp (case x of None \<Rightarrow> retA () | Some e \<Rightarrow> failA (g e))" for x :: "'x option" and g :: "'x \<Rightarrow> CheckError"
    by (cases x) (simp_all add: confine)
  show ?thesis
    unfolding Check_def Let_def split_beta
    by (intro confine c) (auto simp: gateOp_def)
qed

lemma hostA_confined [confine]: "confined P m \<Longrightarrow> confined P (hostA m)"
  by (simp add: hostA_def confine)

lemma verifyTarget_gate [confine]: "confined gateOp (verifyTarget H repo runtimes p)"
  by (simp add: verifyTarget_def confine)

lemma runIn_git_gate: "confined gateOp (runIn h dir ''git'' args)"
  by (auto simp: runIn_def commandIn_def gateOp_def intro!: confine)

lemma bootstrapTarget_gate [confine]: "confined gateOp (bootstrapTarget H repo runtimes p)"
  unfolding bootstrapTarget_def Let_def
  by (intro confine) (auto intro!: confine runIn_git_gate split: StatResult.split)

lemma verifyTargets_Inr:
  "forA (verifyTarget H repo runtimes) ps st = (Inr u, st') \<Longrightarrow>
     \<exists>segs. ses_events st' = ses_events st @ concat segs
       \<and> list_all2 (\<lambda>p. checkoutEvidence repo (checkoutDir runtimes p) p (ch_refs H p)) ps segs"
proof (induction ps arbitrary: st)
  case (Cons p ps)
  obtain v s1 where "verifyTarget H repo runtimes p st = (Inr v, s1)"
    and 2: "forA (verifyTarget H repo runtimes) ps s1 = (Inr u, st')"
    using Cons.prems by (auto simp: act_simps)
  then have 1: "VerifyCheckout (ch_sys H) repo (checkoutDir runtimes p) p (ch_refs H p) st = (Inr v, s1)"
    by (simp add: verifyTarget_def act_simps)
  obtain es where "ses_events s1 = ses_events st @ es"
      "checkoutEvidence repo (checkoutDir runtimes p) p (ch_refs H p) es"
    using VerifyCheckout_Inr [OF 1] by blast
  moreover obtain segs where "ses_events st' = ses_events s1 @ concat segs"
      "list_all2 (\<lambda>p. checkoutEvidence repo (checkoutDir runtimes p) p (ch_refs H p)) ps segs"
    using Cons.IH [OF 2] by blast
  ultimately show ?case by (intro exI [of _ "es # segs"]) simp
qed (auto simp: act_simps intro: exI [of _ "[]"])

definition consumerModes :: "string list" where
  "consumerModes = [''prepare'', ''jvm'', ''swift'']"

text \<open>Either only the checks have operated, or a consumer mode was reached behind full evidence.\<close>

definition checkoutsVerified :: "('i, 'w) CompatHost \<Rightarrow> string \<Rightarrow> string \<Rightarrow> Manifest \<Rightarrow> HostEvent list \<Rightarrow> bool" where
  "checkoutsVerified H repo runtimes m es \<longleftrightarrow>
     (\<exists>segs. es = concat segs
        \<and> list_all2 (\<lambda>p. checkoutEvidence repo (checkoutDir runtimes p) p (ch_refs H p)) (Manifest_Targets m) segs)"

definition gatedTrace :: "('i, 'w) CompatHost \<Rightarrow> string \<Rightarrow> string \<Rightarrow> 'w \<Rightarrow> HostEvent list \<Rightarrow> bool" where
  "gatedTrace H mode manifest w es \<longleftrightarrow> list_all gateOp es
     \<or> mode \<in> set consumerModes \<and> (\<exists>repo path r w' m runtimes checks rest.
          es = RunCmd (goListCmd repo) r # checks @ rest
        \<and> releaseApproved (ch_sys H) (ch_json H) repo path w r w' m
        \<and> path = (if manifest = '''' then JoinAll [repo, ''compatibility/runtime-manifest.json''] else manifest)
        \<and> checkoutsVerified H repo runtimes m checks)"

lemma consumerMode_other:
  "mode \<notin> set consumerModes \<Longrightarrow> consumerMode H mode offline repo root runtimes = failA (UnknownMode mode)"
  by (simp add: consumerMode_def consumerModes_def)

lemma prepareInput_grows: "confined (\<lambda>_. True) (prepareInput H repo bin gen numbered)"
  by (cases numbered) (auto simp: prepareInput_def Let_def runIn_def commandIn_def intro!: confine)

lemma callbacks_grow:
  "confined P (documentEntry path entry err inputs)" "confined P (packageEntry line path entry err lines)"
  by (auto simp: documentEntry_def packageEntry_def intro!: confine split: option.split)

lemma runIn_grows: "confined (\<lambda>_. True) (runIn h dir name args)"
  by (auto simp: runIn_def commandIn_def intro!: confine)

lemma prepare_grows: "confined (\<lambda>_. True) (prepare H repo root)"
  unfolding prepare_def Let_def copyFixture_def writeFile_def
  by (intro confine callbacks_grow prepareInput_grows runIn_grows TrueI)

lemma consumerMode_grows: "confined (\<lambda>_. True) (consumerMode H mode offline repo root runtimes)"
  unfolding consumerMode_def Let_def by (intro confine prepare_grows runIn_grows)

lemma runtimeMode_events:
  assumes "runtimeMode H mode offline repo root m st = (r, st')"
  shows "\<exists>es. ses_events st' = ses_events st @ es
    \<and> (list_all gateOp es \<or> mode \<in> set consumerModes
         \<and> (\<exists>runtimes checks rest. es = checks @ rest \<and> checkoutsVerified H repo runtimes m checks))"
  using assms unfolding runtimeMode_def
proof (cases rule: thenA_split)
  case (stops e)
  then show ?thesis by (auto simp: act_simps)
next
  case (goes u s1)
  then have s1: "s1 = st" by (auto simp: act_simps)
  show ?thesis using goes(2)
  proof (cases rule: bindA_split)
    case (stops e)
    then show ?thesis using s1 by (auto simp: act_simps hostA_def)
  next
    case (goes dir s2)
    then have s2: "s2 = st" using s1 by (auto simp: act_simps hostA_def)
    let ?runtimes = "JoinAll [dir, ''runtimes'']"
    show ?thesis
    proof (cases "mode = ''bootstrap''")
      case True
      then have run: "thenA (hostA (mkdirAllA (ch_sys H) ?runtimes))
          (forA (bootstrapTarget H repo ?runtimes) (Manifest_Targets m)) st = (r, st')"
        using goes(2) s2 by (simp add: Let_def)
      have "confined gateOp (thenA (hostA (mkdirAllA (ch_sys H) ?runtimes))
          (forA (bootstrapTarget H repo ?runtimes) (Manifest_Targets m)))"
        by (intro confine) (simp add: gateOp_def)
      from confinedD [OF this run] show ?thesis by blast
    next
      case False
      then have "thenA (forA (verifyTarget H repo ?runtimes) (Manifest_Targets m))
          (consumerMode H mode offline repo dir ?runtimes) st = (r, st')"
        using goes(2) s2 by (simp add: Let_def)
      then show ?thesis
      proof (cases rule: thenA_split)
        case (stops e)
        have "confined gateOp (forA (verifyTarget H repo ?runtimes) (Manifest_Targets m))" by (intro confine)
        from confinedD [OF this stops(1)] show ?thesis by blast
      next
        case (goes v s3)
        obtain segs where segs: "ses_events s3 = ses_events st @ concat segs"
            "list_all2 (\<lambda>p. checkoutEvidence repo (checkoutDir ?runtimes p) p (ch_refs H p)) (Manifest_Targets m) segs"
          using verifyTargets_Inr [OF goes(1)] by blast
        obtain rest where rest: "ses_events st' = ses_events s3 @ rest"
          using confinedD [OF consumerMode_grows goes(2)] by blast
        show ?thesis
        proof (cases "mode \<in> set consumerModes")
          case True
          then show ?thesis using segs rest unfolding checkoutsVerified_def
            by (intro exI [of _ "concat segs @ rest"]) auto
        next
          case False
          then have "st' = s3" using goes(2) by (simp add: consumerMode_other act_simps)
          have gate: "confined gateOp (forA (verifyTarget H repo ?runtimes) (Manifest_Targets m))" by (intro confine)
          from confinedD [OF gate goes(1)] show ?thesis using \<open>st' = s3\<close> by blast
        qed
      qed
    qed
  qed
qed

text \<open>What follows an approved manifest: its listing, the evidence of its checkouts, the consumers.\<close>

lemma approved_gated:
  assumes run: "(if mode = ''check'' then retA () else runtimeMode H mode offline repo root m) s = (r, st')"
    and approved: "releaseApproved (ch_sys H) (ch_json H) repo path w res w' m"
    and path: "path = (if manifest = '''' then JoinAll [repo, ''compatibility/runtime-manifest.json''] else manifest)"
  shows "\<exists>es. ses_events st' = ses_events s @ es
    \<and> gatedTrace H mode manifest w (RunCmd (goListCmd repo) res # es)"
proof -
  obtain es where es: "ses_events st' = ses_events s @ es"
      "list_all gateOp es \<or> mode \<in> set consumerModes
         \<and> (\<exists>runtimes checks rest. es = checks @ rest \<and> checkoutsVerified H repo runtimes m checks)"
  proof (cases "mode = ''check''")
    case True
    then have "st' = s" using run by (simp add: retA_def)
    then show thesis using that [of "[]"] by simp
  next
    case False
    then have "runtimeMode H mode offline repo root m s = (r, st')" using run by simp
    from runtimeMode_events [OF this] show thesis using that by blast
  qed
  have "gatedTrace H mode manifest w (RunCmd (goListCmd repo) res # es)"
  proof (cases "list_all gateOp es")
    case True
    then show ?thesis by (auto simp: gatedTrace_def gateOp_def)
  next
    case False
    then show ?thesis using es(2) approved path unfolding gatedTrace_def by blast
  qed
  with es(1) show ?thesis by blast
qed

lemma manifestMode_events:
  assumes "manifestMode H mode offline repo manifest root st = (r, st')"
  shows "\<exists>es. ses_events st' = ses_events st @ es \<and> gatedTrace H mode manifest (ses_world st) es"
  using assms unfolding manifestMode_def Let_def
proof (cases rule: bindA_split)
  case (stops e)
  then have "ses_events st' = ses_events st @ []" by (auto simp: act_simps hostA_def)
  then show ?thesis unfolding gatedTrace_def by fastforce
next
  case (goes dir s1)
  then have s1: "s1 = st" by (auto simp: act_simps hostA_def)
  let ?path = "if manifest = '''' then JoinAll [dir, ''compatibility/runtime-manifest.json''] else manifest"
  show ?thesis using goes(2) unfolding s1
  proof (cases rule: bindA_split)
    case (stops e)
    have "confined gateOp (errorA ManifestError (Check (ch_sys H) (ch_json H) dir ?path))" by (intro confine)
    from confinedD [OF this stops(1)] show ?thesis unfolding gatedTrace_def by blast
  next
    case (goes m s2)
    then have check: "Check (ch_sys H) (ch_json H) dir ?path st = (Inr m, s2)" by (simp add: act_simps)
    obtain res w' where "releaseApproved (ch_sys H) (ch_json H) dir ?path (ses_world st) res w' m"
        "ses_events s2 = ses_events st @ [RunCmd (goListCmd dir) res]"
      using check by (auto simp: Check_Inr execA_run)
    with approved_gated [OF goes(2) this(1) refl] show ?thesis by auto
  qed
qed

text \<open>C35: The gate of jcrpc-compat, for every mode that reads the manifest and whatever the outcome:
  either the run performed nothing but the checks themselves (listing the module graph, git, and
  their directories), or the mode is one of the consumer modes and the first operations are the
  listing on which an approved manifest rests and, for each of its targets in order, the complete
  evidence of the checkout. So no generator, gradle or swift runs on unverified input.\<close>

theorem compat_gate:
  "\<exists>es. ses_events (snd (manifestMode H mode offline repo manifest root st)) = ses_events st @ es
     \<and> gatedTrace H mode manifest (ses_world st) es"
  using manifestMode_events [of H mode offline repo manifest root st]
  by (cases "manifestMode H mode offline repo manifest root st") auto

section \<open>Offline runs\<close>


end
