(* ===== verification/Wire_Probe.thy ===== *)
theory Wire_Probe
  imports Go_Walk Go_Strings Schema_Model Seen_Table
begin

text \<open>
  codegen/internal/wirecompat/wire.go: the comparison of two emitted Java corpora by what they do
  on the wire. For a schema, \<open>probe\<close> writes a Java program that drives every instruction of the
  emitted skeleton; \<open>Observe\<close> compiles a corpus with that program in a directory of its own and
  runs it; \<open>Compare\<close> requires the two corpora to print the same trace. The checks are a datatype
  here with the line each prints. The texts of the Java files (\<open>javaProbe\<close>, \<open>javaStream\<close> and
  the stand-ins of \<open>framework\<close>) are an argument, \<open>WireTexts\<close>: the code only substitutes into
  them and hands them to javac.
\<close>

section \<open>Scanning the emitted source\<close>

definition lineFeed :: char where
  "lineFeed = CHR 0x0A"

text \<open>\<open>protected abstract (\w+) (\w+)\(([^;]*)\);\<close> at the start of a text: the return type, the
  name, the parameters and what follows the match. The last group runs to the first semicolon,
  which the closing parenthesis must precede.\<close>

definition abstractAt :: "string \<Rightarrow> (string \<times> string \<times> string \<times> string) option" where
  "abstractAt s =
     (if \<not> hasPrefix s ''protected abstract '' then None
      else
        let s1 = drop 19 s; ret = takeWhile isWord s1; s2 = drop (length ret) s1 in
        if ret = [] \<or> s2 = [] \<or> hd s2 \<noteq> CHR '' '' then None
        else
          let s3 = tl s2; name = takeWhile isWord s3; s4 = drop (length name) s3 in
          if name = [] \<or> s4 = [] \<or> hd s4 \<noteq> CHR ''('' then None
          else
            let s5 = tl s4; body = takeWhile (\<lambda>c. c \<noteq> CHR '';'') s5; s6 = drop (length body) s5 in
            if s6 = [] \<or> body = [] \<or> last body \<noteq> CHR '')'' then None
            else Some (ret, name, butlast body, tl s6))"

lemma abstractAt_rest: "abstractAt s = Some (ret, name, params, rest) \<Longrightarrow> length rest < length s"
  by (auto simp: abstractAt_def Let_def split: if_splits)

text \<open>\<open>FindAllStringSubmatch\<close>: the matches from left to right that do not overlap.\<close>

function abstractMethods :: "string \<Rightarrow> (string \<times> string \<times> string) list" where
  "abstractMethods s =
     (if s = [] then []
      else case abstractAt s of
        None \<Rightarrow> abstractMethods (tl s)
      | Some (ret, name, params, rest) \<Rightarrow> (ret, name, params) # abstractMethods rest)"
  by pat_completeness auto
termination
  by (relation "measure length") (auto dest: abstractAt_rest)

declare abstractMethods.simps [simp del]

text \<open>\<open>(?m)^package [^;]+;\<close> replaced by the package of the probe; the flag says whether the text
  is at the start of a line.\<close>

function relocateFrom :: "bool \<Rightarrow> string \<Rightarrow> string" where
  "relocateFrom start s =
     (if s = [] then []
      else
        let body = takeWhile (\<lambda>c. c \<noteq> CHR '';'') (drop 8 s); rest = drop (8 + length body) s in
        if start \<and> hasPrefix s ''package '' \<and> body \<noteq> [] \<and> rest \<noteq> []
        then ''package wireprobe;'' @ relocateFrom False (tl rest)
        else hd s # relocateFrom (hd s = lineFeed) (tl s))"
  by pat_completeness auto
termination
  by (relation "measure (\<lambda>(start, s). length s)") (auto simp: Let_def)

declare relocateFrom.simps [simp del]

definition relocate :: "string \<Rightarrow> string" where
  "relocate s = relocateFrom True s"

section \<open>Widths\<close>

fun widthFrom :: "int \<Rightarrow> Field list \<Rightarrow> int \<times> bool" where
  "widthFrom n [] = (n, True)"
| "widthFrom n (f # fs) =
     (case WireSize f of (w, fixed) \<Rightarrow> if \<not> fixed then (3, False) else widthFrom (wrap64 (n + w)) fs)"

definition messageWidth :: "Message option \<Rightarrow> int \<times> bool" where
  "messageWidth msg = (case msg of None \<Rightarrow> (0, True) | Some m \<Rightarrow> widthFrom 0 (Message_Fields m))"

text \<open>The number of bytes a callback writes: the width of the response, three for a stream.\<close>

definition resultWidth :: "Method \<Rightarrow> int" where
  "resultWidth m = (if StreamField (Method_Response m) \<noteq> None then 3 else fst (messageWidth (Method_Response m)))"

text \<open>The request bytes outside p1 and p2, three for a variable field, and whether there is one.\<close>

fun requestFrom :: "int \<Rightarrow> bool \<Rightarrow> Field list \<Rightarrow> int \<times> bool" where
  "requestFrom request variable [] = (request, variable)"
| "requestFrom request variable (f # fs) =
     (if Field_Location f = ParameterLocationP1 \<or> Field_Location f = ParameterLocationP2
      then requestFrom request variable fs
      else case WireSize f of (w, fixed) \<Rightarrow>
        requestFrom (wrap64 (request + (if fixed then w else 3))) (variable \<or> \<not> fixed) fs)"

definition requestWidth :: "Message option \<Rightarrow> int \<times> bool" where
  "requestWidth msg = requestFrom 0 False (responseFields msg)"

text \<open>What a callback without an output buffer returns.\<close>

definition scalarResult :: "Message option \<Rightarrow> int" where
  "scalarResult msg =
     (case msg of None \<Rightarrow> 0
      | Some m \<Rightarrow>
          (case Message_Fields m of
             [f] \<Rightarrow> if Field_Type f = FieldTypeU8 \<or> Field_Type f = FieldTypeU16 \<or> Field_Type f = FieldTypeU32 then 7
                    else if Field_Type f = FieldTypeBool then 1 else 0
           | _ \<Rightarrow> 0))"

section \<open>The checks\<close>

datatype WireCheck =
    ClaConstant "8 word"
  | StreamFlow "8 word" bool bool int
  | OrdinaryCall "8 word" int int int
  | BadRequest "8 word" int
  | ShortOutput "8 word" int int
  | StreamFamily "8 word list"
  | UnknownSweep "8 word list"
  | StatusConstant string "16 word"

datatype ProbeError = ProbePanic | UnmappedCallback string | UnsupportedReturn string

definition methodChecks :: "Method \<Rightarrow> WireCheck list" where
  "methodChecks m =
     (if HasStream (Some m)
      then [StreamFlow (Method_INS m) (StreamField (Method_Request m) \<noteq> None) (StreamField (Method_Response m) \<noteq> None)
              (resultWidth m)]
      else
        let (request, variable) = requestWidth (Method_Request m);
            (n, fixed) = messageWidth (Method_Response m) in
        OrdinaryCall (Method_INS m) request n (scalarResult (Method_Response m))
        # (if \<not> variable then [BadRequest (Method_INS m) (wrap64 (request + 1))] else [])
        @ (if fixed \<and> n > 0 then [ShortOutput (Method_INS m) request (n - 1)] else []))"

text \<open>A lookup in the map of methods; reading through a nil method panics.\<close>

definition methodAt :: "Schema \<Rightarrow> string \<Rightarrow> Method option" where
  "methodAt s key = (case map_of (Schema_Methods s) key of None \<Rightarrow> None | Some m \<Rightarrow> m)"

definition someMethod :: "Schema \<Rightarrow> string \<Rightarrow> (ProbeError, Method) result" where
  "someMethod s key = (case methodAt s key of None \<Rightarrow> Inl ProbePanic | Some m \<Rightarrow> Inr m)"

definition probeChecks :: "Schema \<Rightarrow> (ProbeError, WireCheck list) result" where
  "probeChecks s =
     bindR (mapR (someMethod s) (sortedKeys (Schema_Methods s))) (\<lambda>ms.
       let streams = filter (\<lambda>m. HasStream (Some m)) ms; ordinary = filter (\<lambda>m. \<not> HasStream (Some m)) ms in
       Inr ([ClaConstant (Applet_CLA (Schema_Applet s))] @ concat (map methodChecks ms)
            @ (if streams \<noteq> [] then [StreamFamily (map Method_INS streams)] else [])
            @ [UnknownSweep (map Method_INS ordinary)]
            @ map (\<lambda>(key, sw). StatusConstant key (StatusWord_Code sw)) (Schema_StatusWords s)))"

section \<open>The program\<close>

definition showByte :: "8 word \<Rightarrow> string" where
  "showByte b = showNat (unat b)"

definition showBool :: "bool \<Rightarrow> string" where
  "showBool b = (if b then ''true'' else ''false'')"

definition quoted :: "string \<Rightarrow> string" where
  "quoted s = CHR 0x22 # s @ [CHR 0x22]"

definition argList :: "string list \<Rightarrow> string" where
  "argList xs = ''('' @ joinWith (CHR '','') xs @ '');'' @ [lineFeed]"

definition renderCheck :: "string \<Rightarrow> WireCheck \<Rightarrow> string" where
  "renderCheck name c =
     (case c of
        ClaConstant cla \<Rightarrow> ''check(cla()=='' @ showByte cla @ '','' @ quoted ''CLA constant'' @ '');'' @ [lineFeed]
      | StreamFlow ins req resp n \<Rightarrow> ''stream'' @ argList [showByte ins, showBool req, showBool resp, showInt n]
      | OrdinaryCall ins request n scalar \<Rightarrow>
          ''ordinary'' @ argList [showByte ins, showInt request, showInt n, showInt scalar]
      | BadRequest ins request \<Rightarrow> ''badRequest'' @ argList [showByte ins, showInt request]
      | ShortOutput ins request capacity \<Rightarrow> ''shortOutput'' @ argList [showByte ins, showInt request, showInt capacity]
      | StreamFamily inss \<Rightarrow>
          ''for(int i=0;i<256;i++) check(l.isStreamInstruction((byte)i)==(''
          @ concat (map (\<lambda>b. ''(i>='' @ showByte b @ ''&&i<'' @ showNat (unat b + 6) @ '')||'') inss)
          @ ''false),'' @ quoted ''stream INS family '' @ ''+i);'' @ [lineFeed]
      | UnknownSweep inss \<Rightarrow>
          ''for(int i=0;i<256;i++) if(!('' @ concat (map (\<lambda>b. ''i=='' @ showByte b @ ''||'') inss)
          @ ''false)) unknown(i);'' @ [lineFeed]
      | StatusConstant key code \<Rightarrow>
          ''check(('' @ name @ ''Skeleton.'' @ key @ '' & 65535)=='' @ showNat (unat code) @ '',''
          @ quoted (''IDL status '' @ key) @ '');'' @ [lineFeed])"

text \<open>The callbacks by name. The upper case of the first byte of a key is taken alone, so a byte
  that is not ASCII becomes the replacement character; an empty key panics.\<close>

definition upperByte :: "char \<Rightarrow> string" where
  "upperByte c =
     (if 97 \<le> byte c \<and> byte c \<le> 122 then [char_of (byte c - 32)]
      else if byte c < 0x80 then [c] else encode_rune RuneError)"

definition callbackName :: "string \<Rightarrow> Method option \<Rightarrow> string" where
  "callbackName key m = ''on'' @ upperByte (hd key) @ tl key @ (if HasStream m then ''Stream'' else '''')"

fun callbackTable :: "Schema \<Rightarrow> string list \<Rightarrow> (string, Method option) gomap \<Rightarrow>
    (ProbeError, (string, Method option) gomap) result" where
  "callbackTable s [] t = Inr t"
| "callbackTable s (key # keys) t =
     (if key = [] then Inl ProbePanic
      else callbackTable s keys ((callbackName key (methodAt s key), methodAt s key) # t))"

definition callbackBody :: "string \<times> string \<times> string \<Rightarrow> Method \<Rightarrow> (ProbeError, string) result" where
  "callbackBody a m =
     (case a of (ret, name, params) \<Rightarrow>
        let ins = showByte (Method_INS m);
            start = ''protected '' @ ret @ '' '' @ name @ ''('' @ params @ '') { calls++; last='' @ ins
              @ ''; if(fail) throw statusWordFailure((short)0x6986);'';
            finish = ''}'' @ [lineFeed] in
        if strContains params ''byte[] output''
        then Inr (start @ ''short n=(short)'' @ showInt (resultWidth m)
          @ ''; if(n<=outputCapacity) for(short i=0;i<n;i++) output[(short)(outputOffset+i)]=(byte)('' @ ins
          @ ''+i); return n;'' @ finish)
        else if ret = ''void'' then Inr (start @ finish)
        else if ret = ''boolean'' then Inr (start @ ''return true;'' @ finish)
        else if ret = ''byte'' \<or> ret = ''short'' \<or> ret = ''int'' then Inr (start @ ''return ('' @ ret @ '')7;'' @ finish)
        else Inl (UnsupportedReturn ret))"

definition callbackImpl :: "(string, Method option) gomap \<Rightarrow> string \<times> string \<times> string \<Rightarrow> (ProbeError, string) result" where
  "callbackImpl t a =
     (case map_of t (fst (snd a)) of
        Some (Some m) \<Rightarrow> callbackBody a m
      | _ \<Rightarrow> Inl (UnmappedCallback (fst (snd a))))"

text \<open>\<open>strings.NewReplacer\<close> with several patterns: at each position the first pattern that fits.\<close>

function replaceMany :: "(string \<times> string) list \<Rightarrow> string \<Rightarrow> string" where
  "replaceMany ps s =
     (if s = [] then []
      else case find (\<lambda>(old, new). old \<noteq> [] \<and> hasPrefix s old) ps of
        None \<Rightarrow> hd s # replaceMany ps (tl s)
      | Some (old, new) \<Rightarrow> new @ replaceMany ps (drop (length old) s))"
  by pat_completeness auto
termination
  by (relation "measure (\<lambda>(ps, s). length s)") (auto dest!: find_SomeD)

declare replaceMany.simps [simp del]

record WireTexts =
  wt_javaProbe :: string
  wt_javaStream :: string
  wt_framework :: "(string, string) gomap"

definition probeSource :: "WireTexts \<Rightarrow> Schema \<Rightarrow> string \<Rightarrow> string \<Rightarrow> string \<Rightarrow> string" where
  "probeSource T s skeleton impl checks =
     (let name = Applet_Name (Schema_Applet s); cla = showByte (Applet_CLA (Schema_Applet s));
          source = replaceMany [(''@NAME@'', name), (''@IMPL@'', impl), (''@CHECKS@'', checks), (''@CLA@'', cla)]
            (wt_javaProbe T);
          scratch = (if strContains skeleton ''byte[] callerWorkspace'' then '',new byte[0],(short)0,(short)0'' else '''');
          stream = (\<exists>(key, m)\<in>set (Schema_Methods s). HasStream m);
          source' = replaceAll source ''@STREAM@''
            (if stream then replaceAll (wt_javaStream T) ''@NAME@'' name else '''') in
      replaceMany [(''@SCRATCH@'', scratch), (''@CLA@'', cla)] source')"

definition probe :: "WireTexts \<Rightarrow> Schema \<Rightarrow> string \<Rightarrow> (ProbeError, string) result" where
  "probe T s skeleton =
     bindR (callbackTable s (sortedKeys (Schema_Methods s)) []) (\<lambda>methods.
     bindR (mapR (callbackImpl methods) (abstractMethods skeleton)) (\<lambda>impl.
     bindR (probeChecks s) (\<lambda>checks.
       Inr (probeSource T s skeleton (concat impl)
         (concat (map (renderCheck (Applet_Name (Schema_Applet s))) checks))))))"

section \<open>Observing a corpus\<close>

datatype WireError =
    WireHost GoErr
  | DuplicateJava string
  | MissingSkeleton
  | ProbeFailed ProbeError
  | CompileFailed ExecStatus string
  | BehaviorFailed ExecStatus string
  | BaselineError WireError
  | CandidateError WireError
  | TraceDrift string string

text \<open>The walk over a corpus collects the relocated sources by base name and the skeleton.\<close>

definition javaFile :: "'w Sys \<Rightarrow> Schema \<Rightarrow> string \<Rightarrow> DirTree \<Rightarrow> (string, string) table \<times> string \<Rightarrow>
    ('w, WireError, (string, string) table \<times> string) act" where
  "javaFile h s path d v =
     (if entryKind d = KindDir \<or> \<not> hasSuffix path ''.java'' then retA v
      else
        bindA (errorA WireHost (readA h path)) (\<lambda>raw.
        let name = PathBase path; source = relocate raw in
        if tbl_get (fst v) name \<noteq> None then failA (DuplicateJava name)
        else retA (tbl_put (fst v) name source,
                   if name = Applet_Name (Schema_Applet s) @ ''Skeleton.java'' then source else snd v)))"

definition javaEntry :: "'w Sys \<Rightarrow> Schema \<Rightarrow> ('w, WireError, (string, string) table \<times> string) callback" where
  "javaEntry h s path entry err v =
     (case err of
        Some e \<Rightarrow> failA (WireHost e)
      | None \<Rightarrow>
          (case entry of
             None \<Rightarrow> failA (WireHost (OtherError ''no entry''))
           | Some d \<Rightarrow> bindA (javaFile h s path d v) (\<lambda>v'. retA (Continue v'))))"

definition wireCmd :: "string \<Rightarrow> string list \<Rightarrow> Cmd" where
  "wireCmd name args = \<lparr>cmd_name = name, cmd_args = args, cmd_dir = '''', cmd_env = []\<rparr>"

definition wireCommand :: "'w Sys \<Rightarrow> string \<Rightarrow> string list \<Rightarrow> (ExecStatus \<Rightarrow> string \<Rightarrow> WireError) \<Rightarrow>
    ('w, WireError, string) act" where
  "wireCommand h name args wrap =
     bindA (execA h (wireCmd name args)) (\<lambda>r.
       if exec_status r = Exited 0 then retA (exec_combined r)
       else failA (wrap (exec_status r) (exec_combined r)))"

definition wireFiles :: "WireTexts \<Rightarrow> (string, string) table \<Rightarrow> string \<Rightarrow> (string, string) table" where
  "wireFiles T files harness =
     fold (\<lambda>(name, source) t. tbl_put t name source) (wt_framework T) (tbl_put files ''WireProbe.java'' harness)"

definition writeSources :: "'w Sys \<Rightarrow> string \<Rightarrow> (string, string) table \<Rightarrow> ('w, WireError, unit) act" where
  "writeSources h root files =
     forA (\<lambda>(name, source). errorA WireHost (writeA h (JoinAll [root, name]) source 420)) files"

definition runProbe :: "'w Sys \<Rightarrow> string \<Rightarrow> (string, string) table \<Rightarrow> ('w, WireError, string) act" where
  "runProbe h root files =
     thenA (writeSources h root files)
    (let paths = sort (map (\<lambda>(name, source). JoinAll [root, name]) files) in
     thenA (wireCommand h ''javac'' ([''-d'', root] @ paths) CompileFailed)
           (wireCommand h ''java'' [''-cp'', root, ''wireprobe.WireProbe''] BehaviorFailed))"

definition Observe :: "'w Sys \<Rightarrow> WireTexts \<Rightarrow> string \<Rightarrow> Schema \<Rightarrow> ('w, WireError, string) act" where
  "Observe h T corpus s =
     bindA (errorA WireHost (mkdirTempA h '''')) (\<lambda>root.
     bindA (WalkDir h (javaEntry h s) corpus (tbl_empty, '''')) (\<lambda>(files, skeleton).
     thenA (requireA (skeleton \<noteq> '''') MissingSkeleton)
    (bindA (errorA ProbeFailed (liftA (probe T s skeleton))) (\<lambda>harness.
     runProbe h root (wireFiles T files harness)))))"

definition Compare :: "'w Sys \<Rightarrow> WireTexts \<Rightarrow> string \<Rightarrow> string \<Rightarrow> Schema \<Rightarrow> ('w, WireError, unit) act" where
  "Compare h T old new s =
     bindA (errorA BaselineError (Observe h T old s)) (\<lambda>a.
     bindA (errorA CandidateError (Observe h T new s)) (\<lambda>b.
     requireA (a = b) (TraceDrift a b)))"

end
