(* ===== verification/Wire_Texts.thy ===== *)
theory Wire_Texts
  imports Wire_Probe
begin

text \<open>
  The texts of codegen/internal/wirecompat/wire.go: the Java program the probe substitutes into,
  its part for streams, and the stand-ins for the Java Card framework that are compiled with it;
  and the two entry points over them. Characters that a literal cannot hold are constants.
\<close>

section \<open>The texts\<close>

definition javaProbe :: string where
  "javaProbe = unlines [
     ''package wireprobe;'',
     ''import java.util.Arrays;'',
     ''public class WireProbe {'',
     '' static class Logic extends @NAME@Skeleton {'',
     ''  int calls,last; boolean fail;'',
     ''  Logic(){super((i,p1,p2,d)->new byte[0]);}'',
     ''  @IMPL@'',
     '' }'',
     '' static Logic l=new Logic();'',
     '' static void check(boolean ok,String label){if(!ok)throw new AssertionError('' @ chDq @ ''wire contract: '' @
       chDq @ ''+label);}'',
     '' static int cla() throws Exception { for(java.lang.reflect.Field f:@NAME@Skeleton.class.getFields()) if(f.getName().startsWith('' @
       chDq @ ''CLA_'' @ chDq @ ''))return f.getByte(null)&255; throw new AssertionError('' @ chDq @
       ''missing CLA'' @ chDq @ ''); }'',
     '' static short call(int ins,byte[] in,byte[] out,int cap){return l.dispatchTo((byte)ins,(byte)0,(byte)0,in,(s'' @
       ''hort)0,(short)in.length,out,(short)0,(short)cap@SCRATCH@);}'',
     '' static void ordinary(int ins,int request,int width,int scalar){'',
     ''  byte[] in=new byte[request],out=new byte[255];int before=l.calls;String label=String.format('' @ chDq @
       ''ordinary INS%02X'' @ chDq @ '',ins);'',
     ''  short n;'',
     ''  try {n=call(ins,in,out,255);}catch(@NAME@Skeleton.StatusWordException e){throw new AssertionError('' @
       chDq @ ''wire contract: '' @ chDq @ ''+label+'' @ chDq @ '' status '' @ chDq @
       ''+Integer.toHexString(e.getStatusWord()&65535)+'' @ chDq @ '' want 9000'' @ chDq @ '');}'',
     ''  check(n==width,label+'' @ chDq @ '' response length'' @ chDq @
       '');check(l.calls==before+1 && l.last==ins,label+'' @ chDq @ '' callback'' @ chDq @ '');'',
     ''  if(scalar>0 && width>0){for(int i=0;i<width;i++)check(out[i]==(i==width-1?scalar:0),label+'' @ chDq @
       '' scalar bytes'' @ chDq @ '');}'',
     ''  else for(int i=0;i<width;i++)check(out[i]==(byte)(ins+i),label+'' @ chDq @ '' output bytes'' @ chDq @ '');'',
     ''  l.fail=true;expect(ins,in,255,0x6986,false,label+'' @ chDq @ '' business SW'' @ chDq @ '');l.fail=false;'',
     ''  System.out.println(label+'' @ chDq @ '':9000:'' @ chDq @ ''+n+'' @ chDq @ '':'' @ chDq @
       ''+Arrays.toString(Arrays.copyOf(out,n)));'',
     '' }'',
     '' static void expect(int ins,byte[] in,int cap,int sw,boolean noCall,String label){'',
     ''  int before=l.calls;byte[] out=new byte[255];Arrays.fill(out,(byte)0x55);'',
     ''  try {call(ins,in,out,cap);throw new AssertionError('' @ chDq @ ''wire contract: '' @ chDq @ ''+label+'' @
       chDq @ '' admitted'' @ chDq @
       '');}catch(@NAME@Skeleton.StatusWordException e){check((e.getStatusWord()&65535)==sw,label+'' @ chDq @
       '' status'' @ chDq @ '');}'',
     ''  if(noCall)check(l.calls==before,label+'' @ chDq @ '' callback effect'' @ chDq @ '');'',
     ''  for(byte b:out)check(b==(byte)0x55,label+'' @ chDq @ '' output effect'' @ chDq @ '');'',
     '' }'',
     '' static void badRequest(int ins,int request){expect(ins,new byte[request],255,0x6700,true,'' @ chDq @
       ''wrong request length'' @ chDq @ '');}'',
     '' static void shortOutput(int ins,int request,int cap){expect(ins,new byte[request],cap,0x6700,true,'' @ chDq @
       ''short response capacity'' @ chDq @ '');}'',
     '' static void unknown(int ins){expect(ins,new byte[0],255,0x6D00,true,'' @ chDq @ ''unknown ordinary INS'' @
       chDq @ ''+ins);}'',
     '' @STREAM@'',
     '' public static void main(String[] args)throws Exception { @CHECKS@ System.out.println('' @ chDq @
       ''WIRE_OK'' @ chDq @ ''); }'',
     ''}'']"

definition javaStream :: string where
  "javaStream = unlines [
     '''',
     '' static @NAME@StreamAPDUAdapter adapter;'',
     '' static byte[] frame(int cla,int ins,int p1,int p2,byte[] data,int sw,int length,String label){'',
     ''  javacard.framework.APDU a=new javacard.framework.APDU((byte)cla,(byte)ins,(byte)p1,(byte)p2,data);'',
     ''  int before=l.calls;'',
     ''  try {check(adapter.processIfStream(a),label+'' @ chDq @ '' stream not recognized'' @ chDq @
       '');check(sw==0x9000,label+'' @ chDq @ '' admitted'' @ chDq @ '');}'',
     ''  catch(javacard.framework.ISOException e){check((e.sw&65535)==sw,label+'' @ chDq @ '' status '' @ chDq @
       ''+Integer.toHexString(e.sw&65535));check(sw!=0x9000,label+'' @ chDq @ '' failed valid frame'' @ chDq @
       '');check(l.calls==before,label+'' @ chDq @ '' refusal called handler'' @ chDq @ '');}'',
     ''  check(a.outgoing.length==length,label+'' @ chDq @ '' response length'' @ chDq @ '');return a.outgoing;'',
     '' }'',
     '' static byte[] close(byte[] data)throws Exception {'',
     ''  byte[] result=new byte[34];result[0]=(byte)(data.length>>8);result[1]=(byte)data.length;'',
     ''  System.arraycopy(java.security.MessageDigest.getInstance('' @ chDq @ ''SHA-256'' @ chDq @
       '').digest(data),0,result,2,32);return result;'',
     '' }'',
     '' static void stream(int ins,boolean request,boolean response,int width)throws Exception {'',
     ''  l=new Logic();adapter=new @NAME@StreamAPDUAdapter(l);byte[] empty=new byte[0],input=new byte[]{1,2,3};'',
     ''  frame(@CLA@^0x10,ins,0,request?1:0,request?input:empty,0x6E00,0,'' @ chDq @ ''stream CLA refusal'' @ chDq @
       '');'',
     ''  // Both request-bearing CLOSE_WRITE and response-only invoke execute the'',
     ''  // actual endpoint/runtime and generated Handler, once per successful flow.'',
     ''  byte[] descriptor;'',
     ''  if(request){frame(@CLA@,ins,0,1,input,0x9000,0,'' @ chDq @ ''stream write'' @ chDq @
       '');descriptor=frame(@CLA@,ins+1,0,0,close(input),0x9000,response?35:width,'' @ chDq @ ''stream closeWrite'' @
       chDq @ '');}'',
     ''  else descriptor=frame(@CLA@,ins,0,0,empty,0x9000,response?35:width,'' @ chDq @ ''stream invoke'' @ chDq @
       '');'',
     ''  check(l.calls==1&&l.last==ins,'' @ chDq @ ''stream callback INS'' @ chDq @ ''+ins);'',
     ''  if(response){'',
     ''   check((descriptor[0]&255)==1 && (descriptor[1]&255)==0 && (descriptor[2]&255)==width,'' @ chDq @
       ''stream descriptor width'' @ chDq @ '');'',
     ''   byte[] pending=frame(@CLA@,ins+2,0,0,empty,0x9000,35,'' @ chDq @ ''stream pending'' @ chDq @
       '');check(Arrays.equals(pending,descriptor),'' @ chDq @ ''pending descriptor bytes'' @ chDq @ '');'',
     ''   byte[] out=frame(@CLA@,ins+3,0,1,empty,0x9000,width,'' @ chDq @ ''stream read'' @ chDq @
       '');for(int i=0;i<width;i++)check(out[i]==(byte)(ins+i),'' @ chDq @ ''stream result bytes'' @ chDq @ '');'',
     ''   frame(@CLA@,ins+4,0,0,close(out),0x9000,0,'' @ chDq @ ''stream closeRead'' @ chDq @
       '');check(l.calls==1,'' @ chDq @ ''read executes again'' @ chDq @ '');'',
     ''  }'',
     ''  frame(@CLA@,ins+5,0,0,empty,0x9000,0,'' @ chDq @ ''stream abort'' @ chDq @ '');'',
     ''  frame(@CLA@,ins+2,0,0,empty,0x6985,0,'' @ chDq @ ''no pending result'' @ chDq @ '');'',
     ''  // Unknown stream dispatch must refuse; ordinary paths remain unclaimed.'',
     ''  javacard.framework.APDU unknown=new javacard.framework.APDU((byte)@CLA@,(byte)0xFF,(byte)0,(byte)0,empty);'',
     ''  check(!adapter.processIfStream(unknown)&&unknown.outgoing.length==0,'' @ chDq @
       ''unknown stream adapter effects'' @ chDq @ '');'',
     ''  try{l.dispatchStreamTo((byte)0xFF,(byte)0,(byte)0,empty,(short)0,(short)0,new byte[255],(short)0,(short)25'' @
       ''5@SCRATCH@);throw new AssertionError('' @ chDq @ ''wire contract: unknown stream admitted'' @ chDq @ '');}'',
     ''  catch(javacard.framework.ISOException e){check((e.sw&65535)==0x6D00,'' @ chDq @ ''unknown stream SW'' @
       chDq @ '');}'',
     ''  claSweep(ins);'',
     ''  System.out.println('' @ chDq @ ''stream INS'' @ chDq @ ''+ins+'' @ chDq @ '':9000:'' @ chDq @ ''+width+'' @
       chDq @ '':CLA6e00:pending6985'' @ chDq @ '');'',
     '' }'',
     '' static void claSweep(int ins){'',
     ''  l=new Logic();adapter=new @NAME@StreamAPDUAdapter(l);byte[] empty=new byte[0];'',
     ''  StringBuilder classes=new StringBuilder();'',
     ''  for(int c=0;c<256;c++){'',
     ''   javacard.framework.APDU a=new javacard.framework.APDU((byte)c,(byte)(ins+5),(byte)0,(byte)0,empty);'',
     ''   int sw=0x9000;'',
     ''   try{check(adapter.processIfStream(a),'' @ chDq @ ''CLA sweep unclaimed stream'' @ chDq @ '');}'',
     ''   catch(javacard.framework.ISOException e){sw=e.sw&65535;}'',
     ''   check(sw==0x9000||sw==0x6E00,'' @ chDq @ ''CLA sweep unrelated status'' @ chDq @ '');'',
     ''   check(a.outgoing.length==0 && l.calls==0,'' @ chDq @ ''CLA sweep effects'' @ chDq @ '');'',
     ''   classes.append(Integer.toHexString(sw)).append('' @ chSq @ '','' @ chSq @ '');'',
     ''  }'',
     ''  System.out.println('' @ chDq @ ''stream CLA sweep '' @ chDq @ ''+ins+'' @ chDq @ '':'' @ chDq @
       ''+classes);'',
     '' }'']"

definition framework :: "(string, string) gomap" where
  "framework = [
     (''JCSystem.java'',
       ''package javacard.framework; public final class JCSystem { public static final byte CLEAR_ON_RESET=0,CLEAR_ON'' @
         ''_DESELECT=1; public static byte[] makeTransientByteArray(short n,byte e){return new byte[n];} public static '' @
         ''short[] makeTransientShortArray(short n,byte e){return new short[n];} public static Object[] makeTransientOb'' @
         ''jectArray(short n,byte e){return new Object[n];} }''),
     (''ISO7816.java'',
       ''package javacard.framework; public interface ISO7816 { short OFFSET_CLA=0,OFFSET_INS=1,OFFSET_P1=2,OFFSET_P2'' @
         ''=3,OFFSET_CDATA=5; short SW_CLA_NOT_SUPPORTED=(short)0x6E00,SW_WRONG_LENGTH=(short)0x6700,SW_INS_NOT_SUPPORTED=(short)0x6D00; }''),
     (''ISOException.java'',
       ''package javacard.framework; public class ISOException extends RuntimeException { public short sw; ISOExcepti'' @
         ''on(short sw){this.sw=sw;} public static void throwIt(short sw){throw new ISOException(sw);} }''),
     (''APDU.java'',
       ''package javacard.framework; public class APDU { byte[] buffer=new byte[260],data; int offset; public byte[] '' @
         ''outgoing=new byte[0]; public APDU(byte cla,byte ins,byte p1,byte p2,byte[] data){buffer[0]=cla;buffer[1]=ins'' @
         '';buffer[2]=p1;buffer[3]=p2;this.data=data;} public byte[] getBuffer(){return buffer;} public short getIncomi'' @
         ''ngLength(){return (short)data.length;} public short setIncomingAndReceive(){return receiveBytes((short)5);} '' @
         ''public short receiveBytes(short at){int n=Math.min(2,data.length-offset);System.arraycopy(data,offset,buffer'' @
         '',at,n);offset+=n;return (short)n;} public short setOutgoing(){return 0;} public void setOutgoingLength(short'' @
         '' n){} public void sendBytesLong(byte[] b,short at,short n){outgoing=java.util.Arrays.copyOfRange(b,at,at+n);} }''),
     (''MessageDigest.java'',
       ''package javacard.security; public class MessageDigest { public static final byte ALG_SHA_256=4; public stati'' @
         ''c MessageDigest getInstance(byte a,boolean b){return new MessageDigest();} public short doFinal(byte[] in,sh'' @
         ''ort at,short n,byte[] out,short to){try{java.security.MessageDigest d=java.security.MessageDigest.getInstance('' @
         chDq @ ''SHA-256'' @ chDq @
         '');d.update(in,at,n);byte[] hash=d.digest();System.arraycopy(hash,0,out,to,32);return 32;}catch(Exception e){'' @
         ''throw new RuntimeException(e);}} }'')]"

definition wireTexts :: WireTexts where
  "wireTexts = \<lparr>wt_javaProbe = javaProbe, wt_javaStream = javaStream, wt_framework = framework\<rparr>"

text \<open>The exported functions of the package.\<close>

definition ObserveCorpus :: "'w Sys \<Rightarrow> string \<Rightarrow> Schema \<Rightarrow> ('w, WireError, string) act" where
  "ObserveCorpus h corpus s = Observe h wireTexts corpus s"

definition CompareCorpora :: "'w Sys \<Rightarrow> string \<Rightarrow> string \<Rightarrow> Schema \<Rightarrow> ('w, WireError, unit) act" where
  "CompareCorpora h old new s = Compare h wireTexts old new s"

section \<open>Facts about the texts\<close>

text \<open>The stand-ins are five files of different names, none of them the probe's own, so that adding
  them to the emitted sources replaces no file of the probe.\<close>

lemma framework_names:
  "map fst framework = [''JCSystem.java'', ''ISO7816.java'', ''ISOException.java'', ''APDU.java'', ''MessageDigest.java'']"
  by (simp add: framework_def)

lemma framework_ok: "gomap_ok framework" "''WireProbe.java'' \<notin> fst ` set framework"
  by (simp_all add: gomap_ok_def framework_names flip: list.set_map)

end
