(* ===== verification/Wire_Scan.thy ===== *)
theory Wire_Scan
  imports Wire_Texts
begin

text \<open>
  The two regular expressions of codegen/internal/wirecompat/wire.go against reference
  definitions: the abstract callbacks found in a skeleton, and the package declarations that are
  relocated.
\<close>

section \<open>Abstract callbacks\<close>

text \<open>A text that starts with a match of \<open>protected abstract (\w+) (\w+)\(([^;]*)\);\<close>.\<close>

definition declares :: "string \<Rightarrow> string \<Rightarrow> string \<Rightarrow> string \<Rightarrow> string \<Rightarrow> bool" where
  "declares s ret name params rest \<longleftrightarrow>
     s = ''protected abstract '' @ ret @ '' '' @ name @ ''('' @ params @ '');'' @ rest
     \<and> ret \<noteq> [] \<and> list_all isWord ret \<and> name \<noteq> [] \<and> list_all isWord name \<and> CHR '';'' \<notin> set params"

text \<open>The matches that a scan from left to right finds, without overlaps.\<close>

inductive scans :: "string \<Rightarrow> (string \<times> string \<times> string) list \<Rightarrow> bool" where
  scan_end: "scans [] []"
| scan_skip: "(\<nexists>ret name params rest. declares (c # s) ret name params rest) \<Longrightarrow> scans s ms \<Longrightarrow> scans (c # s) ms"
| scan_match: "declares s ret name params rest \<Longrightarrow> scans rest ms \<Longrightarrow> scans s ((ret, name, params) # ms)"

lemma hasPrefix_iff: "hasPrefix s p \<longleftrightarrow> (\<exists>r. s = p @ r)"
  using hasPrefix_split [of s p] by (auto simp: hasPrefix_def)

lemma span_iff:
  "takeWhile P s = w \<and> drop (length w) s = c # r \<longleftrightarrow> s = w @ c # r \<and> list_all P w \<and> \<not> P c"
proof
  assume a: "takeWhile P s = w \<and> drop (length w) s = c # r"
  then have "dropWhile P s = c # r" by (metis dropWhile_eq_drop)
  moreover from this have "\<not> P c" using hd_dropWhile [of P s] by simp
  moreover have "list_all P w" using a by (auto simp: list_all_iff dest: set_takeWhileD)
  ultimately show "s = w @ c # r \<and> list_all P w \<and> \<not> P c" using a by (metis takeWhile_dropWhile_id)
next
  assume "s = w @ c # r \<and> list_all P w \<and> \<not> P c"
  then show "takeWhile P s = w \<and> drop (length w) s = c # r" by (auto simp: list_all_iff)
qed

lemma not_word: "\<not> isWord CHR '' ''" "\<not> isWord CHR ''(''"
  by (simp_all add: isWord_def isAlpha_def isDigit_def byte_def)

lemma abstractAt_declares: "abstractAt s = Some (ret, name, params, rest) \<longleftrightarrow> declares s ret name params rest"
proof
  assume a: "abstractAt s = Some (ret, name, params, rest)"
  define s1 where "s1 = drop 19 s"
  define s3 where "s3 = tl (drop (length ret) s1)"
  define s5 where "s5 = tl (drop (length name) s3)"
  define body where "body = takeWhile (\<lambda>c. c \<noteq> CHR '';'') s5"
  have p: "hasPrefix s ''protected abstract ''" using a by (auto simp: abstractAt_def split: if_splits)
  have r: "ret = takeWhile isWord s1" using a by (auto simp: abstractAt_def Let_def s1_def split: if_splits)
  have r2: "ret \<noteq> []" "drop (length ret) s1 \<noteq> []" "hd (drop (length ret) s1) = CHR '' ''"
    using a by (auto simp: abstractAt_def Let_def s1_def split: if_splits)
  have n: "name = takeWhile isWord s3" using a by (auto simp: abstractAt_def Let_def s1_def s3_def split: if_splits)
  have n2: "name \<noteq> []" "drop (length name) s3 \<noteq> []" "hd (drop (length name) s3) = CHR ''(''"
    using a by (auto simp: abstractAt_def Let_def s1_def s3_def split: if_splits)
  have b: "params = butlast body" "rest = tl (drop (length body) s5)" "drop (length body) s5 \<noteq> []" "body \<noteq> []" "last body = CHR '')''"
    using a by (auto simp: abstractAt_def Let_def s1_def s3_def s5_def body_def split: if_splits)
  have "s1 = ret @ CHR '' '' # s3 \<and> list_all isWord ret \<and> \<not> isWord CHR '' ''"
    using span_iff [of isWord s1 ret "CHR '' ''" s3] r r2 by (metis s3_def list.collapse)
  moreover have "s3 = name @ CHR ''('' # s5 \<and> list_all isWord name \<and> \<not> isWord CHR ''(''"
    using span_iff [of isWord s3 name "CHR ''(''" s5] n n2 by (metis s5_def list.collapse)
  moreover have "dropWhile (\<lambda>c. c \<noteq> CHR '';'') s5 \<noteq> []" using b(3) unfolding body_def by (metis dropWhile_eq_drop)
  then have "hd (drop (length body) s5) = CHR '';''"
    using hd_dropWhile [of "\<lambda>c. c \<noteq> CHR '';''" s5] unfolding body_def by (metis dropWhile_eq_drop)
  then have "s5 = body @ CHR '';'' # rest"
    using b(2,3) takeWhile_dropWhile_id [of "\<lambda>c. c \<noteq> CHR '';''" s5] unfolding body_def
    by (metis dropWhile_eq_drop list.collapse)
  moreover have "body = params @ [CHR '')'']" using b(1,4,5) by (metis append_butlast_last_id)
  moreover have "CHR '';'' \<notin> set params"
    using set_takeWhileD [of "CHR '';''" "\<lambda>c. c \<noteq> CHR '';''" s5] b(1) unfolding body_def
    by (auto dest: in_set_butlastD)
  moreover obtain u where "s = ''protected abstract '' @ u" using p hasPrefix_iff by blast
  then have "s = ''protected abstract '' @ s1" by (simp add: s1_def)
  ultimately show "declares s ret name params rest" using r2(1) n2(1) by (simp add: declares_def)
next
  assume d: "declares s ret name params rest"
  let ?s5 = "params @ '');'' @ rest" and ?body = "params @ [CHR '')'']"
  let ?s3 = "name @ CHR ''('' # ?s5"
  let ?s1 = "ret @ CHR '' '' # ?s3"
  have s: "s = ''protected abstract '' @ ?s1" using d by (simp add: declares_def)
  have "hasPrefix s ''protected abstract ''" using s hasPrefix_iff by blast
  moreover have "drop 19 s = ?s1" unfolding s by simp
  moreover have "takeWhile isWord ?s1 = ret" using d not_word by (auto simp: declares_def list_all_iff)
  moreover have "takeWhile isWord ?s3 = name" using d not_word by (auto simp: declares_def list_all_iff)
  moreover have "takeWhile (\<lambda>c. c \<noteq> CHR '';'') ?s5 = ?body" using d by (auto simp: declares_def takeWhile_append)
  ultimately show "abstractAt s = Some (ret, name, params, rest)"
    using d by (simp add: abstractAt_def Let_def declares_def)
qed

lemma declares_unique:
  "declares s ret name params rest \<Longrightarrow> declares s ret' name' params' rest' \<Longrightarrow>
   ret' = ret \<and> name' = name \<and> params' = params \<and> rest' = rest"
  by (simp flip: abstractAt_declares)

lemma abstractMethods_scans: "scans s (abstractMethods s)"
proof (induction s rule: abstractMethods.induct)
  case (1 s)
  show ?case
  proof (cases s)
    case Nil
    then show ?thesis by (simp add: abstractMethods.simps scan_end)
  next
    case (Cons c t)
    show ?thesis
    proof (cases "abstractAt s")
      case None
      then have "\<nexists>ret name params rest. declares s ret name params rest" by (simp flip: abstractAt_declares)
      with 1(1) Cons None show ?thesis by (subst abstractMethods.simps) (auto intro: scan_skip)
    next
      case (Some m)
      obtain ret name params rest where m: "m = (ret, name, params, rest)" by (metis prod_cases4)
      with Some have "declares s ret name params rest" by (simp flip: abstractAt_declares)
      moreover have "scans rest (abstractMethods rest)" using 1(2) Cons Some m by simp
      ultimately show ?thesis using Cons Some m by (subst abstractMethods.simps) (auto intro: scan_match)
    qed
  qed
qed

inductive_cases scans_NilE: "scans [] ms"
inductive_cases scans_ConsE: "scans (c # s) ms"

lemma not_declares_Nil: "\<not> declares [] ret name params rest"
  by (simp add: declares_def)

lemma scans_unique: "scans s ms \<Longrightarrow> scans s ns \<Longrightarrow> ns = ms"
proof (induction arbitrary: ns rule: scans.induct)
  case scan_end
  then show ?case by (auto elim: scans_NilE simp: not_declares_Nil)
next
  case (scan_skip c s ms)
  from scan_skip.prems show ?case
    by (cases rule: scans_ConsE) (use scan_skip in blast)+
next
  case (scan_match s ret name params rest ms)
  then obtain c t where s: "s = c # t" using not_declares_Nil by (metis neq_Nil_conv)
  with scan_match.prems have "scans (c # t) ns" by simp
  moreover have "\<not> (\<nexists>ret name params rest. declares (c # t) ret name params rest)"
    using scan_match.hyps(1) s by blast
  ultimately obtain ret' name' params' rest' ms' where m: "ns = (ret', name', params') # ms'"
    "declares (c # t) ret' name' params' rest'" "scans rest' ms'"
    by (auto elim!: scans_ConsE)
  with declares_unique [OF scan_match.hyps(1) [unfolded s]] scan_match.IH show ?case by blast
qed

section \<open>Package declarations\<close>

text \<open>Texts without the word \<open>package\<close> at the start of a line are left alone.\<close>

fun packageLines :: "bool \<Rightarrow> string \<Rightarrow> bool" where
  "packageLines start [] = False"
| "packageLines start (c # s) = (start \<and> hasPrefix (c # s) ''package '' \<or> packageLines (c = lineFeed) s)"

lemma relocateFrom_plain: "\<not> packageLines start s \<Longrightarrow> relocateFrom start s = s"
proof (induction s arbitrary: start)
  case Nil
  then show ?case by (simp add: relocateFrom.simps)
next
  case (Cons c s)
  then have "\<not> (start \<and> hasPrefix (c # s) ''package '')" "relocateFrom (c = lineFeed) s = s" by auto
  then show ?case by (subst relocateFrom.simps) (auto simp: Let_def)
qed

lemma relocate_declaration:
  assumes "ns \<noteq> []" "CHR '';'' \<notin> set ns"
  shows "relocate (''package '' @ ns @ '';'' @ body) = ''package wireprobe;'' @ relocateFrom False body"
proof -
  let ?s = "''package '' @ ns @ '';'' @ body"
  have "takeWhile (\<lambda>c. c \<noteq> CHR '';'') (drop 8 ?s) = ns" using assms(2) by (auto simp: takeWhile_append)
  moreover have "drop (8 + length ns) ?s = drop (length ns) (drop 8 ?s)" by (simp only: drop_drop add.commute)
  then have "drop (8 + length ns) ?s = CHR '';'' # body" by simp
  moreover have "hasPrefix ?s ''package ''" using hasPrefix_iff by blast
  ultimately show ?thesis
    using assms(1) unfolding relocate_def by (subst relocateFrom.simps) (simp add: Let_def)
qed


section \<open>The properties\<close>

text \<open>The probe finds exactly the abstract callbacks that a scan of the skeleton from left to
  right finds: at every position either no text of the form \<open>protected abstract T name(params);\<close>
  starts, and the scan goes on with the next byte, or the one that starts there is taken with
  its type, name and parameters and the scan goes on behind it.\<close>

lemma callback_scan_decides:
  "abstractMethods s = ms \<longleftrightarrow> scans s ms"
  using abstractMethods_scans scans_unique by blast

text \<open>C39: relocating an emitted file replaces the namespace of its package declaration, whatever
  bytes it has, and nothing else, unless a later line starts with the word \<open>package\<close>: so two
  corpora that differ only in their namespaces are compared by the same method bodies.\<close>

theorem relocation_keeps_bodies:
  assumes "namespace \<noteq> []" and "CHR '';'' \<notin> set namespace" and "\<not> packageLines False body"
  shows "relocate (''package '' @ namespace @ '';'' @ body) = ''package wireprobe;'' @ body"
  using relocate_declaration [OF assms(1,2), of body] relocateFrom_plain [OF assms(3)] by simp

theorem relocation_keeps_bodies_witness:
  "relocate (''package works.relux-2;'' @ lineFeed # ''class A { }'') = ''package wireprobe;'' @ lineFeed # ''class A { }''"
  using relocation_keeps_bodies [of "''works.relux-2''" "lineFeed # ''class A { }''"]
  by (simp add: lineFeed_def hasPrefix_def)

end
