(* ===== verification/Wire_Facts.thy ===== *)
theory Wire_Facts
  imports Wire_Probe Host_Trace
begin

text \<open>
  Facts about the wire comparison: what the walk over a corpus collects (its callback visits every
  entry, locale \<open>visiting_walk\<close>), the operations of one observation, and the widths of the probe.
\<close>

section \<open>Walks that visit every entry\<close>

fun entriesOf :: "string \<Rightarrow> DirTree \<Rightarrow> (string \<times> DirTree) list"
  and entriesAll :: "string \<Rightarrow> DirTree list \<Rightarrow> (string \<times> DirTree) list" where
  "entriesOf path (Entry n k err cs) =
     (path, Entry n k err cs) # (if k = KindDir then entriesAll path cs else [])"
| "entriesAll path [] = []"
| "entriesAll path (c # cs) = entriesOf (PathJoin path (entryName c)) c @ entriesAll path cs"

lemma foldA_append: "foldA f (xs @ ys) s = bindA (foldA f xs s) (foldA f ys)"
  by (induction xs arbitrary: s) (simp_all add: bindA_def retA_def fun_eq_iff split: prod.split sum.split)

locale visiting_walk =
  fixes cb :: "('w, 'e, 's) callback"
    and visit :: "string \<Rightarrow> DirTree \<Rightarrow> 's \<Rightarrow> ('w, 'e, 's) act"
    and wrap :: "GoErr \<Rightarrow> 'e"
  assumes reports: "cb path entry (Some e) s = failA (wrap e)"
    and visits: "cb path (Some d) None s = bindA (visit path d s) (\<lambda>s'. retA (Continue s'))"
begin

lemma walk_visits:
  "walkEntry cb path d s st = (Inr step, st') \<Longrightarrow>
     \<exists>s'. step = Continue s' \<and> foldA (\<lambda>(p, d). visit p d) (entriesOf path d) s st = (Inr s', st')"
  "walkEntries cb path ds s st = (Inr step, st') \<Longrightarrow>
     \<exists>s'. step = Continue s' \<and> foldA (\<lambda>(p, d). visit p d) (entriesAll path ds) s st = (Inr s', st')"
proof (induction d and ds arbitrary: path s st step st' and path s st step st' rule: tree_induct)
  case (Entry n k err cs)
  then obtain s1 st1 where v: "visit path (Entry n k err cs) s st = (Inr s1, st1)"
    and rest: "(if k \<noteq> KindDir then retA (Continue s1)
        else bindA (case err of None \<Rightarrow> retA (Continue s1) | Some e \<Rightarrow> cb path (Some (Entry n k err cs)) (Some e) s1)
          (\<lambda>step'. case step' of Skip s'' \<Rightarrow> retA (Continue s'') | Continue s'' \<Rightarrow> walkEntries cb path cs s'')) st1
       = (Inr step, st')"
    by (auto simp: act_simps visits)
  show ?case
  proof (cases "k = KindDir")
    case True
    then have "err = None" "walkEntries cb path cs s1 st1 = (Inr step, st')"
      using rest by (cases err; auto simp: act_simps reports)+
    then show ?thesis using Entry.IH v True by (fastforce simp: act_simps)
  next
    case False
    then show ?thesis using rest v by (auto simp: act_simps)
  qed
next
  case None_left
  then show ?case by (auto simp: act_simps)
next
  case (Next d ds)
  then obtain step1 st1 where 1: "walkEntry cb (PathJoin path (entryName d)) d s st = (Inr step1, st1)"
    and 2: "(case step1 of Skip s' \<Rightarrow> retA (Continue s') | Continue s' \<Rightarrow> walkEntries cb path ds s') st1 = (Inr step, st')"
    by (auto simp: act_simps)
  obtain s1 where s1: "step1 = Continue s1"
      "foldA (\<lambda>(p, d). visit p d) (entriesOf (PathJoin path (entryName d)) d) s st = (Inr s1, st1)"
    using Next.IH(1) [OF 1] by blast
  then have "walkEntries cb path ds s1 st1 = (Inr step, st')" using 2 by simp
  then obtain s' where "step = Continue s'" "foldA (\<lambda>(p, d). visit p d) (entriesAll path ds) s1 st1 = (Inr s', st')"
    using Next.IH(2) by blast
  then show ?case using s1 by (auto simp: foldA_append act_simps)
qed

lemma WalkDir_visits:
  assumes "WalkDir h cb root s st = (Inr s', st')"
  shows "\<exists>d. sys_tree h (ses_world st) root = Inr d
    \<and> foldA (\<lambda>(p, d). visit p d) (entriesOf root d) s st = (Inr s', st')"
proof (cases "sys_tree h (ses_world st) root")
  case (Inl e)
  then show ?thesis using assms by (auto simp: WalkDir_def act_simps reports)
next
  case (Inr d)
  then obtain step st1 where w: "walkEntry cb root d s st = (Inr step, st1)" "s' = stepValue step" "st' = st1"
    using assms by (auto simp: WalkDir_def act_simps)
  then show ?thesis using walk_visits(1) [OF w(1)] Inr by auto
qed

end

interpretation java: visiting_walk "javaEntry h s" "javaFile h s" WireHost for h s
  by unfold_locales (simp_all add: javaEntry_def)

section \<open>The corpus\<close>

definition isJava :: "string \<times> DirTree \<Rightarrow> bool" where
  "isJava e \<longleftrightarrow> entryKind (snd e) \<noteq> KindDir \<and> hasSuffix (fst e) ''.java''"

definition javaPaths :: "string \<Rightarrow> DirTree \<Rightarrow> string list" where
  "javaPaths root d = map fst (filter isJava (entriesOf root d))"

text \<open>\<open>files\<close> holds exactly the Java files of a corpus, relocated, by base names that differ.\<close>

definition collected :: "'w Sys \<Rightarrow> 'w \<Rightarrow> string list \<Rightarrow> (string, string) table \<Rightarrow> bool" where
  "collected h w paths files \<longleftrightarrow> distinct (map PathBase paths)
     \<and> (\<forall>p\<in>set paths. \<exists>raw. sys_read h w p = Inr raw \<and> tbl_get files (PathBase p) = Some (relocate raw))
     \<and> (\<forall>n. tbl_get files n \<noteq> None \<longrightarrow> n \<in> PathBase ` set paths)"

lemma javaFile_skip: "\<not> isJava (path, d) \<Longrightarrow> javaFile h s path d v = retA v"
  by (simp add: javaFile_def isJava_def)

definition addJava :: "Schema \<Rightarrow> string \<Rightarrow> string \<Rightarrow> (string, string) table \<times> string \<Rightarrow> (string, string) table \<times> string" where
  "addJava s path raw v =
     (tbl_put (fst v) (PathBase path) (relocate raw),
      if PathBase path = Applet_Name (Schema_Applet s) @ ''Skeleton.java'' then relocate raw else snd v)"

lemma javaFile_take:
  assumes "isJava (path, d)"
  shows "javaFile h s path d v st =
     (case sys_read h (ses_world st) path of
        Inl e \<Rightarrow> (Inl (WireHost e), st)
      | Inr raw \<Rightarrow>
          if tbl_get (fst v) (PathBase path) \<noteq> None then (Inl (DuplicateJava (PathBase path)), st)
          else (Inr (addJava s path raw v), st))"
  using assms
  by (simp add: javaFile_def isJava_def addJava_def Let_def bindA_def errorA_def readA_def lookA_def retA_def failA_def
      split: sum.split)

definition skeletonOf :: "Schema \<Rightarrow> (string, string) table \<times> string \<Rightarrow> bool" where
  "skeletonOf s v \<longleftrightarrow>
     (case tbl_get (fst v) (Applet_Name (Schema_Applet s) @ ''Skeleton.java'') of
        None \<Rightarrow> snd v = '''' | Some source \<Rightarrow> snd v = source)"

lemma collect_run:
  assumes "foldA (\<lambda>(p, d). javaFile h s p d) es v st = (Inr v', st')"
    and "collected h (ses_world st) paths (fst v)" "skeletonOf s v"
  shows "st' = st \<and> collected h (ses_world st) (paths @ map fst (filter isJava es)) (fst v') \<and> skeletonOf s v'"
  using assms
proof (induction es arbitrary: v paths)
  case (Cons e es)
  obtain p d where e: "e = (p, d)" by (cases e)
  have run: "bindA (javaFile h s p d v) (foldA (\<lambda>(p, d). javaFile h s p d) es) st = (Inr v', st')"
    using Cons.prems(1) by (simp add: e)
  show ?case
  proof (cases "isJava (p, d)")
    case False
    then have "foldA (\<lambda>(p, d). javaFile h s p d) es v st = (Inr v', st')"
      using run by (simp add: javaFile_skip bindA_def retA_def)
    then show ?thesis using Cons.IH [OF _ Cons.prems(2,3)] False by (simp add: e)
  next
    case True
    obtain raw where raw: "sys_read h (ses_world st) p = Inr raw" "tbl_get (fst v) (PathBase p) = None"
        "foldA (\<lambda>(p, d). javaFile h s p d) es (addJava s p raw v) st = (Inr v', st')"
      using run by (auto simp: bindA_def javaFile_take [OF True] split: sum.splits if_splits)
    have fresh: "PathBase p \<notin> PathBase ` set paths" using raw(2) Cons.prems(2) by (auto simp: collected_def)
    have "collected h (ses_world st) (paths @ [p]) (fst (addJava s p raw v))"
      using Cons.prems(2) raw(1,2) fresh by (auto simp: collected_def addJava_def tbl_get_put)
    moreover have "skeletonOf s (addJava s p raw v)"
      using Cons.prems(3) by (auto simp: addJava_def skeletonOf_def tbl_get_put split: option.splits)
    ultimately show ?thesis using Cons.IH [OF raw(3), of "paths @ [p]"] True by (simp add: e)
  qed
qed (simp add: act_simps)

lemma corpus_run:
  assumes "WalkDir h (javaEntry h s) corpus (tbl_empty, '''') st = (Inr (files, skeleton), st')"
  shows "\<exists>d. sys_tree h (ses_world st) corpus = Inr d \<and> st' = st
    \<and> collected h (ses_world st) (javaPaths corpus d) files \<and> skeletonOf s (files, skeleton)"
proof -
  obtain d where d: "sys_tree h (ses_world st) corpus = Inr d"
      "foldA (\<lambda>(p, d). javaFile h s p d) (entriesOf corpus d) (tbl_empty, '''') st = (Inr (files, skeleton), st')"
    using java.WalkDir_visits [OF assms] by blast
  have "collected h (ses_world st) [] tbl_empty" "skeletonOf s (tbl_empty, '''')"
    by (simp_all add: collected_def skeletonOf_def)
  then show ?thesis using collect_run [OF d(2), of "[]"] d(1) by (simp add: javaPaths_def)
qed

section \<open>One observation\<close>

lemma writeSources_events:
  "writeSources h root files st = (Inr u, st') \<Longrightarrow>
     ses_events st' = ses_events st @ map (\<lambda>(n, src). WriteTo (JoinAll [root, n]) src 420) files"
proof (induction files arbitrary: st)
  case (Cons f files)
  obtain n src where f: "f = (n, src)" by (cases f)
  obtain v s1 where 1: "writeA h (JoinAll [root, n]) src 420 st = (Inr v, s1)"
    and 2: "writeSources h root files s1 = (Inr u, st')"
    using Cons.prems by (auto simp: writeSources_def act_simps f)
  have "ses_events s1 = ses_events st @ [WriteTo (JoinAll [root, n]) src 420]"
    using opA_events [OF 1 [unfolded writeA_def]] by simp
  then show ?case using Cons.IH [OF 2] by (simp add: f)
qed (simp add: writeSources_def act_simps)

lemma wireCommand_Inr:
  "wireCommand h name args wrap st = (Inr b, st') \<Longrightarrow>
     \<exists>r. exec_status r = Exited 0 \<and> exec_combined r = b
       \<and> ses_events st' = ses_events st @ [RunCmd (wireCmd name args) r]"
  by (auto simp: wireCommand_def act_simps execA_def stepA_def split: prod.splits if_splits)

definition javacCmd :: "string \<Rightarrow> (string, string) table \<Rightarrow> Cmd" where
  "javacCmd root files = wireCmd ''javac'' ([''-d'', root] @ sort (map (\<lambda>(n, src). JoinAll [root, n]) files))"

definition javaCmd :: "string \<Rightarrow> Cmd" where
  "javaCmd root = wireCmd ''java'' [''-cp'', root, ''wireprobe.WireProbe'']"

text \<open>The operations of an observation that returned \<open>b\<close>: a fresh directory, every Java file of the
  corpus with the probe and the stand-ins written into it, one compilation of exactly these
  files, and one run, which printed \<open>b\<close>; nothing else is compiled in their place.\<close>

definition observation :: "'w Sys \<Rightarrow> WireTexts \<Rightarrow> string \<Rightarrow> Schema \<Rightarrow> string \<Rightarrow> HostEvent list \<Rightarrow> bool" where
  "observation h T corpus s b es \<longleftrightarrow>
     (\<exists>w d files skeleton harness root r1 r2.
        sys_tree h w corpus = Inr d \<and> collected h w (javaPaths corpus d) files
      \<and> tbl_get files (Applet_Name (Schema_Applet s) @ ''Skeleton.java'') = Some skeleton
      \<and> probe T s skeleton = Inr harness
      \<and> es = [MkTempDir root]
          @ map (\<lambda>(n, src). WriteTo (JoinAll [root, n]) src 420) (wireFiles T files harness)
          @ [RunCmd (javacCmd root (wireFiles T files harness)) r1, RunCmd (javaCmd root) r2]
      \<and> exec_status r1 = Exited 0 \<and> exec_status r2 = Exited 0 \<and> exec_combined r2 = b)"

lemma Observe_Inr:
  assumes "Observe h T corpus s st = (Inr b, st')"
  shows "\<exists>es. ses_events st' = ses_events st @ es \<and> observation h T corpus s b es"
proof -
  obtain root s1 files skeleton s2 harness where
    1: "mkdirTempA h '''' st = (Inr root, s1)"
    and 2: "WalkDir h (javaEntry h s) corpus (tbl_empty, '''') s1 = (Inr (files, skeleton), s2)"
    and 3: "skeleton \<noteq> ''''" "probe T s skeleton = Inr harness"
    and 4: "runProbe h root (wireFiles T files harness) s2 = (Inr b, st')"
    using assms by (auto simp: Observe_def act_simps eq_commute [of "Inr _" "probe T s _"] split: prod.splits)
  obtain d where d: "sys_tree h (ses_world s1) corpus = Inr d" "s2 = s1"
      "collected h (ses_world s1) (javaPaths corpus d) files" "skeletonOf s (files, skeleton)"
    using corpus_run [OF 2] by blast
  have e1: "ses_events s1 = ses_events st @ [MkTempDir root]"
    using 1 by (auto simp: mkdirTempA_def newA_def stepA_def split: prod.splits sum.splits)
  have sk: "tbl_get files (Applet_Name (Schema_Applet s) @ ''Skeleton.java'') = Some skeleton"
    using d(4) 3(1) by (auto simp: skeletonOf_def split: option.splits)
  let ?fs = "wireFiles T files harness"
  obtain s3 s4 u c where 5: "writeSources h root ?fs s2 = (Inr u, s3)"
      "wireCommand h ''javac'' ([''-d'', root] @ sort (map (\<lambda>(n, src). JoinAll [root, n]) ?fs)) CompileFailed s3 = (Inr c, s4)"
      "wireCommand h ''java'' [''-cp'', root, ''wireprobe.WireProbe''] BehaviorFailed s4 = (Inr b, st')"
    using 4 by (auto simp: runProbe_def act_simps Let_def)
  obtain r1 where r1: "exec_status r1 = Exited 0" "ses_events s4 = ses_events s3 @ [RunCmd (javacCmd root ?fs) r1]"
    using wireCommand_Inr [OF 5(2)] unfolding javacCmd_def by blast
  obtain r2 where r2: "exec_status r2 = Exited 0" "exec_combined r2 = b"
      "ses_events st' = ses_events s4 @ [RunCmd (javaCmd root) r2]"
    using wireCommand_Inr [OF 5(3)] unfolding javaCmd_def by blast
  let ?es = "[MkTempDir root] @ map (\<lambda>(n, src). WriteTo (JoinAll [root, n]) src 420) ?fs
     @ [RunCmd (javacCmd root ?fs) r1, RunCmd (javaCmd root) r2]"
  have "ses_events st' = ses_events st @ ?es"
    using writeSources_events [OF 5(1)] r1(2) r2(3) e1 d(2) by simp
  moreover have "observation h T corpus s b ?es"
    unfolding observation_def using d(1,3) sk 3(2) r1(1) r2(1,2) by blast
  ultimately show ?thesis by blast
qed

section \<open>Widths\<close>

lemma widthFrom_fixed:
  "widthFrom t fs = (if allFixed fs then fixedMessageLengthFrom t fs else (3, False))"
  by (induction t fs rule: widthFrom.induct) (auto simp: allFixed_def split: prod.splits)

text \<open>The probe computes the width of a message as the generator does, except for its stand-in of
  three bytes for a variable one.\<close>

lemma messageWidth_agrees:
  "messageWidth msg =
     (if snd (fixedMessageLength (responseFields msg)) then fixedMessageLength (responseFields msg) else (3, False))"
  by (cases msg)
     (simp_all add: messageWidth_def responseFields_def widthFrom_fixed fixedMessageLength_def fixedMessageLengthFrom_snd)

end
