(* ===== verification/Wire_Properties.thy ===== *)
theory Wire_Properties
  imports Wire_Facts Idl_Properties
begin

text \<open>
  What the wire comparison guarantees: the instruction numbers its probe drives are those of the
  interface description, each in one way, and a comparison without error rests on two complete
  observations with one trace.
\<close>

section \<open>The instructions of the probe\<close>

fun ordinaryOf :: "WireCheck \<Rightarrow> int list" where
  "ordinaryOf (OrdinaryCall ins request n scalar) = [uint ins]"
| "ordinaryOf c = []"

fun streamOf :: "WireCheck \<Rightarrow> int list" where
  "streamOf (StreamFlow ins req resp n) = [uint ins..uint ins + 5]"
| "streamOf c = []"

definition ordinaryINS :: "WireCheck list \<Rightarrow> int list" where
  "ordinaryINS cs = concat (map ordinaryOf cs)"

definition streamINS :: "WireCheck list \<Rightarrow> int list" where
  "streamINS cs = concat (map streamOf cs)"

text \<open>The two loops over all instruction bytes.\<close>

definition sweptUnknown :: "WireCheck list \<Rightarrow> int \<Rightarrow> bool" where
  "sweptUnknown cs i \<longleftrightarrow> (\<exists>inss. UnknownSweep inss \<in> set cs \<and> i \<notin> uint ` set inss)"

definition inFamily :: "WireCheck list \<Rightarrow> int \<Rightarrow> bool" where
  "inFamily cs i \<longleftrightarrow> (\<exists>inss. StreamFamily inss \<in> set cs \<and> (\<exists>b\<in>set inss. uint b \<le> i \<and> i < uint b + 6))"

lemma methodChecks_INS:
  "concat (map ordinaryOf (methodChecks m)) = (if HasStream (Some m) then [] else [uint (Method_INS m)])"
  "concat (map streamOf (methodChecks m)) = (if HasStream (Some m) then [uint (Method_INS m)..uint (Method_INS m) + 5] else [])"
  by (auto simp: methodChecks_def Let_def split: prod.split)

lemma methodChecks_loops: "UnknownSweep inss \<notin> set (methodChecks m)" "StreamFamily inss \<notin> set (methodChecks m)"
  by (auto simp: methodChecks_def Let_def split: prod.splits)

lemma concat_map_concat: "concat (map f (concat (map g xs))) = concat (map (\<lambda>x. concat (map f (g x))) xs)"
  by (induction xs) simp_all

lemma status_INS: "c \<in> (\<lambda>(key, sw). StatusConstant key (StatusWord_Code sw)) ` ws \<Longrightarrow> ordinaryOf c = [] \<and> streamOf c = []"
  by auto

lemma concat_single: "concat (map (\<lambda>x. if P x then [] else [f x]) xs) = map f (filter (\<lambda>x. \<not> P x) xs)"
  by (induction xs) simp_all

lemma insRange_upto: "HasStream (Some m) \<Longrightarrow> set [uint (Method_INS m)..uint (Method_INS m) + 5] = insRange m"
  "\<not> HasStream (Some m) \<Longrightarrow> {uint (Method_INS m)} = insRange m"
  by (auto simp: insRange_def insCount_def simp del: HasStream_simps)

text \<open>The checks of a schema whose methods are all there, by the two kinds of method.\<close>

lemma probeChecks_INS:
  assumes ms: "mapR (someMethod s) (sortedKeys (Schema_Methods s)) = Inr ms"
  shows "\<exists>cs. probeChecks s = Inr cs
    \<and> ordinaryINS cs = map (\<lambda>m. uint (Method_INS m)) (filter (\<lambda>m. \<not> HasStream (Some m)) ms)
    \<and> streamINS cs = concat (map (\<lambda>m. [uint (Method_INS m)..uint (Method_INS m) + 5]) (filter (\<lambda>m. HasStream (Some m)) ms))
    \<and> (\<forall>i. sweptUnknown cs i \<longleftrightarrow> i \<notin> set (ordinaryINS cs))
    \<and> (\<forall>i. inFamily cs i \<longleftrightarrow> i \<in> set (streamINS cs))"
proof -
  let ?streams = "filter (\<lambda>m. HasStream (Some m)) ms" and ?ordinary = "filter (\<lambda>m. \<not> HasStream (Some m)) ms"
  let ?status = "map (\<lambda>(key, sw). StatusConstant key (StatusWord_Code sw)) (Schema_StatusWords s)"
  define cs where "cs = [ClaConstant (Applet_CLA (Schema_Applet s))] @ concat (map methodChecks ms)
    @ (if ?streams \<noteq> [] then [StreamFamily (map Method_INS ?streams)] else [])
    @ [UnknownSweep (map Method_INS ?ordinary)] @ ?status"
  have run: "probeChecks s = Inr cs" by (simp add: probeChecks_def ms cs_def Let_def del: HasStream_simps)
  have o: "ordinaryINS cs = map (\<lambda>m. uint (Method_INS m)) ?ordinary"
    using status_INS [of _ "set (Schema_StatusWords s)"]
    by (simp add: ordinaryINS_def cs_def concat_map_concat methodChecks_INS concat_single del: HasStream_simps)
  have st: "streamINS cs = concat (map (\<lambda>m. [uint (Method_INS m)..uint (Method_INS m) + 5]) ?streams)"
  proof -
    have "concat (map (\<lambda>m. if HasStream (Some m) then f m else []) ms) = concat (map f ?streams)" for f :: "Method \<Rightarrow> int list"
      by (induction ms) (simp_all del: HasStream_simps)
    then show ?thesis
      using status_INS [of _ "set (Schema_StatusWords s)"]
      by (simp add: streamINS_def cs_def concat_map_concat methodChecks_INS del: HasStream_simps)
  qed
  have "UnknownSweep inss \<in> set cs \<longleftrightarrow> inss = map Method_INS ?ordinary"
    "StreamFamily inss \<in> set cs \<longleftrightarrow> ?streams \<noteq> [] \<and> inss = map Method_INS ?streams" for inss
    by (auto simp: cs_def methodChecks_loops simp del: HasStream_simps)
  then have "sweptUnknown cs i \<longleftrightarrow> i \<notin> set (ordinaryINS cs)" "inFamily cs i \<longleftrightarrow> i \<in> set (streamINS cs)" for i
    unfolding sweptUnknown_def inFamily_def o st by (auto simp: filter_empty_conv simp del: HasStream_simps)
  with run o st show ?thesis by blast
qed

definition ownedRange :: "Method \<Rightarrow> int list" where
  "ownedRange m = (if HasStream (Some m) then [uint (Method_INS m)..uint (Method_INS m) + 5] else [uint (Method_INS m)])"

lemma ownedRange: "set (ownedRange m) = insRange m" "distinct (ownedRange m)"
  using insRange_upto [of m] by (simp_all add: ownedRange_def del: HasStream_simps)

lemma ownedRange_kinds:
  "map (\<lambda>m. uint (Method_INS m)) (filter (\<lambda>m. \<not> HasStream (Some m)) (map M ks))
     = concat (map (\<lambda>k. ownedRange (M k)) (filter (\<lambda>k. \<not> HasStream (Some (M k))) ks))"
  "concat (map (\<lambda>m. [uint (Method_INS m)..uint (Method_INS m) + 5]) (filter (\<lambda>m. HasStream (Some m)) (map M ks)))
     = concat (map (\<lambda>k. ownedRange (M k)) (filter (\<lambda>k. HasStream (Some (M k))) ks))"
  by (induction ks) (simp_all add: ownedRange_def del: HasStream_simps)

lemma accepted_methods:
  assumes "goodMaps s" "Validate (Some s) = []"
  shows "mapR (someMethod s) (sortedKeys (Schema_Methods s)) = Inr (map (\<lambda>k. the (methodAt s k)) (sortedKeys (Schema_Methods s)))"
    and "k \<in> set (sortedKeys (Schema_Methods s)) \<Longrightarrow> (k, Some (the (methodAt s k))) \<in> set (Schema_Methods s)"
    and "(k, Some m) \<in> set (Schema_Methods s) \<Longrightarrow> methodAt s k = Some m"
proof -
  have ok: "gomap_ok (Schema_Methods s)" using assms(1) by (simp add: goodMaps_def)
  have at: "methodAt s k = Some m" if "(k, Some m) \<in> set (Schema_Methods s)" for k m
    using gomap_lookup [OF ok, THEN iffD2, OF that] by (simp add: methodAt_def)
  then show "(k, Some m) \<in> set (Schema_Methods s) \<Longrightarrow> methodAt s k = Some m" .
  have key: "\<exists>m. (k, Some m) \<in> set (Schema_Methods s)" if member: "k \<in> set (sortedKeys (Schema_Methods s))" for k
  proof -
    obtain x where x: "x \<in> set (Schema_Methods s)" "k = fst x" using member unfolding set_sortedKeys by blast
    then have "(k, snd x) \<in> set (Schema_Methods s)" by simp
    from accepted_method [OF assms this] this show ?thesis by metis
  qed
  show "k \<in> set (sortedKeys (Schema_Methods s)) \<Longrightarrow> (k, Some (the (methodAt s k))) \<in> set (Schema_Methods s)"
    using key [of k] at by (metis option.sel)
  show "mapR (someMethod s) (sortedKeys (Schema_Methods s)) = Inr (map (\<lambda>k. the (methodAt s k)) (sortedKeys (Schema_Methods s)))"
    unfolding mapR_Inr_iff list_all2_map2
  proof (rule list.rel_refl_strong)
    fix k assume "k \<in> set (sortedKeys (Schema_Methods s))"
    then obtain m where "(k, Some m) \<in> set (Schema_Methods s)" using key by blast
    then show "someMethod s k = Inr (the (methodAt s k))" using at by (simp add: someMethod_def)
  qed
qed

definition numbersOf :: "(Method \<Rightarrow> bool) \<Rightarrow> Schema \<Rightarrow> int set" where
  "numbersOf P s = {i. \<exists>k m. (k, Some m) \<in> set (Schema_Methods s) \<and> P m \<and> i \<in> insRange m}"

lemma accepted_numbers:
  assumes "goodMaps s" "Validate (Some s) = []"
  shows "(\<Union>k\<in>{k \<in> set (sortedKeys (Schema_Methods s)). P (the (methodAt s k))}. insRange (the (methodAt s k))) = numbersOf P s"
proof (intro set_eqI iffI)
  fix i
  assume "i \<in> (\<Union>k\<in>{k \<in> set (sortedKeys (Schema_Methods s)). P (the (methodAt s k))}. insRange (the (methodAt s k)))"
  then obtain k where "k \<in> set (sortedKeys (Schema_Methods s))" "P (the (methodAt s k))" "i \<in> insRange (the (methodAt s k))"
    by blast
  then show "i \<in> numbersOf P s" using accepted_methods(2) [OF assms, of k] unfolding numbersOf_def by blast
next
  fix i assume "i \<in> numbersOf P s"
  then obtain k m where m: "(k, Some m) \<in> set (Schema_Methods s)" "P m" "i \<in> insRange m"
    unfolding numbersOf_def by blast
  then have "k \<in> set (sortedKeys (Schema_Methods s))" by (metis set_sortedKeys fst_conv image_eqI)
  then have "k \<in> {k \<in> set (sortedKeys (Schema_Methods s)). P (the (methodAt s k))}" "i \<in> insRange (the (methodAt s k))"
    using m accepted_methods(3) [OF assms m(1)] by (simp_all del: set_sortedKeys)
  then show "i \<in> (\<Union>k\<in>{k \<in> set (sortedKeys (Schema_Methods s)). P (the (methodAt s k))}. insRange (the (methodAt s k)))"
    by (rule UN_I)
qed

lemma distinct_parts:
  assumes "distinct ks" "\<And>k. distinct (f k)" "\<And>k k'. k \<in> set ks \<Longrightarrow> k' \<in> set ks \<Longrightarrow> k \<noteq> k' \<Longrightarrow> set (f k) \<inter> set (f k') = {}"
  shows "distinct (concat (map f (filter (\<lambda>k. \<not> Q k) ks)) @ concat (map f (filter Q ks)))"
proof -
  have "distinct (concat (map f (filter (\<lambda>k. \<not> Q k) ks)))" "distinct (concat (map f (filter Q ks)))"
    using assms by (simp_all add: distinct_concat_map_iff)
  moreover have "set (concat (map f (filter (\<lambda>k. \<not> Q k) ks))) \<inter> set (concat (map f (filter Q ks))) = {}"
    using assms(3) by fastforce
  ultimately show ?thesis by simp
qed



section \<open>The comparison\<close>

text \<open>Two observations, one after the other.\<close>

definition twoObservations :: "'w Sys \<Rightarrow> WireTexts \<Rightarrow> string \<Rightarrow> string \<Rightarrow> Schema \<Rightarrow> string \<Rightarrow> string \<Rightarrow>
    HostEvent list \<Rightarrow> bool" where
  "twoObservations h T old new s a b es \<longleftrightarrow>
     (\<exists>es1 es2. es = es1 @ es2 \<and> observation h T old s a es1 \<and> observation h T new s b es2)"

lemma two_runs:
  assumes "Observe h T old s st = (Inr a, st1)" "Observe h T new s st1 = (Inr b, st2)"
  shows "\<exists>es. ses_events st2 = ses_events st @ es \<and> twoObservations h T old new s a b es"
proof -
  obtain es1 where "ses_events st1 = ses_events st @ es1" "observation h T old s a es1"
    using Observe_Inr [OF assms(1)] by blast
  moreover obtain es2 where "ses_events st2 = ses_events st1 @ es2" "observation h T new s b es2"
    using Observe_Inr [OF assms(2)] by blast
  ultimately show ?thesis unfolding twoObservations_def by (intro exI [of _ "es1 @ es2"]) auto
qed

text \<open>C40: What a comparison of two corpora says. Without error both corpora were observed and printed
  one trace; a drift means both were observed and printed the two different traces it cites; any
  other error is that of the observation it names, the candidate's only after an observed
  baseline. An observation writes every Java file of its corpus, relocated and under a name of
  its own, with the probe of the schema into a fresh directory, compiles exactly the files written
  and runs the probe once, both with exit status 0: nothing is regenerated or replaced.\<close>

theorem compare_needs_two_observations:
  "case Compare h T old new s st of (r, st') \<Rightarrow>
     (case r of
        Inr u \<Rightarrow> \<exists>b es. ses_events st' = ses_events st @ es \<and> twoObservations h T old new s b b es
      | Inl (TraceDrift a b) \<Rightarrow> a \<noteq> b \<and> (\<exists>es. ses_events st' = ses_events st @ es \<and> twoObservations h T old new s a b es)
      | Inl (BaselineError e) \<Rightarrow> Observe h T old s st = (Inl e, st')
      | Inl (CandidateError e) \<Rightarrow> \<exists>a st1. Observe h T old s st = (Inr a, st1) \<and> Observe h T new s st1 = (Inl e, st')
      | Inl _ \<Rightarrow> False)"
proof (cases "Observe h T old s st")
  case (Pair q st1)
  show ?thesis
  proof (cases q)
    case (Inl e)
    then show ?thesis using Pair by (simp add: Compare_def bindA_def errorA_def)
  next
    case (Inr a)
    obtain q2 st2 where 2: "Observe h T new s st1 = (q2, st2)" by fastforce
    show ?thesis
    proof (cases q2)
      case (Inl e)
      then show ?thesis using Pair Inr 2 by (simp add: Compare_def bindA_def errorA_def)
    next
      case (Inr b)
      have "\<exists>es. ses_events st2 = ses_events st @ es \<and> twoObservations h T old new s a b es"
        by (rule two_runs) (use Pair \<open>q = Inr a\<close> 2 Inr in simp_all)
      then show ?thesis using Pair \<open>q = Inr a\<close> 2 Inr
        by (auto simp: Compare_def bindA_def errorA_def requireA_def retA_def failA_def)
    qed
  qed
qed

section \<open>A run\<close>

text \<open>A corpus of one skeleton whose comparison with itself succeeds, and what the probe makes of it.\<close>

definition wireSkeleton :: string where
  "wireSkeleton = ''package a.b;'' @ [lineFeed] @ ''protected abstract void onGet(byte[] in);''"

definition wireSchema :: Schema where
  "wireSchema = \<lparr>Schema_Applet = \<lparr>Applet_Name = ''Card'', Applet_Description = '''', Applet_Version = ''1.0.0'',
       Applet_AID = ''F000000101'', Applet_CLA = 0xB0, Applet_StreamWorkspace = '''', Applet_StreamWorkspaceCleanup = ''''\<rparr>,
     Schema_Methods = [(''get'', Some (clashMethod ''get'' 7))], Schema_StatusWords = []\<rparr>"

definition wireDemoTexts :: WireTexts where
  "wireDemoTexts = \<lparr>wt_javaProbe = ''@NAME@ <@IMPL@>@STREAM@@CLA@'', wt_javaStream = '''', wt_framework = [(''APDU.java'', '''')]\<rparr>"

definition wireTree :: DirTree where
  "wireTree = Entry ''out'' KindDir None [Entry ''CardSkeleton.java'' KindRegular None [], Entry ''README'' KindRegular None []]"

definition wireHost :: "unit Sys" where
  "wireHost = scriptedSys (\<lambda>p. if p = ''/out/CardSkeleton.java'' then Inr wireSkeleton else Inl ErrNotExist)
     (\<lambda>p. if p = ''/out'' then Inr wireTree else Inl ErrNotExist) (always (\<lambda>_. answer 0 ''WIRE_OK''))"

lemma wire_scan:
  "abstractMethods wireSkeleton = [(''void'', ''onGet'', ''byte[] in'')]"
  "relocate wireSkeleton = ''package wireprobe;'' @ [lineFeed] @ ''protected abstract void onGet(byte[] in);''"
  by code_simp+

lemma wire_probe:
  "probe wireDemoTexts wireSchema wireSkeleton = Inr (''Card <protected void onGet(byte[] in) { calls++; last=7; ''
     @ ''if(fail) throw statusWordFailure((short)0x6986);}'' @ [lineFeed] @ ''>176'')"
  by code_simp

lemma wire_compare: "fst (Compare wireHost wireDemoTexts ''/out'' ''/out'' wireSchema (startSes ())) = Inr ()"
  by code_simp

end
