(* ===== verification/Wire_Accepts.thy ===== *)
theory Wire_Accepts
  imports Wire_Scan Wire_Properties
begin

text \<open>
  When the probe of the wire comparison can be written: for an accepted schema it is refused
  only for a callback of the emitted skeleton that no method explains or whose result it cannot
  make up, and it never panics.
\<close>

section \<open>The callbacks of a schema\<close>

definition explained :: "Schema \<Rightarrow> string \<Rightarrow> bool" where
  "explained s name \<longleftrightarrow> (\<exists>(key, m)\<in>set (Schema_Methods s). name = callbackName key m)"

definition implementable :: "string \<Rightarrow> string \<Rightarrow> bool" where
  "implementable ret params \<longleftrightarrow> strContains params ''byte[] output''
     \<or> ret \<in> {''void'', ''boolean'', ''byte'', ''short'', ''int''}"

lemma callbackTable_all:
  "list_all (\<lambda>key. key \<noteq> []) keys \<Longrightarrow>
   callbackTable s keys t = Inr (rev (map (\<lambda>key. (callbackName key (methodAt s key), methodAt s key)) keys) @ t)"
  by (induction keys arbitrary: t) simp_all

lemma callbackBody_isl: "isl (callbackBody (ret, name, params) m) \<longleftrightarrow> \<not> implementable ret params"
  by (auto simp: callbackBody_def implementable_def Let_def)

lemma callbackBody_error: "callbackBody (ret, name, params) m = Inl e \<Longrightarrow> e = UnsupportedReturn ret"
  by (auto simp: callbackBody_def Let_def split: if_splits)

lemma accepted_entries:
  assumes "goodMaps s" "Validate (Some s) = []"
  shows "k \<in> set (sortedKeys (Schema_Methods s)) \<Longrightarrow> (k, methodAt s k) \<in> set (Schema_Methods s)"
    and "k \<in> set (sortedKeys (Schema_Methods s)) \<Longrightarrow> k \<noteq> [] \<and> methodAt s k \<noteq> None"
    and "(k, mo) \<in> set (Schema_Methods s) \<Longrightarrow> k \<in> set (sortedKeys (Schema_Methods s)) \<and> methodAt s k = mo"
proof -
  note at = accepted_methods(2,3) [OF assms]
  have nonempty: "isIdentifier k \<Longrightarrow> k \<noteq> []" for k by (auto simp: isIdentifier_def)
  {
    assume k: "k \<in> set (sortedKeys (Schema_Methods s))"
    have e: "methodAt s k = Some (the (methodAt s k))" by (rule at(2) [OF at(1) [OF k]])
    show "(k, methodAt s k) \<in> set (Schema_Methods s)" using at(1) [OF k] by (subst e)
    have "isIdentifier k"
      using accepted_method [OF assms at(1) [OF k]] unfolding methodWF_def by metis
    then show "k \<noteq> [] \<and> methodAt s k \<noteq> None" using option.discI [OF e] nonempty by blast
  }
  assume m: "(k, mo) \<in> set (Schema_Methods s)"
  then obtain m where "mo = Some m" using accepted_method [OF assms] by blast
  with m at(2) [of k m] have "methodAt s k = mo" by blast
  moreover have "k \<in> set (sortedKeys (Schema_Methods s))"
    unfolding set_sortedKeys using m by (rule rev_image_eqI) simp
  ultimately show "k \<in> set (sortedKeys (Schema_Methods s)) \<and> methodAt s k = mo" by blast
qed

text \<open>The table has an entry with a method for the callbacks of the methods, and no other.\<close>

lemma accepted_names:
  assumes "goodMaps s" "Validate (Some s) = []"
  shows "(\<lambda>k. callbackName k (methodAt s k)) ` set (sortedKeys (Schema_Methods s)) = {name. explained s name}"
proof (intro set_eqI iffI)
  fix name assume "name \<in> (\<lambda>k. callbackName k (methodAt s k)) ` set (sortedKeys (Schema_Methods s))"
  then obtain k where "k \<in> set (sortedKeys (Schema_Methods s))" "name = callbackName k (methodAt s k)" by blast
  with accepted_entries(1) [OF assms] show "name \<in> {name. explained s name}" unfolding explained_def by blast
next
  fix name assume "name \<in> {name. explained s name}"
  then obtain k m where km: "(k, m) \<in> set (Schema_Methods s)" "name = callbackName k m"
    unfolding explained_def by blast
  then show "name \<in> (\<lambda>k. callbackName k (methodAt s k)) ` set (sortedKeys (Schema_Methods s))"
    using accepted_entries(3) [OF assms km(1)] by blast
qed

lemma accepted_table:
  assumes "goodMaps s" "Validate (Some s) = []"
  obtains t where "callbackTable s (sortedKeys (Schema_Methods s)) [] = Inr t"
    and "\<And>name. (\<exists>m. map_of t name = Some (Some m)) \<longleftrightarrow> explained s name"
    and "\<And>name mo. map_of t name = Some mo \<Longrightarrow> mo \<noteq> None"
proof -
  let ?ks = "sortedKeys (Schema_Methods s)"
  define t where "t = rev (map (\<lambda>key. (callbackName key (methodAt s key), methodAt s key)) ?ks)"
  have "list_all (\<lambda>key. key \<noteq> []) ?ks"
    using accepted_entries(2) [OF assms] unfolding list_all_iff by blast
  from callbackTable_all [OF this, of s "[]"] have c: "callbackTable s ?ks [] = Inr t" unfolding t_def append_Nil2 .
  have none: "mo \<noteq> None" if "map_of t name = Some mo" for name mo
  proof -
    have "(name, mo) \<in> set t" by (rule map_of_SomeD [OF that])
    then obtain k where "k \<in> set ?ks" "mo = methodAt s k" unfolding t_def by auto
    then show ?thesis using accepted_entries(2) [OF assms] by blast
  qed
  have "fst ` set t = (\<lambda>k. callbackName k (methodAt s k)) ` set ?ks" unfolding t_def by (simp add: image_image)
  then have dom: "fst ` set t = {name. explained s name}" using accepted_names [OF assms] by (rule trans)
  have "map_of t name = None \<longleftrightarrow> \<not> explained s name" for name
    unfolding map_of_eq_None_iff dom by (rule arg_cong [where f = Not], rule mem_Collect_eq)
  with none have "(\<exists>m. map_of t name = Some (Some m)) \<longleftrightarrow> explained s name" for name
    by (metis not_None_eq)
  with c none show thesis using that by blast
qed

section \<open>The property\<close>

text \<open>C38: for a schema the validator accepts, the probe is written exactly when every callback that a
  scan of the skeleton finds belongs to a method and has a result the probe can make up: an output
  buffer, nothing, a boolean or an integer. It never panics, and a refusal names a callback of the
  skeleton.\<close>

theorem probe_decides_callbacks:
  assumes "goodMaps s" and "Validate (Some s) = []" and "scans skeleton ms"
  shows "case probe T s skeleton of
      Inr source \<Rightarrow> list_all (\<lambda>(ret, name, params). explained s name \<and> implementable ret params) ms
    | Inl (UnmappedCallback name) \<Rightarrow> name \<in> fst ` snd ` set ms \<and> \<not> explained s name
    | Inl (UnsupportedReturn ret) \<Rightarrow> \<exists>name params. (ret, name, params) \<in> set ms \<and> \<not> implementable ret params
    | Inl ProbePanic \<Rightarrow> False"
proof -
  have ms: "abstractMethods skeleton = ms" by (rule scans_unique [OF assms(3) abstractMethods_scans])
  obtain t where t: "callbackTable s (sortedKeys (Schema_Methods s)) [] = Inr t"
    "\<And>name. (\<exists>m. map_of t name = Some (Some m)) \<longleftrightarrow> explained s name"
    "\<And>name mo. map_of t name = Some mo \<Longrightarrow> mo \<noteq> None"
    using accepted_table [OF assms(1,2)] by blast
  obtain cs where cs: "probeChecks s = Inr cs"
    using accepted_methods(1) [OF assms(1,2)] by (simp add: probeChecks_def Let_def)
  have impl: "callbackImpl t (ret, name, params) = (case map_of t name of
      Some (Some m) \<Rightarrow> callbackBody (ret, name, params) m | _ \<Rightarrow> Inl (UnmappedCallback name))" for ret name params
    by (simp only: callbackImpl_def fst_conv snd_conv)
  show ?thesis
  proof (cases "mapR (callbackImpl t) ms")
    case (Inr impls)
    then have "\<not> isl (callbackImpl t a)" if "a \<in> set ms" for a
      using mapR_isl [of "callbackImpl t" ms] that by auto
    then have "explained s name \<and> implementable ret params" if "(ret, name, params) \<in> set ms" for ret name params
      using that impl [of ret name params] t(2) [of name] callbackBody_isl [of ret name params]
      by (force split: option.splits)
    with Inr t(1) cs ms show ?thesis by (auto simp: probe_def list_all_iff)
  next
    case (Inl e)
    then obtain ret name params where a: "(ret, name, params) \<in> set ms" "callbackImpl t (ret, name, params) = Inl e"
      using mapR_Inl_set [OF Inl] by auto
    have p: "probe T s skeleton = Inl e" using Inl t(1) ms by (simp add: probe_def)
    show ?thesis
    proof (cases "map_of t name")
      case None
      with a impl t(2) [of name] p show ?thesis by force
    next
      case (Some mo)
      with t(3) obtain m where m: "mo = Some m" by blast
      with Some a impl have b: "callbackBody (ret, name, params) m = Inl e" by simp
      with callbackBody_isl [of ret name params m] have "\<not> implementable ret params" by simp
      with callbackBody_error [OF b] a p show ?thesis by auto
    qed
  qed
qed


text \<open>The corpus of the demonstration in Wire_Properties.\<close>

theorem probe_decides_callbacks_witness:
  "explained wireSchema ''onGet'' \<and> implementable ''void'' ''byte[] in''"
proof -
  have "goodMaps wireSchema" "Validate (Some wireSchema) = []" by code_simp+
  from probe_decides_callbacks [OF this abstractMethods_scans, of wireSkeleton wireDemoTexts]
  show ?thesis by (simp add: wire_scan(1) wire_probe)
qed

end
