(* ===== verification/Spec2Isabelle.thy ===== *)
theory Spec2Isabelle
  imports Gen_Outcomes Parity_Properties Mutant_Catalogue Toolchain_Properties Compat_Properties
    Wire_Accepts
begin

text \<open>
  A verification of the Go code of javacard-rpc: the code generator for Java Card RPC (an IDL in
  TOML, a validator, a command that runs target backends and writes their packages) and the
  tools that release it (release manifest and checkouts, parity, mutants, compatibility, wire
  comparison).

  \<^bold>\<open>The parts and how they interact.\<close>
  codegen/parser.go turns a decoded document into a Schema of pluginapi/model.go;
  codegen/validator.go accepts or refuses it; codegen/cmd/jcrpc-gen/main.go reads flags, runs
  both, asks a backend (pluginapi/plugin.go) for a package per target, checks the package with
  package_files.go and only then creates directories and files. The tools run git, go, javac, java
  and the two generators as processes: internal/compat/manifest.go decides which released tuple is
  approved and verifies a pinned checkout; cmd/jcrpc-compat uses both before it prepares or runs a
  consumer; cmd/jcrpc-parity compares two generator binaries over a matrix of cases;
  cmd/jcrpc-mutants plants weakenings in disposable copies and asks for a named failing test;
  internal/wirecompat compares two emitted Java corpora by their behaviour on the wire.

  \<^bold>\<open>Theories.\<close>

  \<^item> \<open>Prelude\<close>, \<open>Seen_Table\<close>: results (\<open>'e + 'a\<close> with \<open>bindR\<close>, \<open>mapR\<close>), Go maps (association lists with
    distinct keys, \<open>gomap_ok\<close>, ranged in list order), 64-bit wrap-around (\<open>wrap64\<close>), and the tables of
    names seen so far, behind the locale \<open>seen_table\<close>.
  \<^item> \<open>Go_Text\<close>, \<open>Go_Strings\<close>, \<open>Go_Path\<close>, \<open>Go_Errors\<close>: what the code uses of packages unicode/utf8, strings,
    strconv, path/filepath, io/fs and errors, on byte strings. The Unicode tables beyond ASCII are
    a parameter. \<open>Go_Quote\<close>: \<open>%q\<close> and \<open>%02X\<close> of package fmt; quoted text has no newline.
  \<^item> \<open>Schema_Model\<close> (pluginapi/model.go, plugin.go, codegen/message_size.go), \<open>Idl_Parser\<close> with
    \<open>Parser_Facts\<close> (parser.go: parsing after the TOML decoder, which is a parameter), \<open>Idl_Validator\<close>
    (validator.go, workspace_authenticated.go), \<open>Idl_Spec\<close> (the rules of .spec/idl.md, independent of
    the code), \<open>Validator_Facts\<close>, \<open>Ins_Reports\<close>, \<open>Front_End\<close>, and the properties in \<open>Idl_Properties\<close>: the
    validator is equivalent to the rules, the parser establishes the shape the validator needs, and
    the verdict does not depend on the order of Go maps.
  \<^item> \<open>Package_Files\<close> (package_files.go) against its contract \<open>packageWF\<close>; \<open>Gen_Flags\<close> (package flag with the
    flags of main.go), \<open>Gen_Cli\<close> (\<open>runWithPlugins\<close> with every exit code), \<open>Gen_Paths\<close>, \<open>Gen_Facts\<close>,
    \<open>Gen_Runs\<close>; \<open>Gen_Facade\<close> (generators.go and the example backends, locale \<open>target_backend\<close>);
    \<open>Gen_Properties\<close>: nothing is written before everything is accepted, whole packages are written
    inside their roots, and a run with good backends on a plain host succeeds.
  \<^item> \<open>Gen_Replay\<close>: the file operations as an inductive relation \<open>osRun\<close>, in which only the last one can
    fail; every run is such an execution, and rule induction gives what it leaves in the files.
    \<open>Gen_Text\<close>: the messages of the parser, the validator and the package check, the lines of the
    command, the usage, and \<open>run\<close> and \<open>main\<close> over the target modules. \<open>Gen_Report\<close> (a stage reports
    exactly the failure of its exit code), \<open>Report_Lines\<close> (every error of \<open>Validate\<close> is one line), and
    the properties of both in \<open>Gen_Outcomes\<close>.
  \<^item> \<open>Go_Host\<close>: the host of the tools. A tool is an action on a session, which is the world and the list
    of operations performed so far; the record \<open>Sys\<close> has what packages os and os/exec do.
    \<open>Host_Logic\<close> (success and failure of actions; \<open>confined P\<close>: every operation satisfies \<open>P\<close>),
    \<open>Host_Scope\<close> (a temporary directory that is removed last), \<open>Host_Trace\<close> (locale \<open>trace_law\<close>),
    \<open>Go_Walk\<close> with \<open>Walk_Paths\<close> (filepath.WalkDir; locale \<open>collecting_walk\<close>), \<open>Flag_Set\<close>.
  \<^item> \<open>Release_Manifest\<close>, \<open>Release_Facts\<close>, \<open>Release_Properties\<close>: internal/compat/manifest.go.
  \<^item> \<open>Parity_Tool\<close>, \<open>Parity_Facts\<close>, \<open>Parity_Inventory\<close>, \<open>Parity_Matrix\<close>, \<open>Parity_Scope\<close>,
    \<open>Parity_Accepts\<close> (the run of two binaries that act as one generator), \<open>Parity_Twins\<close> (a host with two
    such binaries), \<open>Parity_Properties\<close>: cmd/jcrpc-parity/main.go.
  \<^item> \<open>Mutant_Tool\<close>, \<open>Mutant_Properties\<close>, \<open>Mutant_Catalogue\<close>: cmd/jcrpc-mutants/main.go and its tables.
  \<^item> \<open>Compat_Toolchain\<close>, \<open>Toolchain_Properties\<close>, \<open>Compat_Cli\<close>, \<open>Compat_Properties\<close>: cmd/jcrpc-compat.
  \<^item> \<open>Wire_Probe\<close>, \<open>Wire_Facts\<close> (locale \<open>visiting_walk\<close>), \<open>Wire_Properties\<close>, \<open>Wire_Texts\<close> (its Java texts),
    \<open>Wire_Scan\<close> (its regular expressions against an inductive scan), \<open>Wire_Accepts\<close> (when the probe
    can be written): internal/wirecompat/wire.go.

  \<^bold>\<open>How the model corresponds to the code.\<close> A struct is a record whose selectors carry its name, a
  pointer an option, a byte or uint16 a word, an int an integer with \<open>wrap64\<close> where the code
  computes with it. An error is a constructor with the values its message formats; a panic is a
  constructor of its own. A loop over a slice is recursion over the list with the captured
  variables as arguments; a loop whose end depends on its input (the parents of a name) is a
  \<open>partial_function\<close>, and that it ends is part of the property about it. No definition uses fuel. Every
  operation on the host is recorded in the session or the run, so that a property can speak of
  what happened, in order, on every outcome.

  \<^bold>\<open>Bounds and assumptions.\<close> Parsing and validation assume Go maps have distinct keys (\<open>goodMaps\<close>, of
  which the decoder is the source) and, where a property says so, widths in the range of int. A
  walk sees the tree of the moment it starts: no callback changes the tree it walks. The host,
  the backends, the TOML and JSON decoders, SHA-256, HTTP and the Unicode tables are parameters;
  a property about one of them states what it needs as a hypothesis and has a witness at a
  concrete host.

  \<^bold>\<open>Not modelled.\<close> Lines the release tools print on standard output; the texts of errors of the host
  and of backends, which are a parameter (\<open>text_error\<close>); the released target backends and renderers
  (other modules, not in this repository), which are parameters (\<open>TargetModules\<close>); codegen/model.go
  (type aliases); the environment a process inherits; the Java bridge, the Swift and Kotlin clients,
  examples, tests and scripts, which are not the Go implementation.

  \<^bold>\<open>Order of the plan.\<close> The IDL front end and the generator came first, as the core of the program;
  then the release tools in the order in which they depend on each other; then what a user sees of
  a run, its diagnostics and its files.
\<close>

end
